(* ===== verification/GoPrelude.thy ===== *)
theory GoPrelude
  imports Main "HOL-Library.State_Monad" "HOL-Library.Word"
begin

text \<open>
  What every component of the three services shares: Go error values with
  \<open>errors.Is\<close>, gRPC status codes, the string functions of the standard
  library that the services call, 64-bit wrap-around, and the world a request runs
  in. The world holds a database, a clock and the environment's choices (which
  statement fails, which identifier \<open>ulid.Make\<close> returns, how much time passes),
  each indexed by a step counter that every interaction with the outside advances.
  A Go function that talks to the outside is a \<open>state\<close> action over the world;
  its \<open>(value, error)\<close> result is a sum, \<open>Inl\<close> for the error.
\<close>

named_theorems go_simps \<open>run rules of the primitive actions\<close>
named_theorems keeps \<open>rules for what an action keeps\<close>

section \<open>Error values\<close>

text \<open>
  The package-level error variables of the three services (compared by identity in
  Go), and those of the libraries the code compares with.
\<close>

datatype sentinel =
    ErrNotFound | ErrAlreadyExists | ErrUnauthorized | ErrInternal | ErrFailedPrecondition
  | ErrBlobNotFound | ErrAlreadyCommitted | ErrInvalidBlobID | ErrBlobPending
  | SessionErrNotFound | ErrRefreshFailed
  | SqlErrNoRows | RedisNil | OpErrInvalidRefreshToken

fun sentinel_text :: "sentinel \<Rightarrow> string" where
  "sentinel_text ErrNotFound = ''not found''"
| "sentinel_text ErrAlreadyExists = ''already exists''"
| "sentinel_text ErrUnauthorized = ''unauthorized''"
| "sentinel_text ErrInternal = ''internal error''"
| "sentinel_text ErrFailedPrecondition = ''precondition failed''"
| "sentinel_text ErrBlobNotFound = ''blob not found''"
| "sentinel_text ErrAlreadyCommitted = ''blob already committed''"
| "sentinel_text ErrInvalidBlobID = ''invalid blob_id: must be 64-char lowercase hex''"
| "sentinel_text ErrBlobPending = ''blob is in PENDING state''"
| "sentinel_text SessionErrNotFound = ''session: not found''"
| "sentinel_text ErrRefreshFailed = ''refresh failed''"
| "sentinel_text SqlErrNoRows = ''sql: no rows in result set''"
| "sentinel_text RedisNil = ''redis: nil''"
| "sentinel_text OpErrInvalidRefreshToken = ''invalid_refresh_token''"

datatype grpc_code =
    OK | Canceled | Unknown | InvalidArgument | DeadlineExceeded | NotFound | AlreadyExists
  | PermissionDenied | ResourceExhausted | FailedPrecondition | Aborted | OutOfRange
  | Unimplemented | Internal | Unavailable | DataLoss | Unauthenticated

text \<open>The error constructors of the OpenID Connect library that the storage adapter uses.\<close>

datatype oidc_error_type = InvalidRequest | InvalidClient | ServerError

text \<open>
  \<open>Wrap pre e post\<close> is \<open>fmt.Errorf\<close> with one \<open>%w\<close> verb, \<open>ErrorString\<close> an
  error without identity, \<open>PqError\<close> a PostgreSQL error with its SQLSTATE,
  \<open>DriverErr\<close> any other failure of a database, network or library call.
\<close>

datatype goerr =
    Sentinel sentinel
  | ErrorString string
  | Wrap string goerr string
  | PqError string
  | StatusErr grpc_code string
  | OidcErr oidc_error_type string
  | OidcErrWith oidc_error_type goerr
  | DriverErr nat

fun errors_Is :: "goerr \<Rightarrow> sentinel \<Rightarrow> bool" where
  "errors_Is (Sentinel t) s = (t = s)"
| "errors_Is (Wrap pre e post) s = errors_Is e s"
| "errors_Is (OidcErrWith t e) s = errors_Is e s"
| "errors_Is _ s = False"

text \<open>\<open>codes.Code.String\<close>, as the text of a gRPC status shows it.\<close>

fun code_text :: "grpc_code \<Rightarrow> string" where
  "code_text OK = ''OK''"
| "code_text Canceled = ''Canceled''"
| "code_text Unknown = ''Unknown''"
| "code_text InvalidArgument = ''InvalidArgument''"
| "code_text DeadlineExceeded = ''DeadlineExceeded''"
| "code_text NotFound = ''NotFound''"
| "code_text AlreadyExists = ''AlreadyExists''"
| "code_text PermissionDenied = ''PermissionDenied''"
| "code_text ResourceExhausted = ''ResourceExhausted''"
| "code_text FailedPrecondition = ''FailedPrecondition''"
| "code_text Aborted = ''Aborted''"
| "code_text OutOfRange = ''OutOfRange''"
| "code_text Unimplemented = ''Unimplemented''"
| "code_text Internal = ''Internal''"
| "code_text Unavailable = ''Unavailable''"
| "code_text DataLoss = ''DataLoss''"
| "code_text Unauthenticated = ''Unauthenticated''"

fun error_text :: "goerr \<Rightarrow> string" where
  "error_text (Sentinel s) = sentinel_text s"
| "error_text (ErrorString m) = m"
| "error_text (Wrap pre e post) = pre @ error_text e @ post"
| "error_text (PqError code) = ''pq: '' @ code"
| "error_text (StatusErr c m) = ''rpc error: code = '' @ code_text c @ '' desc = '' @ m"
| "error_text (OidcErr t d) = d"
| "error_text (OidcErrWith t e) = error_text e"
| "error_text (DriverErr n) = ''driver error''"

abbreviation errorf :: "string \<Rightarrow> goerr \<Rightarrow> goerr" where
  "errorf pre e \<equiv> Wrap pre e []"

text \<open>\<open>errors.As\<close> with a \<open>*pq.Error\<close> target: the SQLSTATE of the first one in the chain.\<close>

fun as_pq_error :: "goerr \<Rightarrow> string option" where
  "as_pq_error (PqError code) = Some code"
| "as_pq_error (Wrap pre e post) = as_pq_error e"
| "as_pq_error _ = None"

lemma errors_Is_unique: "errors_Is e s \<Longrightarrow> errors_Is e t \<Longrightarrow> s = t"
  by (induction e s rule: errors_Is.induct) auto

section \<open>Strings and machine integers\<close>

definition strings_HasPrefix :: "string \<Rightarrow> string \<Rightarrow> bool" where
  "strings_HasPrefix s p \<longleftrightarrow> take (length p) s = p"

definition strings_TrimPrefix :: "string \<Rightarrow> string \<Rightarrow> string" where
  "strings_TrimPrefix s p = (if strings_HasPrefix s p then drop (length p) s else s)"

fun strings_Contains :: "string \<Rightarrow> string \<Rightarrow> bool" where
  "strings_Contains [] sub = (sub = [])"
| "strings_Contains (c # s) sub = (strings_HasPrefix (c # s) sub \<or> strings_Contains s sub)"

lemma HasPrefix_append [simp]: "strings_HasPrefix (p @ s) p"
  by (simp add: strings_HasPrefix_def)

lemma TrimPrefix_append [simp]: "strings_TrimPrefix (p @ s) p = s"
  by (simp add: strings_TrimPrefix_def)

lemma HasPrefix_iff: "strings_HasPrefix s p \<longleftrightarrow> (\<exists>r. s = p @ r)"
  by (metis HasPrefix_append append_take_drop_id strings_HasPrefix_def)

lemma HasPrefix_Contains: "strings_HasPrefix s sub \<Longrightarrow> strings_Contains s sub"
  by (cases s) (auto simp: strings_HasPrefix_def)

lemma Contains_iff: "strings_Contains s sub \<longleftrightarrow> (\<exists>a b. s = a @ sub @ b)"
proof (induction s)
  case (Cons c s)
  show ?case
  proof
    assume "strings_Contains (c # s) sub"
    then consider "strings_HasPrefix (c # s) sub" | "strings_Contains s sub" by auto
    then show "\<exists>a b. c # s = a @ sub @ b"
    proof cases
      case 1
      then show ?thesis unfolding HasPrefix_iff by (metis append_Nil)
    next
      case 2
      then show ?thesis using Cons.IH by (metis append_Cons)
    qed
  next
    assume "\<exists>a b. c # s = a @ sub @ b"
    then obtain a b where ab: "c # s = a @ sub @ b" by blast
    show "strings_Contains (c # s) sub"
    proof (cases a)
      case Nil
      with ab show ?thesis by (intro HasPrefix_Contains) simp
    next
      case (Cons d a')
      with ab show ?thesis using Cons.IH by auto
    qed
  qed
qed auto

text \<open>A signed 64-bit result (Go's \<open>int\<close>, \<open>int64\<close> and \<open>time.Duration\<close>), wrapping around.\<close>

definition wrap64 :: "int \<Rightarrow> int" where
  "wrap64 x = sint (word_of_int x :: 64 word)"

definition wrap32 :: "int \<Rightarrow> int" where
  "wrap32 x = sint (word_of_int x :: 32 word)"

lemma wrap64_id: "- (2 ^ 63) \<le> x \<Longrightarrow> x < 2 ^ 63 \<Longrightarrow> wrap64 x = x"
  unfolding wrap64_def by (simp add: signed_take_bit_int_eq_self sint_sbintrunc')

lemma wrap64_range: "- (2 ^ 63) \<le> wrap64 x \<and> wrap64 x < 2 ^ 63"
  unfolding wrap64_def using sint_ge [of "word_of_int x :: 64 word"] sint_lt [of "word_of_int x :: 64 word"]
  by simp

lemma wrap32_id: "- (2 ^ 31) \<le> x \<Longrightarrow> x < 2 ^ 31 \<Longrightarrow> wrap32 x = x"
  unfolding wrap32_def by (simp add: signed_take_bit_int_eq_self sint_sbintrunc')

abbreviation Second :: int where "Second \<equiv> 1000000000"
abbreviation Minute :: int where "Minute \<equiv> 60000000000"
abbreviation Hour :: int where "Hour \<equiv> 3600000000000"

text \<open>Go's zero \<open>time.Time\<close> (1 January of year 1), in nanoseconds since the Unix epoch.\<close>

abbreviation zeroTime :: int where "zeroTime \<equiv> - 62135596800000000000"

text \<open>\<open>timestamppb.New\<close>: seconds since the epoch, and nanoseconds in \<open>[0, 10^9)\<close>.\<close>

definition timestamppb_New :: "int \<Rightarrow> int \<times> int" where
  "timestamppb_New t = (t div Second, t mod Second)"

lemma timestamppb_New_exact: "fst (timestamppb_New t) * Second + snd (timestamppb_New t) = t"
  by (simp add: timestamppb_New_def)

text \<open>Incoming gRPC metadata, when the context has any, maps a lower-case key to its values.\<close>

type_synonym grpc_metadata = "string \<Rightarrow> string list"

section \<open>The world of a request\<close>

type_synonym byte = "8 word"

record 'db go_world =
  step :: nat
  clock :: int
  tick :: "nat \<Rightarrow> nat"
  fault :: "nat \<Rightarrow> nat option"
  ulid :: "nat \<Rightarrow> string"
  entropy :: "nat \<Rightarrow> (nat \<Rightarrow> byte) option"
  db :: 'db

type_synonym ('db, 'a) io = "('db go_world, 'a) state"
type_synonym ('db, 'a) eio = "('db go_world, goerr + 'a) state"

abbreviation ret :: "'a \<Rightarrow> ('s, 'a) state" where
  "ret \<equiv> State_Monad.return"

text \<open>The world after one interaction: the counter moves on and time passes.\<close>

definition pass :: "'db go_world \<Rightarrow> 'db go_world" where
  "pass w = w\<lparr>step := Suc (step w), clock := clock w + int (tick w (step w))\<rparr>"

definition time_Now :: "('db, int) io" where
  "time_Now = State (\<lambda>w. (clock w, pass w))"

text \<open>\<open>rand.Read\<close> of \<open>n\<close> bytes, or its failure.\<close>

definition rand_Read :: "nat \<Rightarrow> ('db, byte list) eio" where
  "rand_Read n = State (\<lambda>w. (case entropy w (step w) of
       None \<Rightarrow> Inl (DriverErr 0) | Some f \<Rightarrow> Inr (map f [0..<n]), pass w))"

definition ulid_Make :: "('db, string) io" where
  "ulid_Make = State (\<lambda>w. (ulid w (step w), pass w))"

text \<open>One SQL statement (or Redis command) in autocommit: it fails, or it runs on the
  database at the time of the call.\<close>

definition db_exec :: "(int \<Rightarrow> 'db \<Rightarrow> goerr + 'a \<times> 'db) \<Rightarrow> ('db, 'a) eio" where
  "db_exec f = State (\<lambda>w. case fault w (step w) of
       Some n \<Rightarrow> (Inl (DriverErr n), pass w)
     | None \<Rightarrow> (case f (clock w) (db w) of
           Inl e \<Rightarrow> (Inl e, pass w)
         | Inr (x, d) \<Rightarrow> (Inr x, pass (w\<lparr>db := d\<rparr>))))"

text \<open>
  A transaction: \<open>BeginTxx\<close>, the body, \<open>Commit\<close>, with the deferred \<open>Rollback\<close> on
  every other way out. SQL's \<open>now()\<close> is the time the transaction began, which the body
  receives for its statements.
\<close>

definition tx_exec :: "int \<Rightarrow> (int \<Rightarrow> 'db \<Rightarrow> goerr + 'a \<times> 'db) \<Rightarrow> ('db, 'a) eio" where
  "tx_exec t f = db_exec (\<lambda>_. f t)"

definition tx_Begin :: "('db, int \<times> 'db) eio" where
  "tx_Begin = db_exec (\<lambda>t d. Inr ((t, d), d))"

definition tx_Commit :: "('db, unit) eio" where
  "tx_Commit = db_exec (\<lambda>_ d. Inr ((), d))"

definition tx_Rollback :: "'db \<Rightarrow> ('db, unit) io" where
  "tx_Rollback d = State (\<lambda>w. ((), w\<lparr>db := d\<rparr>))"

definition in_tx :: "(int \<Rightarrow> ('db, 'a) eio) \<Rightarrow> ('db, 'a) eio" where
  "in_tx body = do {
     b \<leftarrow> tx_Begin;
     case b of
       Inl err \<Rightarrow> ret (Inl err)
     | Inr (t, snapshot) \<Rightarrow> do {
         r \<leftarrow> body t;
         case r of
           Inl err \<Rightarrow> do { tx_Rollback snapshot; ret (Inl err) }
         | Inr x \<Rightarrow> do {
             c \<leftarrow> tx_Commit;
             case c of
               Inl err \<Rightarrow> do { tx_Rollback snapshot; ret (Inl err) }
             | Inr _ \<Rightarrow> ret (Inr x) } } }"

section \<open>Run rules\<close>

lemma pass_sel [simp]:
  "db (pass w) = db w" "tick (pass w) = tick w" "fault (pass w) = fault w"
  "ulid (pass w) = ulid w" "entropy (pass w) = entropy w" "step (pass w) = Suc (step w)"
  "clock (pass w) = clock w + int (tick w (step w))"
  by (simp_all add: pass_def)

lemma pass_db_update [simp]: "pass (w\<lparr>db := d\<rparr>) = (pass w)\<lparr>db := d\<rparr>"
  by (simp add: pass_def)

lemma pass_db_same [simp]: "(pass w)\<lparr>db := db w\<rparr> = pass w"
  by (simp add: pass_def)

lemma run_time_Now [simp, go_simps]: "run_state time_Now w = (clock w, pass w)"
  by (simp add: time_Now_def)

lemma run_ulid_Make [simp, go_simps]: "run_state ulid_Make w = (ulid w (step w), pass w)"
  by (simp add: ulid_Make_def)

lemma run_rand_Read [go_simps]:
  "run_state (rand_Read n) w = (case entropy w (step w) of
       None \<Rightarrow> Inl (DriverErr 0) | Some f \<Rightarrow> Inr (map f [0..<n]), pass w)"
  by (simp add: rand_Read_def)

lemma run_db_exec [go_simps]:
  "run_state (db_exec f) w = (case fault w (step w) of
       Some n \<Rightarrow> (Inl (DriverErr n), pass w)
     | None \<Rightarrow> (case f (clock w) (db w) of
           Inl e \<Rightarrow> (Inl e, pass w)
         | Inr (x, d) \<Rightarrow> (Inr x, pass (w\<lparr>db := d\<rparr>))))"
  by (simp add: db_exec_def)

lemma bind_runE:
  assumes "run_state (m \<bind> f) w = (r, w')"
  obtains x w1 where "run_state m w = (x, w1)" "run_state (f x) w1 = (r, w')"
  using assms by (auto split: prod.splits)

lemma db_exec_cases:
  assumes "run_state (db_exec f) w = (r, w')"
  obtains (failed) n where "fault w (step w) = Some n" "r = Inl (DriverErr n)" "w' = pass w"
  | (rejected) e where "f (clock w) (db w) = Inl e" "r = Inl e" "w' = pass w"
  | (ran) x d where "f (clock w) (db w) = Inr (x, d)" "r = Inr x" "w' = pass (w\<lparr>db := d\<rparr>)"
  using assms by (auto simp: run_db_exec split: option.splits sum.splits prod.splits)

lemma db_exec_Inl: "run_state (db_exec f) w = (Inl e, w') \<Longrightarrow> db w' = db w"
  by (auto elim: db_exec_cases)

text \<open>
  A call of a library that is not part of the repository, by what it answers at each step:
  a failure, named by a number, or a value.
\<close>

definition oracle_call :: "(nat \<Rightarrow> nat + 'a) \<Rightarrow> ('db, 'a) eio" where
  "oracle_call f = State (\<lambda>w. (case f (step w) of Inl n \<Rightarrow> Inl (DriverErr n) | Inr x \<Rightarrow> Inr x, pass w))"

lemma run_oracle_call [go_simps]:
  "run_state (oracle_call f) w = (case f (step w) of Inl n \<Rightarrow> Inl (DriverErr n) | Inr x \<Rightarrow> Inr x, pass w)"
  by (simp add: oracle_call_def)

definition ulid_unary :: "nat \<Rightarrow> string" where
  "ulid_unary n = replicate n (CHR ''0'') @ ''U''"

text \<open>A world with database \<open>d\<close> in which nothing fails, at time 0, one time unit per step.\<close>

definition idle_world :: "'db \<Rightarrow> 'db go_world" where
  "idle_world d = \<lparr>step = 0, clock = 0, tick = \<lambda>_. 1, fault = \<lambda>_. None,
     ulid = ulid_unary, entropy = \<lambda>k. Some (\<lambda>i. word_of_nat (k + i)), db = d\<rparr>"

text \<open>No failure of the database from here on.\<close>

definition quiet :: "'db go_world \<Rightarrow> bool" where
  "quiet w \<longleftrightarrow> (\<forall>k \<ge> step w. fault w k = None)"

lemma quietD [simp]: "quiet w \<Longrightarrow> fault w (step w) = None"
  by (simp add: quiet_def)

lemma quiet_pass [simp, intro]: "quiet w \<Longrightarrow> quiet (pass w)"
  by (simp add: quiet_def)

lemma quiet_db [simp]: "quiet (w\<lparr>db := d\<rparr>) = quiet w"
  by (simp add: quiet_def)

lemma idle_world_sel [simp]:
  "step (idle_world d) = 0" "clock (idle_world d) = 0" "tick (idle_world d) = (\<lambda>_. 1)"
  "fault (idle_world d) = (\<lambda>_. None)" "ulid (idle_world d) = ulid_unary" "db (idle_world d) = d"
  "entropy (idle_world d) = (\<lambda>k. Some (\<lambda>i. word_of_nat (k + i)))"
  by (simp_all add: idle_world_def)

lemma quiet_idle [simp]: "quiet (idle_world d)"
  by (simp add: quiet_def)

lemma run_db_exec_quiet:
  "quiet w \<Longrightarrow> run_state (db_exec f) w =
     (case f (clock w) (db w) of Inl e \<Rightarrow> (Inl e, pass w) | Inr (x, d) \<Rightarrow> (Inr x, pass (w\<lparr>db := d\<rparr>)))"
  by (simp add: run_db_exec)

text \<open>Atomicity: a transaction that reports an error has left the database as it was.\<close>

lemma in_tx_Inl:
  assumes "run_state (in_tx body) w = (Inl e, w')"
  shows "db w' = db w"
  using assms
  by (auto simp: in_tx_def tx_Begin_def tx_Commit_def tx_Rollback_def
      split: prod.splits sum.splits elim!: db_exec_cases)

lemma in_tx_Inr:
  assumes "run_state (in_tx body) w = (Inr x, w')"
  obtains w1 where "run_state (body (clock w)) (pass w) = (Inr x, w1)" "db w' = db w1"
  using assms
  by (auto simp: in_tx_def tx_Begin_def tx_Commit_def tx_Rollback_def
      split: prod.splits sum.splits elim!: db_exec_cases)

section \<open>Parts of a state\<close>

text \<open>An action on a part of the state, run on the whole.\<close>

definition on_part :: "('d \<Rightarrow> 'p) \<Rightarrow> ('p \<Rightarrow> 'd \<Rightarrow> 'd) \<Rightarrow> ('p, 'a) io \<Rightarrow> ('d, 'a) io" where
  "on_part get put m = State (\<lambda>w. case run_state m
       \<lparr>step = step w, clock = clock w, tick = tick w, fault = fault w, ulid = ulid w, entropy = entropy w,
        db = get (db w)\<rparr> of
     (r, v) \<Rightarrow> (r, \<lparr>step = step v, clock = clock v, tick = tick v, fault = fault v, ulid = ulid v,
        entropy = entropy v, db = put (db v) (db w)\<rparr>))"

lemma run_on_part:
  assumes "run_state (on_part get put m) w = (r, w')"
  obtains v v' where "run_state m v = (r, v')" "db v = get (db w)" "clock v = clock w" "step v = step w"
    "tick v = tick w" "db w' = put (db v') (db w)" "clock w' = clock v'" "step w' = step v'" "tick w' = tick v'"
  using assms by (auto simp: on_part_def split: prod.splits)

section \<open>What an action keeps\<close>

text \<open>
  \<open>keeps P m\<close>: from a database with \<open>P\<close> the action leads to one with \<open>P\<close>, whatever it
  answers. The rules in \<open>keeps\<close> follow the structure of the code.
\<close>

definition keeps :: "('db \<Rightarrow> bool) \<Rightarrow> ('db, 'a) io \<Rightarrow> bool" where
  "keeps P m \<longleftrightarrow> (\<forall>w r w'. run_state m w = (r, w') \<longrightarrow> P (db w) \<longrightarrow> P (db w'))"

lemma keepsD: "keeps P m \<Longrightarrow> run_state m w = (r, w') \<Longrightarrow> P (db w) \<Longrightarrow> P (db w')"
  by (auto simp: keeps_def)

lemma keeps_ret [keeps]: "keeps P (ret x)"
  by (simp add: keeps_def)

lemma keeps_bind [keeps]: "keeps P m \<Longrightarrow> (\<And>x. keeps P (f x)) \<Longrightarrow> keeps P (m \<bind> f)"
  unfolding keeps_def by (auto split: prod.splits)

lemma keeps_sum [keeps]:
  "(\<And>e. keeps P (f e)) \<Longrightarrow> (\<And>x. keeps P (g x)) \<Longrightarrow> keeps P (case r of Inl e \<Rightarrow> f e | Inr x \<Rightarrow> g x)"
  by (cases r) auto

lemma keeps_option [keeps]:
  "keeps P m \<Longrightarrow> (\<And>x. keeps P (g x)) \<Longrightarrow> keeps P (case r of None \<Rightarrow> m | Some x \<Rightarrow> g x)"
  by (cases r) auto

lemma keeps_prod [keeps]: "(\<And>x y. keeps P (g x y)) \<Longrightarrow> keeps P (case r of (x, y) \<Rightarrow> g x y)"
  by (cases r) auto

lemma keeps_if [keeps]: "keeps P a \<Longrightarrow> keeps P b \<Longrightarrow> keeps P (if c then a else b)"
  by simp

lemma keeps_now [keeps]: "keeps P time_Now"
  by (simp add: keeps_def)

lemma keeps_ulid [keeps]: "keeps P ulid_Make"
  by (simp add: keeps_def)

lemma keeps_exec [keeps]: "(\<And>t d x d'. f t d = Inr (x, d') \<Longrightarrow> P d \<Longrightarrow> P d') \<Longrightarrow> keeps P (db_exec f)"
  unfolding keeps_def
proof (intro allI impI)
  fix w r w' assume step: "\<And>t d x d'. f t d = Inr (x, d') \<Longrightarrow> P d \<Longrightarrow> P d'"
    and run: "run_state (db_exec f) w = (r, w')" and P: "P (db w)"
  from run show "P (db w')"
  proof (cases rule: db_exec_cases)
    case (ran x d)
    with step [OF ran(1) P] show ?thesis by simp
  qed (use P in simp_all)
qed

lemma keeps_tx_exec [keeps]: "(\<And>d x d'. f t d = Inr (x, d') \<Longrightarrow> P d \<Longrightarrow> P d') \<Longrightarrow> keeps P (tx_exec t f)"
  unfolding tx_exec_def by (rule keeps_exec)

lemma keeps_in_tx [keeps]:
  assumes "\<And>t. keeps P (body t)"
  shows "keeps P (in_tx body)"
  unfolding keeps_def
proof (intro allI impI)
  fix w r w' assume run: "run_state (in_tx body) w = (r, w')" and P: "P (db w)"
  show "P (db w')"
  proof (cases r)
    case (Inl e)
    have "db w' = db w" by (rule in_tx_Inl [OF run [unfolded Inl]])
    with P show ?thesis by simp
  next
    case (Inr x)
    show ?thesis
    proof (rule in_tx_Inr [OF run [unfolded Inr]])
      fix w1 assume "run_state (body (clock w)) (pass w) = (Inr x, w1)" "db w' = db w1"
      with keepsD [OF assms, of "clock w" "pass w" "Inr x" w1] P show ?thesis by simp
    qed
  qed
qed

end
