(* ===== verification/GoEncoding.thy ===== *)
theory GoEncoding
  imports GoPrelude
begin

text \<open>
  The standard library's encodings that the services call: \<open>encoding/hex\<close>,
  \<open>encoding/base64\<close> (the URL alphabet, padded and raw) and the decimal conversions of
  \<open>strconv\<close>, with the round trips the components rely on. Go's decoders skip carriage
  returns and line feeds in base64 and accept both cases in hex; so do these.
\<close>

definition bytes_of :: "string \<Rightarrow> byte list" where
  "bytes_of s = map (\<lambda>c. of_char c) s"

definition string_of :: "byte list \<Rightarrow> string" where
  "string_of bs = map (\<lambda>b. char_of (unat b)) bs"

lemma table_index: "distinct xs \<Longrightarrow> i < length xs \<Longrightarrow> map_of (zip xs [0..<length xs]) (xs ! i) = Some i"
  by (simp add: map_of_zip_nth)

section \<open>Hexadecimal\<close>

definition hextable :: string where
  "hextable = ''0123456789abcdef''"

definition hex_val :: "char \<Rightarrow> nat option" where
  "hex_val c = map_of (zip (hextable @ ''ABCDEF'') ([0..<16] @ [10..<16])) c"

fun hex_Encode :: "byte list \<Rightarrow> string" where
  "hex_Encode [] = []"
| "hex_Encode (b # bs) = hextable ! (unat b div 16) # hextable ! (unat b mod 16) # hex_Encode bs"

fun hex_Decode :: "string \<Rightarrow> byte list option" where
  "hex_Decode [] = Some []"
| "hex_Decode [c] = None"
| "hex_Decode (c # d # s) =
     (case (hex_val c, hex_val d, hex_Decode s) of
        (Some x, Some y, Some bs) \<Rightarrow> Some (word_of_nat (x * 16 + y) # bs)
      | _ \<Rightarrow> None)"

lemma hex_val_table: "n < 16 \<Longrightarrow> hex_val (hextable ! n) = Some n"
proof -
  have "\<forall>n \<in> set [0..<16]. hex_val (hextable ! n) = Some n" by code_simp
  then show "n < 16 \<Longrightarrow> ?thesis" by simp
qed

lemma unat_byte_less: "unat (b :: byte) < 256"
  by (rule unsigned_less [THEN order_less_le_trans]) simp

lemma hex_Decode_Encode: "hex_Decode (hex_Encode bs) = Some bs"
proof (induction bs)
  case (Cons b bs)
  have "unat b div 16 < 16" and "unat b mod 16 < 16" using unat_byte_less [of b] by auto
  then show ?case using Cons by (simp add: hex_val_table)
qed simp

lemma length_hex_Encode [simp]: "length (hex_Encode bs) = 2 * length bs"
  by (induction bs) auto

lemma length_hex_Decode: "hex_Decode s = Some bs \<Longrightarrow> length s = 2 * length bs"
  by (induction s arbitrary: bs rule: hex_Decode.induct) (auto split: option.splits)

lemma hex_Encode_chars: "c \<in> set (hex_Encode bs) \<Longrightarrow> c \<in> set hextable"
proof (induction bs)
  case (Cons b bs)
  have "unat b div 16 < length hextable" and "unat b mod 16 < length hextable"
    using unat_byte_less [of b] by (auto simp: hextable_def)
  then show ?case using Cons by (auto intro: nth_mem)
qed simp

section \<open>Base64 with the URL alphabet\<close>

definition b64_table :: string where
  "b64_table = ''ABCDEFGHIJKLMNOPQRSTUVWXYZabcdefghijklmnopqrstuvwxyz0123456789-_''"

definition b64_val :: "char \<Rightarrow> nat option" where
  "b64_val c = map_of (zip b64_table [0..<64]) c"

definition b64_quad :: "nat \<Rightarrow> nat \<Rightarrow> nat \<Rightarrow> nat list" where
  "b64_quad a b c = [a div 4, (a mod 4) * 16 + b div 16, (b mod 16) * 4 + c div 64, c mod 64]"

fun b64_Encode :: "bool \<Rightarrow> byte list \<Rightarrow> string" where
  "b64_Encode pad [] = []"
| "b64_Encode pad [a] =
     map ((!) b64_table) (take 2 (b64_quad (unat a) 0 0)) @ (if pad then ''=='' else [])"
| "b64_Encode pad [a, b] =
     map ((!) b64_table) (take 3 (b64_quad (unat a) (unat b) 0)) @ (if pad then ''='' else [])"
| "b64_Encode pad (a # b # c # bs) =
     map ((!) b64_table) (b64_quad (unat a) (unat b) (unat c)) @ b64_Encode pad bs"

definition byte0 :: "nat \<Rightarrow> nat \<Rightarrow> byte" where "byte0 v0 v1 = word_of_nat (v0 * 4 + v1 div 16)"
definition byte1 :: "nat \<Rightarrow> nat \<Rightarrow> byte" where "byte1 v1 v2 = word_of_nat ((v1 mod 16) * 16 + v2 div 4)"
definition byte2 :: "nat \<Rightarrow> nat \<Rightarrow> byte" where "byte2 v2 v3 = word_of_nat ((v2 mod 4) * 64 + v3)"

definition b64_two :: "char \<Rightarrow> char \<Rightarrow> byte list option" where
  "b64_two c0 c1 = (case (b64_val c0, b64_val c1) of
     (Some v0, Some v1) \<Rightarrow> Some [byte0 v0 v1] | _ \<Rightarrow> None)"

definition b64_three :: "char \<Rightarrow> char \<Rightarrow> char \<Rightarrow> byte list option" where
  "b64_three c0 c1 c2 = (case (b64_val c0, b64_val c1, b64_val c2) of
     (Some v0, Some v1, Some v2) \<Rightarrow> Some [byte0 v0 v1, byte1 v1 v2] | _ \<Rightarrow> None)"

definition b64_four :: "char \<Rightarrow> char \<Rightarrow> char \<Rightarrow> char \<Rightarrow> byte list option" where
  "b64_four c0 c1 c2 c3 = (case (b64_val c0, b64_val c1, b64_val c2, b64_val c3) of
     (Some v0, Some v1, Some v2, Some v3) \<Rightarrow> Some [byte0 v0 v1, byte1 v1 v2, byte2 v2 v3]
   | _ \<Rightarrow> None)"

fun b64_quads :: "bool \<Rightarrow> string \<Rightarrow> byte list option" where
  "b64_quads pad [] = Some []"
| "b64_quads pad (c0 # c1 # c2 # c3 # s) =
     (if pad \<and> c2 = CHR ''='' \<and> c3 = CHR ''='' then (if s = [] then b64_two c0 c1 else None)
      else if pad \<and> c3 = CHR ''='' then (if s = [] then b64_three c0 c1 c2 else None)
      else (case (b64_four c0 c1 c2 c3, b64_quads pad s) of
              (Some bs, Some bs') \<Rightarrow> Some (bs @ bs') | _ \<Rightarrow> None))"
| "b64_quads pad [c0, c1] = (if pad then None else b64_two c0 c1)"
| "b64_quads pad [c0, c1, c2] = (if pad then None else b64_three c0 c1 c2)"
| "b64_quads pad [c0] = None"

definition b64_Decode :: "bool \<Rightarrow> string \<Rightarrow> byte list option" where
  "b64_Decode pad s = b64_quads pad (filter (\<lambda>c. c \<noteq> CHR 0x0D \<and> c \<noteq> CHR 0x0A) s)"

abbreviation URLEncoding_EncodeToString :: "byte list \<Rightarrow> string" where
  "URLEncoding_EncodeToString \<equiv> b64_Encode True"
abbreviation URLEncoding_DecodeString :: "string \<Rightarrow> byte list option" where
  "URLEncoding_DecodeString \<equiv> b64_Decode True"
abbreviation RawURLEncoding_EncodeToString :: "byte list \<Rightarrow> string" where
  "RawURLEncoding_EncodeToString \<equiv> b64_Encode False"
abbreviation RawURLEncoding_DecodeString :: "string \<Rightarrow> byte list option" where
  "RawURLEncoding_DecodeString \<equiv> b64_Decode False"

lemma b64_table_distinct: "distinct b64_table" and b64_table_length: "length b64_table = 64"
  by (simp_all add: b64_table_def)

lemma b64_val_table: "n < 64 \<Longrightarrow> b64_val (b64_table ! n) = Some n"
  using table_index [OF b64_table_distinct, of n] by (simp add: b64_val_def b64_table_length)

lemma b64_table_ordinary:
  assumes "n < 64"
  shows "b64_table ! n \<noteq> CHR ''='' \<and> b64_table ! n \<noteq> CHR 0x0D \<and> b64_table ! n \<noteq> CHR 0x0A"
proof -
  have "b64_table ! n \<in> set b64_table" using assms by (simp add: b64_table_length)
  moreover have "CHR ''='' \<notin> set b64_table" "CHR 0x0D \<notin> set b64_table" "CHR 0x0A \<notin> set b64_table"
    by (simp_all add: b64_table_def)
  ultimately show ?thesis by auto
qed

lemma quad_bounds:
  fixes a b c :: nat
  assumes "a < 256" "b < 256" "c < 256"
  shows "a div 4 < 64" "(a mod 4) * 16 + b div 16 < 64" "(b mod 16) * 4 + c div 64 < 64" "c mod 64 < 64"
proof -
  have "a mod 4 \<le> 3" "b div 16 \<le> 15" "b mod 16 \<le> 15" "c div 64 \<le> 3"
    using assms by (auto simp: less_Suc_eq_le [symmetric] less_mult_imp_div_less)
  then show "(a mod 4) * 16 + b div 16 < 64" "(b mod 16) * 4 + c div 64 < 64" by linarith+
qed (use assms in auto)

lemma quad_bytes:
  assumes "a < 256" "b < 256" "c < 256"
  shows "byte0 (a div 4) ((a mod 4) * 16 + b div 16) = word_of_nat a"
    and "byte1 ((a mod 4) * 16 + b div 16) ((b mod 16) * 4 + c div 64) = word_of_nat b"
    and "byte2 ((b mod 16) * 4 + c div 64) (c mod 64) = word_of_nat c"
proof -
  have q: "b div 16 < 16" "c div 64 < 4" using assms by (auto simp: less_mult_imp_div_less)
  have "((a mod 4) * 16 + b div 16) div 16 = a mod 4" using q by simp
  then show "byte0 (a div 4) ((a mod 4) * 16 + b div 16) = word_of_nat a"
    by (simp only: byte0_def div_mult_mod_eq)
  have "((a mod 4) * 16 + b div 16) mod 16 = b div 16" "((b mod 16) * 4 + c div 64) div 4 = b mod 16"
    using q by simp_all
  then show "byte1 ((a mod 4) * 16 + b div 16) ((b mod 16) * 4 + c div 64) = word_of_nat b"
    by (simp only: byte1_def div_mult_mod_eq)
  have "((b mod 16) * 4 + c div 64) mod 4 = c div 64" using q by simp
  then show "byte2 ((b mod 16) * 4 + c div 64) (c mod 64) = word_of_nat c"
    by (simp only: byte2_def div_mult_mod_eq)
qed

lemma b64_Encode_chars: "x \<in> set (b64_Encode pad bs) \<Longrightarrow> x \<noteq> CHR 0x0D \<and> x \<noteq> CHR 0x0A"
proof (induction pad bs rule: b64_Encode.induct)
  case (2 pad a)
  then show ?case using quad_bounds [of "unat a" 0 0]
    by (auto simp: b64_quad_def b64_table_ordinary unat_byte_less split: if_splits)
next
  case (3 pad a b)
  then show ?case using quad_bounds [of "unat a" "unat b" 0]
    by (auto simp: b64_quad_def b64_table_ordinary unat_byte_less split: if_splits)
next
  case (4 pad a b c bs)
  have "\<forall>n \<in> set (b64_quad (unat a) (unat b) (unat c)). n < 64"
    using quad_bounds [of "unat a" "unat b" "unat c"] by (simp add: b64_quad_def unat_byte_less)
  then show ?case using 4 b64_table_ordinary by auto
qed simp

lemma b64_quads_Encode: "b64_quads pad (b64_Encode pad bs) = Some bs"
proof (induction pad bs rule: b64_Encode.induct)
  case (2 pad a)
  have a: "unat a < 256" by (rule unat_byte_less)
  show ?case using quad_bounds [OF a, of 0 0] quad_bytes [OF a, of 0 0]
    by (auto simp: b64_quad_def b64_two_def b64_val_table)
next
  case (3 pad a b)
  have ab: "unat a < 256" "unat b < 256" by (rule unat_byte_less)+
  show ?case using quad_bounds [OF ab, of 0] quad_bytes [OF ab, of 0]
    by (auto simp: b64_quad_def b64_three_def b64_val_table b64_table_ordinary)
next
  case (4 pad a b c bs)
  have abc: "unat a < 256" "unat b < 256" "unat c < 256" by (rule unat_byte_less)+
  show ?case using 4 quad_bounds [OF abc] quad_bytes [OF abc]
    by (simp add: b64_quad_def b64_four_def b64_val_table b64_table_ordinary)
qed simp

lemma b64_Decode_Encode: "b64_Decode pad (b64_Encode pad bs) = Some bs"
proof -
  have "filter (\<lambda>c. c \<noteq> CHR 0x0D \<and> c \<noteq> CHR 0x0A) (b64_Encode pad bs) = b64_Encode pad bs"
    using b64_Encode_chars by (auto simp: filter_id_conv)
  then show ?thesis by (simp add: b64_Decode_def b64_quads_Encode)
qed

lemma hex_Encode_inject [simp]: "hex_Encode bs = hex_Encode cs \<longleftrightarrow> bs = cs"
  by (metis hex_Decode_Encode option.inject)

lemma length_b64_Encode: "length (b64_Encode False bs) = (4 * length bs + 2) div 3"
proof (induction "False" bs rule: b64_Encode.induct)
  case (4 a b c bs)
  have "(4 * Suc (Suc (Suc n)) + 2) div 3 = 4 + (4 * n + 2) div 3" for n :: nat by presburger
  with 4 show ?case by (simp add: b64_quad_def)
qed (simp_all add: b64_quad_def)

section \<open>Decimal numbers\<close>

definition digit_val :: "char \<Rightarrow> nat option" where
  "digit_val c = map_of (zip ''0123456789'' [0..<10]) c"

fun parse_digits :: "nat \<Rightarrow> string \<Rightarrow> nat option" where
  "parse_digits acc [] = Some acc"
| "parse_digits acc (c # s) =
     (case digit_val c of None \<Rightarrow> None | Some d \<Rightarrow> parse_digits (acc * 10 + d) s)"

text \<open>\<open>strconv.Atoi\<close> and \<open>strconv.ParseInt(_, 10, 64)\<close> on a 64-bit platform.\<close>

definition strconv_Atoi :: "string \<Rightarrow> int option" where
  "strconv_Atoi s =
     (let neg = (s \<noteq> [] \<and> hd s = CHR ''-'');
          body = (if s \<noteq> [] \<and> (hd s = CHR ''-'' \<or> hd s = CHR ''+'') then tl s else s)
      in if body = [] then None
         else case parse_digits 0 body of
                None \<Rightarrow> None
              | Some n \<Rightarrow>
                  (let v = (if neg then - int n else int n)
                   in if - (2 ^ 63) \<le> v \<and> v < 2 ^ 63 then Some v else None))"

lemma strconv_Atoi_range: "strconv_Atoi s = Some n \<Longrightarrow> - (2 ^ 63) \<le> n \<and> n < 2 ^ 63"
  by (auto simp: strconv_Atoi_def Let_def split: if_splits option.splits)

fun nat_digits :: "nat \<Rightarrow> string" where
  "nat_digits n = (if n < 10 then [''0123456789'' ! n]
                   else nat_digits (n div 10) @ [''0123456789'' ! (n mod 10)])"

declare nat_digits.simps [simp del]

definition strconv_Itoa :: "int \<Rightarrow> string" where
  "strconv_Itoa n = (if n < 0 then CHR ''-'' # nat_digits (nat (- n)) else nat_digits (nat n))"

lemma digit_val_table: "n < 10 \<Longrightarrow> digit_val (''0123456789'' ! n) = Some n"
proof -
  have "\<forall>n \<in> set [0..<10]. digit_val (''0123456789'' ! n) = Some n" by code_simp
  then show "n < 10 \<Longrightarrow> ?thesis" by simp
qed

lemma parse_digits_append:
  "parse_digits acc (s @ t) = Option.bind (parse_digits acc s) (\<lambda>n. parse_digits n t)"
  by (induction acc s rule: parse_digits.induct) (auto split: option.splits)

lemma parse_nat_digits: "parse_digits 0 (nat_digits n) = Some n"
proof (induction n rule: nat_digits.induct)
  case (1 n)
  show ?case
  proof (cases "n < 10")
    case True
    then show ?thesis by (simp add: nat_digits.simps [of n] digit_val_table)
  next
    case False
    then show ?thesis using 1
      by (simp add: nat_digits.simps [of n] parse_digits_append digit_val_table)
  qed
qed

lemma digit_table_unsigned: "n < 10 \<Longrightarrow> ''0123456789'' ! n \<notin> {CHR ''-'', CHR ''+''}"
proof -
  have "\<forall>n \<in> set [0..<10]. ''0123456789'' ! n \<notin> {CHR ''-'', CHR ''+''}" by code_simp
  then show "n < 10 \<Longrightarrow> ?thesis" by simp
qed

lemma nat_digits_hd: "nat_digits n \<noteq> [] \<and> hd (nat_digits n) \<notin> {CHR ''-'', CHR ''+''}"
proof (induction n rule: nat_digits.induct)
  case (1 n)
  then show ?case
    using digit_table_unsigned [of n] by (cases "n < 10") (simp_all add: nat_digits.simps [of n])
qed

lemma strconv_Atoi_Itoa:
  assumes "- (2 ^ 63) \<le> n" "n < 2 ^ 63"
  shows "strconv_Atoi (strconv_Itoa n) = Some n"
proof (cases "n < 0")
  case True
  then show ?thesis using assms nat_digits_hd [of "nat (- n)"]
    by (simp add: strconv_Atoi_def strconv_Itoa_def parse_nat_digits Let_def)
next
  case False
  then show ?thesis using assms nat_digits_hd [of "nat n"]
    by (simp add: strconv_Atoi_def strconv_Itoa_def parse_nat_digits Let_def)
qed

end
