(* ===== verification/BlobDomain.thy ===== *)
theory BlobDomain
  imports GoEncoding
begin

text \<open>
  \<open>blob-service/internal/domain\<close>: the blob aggregate, its identifier and its two-state
  life cycle, and the two ports the application depends on. A Go interface value is a
  record of its methods, so that the application is written against it as in the source.
\<close>

section \<open>Blob identifiers\<close>

definition hexRE_MatchString :: "string \<Rightarrow> bool" where
  "hexRE_MatchString s \<longleftrightarrow>
     length s = 64 \<and> list_all (\<lambda>c. c \<in> set ''0123456789abcdef'') s"

definition BlobID_Validate :: "string \<Rightarrow> goerr + unit" where
  "BlobID_Validate bid =
     (if \<not> hexRE_MatchString bid then Inl (Sentinel ErrInvalidBlobID) else Inr ())"

lemma Validate_cases:
  obtains (valid) "hexRE_MatchString bid" "BlobID_Validate bid = Inr ()"
  | (invalid) "\<not> hexRE_MatchString bid" "BlobID_Validate bid = Inl (Sentinel ErrInvalidBlobID)"
  by (cases "hexRE_MatchString bid") (auto simp: BlobID_Validate_def)

text \<open>Every lower-case hex encoding of 32 bytes (a SHA-256 sum) is a valid identifier.\<close>

lemma hexRE_hex_Encode: "length bs = 32 \<Longrightarrow> hexRE_MatchString (hex_Encode bs)"
  using hex_Encode_chars by (auto simp: hexRE_MatchString_def list_all_iff hextable_def)

section \<open>The blob aggregate\<close>

type_synonym UploadState = string

definition StatePending :: UploadState where "StatePending = ''PENDING''"
definition StateCommitted :: UploadState where "StateCommitted = ''COMMITTED''"

lemma states_differ [simp]: "StatePending \<noteq> StateCommitted" "StateCommitted \<noteq> StatePending"
  by (simp_all add: StatePending_def StateCommitted_def)

record Blob =
  bID :: string
  bSizeBytes :: int
  bContentType :: string
  bR2Key :: string
  bState :: UploadState
  bCreatedAt :: int
  bCommittedAt :: "int option"

definition NewBlob :: "string \<Rightarrow> int \<Rightarrow> string \<Rightarrow> int \<Rightarrow> goerr + Blob" where
  "NewBlob bid sizeBytes contentType now =
     (case BlobID_Validate bid of
        Inl err \<Rightarrow> Inl err
      | Inr _ \<Rightarrow> Inr \<lparr>bID = bid, bSizeBytes = sizeBytes, bContentType = contentType,
          bR2Key = bid, bState = StatePending, bCreatedAt = now, bCommittedAt = None\<rparr>)"

definition Blob_Commit :: "Blob \<Rightarrow> int \<Rightarrow> goerr + Blob" where
  "Blob_Commit b ts =
     (if bState b = StateCommitted
      then Inl (Wrap [] (Sentinel ErrAlreadyCommitted) ('': blob '' @ bID b))
      else Inr (b\<lparr>bState := StateCommitted, bCommittedAt := Some ts\<rparr>))"

text \<open>
  The aggregate's invariant: the object key is the identifier, the state is one of the
  two, and a commit time is recorded exactly when the blob is committed.
\<close>

definition blob_ok :: "Blob \<Rightarrow> bool" where
  "blob_ok b \<longleftrightarrow> hexRE_MatchString (bID b) \<and> bR2Key b = bID b
     \<and> (bState b = StatePending \<and> bCommittedAt b = None
        \<or> bState b = StateCommitted \<and> bCommittedAt b \<noteq> None)"

lemma NewBlob_ok: "NewBlob bid n ct now = Inr b \<Longrightarrow> blob_ok b \<and> bID b = bid \<and> bState b = StatePending"
  by (auto simp: NewBlob_def blob_ok_def BlobID_Validate_def split: if_splits)

lemma Blob_Commit_ok: "blob_ok b \<Longrightarrow> Blob_Commit b t = Inr b' \<Longrightarrow> blob_ok b'"
  by (auto simp: Blob_Commit_def blob_ok_def split: if_splits)

section \<open>Ports\<close>

record CompletedPart =
  cpPartNumber :: int
  cpETag :: string

record 'w BlobRepository =
  FindByID :: "string \<Rightarrow> ('w, goerr + Blob) state"
  Create :: "Blob \<Rightarrow> ('w, goerr + unit) state"
  MarkCommitted :: "string \<Rightarrow> int \<Rightarrow> ('w, goerr + unit) state"

record 'w ObjectStorage =
  PresignedPutURL :: "string \<Rightarrow> int \<Rightarrow> ('w, goerr + string \<times> int) state"
  PresignedGetURL :: "string \<Rightarrow> int \<Rightarrow> ('w, goerr + string \<times> int) state"
  CreateMultipartUpload :: "string \<Rightarrow> string \<Rightarrow> ('w, goerr + string) state"
  PresignedPartURL :: "string \<Rightarrow> string \<Rightarrow> int \<Rightarrow> int \<Rightarrow> ('w, goerr + string \<times> int) state"
  CompleteMultipartUpload :: "string \<Rightarrow> string \<Rightarrow> CompletedPart list \<Rightarrow> ('w, goerr + unit) state"
  AbortMultipartUpload :: "string \<Rightarrow> string \<Rightarrow> ('w, goerr + unit) state"

text \<open>
  The contract of the repository port. \<open>view\<close> reads a database as a map from
  identifiers to blobs; every method's effect is stated on it, for success and for error,
  and the \<open>live\<close> laws say when a method succeeds.
\<close>

locale blob_repository =
  fixes repo :: "'db go_world BlobRepository"
    and view :: "'db \<Rightarrow> string \<Rightarrow> Blob option"
    and invar :: "'db \<Rightarrow> bool"
  assumes view_ok: "invar d \<Longrightarrow> view d bid = Some b \<Longrightarrow> blob_ok b \<and> bID b = bid"
    and find_done: "run_state (FindByID repo bid) w = (Inr b, w') \<Longrightarrow> invar (db w) \<Longrightarrow>
      view (db w) bid = Some b \<and> db w' = db w"
    and find_error: "run_state (FindByID repo bid) w = (Inl e, w') \<Longrightarrow> invar (db w) \<Longrightarrow>
      db w' = db w \<and> (errors_Is e ErrBlobNotFound \<longrightarrow> view (db w) bid = None)"
    and find_live: "run_state (FindByID repo bid) w = (rb, w') \<Longrightarrow> invar (db w) \<Longrightarrow> quiet w \<Longrightarrow>
      quiet w' \<and> (case view (db w) bid of Some b \<Rightarrow> rb = Inr b
                   | None \<Rightarrow> (\<exists>e. rb = Inl e \<and> errors_Is e ErrBlobNotFound))"
    and create_done: "run_state (Create repo b) w = (Inr u, w') \<Longrightarrow> invar (db w) \<Longrightarrow>
      blob_ok b \<Longrightarrow> bState b = StatePending \<Longrightarrow>
      view (db w) (bID b) = None \<and> view (db w') = (view (db w))(bID b \<mapsto> b) \<and> invar (db w')"
    and create_error: "run_state (Create repo b) w = (Inl e, w') \<Longrightarrow> invar (db w) \<Longrightarrow>
      db w' = db w \<and> (errors_Is e ErrAlreadyCommitted \<longrightarrow> view (db w) (bID b) \<noteq> None)"
    and create_live: "run_state (Create repo b) w = (r, w') \<Longrightarrow> invar (db w) \<Longrightarrow> blob_ok b \<Longrightarrow>
      quiet w \<Longrightarrow> quiet w' \<and> (view (db w) (bID b) = None \<longrightarrow> r = Inr ())"
    and mark_done: "run_state (MarkCommitted repo bid t) w = (Inr u, w') \<Longrightarrow> invar (db w) \<Longrightarrow>
      \<exists>b. view (db w) bid = Some b \<and> bState b = StatePending \<and> invar (db w')
        \<and> view (db w') = (view (db w))(bid \<mapsto> b\<lparr>bState := StateCommitted, bCommittedAt := Some t\<rparr>)"
    and mark_error: "run_state (MarkCommitted repo bid t) w = (Inl e, w') \<Longrightarrow> invar (db w) \<Longrightarrow>
      db w' = db w \<and> (errors_Is e ErrAlreadyCommitted \<longrightarrow>
        (\<forall>b. view (db w) bid = Some b \<longrightarrow> bState b = StateCommitted))"
    and mark_live: "run_state (MarkCommitted repo bid t) w = (r, w') \<Longrightarrow> invar (db w) \<Longrightarrow> quiet w \<Longrightarrow>
      quiet w' \<and> ((\<exists>b. view (db w) bid = Some b \<and> bState b = StatePending) \<longrightarrow> r = Inr ())"

text \<open>
  The contract of the storage port: its methods leave the service's database alone, and a
  presigned URL expires one time-to-live after some moment of the call.
\<close>

locale object_storage =
  fixes storage :: "'db go_world ObjectStorage"
  assumes put_db: "run_state (PresignedPutURL storage key ttl) w = (rp, w') \<Longrightarrow> db w' = db w"
    and get_db: "run_state (PresignedGetURL storage key ttl) w = (rp, w') \<Longrightarrow> db w' = db w"
    and multi_db: "run_state (CreateMultipartUpload storage key ct) w = (rm, w') \<Longrightarrow> db w' = db w"
    and part_db: "run_state (PresignedPartURL storage key uid n ttl) w = (rp, w') \<Longrightarrow> db w' = db w"
    and complete_db: "run_state (CompleteMultipartUpload storage key uid parts) w = (ru, w') \<Longrightarrow> db w' = db w"
    and abort_db: "run_state (AbortMultipartUpload storage key uid) w = (ru, w') \<Longrightarrow> db w' = db w"
    and put_expiry: "run_state (PresignedPutURL storage key ttl) w = (Inr (url, exp), w') \<Longrightarrow>
      clock w + ttl \<le> exp \<and> exp \<le> clock w' + ttl"
    and get_expiry: "run_state (PresignedGetURL storage key ttl) w = (Inr (url, exp), w') \<Longrightarrow>
      clock w + ttl \<le> exp \<and> exp \<le> clock w' + ttl"
    and part_expiry: "run_state (PresignedPartURL storage key uid n ttl) w = (Inr (url, exp), w') \<Longrightarrow>
      clock w + ttl \<le> exp \<and> exp \<le> clock w' + ttl"
    and storage_clock: "run_state (PresignedPutURL storage key ttl) w = (rp, w') \<Longrightarrow> clock w \<le> clock w'"

end
