(* ===== verification/BlobRepo.thy ===== *)
theory BlobRepo
  imports BlobDomain
begin

text \<open>
  \<open>blob-service/internal/repository/postgres\<close> over the table of
  \<open>blob-service/migrations\<close>: a list of rows, the primary key and the CHECK constraint
  enforced by INSERT. The identifiers that reach it are 64 characters long, so the blank
  padding of CHAR(64) columns does not arise.
\<close>

record blob_row =
  br_id :: string
  br_size_bytes :: int
  br_content_type :: string
  br_r2_key :: string
  br_state :: string
  br_created_at :: int
  br_committed_at :: "int option"

type_synonym blob_db = "blob_row list"

definition rowToBlob :: "blob_row \<Rightarrow> Blob" where
  "rowToBlob row = \<lparr>bID = br_id row, bSizeBytes = br_size_bytes row,
     bContentType = br_content_type row, bR2Key = br_r2_key row, bState = br_state row,
     bCreatedAt = br_created_at row, bCommittedAt = br_committed_at row\<rparr>"

section \<open>The statements\<close>

definition sql_select_blob :: "string \<Rightarrow> int \<Rightarrow> blob_db \<Rightarrow> goerr + blob_row \<times> blob_db" where
  "sql_select_blob bid t d = (case find (\<lambda>r. br_id r = bid) d of
     None \<Rightarrow> Inl (Sentinel SqlErrNoRows) | Some r \<Rightarrow> Inr (r, d))"

definition blob_state_check :: "string \<Rightarrow> bool" where
  "blob_state_check s \<longleftrightarrow> s = ''PENDING'' \<or> s = ''COMMITTED''"

definition sql_insert_blob :: "blob_row \<Rightarrow> int \<Rightarrow> blob_db \<Rightarrow> goerr + unit \<times> blob_db" where
  "sql_insert_blob r t d =
     (if \<not> blob_state_check (br_state r) then Inl (PqError ''23514'')
      else if br_id r \<in> br_id ` set d then Inl (PqError ''23505'')
      else Inr ((), d @ [r]))"

definition mark_row :: "string \<Rightarrow> int \<Rightarrow> blob_row \<Rightarrow> blob_row" where
  "mark_row bid t r = (if br_id r = bid \<and> br_state r = ''PENDING''
     then r\<lparr>br_state := ''COMMITTED'', br_committed_at := Some t\<rparr> else r)"

definition sql_mark_committed :: "string \<Rightarrow> int \<Rightarrow> int \<Rightarrow> blob_db \<Rightarrow> goerr + nat \<times> blob_db" where
  "sql_mark_committed bid ts t d =
     Inr (length (filter (\<lambda>r. br_id r = bid \<and> br_state r = ''PENDING'') d), map (mark_row bid ts) d)"

section \<open>The repository\<close>

definition BlobRepo_FindByID :: "string \<Rightarrow> (blob_db, Blob) eio" where
  "BlobRepo_FindByID bid = do {
     r \<leftarrow> db_exec (sql_select_blob bid);
     case r of
       Inl err \<Rightarrow> if errors_Is err SqlErrNoRows then ret (Inl (Sentinel ErrBlobNotFound))
                  else ret (Inl (errorf ''blobs.FindByID: '' err))
     | Inr row \<Rightarrow> ret (Inr (rowToBlob row)) }"

definition BlobRepo_Create :: "Blob \<Rightarrow> (blob_db, unit) eio" where
  "BlobRepo_Create b = do {
     r \<leftarrow> db_exec (sql_insert_blob \<lparr>br_id = bID b, br_size_bytes = bSizeBytes b,
            br_content_type = bContentType b, br_r2_key = bR2Key b, br_state = bState b,
            br_created_at = bCreatedAt b, br_committed_at = None\<rparr>);
     case r of
       Inl err \<Rightarrow> if as_pq_error err = Some ''23505''
                  then ret (Inl (errorf ''blobs.Create: '' (Sentinel ErrAlreadyCommitted)))
                  else ret (Inl (errorf ''blobs.Create: '' err))
     | Inr _ \<Rightarrow> ret (Inr ()) }"

definition BlobRepo_MarkCommitted :: "string \<Rightarrow> int \<Rightarrow> (blob_db, unit) eio" where
  "BlobRepo_MarkCommitted bid ts = do {
     r \<leftarrow> db_exec (sql_mark_committed bid ts);
     case r of
       Inl err \<Rightarrow> ret (Inl (errorf ''blobs.MarkCommitted: '' err))
     | Inr n \<Rightarrow> if n = 0
                then ret (Inl (errorf ''blobs.MarkCommitted: '' (Sentinel ErrAlreadyCommitted)))
                else ret (Inr ()) }"

definition BlobRepo :: "blob_db go_world BlobRepository" where
  "BlobRepo = \<lparr>FindByID = BlobRepo_FindByID, Create = BlobRepo_Create,
     MarkCommitted = BlobRepo_MarkCommitted\<rparr>"

section \<open>The table as a map\<close>

definition blob_view :: "blob_db \<Rightarrow> string \<Rightarrow> Blob option" where
  "blob_view d bid = map_option rowToBlob (find (\<lambda>r. br_id r = bid) d)"

definition blob_invar :: "blob_db \<Rightarrow> bool" where
  "blob_invar d \<longleftrightarrow> distinct (map br_id d) \<and> list_all (\<lambda>r. blob_ok (rowToBlob r)) d"

lemma rowToBlob_sel [simp]:
  "bID (rowToBlob r) = br_id r" "bState (rowToBlob r) = br_state r"
  "bR2Key (rowToBlob r) = br_r2_key r" "bCommittedAt (rowToBlob r) = br_committed_at r"
  by (simp_all add: rowToBlob_def)

lemma find_map_same:
  assumes "\<And>r. P (f r) = P r"
  shows "find P (map f xs) = map_option f (find P xs)"
  using assms by (induction xs) auto

lemma find_None_iff_key: "find (\<lambda>r. k r = x) xs = None \<longleftrightarrow> x \<notin> k ` set xs"
  by (auto simp: find_None_iff)

lemma find_append: "find P (xs @ ys) = (case find P xs of None \<Rightarrow> find P ys | Some x \<Rightarrow> Some x)"
  by (induction xs) auto

lemma find_distinct_key:
  "distinct (map k xs) \<Longrightarrow> r \<in> set xs \<Longrightarrow> find (\<lambda>s. k s = k r) xs = Some r"
  by (induction xs) force+

lemma find_Some_key: "find (\<lambda>s. k s = x) xs = Some r \<Longrightarrow> r \<in> set xs \<and> k r = x"
  by (induction xs) (auto split: if_splits)

lemma mark_row_sel [simp]: "br_id (mark_row bid t r) = br_id r" "br_r2_key (mark_row bid t r) = br_r2_key r"
  by (simp_all add: mark_row_def)

lemma mark_row_ok: "blob_ok (rowToBlob r) \<Longrightarrow> blob_ok (rowToBlob (mark_row bid t r))"
  by (auto simp: mark_row_def blob_ok_def StatePending_def StateCommitted_def)

lemma mark_row_ids [simp]: "map br_id (map (mark_row bid t) d) = map br_id d"
  by simp

lemma sql_insert_invar:
  "blob_invar d \<Longrightarrow> blob_ok (rowToBlob r) \<Longrightarrow> sql_insert_blob r t d = Inr (u, d') \<Longrightarrow> blob_invar d'"
  by (auto simp: sql_insert_blob_def blob_invar_def split: if_splits)

lemma sql_mark_invar:
  "blob_invar d \<Longrightarrow> sql_mark_committed bid ts t d = Inr (n, d') \<Longrightarrow> blob_invar d'"
  by (auto simp: sql_mark_committed_def blob_invar_def list_all_iff mark_row_ok comp_def)

lemma blob_view_mark:
  "blob_view (map (mark_row bid t) d) x =
     (case blob_view d x of
        None \<Rightarrow> None
      | Some b \<Rightarrow> Some (if x = bid \<and> bState b = StatePending
                        then b\<lparr>bState := StateCommitted, bCommittedAt := Some t\<rparr> else b))"
proof -
  have "find (\<lambda>r. br_id r = x) (map (mark_row bid t) d)
        = map_option (mark_row bid t) (find (\<lambda>r. br_id r = x) d)"
    by (rule find_map_same) simp
  then show ?thesis
    by (auto simp: blob_view_def mark_row_def rowToBlob_def StatePending_def StateCommitted_def
        dest: find_Some_key split: option.splits)
qed

text \<open>The number of rows \<open>MarkCommitted\<close> changes is one exactly for a pending blob.\<close>

lemma mark_count:
  assumes "blob_invar d"
  shows "length (filter (\<lambda>r. br_id r = bid \<and> br_state r = ''PENDING'') d) \<noteq> 0 \<longleftrightarrow>
    (\<exists>b. blob_view d bid = Some b \<and> bState b = StatePending)"
proof
  assume "length (filter (\<lambda>r. br_id r = bid \<and> br_state r = ''PENDING'') d) \<noteq> 0"
  then obtain r where "r \<in> set d" "br_id r = bid" "br_state r = ''PENDING''"
    by (auto simp: filter_empty_conv)
  with assms show "\<exists>b. blob_view d bid = Some b \<and> bState b = StatePending"
    using find_distinct_key [of br_id d r]
    by (auto simp: blob_view_def blob_invar_def StatePending_def)
next
  assume "\<exists>b. blob_view d bid = Some b \<and> bState b = StatePending"
  then show "length (filter (\<lambda>r. br_id r = bid \<and> br_state r = ''PENDING'') d) \<noteq> 0"
    by (auto simp: blob_view_def StatePending_def filter_empty_conv dest!: find_Some_key)
qed

lemma mark_noop:
  "filter (\<lambda>r. br_id r = bid \<and> br_state r = ''PENDING'') d = [] \<Longrightarrow> map (mark_row bid t) d = d"
  by (auto simp: filter_empty_conv mark_row_def intro!: map_idI)

lemma blob_view_state:
  "blob_invar d \<Longrightarrow> blob_view d bid = Some b \<Longrightarrow> bState b = StatePending \<or> bState b = StateCommitted"
  by (auto simp: blob_view_def blob_invar_def list_all_iff blob_ok_def dest!: find_Some_key)

lemmas BlobRepo_defs = BlobRepo_def BlobRepo_FindByID_def BlobRepo_Create_def BlobRepo_MarkCommitted_def

section \<open>The repository meets its contract\<close>

interpretation pg_blobs: blob_repository BlobRepo blob_view blob_invar
proof (unfold_locales, goal_cases)
  case (1 d bid b)
  then show ?case
    by (auto simp: blob_invar_def blob_view_def list_all_iff dest!: find_Some_key)
next
  case (2 bid w b w')
  then show ?case
    by (auto simp: BlobRepo_defs sql_select_blob_def blob_view_def run_db_exec
        split: option.splits prod.splits sum.splits if_splits)
next
  case (3 bid w e w')
  then show ?case
    by (auto simp: BlobRepo_defs sql_select_blob_def blob_view_def run_db_exec
        split: option.splits prod.splits sum.splits if_splits)
next
  case (4 bid w r w')
  then show ?case
    by (auto simp: BlobRepo_defs sql_select_blob_def blob_view_def run_db_exec_quiet
        split: option.splits prod.splits sum.splits if_splits)
next
  case (5 b w u w')
  then have "br_id ` set (db w) = dom (blob_view (db w))"
    by (auto simp: blob_view_def dom_def find_None_iff_key [symmetric] image_iff)
      (metis find_None_iff_key image_eqI not_None_eq, metis find_Some_key)
  with 5 show ?case
    by (auto simp: BlobRepo_defs sql_insert_blob_def blob_view_def run_db_exec blob_invar_def
        find_append rowToBlob_def blob_ok_def fun_eq_iff
        split: option.splits prod.splits sum.splits if_splits)
next
  case (6 b w e w')
  then show ?case
    by (auto simp: BlobRepo_defs sql_insert_blob_def blob_view_def run_db_exec find_None_iff
        split: option.splits prod.splits sum.splits if_splits)
next
  case (7 b w r w')
  then show ?case
    by (auto simp: BlobRepo_defs sql_insert_blob_def blob_view_def run_db_exec_quiet find_None_iff
        blob_ok_def blob_state_check_def StatePending_def StateCommitted_def
        split: option.splits prod.splits sum.splits if_splits)
next
  case (8 bid t w u w')
  then show ?case
    using mark_count [OF 8(2), of bid] sql_mark_invar [OF 8(2), of bid t]
    by (auto simp: BlobRepo_defs sql_mark_committed_def run_db_exec blob_view_mark fun_eq_iff
        split: option.splits prod.splits sum.splits if_splits)
next
  case (9 bid t w e w')
  then show ?case
    using mark_count [OF 9(2), of bid] blob_view_state [OF 9(2), of bid] mark_noop [of bid "db w" t]
    by (auto simp: BlobRepo_defs sql_mark_committed_def run_db_exec
        split: option.splits prod.splits sum.splits if_splits)
next
  case (10 bid t w r w')
  then show ?case
    using mark_count [OF 10(2), of bid]
    by (auto simp: BlobRepo_defs sql_mark_committed_def run_db_exec_quiet
        split: option.splits prod.splits sum.splits if_splits)
qed

end
