(* ===== verification/BlobStorage.thy ===== *)
theory BlobStorage
  imports BlobDomain
begin

text \<open>
  \<open>blob-service/internal/storage/s3\<close>: the R2 client. The S3 SDK is not part of the
  repository: its calls are the fields of \<open>s3_api\<close>, each a function of the step at
  which it is made, so that nothing is assumed of their answers. An answer is a failure
  (a number naming it) or a value; \<open>UploadId\<close> is a pointer that \<open>aws.ToString\<close>
  reads as the empty string when nil.
\<close>

record s3_api =
  s3_PresignPutObject :: "nat \<Rightarrow> string \<Rightarrow> string \<Rightarrow> int \<Rightarrow> nat + string"
  s3_PresignGetObject :: "nat \<Rightarrow> string \<Rightarrow> string \<Rightarrow> int \<Rightarrow> nat + string"
  s3_PresignUploadPart :: "nat \<Rightarrow> string \<Rightarrow> string \<Rightarrow> string \<Rightarrow> int \<Rightarrow> int \<Rightarrow> nat + string"
  s3_CreateMultipartUpload :: "nat \<Rightarrow> string \<Rightarrow> string \<Rightarrow> string \<Rightarrow> nat + string option"
  s3_CompleteMultipartUpload :: "nat \<Rightarrow> string \<Rightarrow> string \<Rightarrow> string \<Rightarrow> (int \<times> string) list \<Rightarrow> nat + unit"
  s3_AbortMultipartUpload :: "nat \<Rightarrow> string \<Rightarrow> string \<Rightarrow> string \<Rightarrow> nat + unit"

record R2Client =
  r2_client :: s3_api
  r2_bucket :: string

record s3_Options =
  s3BaseEndpoint :: string
  s3Credentials :: "string \<times> string"
  s3Region :: string
  s3UsePathStyle :: bool

definition R2_New :: "(s3_Options \<Rightarrow> s3_api) \<Rightarrow> string \<Rightarrow> string \<Rightarrow> string \<Rightarrow> string \<Rightarrow> goerr + R2Client" where
  "R2_New s3_New endpoint bucket accessKeyID secretKey =
     (let client = s3_New \<lparr>s3BaseEndpoint = endpoint, s3Credentials = (accessKeyID, secretKey), s3Region = ''auto'',
            s3UsePathStyle = True\<rparr>
      in Inr \<lparr>r2_client = client, r2_bucket = bucket\<rparr>)"

definition aws_ToString :: "string option \<Rightarrow> string" where
  "aws_ToString p = (case p of None \<Rightarrow> [] | Some s \<Rightarrow> s)"

definition R2_PresignedPutURL :: "R2Client \<Rightarrow> string \<Rightarrow> int \<Rightarrow> ('db, string \<times> int) eio" where
  "R2_PresignedPutURL c key ttl = do {
     r \<leftarrow> oracle_call (\<lambda>k. s3_PresignPutObject (r2_client c) k (r2_bucket c) key ttl);
     case r of
       Inl err \<Rightarrow> ret (Inl (errorf ''r2: presign put: '' err))
     | Inr url \<Rightarrow> do { now \<leftarrow> time_Now; ret (Inr (url, now + ttl)) } }"

definition R2_PresignedGetURL :: "R2Client \<Rightarrow> string \<Rightarrow> int \<Rightarrow> ('db, string \<times> int) eio" where
  "R2_PresignedGetURL c key ttl = do {
     r \<leftarrow> oracle_call (\<lambda>k. s3_PresignGetObject (r2_client c) k (r2_bucket c) key ttl);
     case r of
       Inl err \<Rightarrow> ret (Inl (errorf ''r2: presign get: '' err))
     | Inr url \<Rightarrow> do { now \<leftarrow> time_Now; ret (Inr (url, now + ttl)) } }"

definition R2_CreateMultipartUpload :: "R2Client \<Rightarrow> string \<Rightarrow> string \<Rightarrow> ('db, string) eio" where
  "R2_CreateMultipartUpload c key contentType = do {
     r \<leftarrow> oracle_call (\<lambda>k. s3_CreateMultipartUpload (r2_client c) k (r2_bucket c) key contentType);
     case r of
       Inl err \<Rightarrow> ret (Inl (errorf ''r2: create multipart upload: '' err))
     | Inr uid \<Rightarrow> ret (Inr (aws_ToString uid)) }"

definition R2_PresignedPartURL ::
  "R2Client \<Rightarrow> string \<Rightarrow> string \<Rightarrow> int \<Rightarrow> int \<Rightarrow> ('db, string \<times> int) eio" where
  "R2_PresignedPartURL c key uploadID partNumber ttl = do {
     r \<leftarrow> oracle_call (\<lambda>k. s3_PresignUploadPart (r2_client c) k (r2_bucket c) key uploadID partNumber ttl);
     case r of
       Inl err \<Rightarrow> ret (Inl (errorf ''r2: presign part: '' err))
     | Inr url \<Rightarrow> do { now \<leftarrow> time_Now; ret (Inr (url, now + ttl)) } }"

definition R2_CompleteMultipartUpload ::
  "R2Client \<Rightarrow> string \<Rightarrow> string \<Rightarrow> CompletedPart list \<Rightarrow> ('db, unit) eio" where
  "R2_CompleteMultipartUpload c key uploadID parts = do {
     let completed = map (\<lambda>p. (cpPartNumber p, cpETag p)) parts;
     r \<leftarrow> oracle_call (\<lambda>k. s3_CompleteMultipartUpload (r2_client c) k (r2_bucket c) key uploadID completed);
     case r of
       Inl err \<Rightarrow> ret (Inl (errorf ''r2: complete multipart: '' err))
     | Inr _ \<Rightarrow> ret (Inr ()) }"

definition R2_AbortMultipartUpload :: "R2Client \<Rightarrow> string \<Rightarrow> string \<Rightarrow> ('db, unit) eio" where
  "R2_AbortMultipartUpload c key uploadID = do {
     r \<leftarrow> oracle_call (\<lambda>k. s3_AbortMultipartUpload (r2_client c) k (r2_bucket c) key uploadID);
     case r of
       Inl err \<Rightarrow> ret (Inl (errorf ''r2: abort multipart: '' err))
     | Inr _ \<Rightarrow> ret (Inr ()) }"

definition R2Storage :: "R2Client \<Rightarrow> 'db go_world ObjectStorage" where
  "R2Storage c = \<lparr>PresignedPutURL = R2_PresignedPutURL c, PresignedGetURL = R2_PresignedGetURL c,
     CreateMultipartUpload = R2_CreateMultipartUpload c,
     PresignedPartURL = R2_PresignedPartURL c,
     CompleteMultipartUpload = R2_CompleteMultipartUpload c,
     AbortMultipartUpload = R2_AbortMultipartUpload c\<rparr>"

lemmas R2_defs = R2Storage_def R2_PresignedPutURL_def R2_PresignedGetURL_def
  R2_CreateMultipartUpload_def R2_PresignedPartURL_def R2_CompleteMultipartUpload_def
  R2_AbortMultipartUpload_def

interpretation r2: object_storage "R2Storage c :: 'db go_world ObjectStorage" for c
  by unfold_locales
    (auto simp: R2_defs run_oracle_call Let_def split: sum.splits prod.splits)

end
