(* ===== verification/BlobApp.thy ===== *)
theory BlobApp
  imports BlobRepo BlobStorage
begin

text \<open>
  \<open>blob-service/internal/app/blob_app.go\<close>: the use cases, written against the two
  ports. Their correctness is proved once in the locale \<open>blob_app\<close>, from the contracts
  of the ports only; the PostgreSQL repository and the R2 client then give it for the
  service as it is wired in \<open>cmd/server/main.go\<close>.
\<close>

record Config =
  PresignPutTTL :: int
  PresignGetMaxTTL :: int
  MultipartThresholdBytes :: int

record 'db App =
  app_repo :: "'db go_world BlobRepository"
  app_storage :: "'db go_world ObjectStorage"
  app_cfg :: Config

record InitiateUploadResult =
  iuAlreadyExists :: bool
  iuPresignedPutURL :: string
  iuExpiresAt :: int

record CompleteUploadResult =
  cuBlobID :: string
  cuCommittedAt :: int

record PartUploadURL =
  puPartNumber :: int
  puPresignedPutURL :: string

record InitiateMultipartResult =
  imAlreadyExists :: bool
  imUploadID :: string
  imParts :: "PartUploadURL list"
  imExpiresAt :: int

record CompleteMultipartResult =
  cmBlobID :: string
  cmCommittedAt :: int

record GetDownloadURLResult =
  gdPresignedGetURL :: string
  gdExpiresAt :: int

section \<open>The use cases\<close>

definition App_InitiateUpload ::
  "'db App \<Rightarrow> string \<Rightarrow> int \<Rightarrow> string \<Rightarrow> ('db, InitiateUploadResult) eio" where
  "App_InitiateUpload a bid sizeBytes contentType =
     (let presign = do {
            p \<leftarrow> PresignedPutURL (app_storage a) bid (PresignPutTTL (app_cfg a));
            case p of
              Inl err \<Rightarrow> ret (Inl (errorf ''InitiateUpload: '' err))
            | Inr (url, expiresAt) \<Rightarrow> ret (Inr \<lparr>iuAlreadyExists = False,
                iuPresignedPutURL = url, iuExpiresAt = expiresAt\<rparr>) }
      in case BlobID_Validate bid of
        Inl err \<Rightarrow> ret (Inl err)
      | Inr _ \<Rightarrow> do {
          f \<leftarrow> FindByID (app_repo a) bid;
          case f of
            Inl err \<Rightarrow>
              if \<not> errors_Is err ErrBlobNotFound then ret (Inl (errorf ''InitiateUpload: '' err))
              else do {
                now \<leftarrow> time_Now;
                case NewBlob bid sizeBytes contentType now of
                  Inl err' \<Rightarrow> ret (Inl (errorf ''InitiateUpload: '' err'))
                | Inr blob \<Rightarrow> do {
                    c \<leftarrow> Create (app_repo a) blob;
                    case c of
                      Inl err' \<Rightarrow> ret (Inl (errorf ''InitiateUpload: '' err'))
                    | Inr _ \<Rightarrow> presign } }
          | Inr existing \<Rightarrow>
              if bState existing = StateCommitted
              then ret (Inr \<lparr>iuAlreadyExists = True, iuPresignedPutURL = [], iuExpiresAt = zeroTime\<rparr>)
              else presign })"

definition App_CompleteUpload :: "'db App \<Rightarrow> string \<Rightarrow> ('db, CompleteUploadResult) eio" where
  "App_CompleteUpload a bid =
     (case BlobID_Validate bid of
        Inl err \<Rightarrow> ret (Inl err)
      | Inr _ \<Rightarrow> do {
          f \<leftarrow> FindByID (app_repo a) bid;
          case f of
            Inl err \<Rightarrow> ret (Inl (errorf ''CompleteUpload: '' err))
          | Inr blob \<Rightarrow>
              if bState blob = StateCommitted
              then ret (Inl (errorf ''CompleteUpload: '' (Sentinel ErrAlreadyCommitted)))
              else do {
                now \<leftarrow> time_Now;
                m \<leftarrow> MarkCommitted (app_repo a) bid now;
                case m of
                  Inl err \<Rightarrow> ret (Inl (errorf ''CompleteUpload: '' err))
                | Inr _ \<Rightarrow> ret (Inr \<lparr>cuBlobID = bid, cuCommittedAt = now\<rparr>) } })"

text \<open>
  The loop over the parts, \<open>for i := int32(0); i < partCount; i++\<close>: the first argument
  counts the rounds left, \<open>i\<close> is the 32-bit index.
\<close>

fun App_presignParts ::
  "'db App \<Rightarrow> string \<Rightarrow> string \<Rightarrow> nat \<Rightarrow> int \<Rightarrow> PartUploadURL list \<Rightarrow> int
   \<Rightarrow> ('db, PartUploadURL list \<times> int) eio" where
  "App_presignParts a bid uploadID 0 i parts expiresAt = ret (Inr (parts, expiresAt))"
| "App_presignParts a bid uploadID (Suc n) i parts expiresAt = do {
     let partNum = wrap32 (i + 1);
     p \<leftarrow> PresignedPartURL (app_storage a) bid uploadID partNum (PresignPutTTL (app_cfg a));
     case p of
       Inl err \<Rightarrow> ret (Inl (errorf
         (''InitiateMultipartUpload part '' @ strconv_Itoa partNum @ '': '') err))
     | Inr (url, e) \<Rightarrow> App_presignParts a bid uploadID n (wrap32 (i + 1))
         (parts @ [\<lparr>puPartNumber = partNum, puPresignedPutURL = url\<rparr>]) e }"

text \<open>The last part of \<open>InitiateMultipartUpload\<close>, after the blob is known to be pending.\<close>

definition App_startMultipart ::
  "'db App \<Rightarrow> string \<Rightarrow> string \<Rightarrow> int \<Rightarrow> ('db, InitiateMultipartResult) eio" where
  "App_startMultipart a bid contentType partCount = do {
     u \<leftarrow> CreateMultipartUpload (app_storage a) bid contentType;
     case u of
       Inl err \<Rightarrow> ret (Inl (errorf ''InitiateMultipartUpload: '' err))
     | Inr uploadID \<Rightarrow> do {
         p \<leftarrow> App_presignParts a bid uploadID (nat partCount) 0 [] zeroTime;
         case p of
           Inl err \<Rightarrow> ret (Inl err)
         | Inr (parts, expiresAt) \<Rightarrow> ret (Inr \<lparr>imAlreadyExists = False,
             imUploadID = uploadID, imParts = parts, imExpiresAt = expiresAt\<rparr>) } }"

definition App_InitiateMultipartUpload ::
  "'db App \<Rightarrow> string \<Rightarrow> int \<Rightarrow> string \<Rightarrow> int \<Rightarrow> ('db, InitiateMultipartResult) eio" where
  "App_InitiateMultipartUpload a bid sizeBytes contentType partCount =
     (let start = App_startMultipart a bid contentType partCount
      in case BlobID_Validate bid of
        Inl err \<Rightarrow> ret (Inl err)
      | Inr _ \<Rightarrow>
          if partCount < 1 then ret (Inl (ErrorString ''part_count must be at least 1''))
          else do {
            f \<leftarrow> FindByID (app_repo a) bid;
            case f of
              Inl err \<Rightarrow>
                if \<not> errors_Is err ErrBlobNotFound
                then ret (Inl (errorf ''InitiateMultipartUpload: '' err))
                else do {
                  now \<leftarrow> time_Now;
                  case NewBlob bid sizeBytes contentType now of
                    Inl err' \<Rightarrow> ret (Inl (errorf ''InitiateMultipartUpload: '' err'))
                  | Inr blob \<Rightarrow> do {
                      c \<leftarrow> Create (app_repo a) blob;
                      case c of
                        Inl err' \<Rightarrow> ret (Inl (errorf ''InitiateMultipartUpload: '' err'))
                      | Inr _ \<Rightarrow> start } }
            | Inr existing \<Rightarrow>
                if bState existing = StateCommitted
                then ret (Inr \<lparr>imAlreadyExists = True, imUploadID = [], imParts = [], imExpiresAt = zeroTime\<rparr>)
                else start })"

definition App_CompleteMultipartUpload ::
  "'db App \<Rightarrow> string \<Rightarrow> string \<Rightarrow> CompletedPart list \<Rightarrow> ('db, CompleteMultipartResult) eio" where
  "App_CompleteMultipartUpload a bid uploadID parts =
     (case BlobID_Validate bid of
        Inl err \<Rightarrow> ret (Inl err)
      | Inr _ \<Rightarrow> do {
          f \<leftarrow> FindByID (app_repo a) bid;
          case f of
            Inl err \<Rightarrow> ret (Inl (errorf ''CompleteMultipartUpload: '' err))
          | Inr blob \<Rightarrow>
              if bState blob = StateCommitted
              then ret (Inl (errorf ''CompleteMultipartUpload: '' (Sentinel ErrAlreadyCommitted)))
              else do {
                s \<leftarrow> CompleteMultipartUpload (app_storage a) bid uploadID parts;
                case s of
                  Inl err \<Rightarrow> ret (Inl (errorf ''CompleteMultipartUpload: '' err))
                | Inr _ \<Rightarrow> do {
                    now \<leftarrow> time_Now;
                    m \<leftarrow> MarkCommitted (app_repo a) bid now;
                    case m of
                      Inl err \<Rightarrow> ret (Inl (errorf ''CompleteMultipartUpload: '' err))
                    | Inr _ \<Rightarrow> ret (Inr \<lparr>cmBlobID = bid, cmCommittedAt = now\<rparr>) } } })"

definition App_AbortMultipartUpload :: "'db App \<Rightarrow> string \<Rightarrow> string \<Rightarrow> ('db, unit) eio" where
  "App_AbortMultipartUpload a bid uploadID =
     (case BlobID_Validate bid of
        Inl err \<Rightarrow> ret (Inl err)
      | Inr _ \<Rightarrow> do {
          s \<leftarrow> AbortMultipartUpload (app_storage a) bid uploadID;
          case s of
            Inl err \<Rightarrow> ret (Inl (errorf ''AbortMultipartUpload: '' err))
          | Inr _ \<Rightarrow> ret (Inr ()) })"

definition App_GetDownloadURL :: "'db App \<Rightarrow> string \<Rightarrow> int \<Rightarrow> ('db, GetDownloadURLResult) eio" where
  "App_GetDownloadURL a bid ttl =
     (case BlobID_Validate bid of
        Inl err \<Rightarrow> ret (Inl err)
      | Inr _ \<Rightarrow> do {
          let maxTTL = PresignGetMaxTTL (app_cfg a);
          let ttl' = (if ttl \<le> 0 \<or> ttl > maxTTL then maxTTL else ttl);
          f \<leftarrow> FindByID (app_repo a) bid;
          case f of
            Inl err \<Rightarrow> ret (Inl (errorf ''GetDownloadURL: '' err))
          | Inr blob \<Rightarrow>
              if bState blob = StatePending
              then ret (Inl (errorf ''GetDownloadURL: '' (Sentinel ErrBlobPending)))
              else do {
                u \<leftarrow> PresignedGetURL (app_storage a) bid ttl';
                case u of
                  Inl err \<Rightarrow> ret (Inl (errorf ''GetDownloadURL: '' err))
                | Inr (url, expiresAt) \<Rightarrow>
                    ret (Inr \<lparr>gdPresignedGetURL = url, gdExpiresAt = expiresAt\<rparr>) } })"

definition App_GetBlobInfo :: "'db App \<Rightarrow> string \<Rightarrow> ('db, Blob) eio" where
  "App_GetBlobInfo a bid =
     (case BlobID_Validate bid of
        Inl err \<Rightarrow> ret (Inl err)
      | Inr _ \<Rightarrow> do {
          f \<leftarrow> FindByID (app_repo a) bid;
          case f of
            Inl err \<Rightarrow> ret (Inl (errorf ''GetBlobInfo: '' err))
          | Inr blob \<Rightarrow> ret (Inr blob) })"

lemmas App_defs = App_InitiateUpload_def App_CompleteUpload_def App_InitiateMultipartUpload_def App_startMultipart_def
  App_CompleteMultipartUpload_def App_AbortMultipartUpload_def App_GetDownloadURL_def App_GetBlobInfo_def

end
