(* ===== verification/BlobSpec.thy ===== *)
theory BlobSpec
  imports BlobApp
begin

text \<open>
  What the blob application promises: the life cycle of \<open>server/.llm/context/architecture.md\<close>
  section 4.2 as an abstract step relation on maps from identifiers to blobs, and the proof
  that every use case refines it, whatever repository and storage meet their contracts.
\<close>

section \<open>The abstract life cycle\<close>

inductive life_step :: "(string \<Rightarrow> Blob option) \<Rightarrow> (string \<Rightarrow> Blob option) \<Rightarrow> bool" where
  stay: "life_step m m"
| register: "m bid = None \<Longrightarrow> blob_ok b \<Longrightarrow> bID b = bid \<Longrightarrow> bState b = StatePending \<Longrightarrow>
    life_step m (m(bid \<mapsto> b))"
| commit: "m bid = Some b \<Longrightarrow> bState b = StatePending \<Longrightarrow>
    life_step m (m(bid \<mapsto> b\<lparr>bState := StateCommitted, bCommittedAt := Some t\<rparr>))"

lemma life_step_committed:
  "life_step m m' \<Longrightarrow> m bid = Some b \<Longrightarrow> bState b = StateCommitted \<Longrightarrow> m' bid = Some b"
  by (auto elim!: life_step.cases)

lemma life_step_content:
  "life_step m m' \<Longrightarrow> m bid = Some b \<Longrightarrow>
   \<exists>b'. m' bid = Some b' \<and> bID b' = bID b \<and> bSizeBytes b' = bSizeBytes b
     \<and> bContentType b' = bContentType b \<and> bR2Key b' = bR2Key b \<and> bCreatedAt b' = bCreatedAt b"
  by (auto elim!: life_step.cases)

lemma life_steps_committed:
  "life_step\<^sup>*\<^sup>* m m' \<Longrightarrow> m bid = Some b \<Longrightarrow> bState b = StateCommitted \<Longrightarrow> m' bid = Some b"
  by (induction rule: rtranclp_induct) (auto dest: life_step_committed)

section \<open>The use cases over any repository and storage\<close>

locale blob_app =
  blob_repository "app_repo a" view invar + object_storage "app_storage a"
  for a :: "'db App" and view :: "'db \<Rightarrow> string \<Rightarrow> Blob option" and invar :: "'db \<Rightarrow> bool"
begin

lemma presign_parts_db:
  "run_state (App_presignParts a bid uid n i parts e) w = (r, w') \<Longrightarrow> db w' = db w"
proof (induction n arbitrary: i parts e w)
  case (Suc n)
  then show ?case
    by (fastforce simp: Let_def split: prod.splits sum.splits dest: part_db)
qed simp

lemma presign_parts_result:
  assumes "run_state (App_presignParts a bid uid n i parts e) w = (Inr (ps, e'), w')"
    and "0 \<le> i" "i + int n < 2 ^ 31"
  shows "map puPartNumber ps = map puPartNumber parts @ map (\<lambda>k. i + 1 + int k) [0..<n]"
  using assms
proof (induction n arbitrary: i parts e w)
  case (Suc n)
  have i: "wrap32 (i + 1) = i + 1" using Suc.prems by (intro wrap32_id) auto
  have upt: "map (\<lambda>k. i + 1 + int k) [0..<Suc n] = (i + 1) # map (\<lambda>k. i + 1 + 1 + int k) [0..<n]"
    by (simp add: upt_conv_Cons map_Suc_upt [symmetric] del: upt_Suc)
  show ?case
    using Suc.prems Suc.IH [where i = "i + 1"]
    by (auto simp: Let_def i upt simp del: upt_Suc split: prod.splits sum.splits)
qed simp

lemma find_elim:
  assumes "run_state (FindByID (app_repo a) bid) w = (rb, w')" "invar (db w)"
  obtains (found) b where "rb = Inr b" "view (db w) bid = Some b" "db w' = db w"
  | (absent) e where "rb = Inl e" "errors_Is e ErrBlobNotFound" "view (db w) bid = None" "db w' = db w"
  | (failed) e where "rb = Inl e" "\<not> errors_Is e ErrBlobNotFound" "db w' = db w"
  using assms find_done [of bid w _ w'] find_error [of bid w _ w'] by (cases rb) auto

lemma create_elim:
  assumes "run_state (Create (app_repo a) b) w = (r, w')" "invar (db w)" "NewBlob bid n ct now = Inr b"
  obtains (created) "r = Inr ()" "invar (db w')" "view (db w) bid = None" "bState b = StatePending"
      "view (db w') = (view (db w))(bid \<mapsto> b)" "life_step (view (db w)) (view (db w'))"
  | (failed) e where "r = Inl e" "db w' = db w" "errors_Is e ErrAlreadyCommitted \<longrightarrow> view (db w) bid \<noteq> None"
proof (cases r)
  case (Inl e)
  then show ?thesis using assms create_error [of b w e w'] NewBlob_ok [OF assms(3)] failed by auto
next
  case (Inr u)
  have b: "blob_ok b" "bID b = bid" "bState b = StatePending" using NewBlob_ok [OF assms(3)] by auto
  with Inr assms(1,2) have "view (db w) bid = None \<and> view (db w') = (view (db w))(bid \<mapsto> b) \<and> invar (db w')"
    using create_done [of b w u w'] by auto
  with Inr b show ?thesis using created by (auto intro: life_step.register)
qed

lemma mark_elim:
  assumes "run_state (MarkCommitted (app_repo a) bid t) w = (r, w')" "invar (db w)"
  obtains (marked) b where "r = Inr ()" "invar (db w')" "view (db w) bid = Some b" "bState b = StatePending"
      "view (db w') = (view (db w))(bid \<mapsto> b\<lparr>bState := StateCommitted, bCommittedAt := Some t\<rparr>)"
      "life_step (view (db w)) (view (db w'))"
  | (failed) e where "r = Inl e" "db w' = db w"
proof (cases r)
  case (Inl e)
  then show ?thesis using assms mark_error [of bid t w e w'] failed by auto
next
  case (Inr u)
  then show ?thesis using assms mark_done [of bid t w u w'] marked by (auto intro: life_step.commit)
qed

lemmas run_elims = find_elim create_elim mark_elim
lemma put_done:
  "run_state (PresignedPutURL (app_storage a) key ttl) w = (Inr (url, exp), w') \<Longrightarrow>
   db w' = db w \<and> exp \<le> clock w' + ttl"
  using put_db put_expiry by blast

lemma get_done:
  "run_state (PresignedGetURL (app_storage a) key ttl) w = (Inr (url, exp), w') \<Longrightarrow>
   db w' = db w \<and> exp \<le> clock w' + ttl"
  using get_db get_expiry by blast

lemmas store_db = put_db get_db multi_db part_db complete_db abort_db presign_parts_db

lemma start_multipart_db:
  "run_state (App_startMultipart a bid ct k) w = (r, w') \<Longrightarrow> db w' = db w"
  by (auto simp: App_startMultipart_def split: sum.splits prod.splits dest!: multi_db presign_parts_db)

text \<open>Every use case is a step of the life cycle and keeps the repository's invariant.\<close>

lemma initiate_refines:
  assumes "run_state (App_InitiateUpload a bid n ct) w = (r, w')" "invar (db w)"
  shows "invar (db w') \<and> life_step (view (db w)) (view (db w'))"
  using assms
  by (auto simp: App_InitiateUpload_def Let_def life_step.stay
      split: sum.splits prod.splits if_splits elim!: run_elims dest!: store_db)

lemma complete_refines:
  assumes "run_state (App_CompleteUpload a bid) w = (r, w')" "invar (db w)"
  shows "invar (db w') \<and> life_step (view (db w)) (view (db w'))"
  using assms
  by (auto simp: App_CompleteUpload_def Let_def life_step.stay
      split: sum.splits prod.splits if_splits elim!: run_elims dest!: store_db)

lemma multipart_refines:
  assumes "run_state (App_InitiateMultipartUpload a bid n ct k) w = (r, w')" "invar (db w)"
  shows "invar (db w') \<and> life_step (view (db w)) (view (db w'))"
  using assms
  by (auto simp: App_InitiateMultipartUpload_def Let_def life_step.stay
      split: sum.splits prod.splits if_splits elim!: run_elims dest!: start_multipart_db)

lemma complete_multipart_refines:
  assumes "run_state (App_CompleteMultipartUpload a bid uid ps) w = (r, w')" "invar (db w)"
  shows "invar (db w') \<and> life_step (view (db w)) (view (db w'))"
  using assms
  by (auto simp: App_CompleteMultipartUpload_def Let_def life_step.stay
      split: sum.splits prod.splits if_splits elim!: run_elims dest!: store_db)

lemma getURL_unchanged: "run_state (App_GetDownloadURL a bid ttl) w = (r, w') \<Longrightarrow> invar (db w) \<Longrightarrow> db w' = db w"
  by (auto simp: App_GetDownloadURL_def Let_def split: sum.splits prod.splits if_splits
      elim!: find_elim dest!: store_db)

lemma info_unchanged: "run_state (App_GetBlobInfo a bid) w = (r, w') \<Longrightarrow> invar (db w) \<Longrightarrow> db w' = db w"
  by (auto simp: App_GetBlobInfo_def split: sum.splits prod.splits elim!: find_elim)

lemma abort_unchanged: "run_state (App_AbortMultipartUpload a bid uid) w = (r, w') \<Longrightarrow> db w' = db w"
  by (auto simp: App_AbortMultipartUpload_def split: sum.splits prod.splits dest!: store_db)

text \<open>What a successful answer says of the blob.\<close>

lemma initiate_done:
  assumes "run_state (App_InitiateUpload a bid n ct) w = (Inr res, w')" "invar (db w)"
  shows "if iuAlreadyExists res
    then db w' = db w \<and> (\<exists>b. view (db w) bid = Some b \<and> bState b = StateCommitted)
    else iuExpiresAt res \<le> clock w' + PresignPutTTL (app_cfg a)
      \<and> (\<exists>b. view (db w') bid = Some b \<and> bState b \<noteq> StateCommitted)"
  using assms
  by (auto simp: App_InitiateUpload_def Let_def
      split: sum.splits prod.splits if_splits elim!: run_elims dest!: put_done)

lemma complete_done:
  assumes "run_state (App_CompleteUpload a bid) w = (Inr res, w')" "invar (db w)"
  shows "cuBlobID res = bid \<and> (\<exists>b. view (db w) bid = Some b \<and> bState b = StatePending \<and>
     view (db w') = (view (db w))(bid \<mapsto> b\<lparr>bState := StateCommitted, bCommittedAt := Some (cuCommittedAt res)\<rparr>))"
  using assms
  by (auto simp: App_CompleteUpload_def Let_def
      split: sum.splits prod.splits if_splits elim!: run_elims)

lemma complete_error:
  assumes "run_state (App_CompleteUpload a bid) w = (Inl e, w')" "invar (db w)"
  shows "db w' = db w"
  using assms
  by (auto simp: App_CompleteUpload_def Let_def
      split: sum.splits prod.splits if_splits elim!: run_elims)

lemma start_multipart_done:
  assumes "run_state (App_startMultipart a bid ct k) w = (Inr res, w')" "k < 2 ^ 31"
  shows "\<not> imAlreadyExists res \<and> map puPartNumber (imParts res) = [1..k] \<and> db w' = db w"
proof -
  have upto: "map (\<lambda>j. 0 + 1 + int j) [0..<nat k] = [1..k]"
    by (rule nth_equalityI) (auto simp: nth_upto)
  obtain uid ps e w1 where "run_state (CreateMultipartUpload (app_storage a) bid ct) w = (Inr uid, w1)"
    and run: "run_state (App_presignParts a bid uid (nat k) 0 [] zeroTime) w1 = (Inr (ps, e), w')"
    and res: "res = \<lparr>imAlreadyExists = False, imUploadID = uid, imParts = ps, imExpiresAt = e\<rparr>"
    using assms(1) by (auto simp: App_startMultipart_def split: sum.splits prod.splits)
  moreover have "map puPartNumber ps = [1..k]"
    using presign_parts_result [OF run] assms(2) unfolding upto by simp
  ultimately show ?thesis using presign_parts_db multi_db by fastforce
qed

lemma multipart_done:
  assumes "run_state (App_InitiateMultipartUpload a bid n ct k) w = (Inr res, w')" "invar (db w)" "k < 2 ^ 31"
  shows "if imAlreadyExists res
    then imParts res = [] \<and> (\<exists>b. view (db w) bid = Some b \<and> bState b = StateCommitted)
    else 1 \<le> k \<and> map puPartNumber (imParts res) = [1..k]
      \<and> (\<exists>b. view (db w') bid = Some b \<and> bState b \<noteq> StateCommitted)"
  using assms start_multipart_done [OF _ assms(3)]
  by (auto simp: App_InitiateMultipartUpload_def Let_def
      split: sum.splits prod.splits if_splits elim!: run_elims)

lemma complete_multipart_done:
  assumes "run_state (App_CompleteMultipartUpload a bid uid ps) w = (Inr res, w')" "invar (db w)"
  shows "cmBlobID res = bid \<and> (\<exists>b. view (db w) bid = Some b \<and> bState b = StatePending \<and>
     view (db w') = (view (db w))(bid \<mapsto> b\<lparr>bState := StateCommitted, bCommittedAt := Some (cmCommittedAt res)\<rparr>))"
  using assms
  by (auto simp: App_CompleteMultipartUpload_def Let_def
      split: sum.splits prod.splits if_splits elim!: run_elims dest: complete_db)

lemma download_done:
  assumes "run_state (App_GetDownloadURL a bid ttl) w = (Inr res, w')" "invar (db w)"
  shows "(\<exists>b. view (db w) bid = Some b \<and> bState b = StateCommitted) \<and> db w' = db w \<and>
    gdExpiresAt res \<le> clock w' +
      (if 0 < ttl \<and> ttl \<le> PresignGetMaxTTL (app_cfg a) then ttl else PresignGetMaxTTL (app_cfg a))"
  using assms view_ok [OF assms(2), of bid]
  by (auto simp: App_GetDownloadURL_def Let_def blob_ok_def
      split: sum.splits prod.splits if_splits elim!: run_elims dest!: get_done)

text \<open>Without failures of the database the upload protocol runs through.\<close>

lemma initiate_live:
  assumes "hexRE_MatchString bid" "invar (db w)" "quiet w"
    and "\<And>w1. \<exists>url exp. fst (run_state (PresignedPutURL (app_storage a) bid (PresignPutTTL (app_cfg a))) w1) = Inr (url, exp)"
  shows "\<exists>res. fst (run_state (App_InitiateUpload a bid n ct) w) = Inr res"
proof -
  obtain rb w1 where f: "run_state (FindByID (app_repo a) bid) w = (rb, w1)" by (cases "run_state (FindByID (app_repo a) bid) w")
  from find_live [OF f assms(2,3)] find_done [of bid w _ w1] find_error [of bid w _ w1] f assms(2)
  have q: "quiet w1" and d: "db w1 = db w" by (cases rb; auto)+
  have nb: "NewBlob bid n ct t = Inr \<lparr>bID = bid, bSizeBytes = n, bContentType = ct,
      bR2Key = bid, bState = StatePending, bCreatedAt = t, bCommittedAt = None\<rparr>" for t
    using assms(1) by (simp add: NewBlob_def BlobID_Validate_def)
  have put: "\<exists>url exp w3. run_state (PresignedPutURL (app_storage a) bid (PresignPutTTL (app_cfg a))) w2 = (Inr (url, exp), w3)" for w2
    using assms(4) [of w2] by (metis prod.collapse)
  show ?thesis
  proof (cases "view (db w) bid")
    case (Some b)
    with find_live [OF f assms(2,3)] f put [of w1] assms(1) show ?thesis
      by (auto simp: App_InitiateUpload_def Let_def BlobID_Validate_def)
  next
    case None
    let ?b = "\<lparr>bID = bid, bSizeBytes = n, bContentType = ct,
      bR2Key = bid, bState = StatePending, bCreatedAt = clock w1, bCommittedAt = None\<rparr>"
    obtain r w2 where c: "run_state (Create (app_repo a) ?b) (pass w1) = (r, w2)"
      by (cases "run_state (Create (app_repo a) ?b) (pass w1)")
    have "r = Inr ()"
      using create_live [OF c] NewBlob_ok [OF nb, of "clock w1"] None d q assms(2) by auto
    with find_live [OF f assms(2,3)] f put [of w2] assms(1) c None show ?thesis
      by (auto simp: App_InitiateUpload_def Let_def BlobID_Validate_def NewBlob_def)
  qed
qed

lemma complete_live:
  assumes "hexRE_MatchString bid" "invar (db w)" "quiet w" "view (db w) bid = Some b" "bState b = StatePending"
  shows "\<exists>res. fst (run_state (App_CompleteUpload a bid) w) = Inr res"
proof -
  obtain rb w1 where f: "run_state (FindByID (app_repo a) bid) w = (rb, w1)"
    by (cases "run_state (FindByID (app_repo a) bid) w")
  have rb: "rb = Inr b" and q: "quiet w1" and d: "db w1 = db w"
    using find_live [OF f assms(2,3)] find_done [of bid w b w1] f assms(2,4) by auto
  obtain r w2 where m: "run_state (MarkCommitted (app_repo a) bid (clock w1)) (pass w1) = (r, w2)"
    by (cases "run_state (MarkCommitted (app_repo a) bid (clock w1)) (pass w1)")
  have "r = Inr ()" using mark_live [OF m] assms d q by auto
  with f m rb assms show ?thesis
    by (auto simp: App_CompleteUpload_def BlobID_Validate_def)
qed

end

end
