(* ===== verification/BlobServer.thy ===== *)
theory BlobServer
  imports BlobSpec
begin

text \<open>
  \<open>blob-service/internal/transport/grpc\<close>: the RPC handlers with their error mapping
  (\<open>server.go\<close>) and the bearer-token interceptor (\<open>interceptor/auth.go\<close>), and
  \<open>cmd/server/main.go\<close>'s wiring of the service. The generated dispatch code chooses the
  handler by the method name; \<open>blob_request\<close> stands for that choice.
\<close>

section \<open>Errors and messages\<close>

definition mapError :: "goerr \<Rightarrow> goerr" where
  "mapError err =
     (if errors_Is err ErrInvalidBlobID then StatusErr InvalidArgument (error_text err)
      else if errors_Is err ErrBlobNotFound then StatusErr NotFound (error_text err)
      else if errors_Is err ErrAlreadyCommitted then StatusErr FailedPrecondition (error_text err)
      else if errors_Is err ErrBlobPending then StatusErr FailedPrecondition (error_text err)
      else StatusErr Internal ''internal error'')"

datatype pb_UploadState = UPLOAD_STATE_UNSPECIFIED | PB_PENDING | PB_COMMITTED

definition stateToProto :: "UploadState \<Rightarrow> pb_UploadState" where
  "stateToProto s = (if s = StatePending then PB_PENDING
     else if s = StateCommitted then PB_COMMITTED else UPLOAD_STATE_UNSPECIFIED)"

datatype blob_request =
    InitiateUploadRequest string int string
  | CompleteUploadRequest string
  | InitiateMultipartUploadRequest string int string int
  | CompleteMultipartUploadRequest string string "(int \<times> string) list"
  | AbortMultipartUploadRequest string string
  | GetDownloadURLRequest string int
  | GetBlobInfoRequest string

datatype blob_response =
    InitiateUploadResponse bool string "(int \<times> int) option"
  | CompleteUploadResponse string "int \<times> int"
  | InitiateMultipartUploadResponse bool string "(int \<times> string) list" "(int \<times> int) option"
  | CompleteMultipartUploadResponse string "int \<times> int"
  | AbortMultipartUploadResponse
  | GetDownloadURLResponse string "int \<times> int"
  | GetBlobInfoResponse string int string pb_UploadState "(int \<times> int) option"

section \<open>The handlers\<close>

definition Server_InitiateUpload :: "'db App \<Rightarrow> string \<Rightarrow> int \<Rightarrow> string \<Rightarrow> ('db, blob_response) eio" where
  "Server_InitiateUpload a bid sizeBytes contentType = do {
     r \<leftarrow> App_InitiateUpload a bid sizeBytes contentType;
     case r of
       Inl err \<Rightarrow> ret (Inl (mapError err))
     | Inr result \<Rightarrow>
         if \<not> iuAlreadyExists result
         then ret (Inr (InitiateUploadResponse False (iuPresignedPutURL result)
                (Some (timestamppb_New (iuExpiresAt result)))))
         else ret (Inr (InitiateUploadResponse True [] None)) }"

definition Server_CompleteUpload :: "'db App \<Rightarrow> string \<Rightarrow> ('db, blob_response) eio" where
  "Server_CompleteUpload a bid = do {
     r \<leftarrow> App_CompleteUpload a bid;
     case r of
       Inl err \<Rightarrow> ret (Inl (mapError err))
     | Inr result \<Rightarrow> ret (Inr (CompleteUploadResponse (cuBlobID result)
         (timestamppb_New (cuCommittedAt result)))) }"

definition Server_InitiateMultipartUpload ::
  "'db App \<Rightarrow> string \<Rightarrow> int \<Rightarrow> string \<Rightarrow> int \<Rightarrow> ('db, blob_response) eio" where
  "Server_InitiateMultipartUpload a bid sizeBytes contentType partCount = do {
     r \<leftarrow> App_InitiateMultipartUpload a bid sizeBytes contentType partCount;
     case r of
       Inl err \<Rightarrow> ret (Inl (mapError err))
     | Inr result \<Rightarrow>
         if imAlreadyExists result then ret (Inr (InitiateMultipartUploadResponse True [] [] None))
         else ret (Inr (InitiateMultipartUploadResponse False (imUploadID result)
                (map (\<lambda>p. (puPartNumber p, puPresignedPutURL p)) (imParts result))
                (Some (timestamppb_New (imExpiresAt result))))) }"

definition Server_CompleteMultipartUpload ::
  "'db App \<Rightarrow> string \<Rightarrow> string \<Rightarrow> (int \<times> string) list \<Rightarrow> ('db, blob_response) eio" where
  "Server_CompleteMultipartUpload a bid uploadID reqParts = do {
     let parts = map (\<lambda>(n, etag). \<lparr>cpPartNumber = n, cpETag = etag\<rparr>) reqParts;
     r \<leftarrow> App_CompleteMultipartUpload a bid uploadID parts;
     case r of
       Inl err \<Rightarrow> ret (Inl (mapError err))
     | Inr result \<Rightarrow> ret (Inr (CompleteMultipartUploadResponse (cmBlobID result)
         (timestamppb_New (cmCommittedAt result)))) }"

definition Server_AbortMultipartUpload :: "'db App \<Rightarrow> string \<Rightarrow> string \<Rightarrow> ('db, blob_response) eio" where
  "Server_AbortMultipartUpload a bid uploadID = do {
     r \<leftarrow> App_AbortMultipartUpload a bid uploadID;
     case r of
       Inl err \<Rightarrow> ret (Inl (mapError err))
     | Inr _ \<Rightarrow> ret (Inr AbortMultipartUploadResponse) }"

definition Server_GetDownloadURL :: "'db App \<Rightarrow> string \<Rightarrow> int \<Rightarrow> ('db, blob_response) eio" where
  "Server_GetDownloadURL a bid ttlSeconds = do {
     let ttl = wrap64 (ttlSeconds * Second);
     r \<leftarrow> App_GetDownloadURL a bid ttl;
     case r of
       Inl err \<Rightarrow> ret (Inl (mapError err))
     | Inr result \<Rightarrow> ret (Inr (GetDownloadURLResponse (gdPresignedGetURL result)
         (timestamppb_New (gdExpiresAt result)))) }"

definition Server_GetBlobInfo :: "'db App \<Rightarrow> string \<Rightarrow> ('db, blob_response) eio" where
  "Server_GetBlobInfo a bid = do {
     r \<leftarrow> App_GetBlobInfo a bid;
     case r of
       Inl err \<Rightarrow> ret (Inl (mapError err))
     | Inr blob \<Rightarrow> ret (Inr (GetBlobInfoResponse (bID blob) (bSizeBytes blob) (bContentType blob)
         (stateToProto (bState blob)) (map_option timestamppb_New (bCommittedAt blob)))) }"

fun blob_dispatch :: "'db App \<Rightarrow> blob_request \<Rightarrow> ('db, blob_response) eio" where
  "blob_dispatch a (InitiateUploadRequest bid n ct) = Server_InitiateUpload a bid n ct"
| "blob_dispatch a (CompleteUploadRequest bid) = Server_CompleteUpload a bid"
| "blob_dispatch a (InitiateMultipartUploadRequest bid n ct k) = Server_InitiateMultipartUpload a bid n ct k"
| "blob_dispatch a (CompleteMultipartUploadRequest bid uid ps) = Server_CompleteMultipartUpload a bid uid ps"
| "blob_dispatch a (AbortMultipartUploadRequest bid uid) = Server_AbortMultipartUpload a bid uid"
| "blob_dispatch a (GetDownloadURLRequest bid ttl) = Server_GetDownloadURL a bid ttl"
| "blob_dispatch a (GetBlobInfoRequest bid) = Server_GetBlobInfo a bid"

lemmas Server_defs = Server_InitiateUpload_def Server_CompleteUpload_def
  Server_InitiateMultipartUpload_def Server_CompleteMultipartUpload_def
  Server_AbortMultipartUpload_def Server_GetDownloadURL_def Server_GetBlobInfo_def

section \<open>The interceptor\<close>

text \<open>
  The OIDC library's verifier is a parameter: at a step, a raw token is rejected, or accepted
  and its claims then decode to a subject or fail to.
\<close>

type_synonym id_token_verifier = "nat \<Rightarrow> string \<Rightarrow> nat + (nat + string)"

definition extractBearerToken :: "grpc_metadata option \<Rightarrow> goerr + string" where
  "extractBearerToken md =
     (case md of
        None \<Rightarrow> Inl (StatusErr Unauthenticated ''missing metadata'')
      | Some m \<Rightarrow>
          (case m ''authorization'' of
             [] \<Rightarrow> Inl (StatusErr Unauthenticated ''missing authorization header'')
           | v # _ \<Rightarrow>
               if \<not> strings_HasPrefix v ''Bearer ''
               then Inl (StatusErr Unauthenticated ''authorization must use Bearer scheme'')
               else Inr (strings_TrimPrefix v ''Bearer '')))"

definition AuthInterceptor_authenticate ::
  "id_token_verifier \<Rightarrow> grpc_metadata option \<Rightarrow> ('db, string) eio" where
  "AuthInterceptor_authenticate verify md =
     (case extractBearerToken md of
        Inl err \<Rightarrow> ret (Inl err)
      | Inr rawToken \<Rightarrow> do {
          v \<leftarrow> oracle_call (\<lambda>k. verify k rawToken);
          case v of
            Inl err \<Rightarrow> ret (Inl (StatusErr Unauthenticated ''invalid token''))
          | Inr claims \<Rightarrow>
              (case claims of
                 Inl err \<Rightarrow> ret (Inl (StatusErr Unauthenticated ''missing sub claim''))
               | Inr sub \<Rightarrow>
                   if sub = [] then ret (Inl (StatusErr Unauthenticated ''missing sub claim''))
                   else ret (Inr sub)) })"

definition AuthInterceptor_Unary ::
  "id_token_verifier \<Rightarrow> grpc_metadata option \<Rightarrow> (string \<Rightarrow> ('db, 'a) eio) \<Rightarrow> ('db, 'a) eio" where
  "AuthInterceptor_Unary verify md handler = do {
     c \<leftarrow> AuthInterceptor_authenticate verify md;
     case c of
       Inl err \<Rightarrow> ret (Inl err)
     | Inr sub \<Rightarrow> handler sub }"

definition AuthInterceptor_Stream ::
  "id_token_verifier \<Rightarrow> grpc_metadata option \<Rightarrow> (string \<Rightarrow> ('db, unit) eio) \<Rightarrow> ('db, unit) eio" where
  "AuthInterceptor_Stream verify md handler = do {
     c \<leftarrow> AuthInterceptor_authenticate verify md;
     case c of
       Inl err \<Rightarrow> ret (Inl err)
     | Inr sub \<Rightarrow> handler sub }"

text \<open>The library's verifier for the tokens of one audience.\<close>

definition NewAuthInterceptor :: "(string \<Rightarrow> id_token_verifier) \<Rightarrow> string \<Rightarrow> id_token_verifier" where
  "NewAuthInterceptor provider_Verifier audience = provider_Verifier audience"

section \<open>The service as wired in main\<close>

definition App_New :: "'db go_world BlobRepository \<Rightarrow> 'db go_world ObjectStorage \<Rightarrow> Config \<Rightarrow> 'db App" where
  "App_New repo storage cfg = \<lparr>app_repo = repo, app_storage = storage, app_cfg = cfg\<rparr>"

definition blobApp :: "R2Client \<Rightarrow> Config \<Rightarrow> blob_db App" where
  "blobApp r2 cfg = App_New BlobRepo (R2Storage r2) cfg"

definition blob_rpc ::
  "id_token_verifier \<Rightarrow> R2Client \<Rightarrow> Config \<Rightarrow> grpc_metadata option \<Rightarrow> blob_request
   \<Rightarrow> (blob_db, blob_response) eio" where
  "blob_rpc verify r2 cfg md req =
     AuthInterceptor_Unary verify md (\<lambda>_. blob_dispatch (blobApp r2 cfg) req)"

interpretation svc: blob_app "blobApp r2 cfg" blob_view blob_invar for r2 cfg
  unfolding blob_app_def blobApp_def App_New_def
  by (simp add: pg_blobs.blob_repository_axioms r2.object_storage_axioms)

lemma blobApp_sel [simp]:
  "app_repo (blobApp r2 cfg) = BlobRepo" "app_storage (blobApp r2 cfg) = R2Storage r2"
  "app_cfg (blobApp r2 cfg) = cfg"
  by (simp_all add: blobApp_def App_New_def)

end
