(* ===== verification/BlobSystem.thy ===== *)
theory BlobSystem
  imports BlobServer
begin

text \<open>
  What the blob service as a whole guarantees: sequences of requests served in any
  environment, and interleavings of concurrent requests at the granularity of their SQL
  statements. The proofs rest on the contracts' facts, through \<open>svc\<close> and \<open>pg_blobs\<close>.
\<close>

section \<open>Any request\<close>

lemma authenticate_db:
  "run_state (AuthInterceptor_authenticate verify md) w = (r, w') \<Longrightarrow> db w' = db w"
  by (auto simp: AuthInterceptor_authenticate_def run_oracle_call split: sum.splits prod.splits if_splits)

text \<open>A handler ends where its use case ends.\<close>

lemma bind_ret_world:
  assumes "run_state (m \<bind> f) w = (r, w')" and "\<And>x w1. snd (run_state (f x) w1) = w1"
  shows "\<exists>x. run_state m w = (x, w')"
  using assms by (auto split: prod.splits) (metis snd_conv)

lemma Server_world:
  "run_state (Server_InitiateUpload a bid n ct) w = (r, w') \<Longrightarrow> \<exists>x. run_state (App_InitiateUpload a bid n ct) w = (x, w')"
  "run_state (Server_CompleteUpload a bid) w = (r, w') \<Longrightarrow> \<exists>x. run_state (App_CompleteUpload a bid) w = (x, w')"
  "run_state (Server_InitiateMultipartUpload a bid n ct k) w = (r, w') \<Longrightarrow>
     \<exists>x. run_state (App_InitiateMultipartUpload a bid n ct k) w = (x, w')"
  "run_state (Server_CompleteMultipartUpload a bid uid ps) w = (r, w') \<Longrightarrow>
     \<exists>x qs. run_state (App_CompleteMultipartUpload a bid uid qs) w = (x, w')"
  "run_state (Server_AbortMultipartUpload a bid uid) w = (r, w') \<Longrightarrow> \<exists>x. run_state (App_AbortMultipartUpload a bid uid) w = (x, w')"
  "run_state (Server_GetDownloadURL a bid ttl) w = (r, w') \<Longrightarrow> \<exists>x t. run_state (App_GetDownloadURL a bid t) w = (x, w')"
  "run_state (Server_GetBlobInfo a bid) w = (r, w') \<Longrightarrow> \<exists>x. run_state (App_GetBlobInfo a bid) w = (x, w')"
  unfolding Server_defs Let_def
  by ((drule bind_ret_world, simp split: sum.splits if_splits, blast))+

lemma dispatch_refines:
  assumes "run_state (blob_dispatch (blobApp r2 cfg) req) w = (r, w')" "blob_invar (db w)"
  shows "blob_invar (db w') \<and> life_step (blob_view (db w)) (blob_view (db w'))"
proof (cases req)
  case (InitiateUploadRequest bid n ct)
  with assms show ?thesis by (auto dest!: Server_world svc.initiate_refines)
next
  case (CompleteUploadRequest bid)
  with assms show ?thesis by (auto dest!: Server_world svc.complete_refines)
next
  case (InitiateMultipartUploadRequest bid n ct k)
  with assms show ?thesis by (auto dest!: Server_world svc.multipart_refines)
next
  case (CompleteMultipartUploadRequest bid uid ps)
  with assms show ?thesis by (auto dest!: Server_world svc.complete_multipart_refines)
next
  case (AbortMultipartUploadRequest bid uid)
  with assms show ?thesis by (auto dest!: Server_world svc.abort_unchanged intro: life_step.stay)
next
  case (GetDownloadURLRequest bid ttl)
  with assms show ?thesis by (auto dest!: Server_world svc.getURL_unchanged intro: life_step.stay)
next
  case (GetBlobInfoRequest bid)
  with assms show ?thesis by (auto dest!: Server_world svc.info_unchanged intro: life_step.stay)
qed

lemma rpc_elim:
  assumes "run_state (blob_rpc verify r2 cfg md req) w = (r, w')"
  obtains (denied) e where "r = Inl e" "db w' = db w"
      "fst (run_state (AuthInterceptor_authenticate verify md) w) = Inl e"
  | (served) sub w1 where "run_state (AuthInterceptor_authenticate verify md) w = (Inr sub, w1)"
      "db w1 = db w" "run_state (blob_dispatch (blobApp r2 cfg) req) w1 = (r, w')"
  using assms
  by (auto simp: blob_rpc_def AuthInterceptor_Unary_def split: prod.splits sum.splits dest: authenticate_db)

lemma blob_rpc_refines:
  assumes "run_state (blob_rpc verify r2 cfg md req) w = (r, w')" "blob_invar (db w)"
  shows "blob_invar (db w') \<and> life_step (blob_view (db w)) (blob_view (db w'))"
  using assms(1)
proof (cases rule: rpc_elim)
  case (denied e)
  with assms(2) show ?thesis by (simp add: life_step.stay)
next
  case (served sub w1)
  with assms(2) dispatch_refines [of r2 cfg req w1 r w'] show ?thesis by simp
qed

section \<open>Histories of requests\<close>

text \<open>
  \<open>blob_history d d'\<close>: requests served one after another lead from \<open>d\<close> to \<open>d'\<close>. Each
  is served in a world of its own, so that the clock, the failures of the database and
  the answers of S3 and of the token verifier are arbitrary.
\<close>

inductive blob_history :: "blob_db \<Rightarrow> blob_db \<Rightarrow> bool" where
  refl: "blob_history d d"
| serve: "blob_history d (db w) \<Longrightarrow> run_state (blob_rpc verify r2 cfg md req) w = (r, w') \<Longrightarrow>
    blob_history d (db w')"

lemma blob_history_refines:
  assumes "blob_history d d'" "blob_invar d"
  shows "blob_invar d' \<and> life_step\<^sup>*\<^sup>* (blob_view d) (blob_view d')"
  using assms
proof (induction rule: blob_history.induct)
  case (serve d w verify r2 cfg md req r w')
  then have "blob_invar (db w)" "life_step\<^sup>*\<^sup>* (blob_view d) (blob_view (db w))" by auto
  with serve.hyps(2) show ?case by (meson blob_rpc_refines rtranclp.rtrancl_into_rtrancl)
qed simp

lemma blob_invar_empty [simp]: "blob_invar []"
  by (simp add: blob_invar_def)

section \<open>Interleavings of statements\<close>

text \<open>
  The statements concurrent requests send to the database. A \<open>Create\<close> carries a blob
  made by \<open>NewBlob\<close>, as in the two use cases that call it.
\<close>

datatype blob_stmt = StFind string | StCreate string int string int | StMark string int

fun exec_stmt :: "blob_stmt \<Rightarrow> (blob_db, unit) eio" where
  "exec_stmt (StFind bid) = do {
     r \<leftarrow> BlobRepo_FindByID bid;
     ret (map_sum id (\<lambda>_. ()) r) }"
| "exec_stmt (StCreate bid n ct now) =
     (case NewBlob bid n ct now of Inl e \<Rightarrow> ret (Inl e) | Inr b \<Rightarrow> BlobRepo_Create b)"
| "exec_stmt (StMark bid ts) = BlobRepo_MarkCommitted bid ts"

inductive blob_schedule :: "blob_db \<Rightarrow> (blob_stmt \<times> (goerr + unit)) list \<Rightarrow> blob_db \<Rightarrow> bool" where
  start: "blob_schedule d [] d"
| exec: "blob_schedule d log (db w) \<Longrightarrow> run_state (exec_stmt s) w = (r, w') \<Longrightarrow>
    blob_schedule d (log @ [(s, r)]) (db w')"

text \<open>The successful commits of one blob in a log.\<close>

definition commits :: "string \<Rightarrow> (blob_stmt \<times> (goerr + unit)) list \<Rightarrow> int list" where
  "commits bid log = concat (map (\<lambda>(s, r). case (s, r) of
     (StMark x t, Inr _) \<Rightarrow> if x = bid then [t] else [] | _ \<Rightarrow> []) log)"

lemma commits_simps [simp]:
  "commits bid [] = []"
  "commits bid (log @ [(s, r)]) = commits bid log @
     (case (s, r) of (StMark x t, Inr _) \<Rightarrow> if x = bid then [t] else [] | _ \<Rightarrow> [])"
  by (simp_all add: commits_def)

lemma exec_stmt_cases:
  assumes "run_state (exec_stmt s) w = (r, w')" "blob_invar (db w)"
  obtains (none) "db w' = db w" "\<And>x t. s = StMark x t \<Longrightarrow> \<exists>e. r = Inl e"
  | (create) bid n ct now b where "s = StCreate bid n ct now" "NewBlob bid n ct now = Inr b"
      "blob_view (db w) bid = None" "blob_view (db w') = (blob_view (db w))(bid \<mapsto> b)"
      "bState b = StatePending" "blob_invar (db w')"
  | (mark) bid t b where "s = StMark bid t" "r = Inr ()" "blob_view (db w) bid = Some b"
      "bState b = StatePending" "blob_invar (db w')"
      "blob_view (db w') = (blob_view (db w))(bid \<mapsto> b\<lparr>bState := StateCommitted, bCommittedAt := Some t\<rparr>)"
proof (cases s)
  case (StFind bid)
  with assms show ?thesis
    by (intro none) (auto simp: BlobRepo_FindByID_def sql_select_blob_def
        split: sum.splits prod.splits option.splits if_splits elim!: db_exec_cases)
next
  case (StCreate bid n ct now)
  show ?thesis
  proof (cases "NewBlob bid n ct now")
    case (Inl e)
    with assms StCreate show ?thesis by (intro none) auto
  next
    case (Inr b)
    with assms StCreate have run: "run_state (Create BlobRepo b) w = (r, w')" by (simp add: BlobRepo_def)
    have b: "blob_ok b" "bID b = bid" "bState b = StatePending" using NewBlob_ok [OF Inr] by auto
    show ?thesis
    proof (cases r)
      case (Inl e)
      with run assms(2) show ?thesis
        using pg_blobs.create_error [of b w e w'] StCreate by (intro none) auto
    next
      case (Inr u)
      with run assms(2) b StCreate \<open>NewBlob bid n ct now = Inr b\<close> show ?thesis
        using pg_blobs.create_done [of b w u w'] by (intro create [of bid n ct now b]) auto
    qed
  qed
next
  case (StMark bid t)
  then have run: "run_state (MarkCommitted BlobRepo bid t) w = (r, w')" using assms by (simp add: BlobRepo_def)
  show ?thesis
  proof (cases r)
    case (Inl e)
    with run assms(2) show ?thesis using pg_blobs.mark_error [of bid t w e w'] by (intro none) auto
  next
    case (Inr u)
    with run assms(2) StMark show ?thesis using pg_blobs.mark_done [of bid t w u w'] mark by auto
  qed
qed

lemma schedule_commits:
  assumes "blob_schedule d log d'" "blob_invar d"
  shows "blob_invar d' \<and> (commits bid log = [] \<or>
    (\<exists>t b. commits bid log = [t] \<and> blob_view d' bid = Some b \<and> bState b = StateCommitted
       \<and> bCommittedAt b = Some t))"
  using assms
proof (induction rule: blob_schedule.induct)
  case (exec d log w s r w')
  then have inv: "blob_invar (db w)" by simp
  from exec.hyps(2) inv exec.IH [OF exec.prems] show ?case
    by (cases rule: exec_stmt_cases) (auto split: blob_stmt.splits sum.splits)
qed simp

lemma schedule_one_mark:
  assumes "blob_schedule d log d'" "blob_invar d"
  shows "length (commits bid log) \<le> 1"
  using schedule_commits [OF assms, of bid] by auto

end
