(* ===== verification/BlobProps.thy ===== *)
theory BlobProps
  imports BlobSystem
begin

text \<open>
  The properties of the blob service, each with an instance at a concrete request. Their
  proofs are applications of the facts of \<open>svc\<close> (the use cases over the PostgreSQL
  repository and the R2 client) and of the lemmas of \<open>BlobSystem\<close>.
\<close>

section \<open>Identifiers\<close>

lemma unat_byte_of_nat: "n < 256 \<Longrightarrow> unat (word_of_nat n :: byte) = n"
  by (simp only: unsigned_of_nat) (simp add: take_bit_nat_eq_self)

lemma hex_pair:
  assumes "c \<in> set hextable" "d \<in> set hextable"
  shows "\<exists>b. hex_Encode [b] = [c, d]"
proof -
  have len: "length hextable = 16" by (simp add: hextable_def)
  obtain i j where i: "i < 16" "c = hextable ! i" and j: "j < 16" "d = hextable ! j"
    using assms by (auto simp: in_set_conv_nth len)
  have "i * 16 + j < 256" using i(1) j(1) by linarith
  then have "unat (word_of_nat (i * 16 + j) :: byte) = i * 16 + j" by (rule unat_byte_of_nat)
  then have "hex_Encode [word_of_nat (i * 16 + j)] = [c, d]"
    using i j by (simp del: of_nat_add of_nat_mult)
  then show ?thesis by blast
qed

lemma hex_Encode_onto:
  "length s = 2 * n \<Longrightarrow> set s \<subseteq> set hextable \<Longrightarrow> \<exists>bs. length bs = n \<and> s = hex_Encode bs"
proof (induction n arbitrary: s)
  case (Suc n)
  then obtain c d s' where s: "s = c # d # s'" "length s' = 2 * n"
    by (auto simp: length_Suc_conv)
  with Suc obtain bs where bs: "length bs = n" "s' = hex_Encode bs" by force
  obtain b where "hex_Encode [b] = [c, d]" using hex_pair s Suc.prems by force
  with s bs show ?case by (intro exI [of _ "b # bs"]) simp
qed simp

lemma hexRE_hextable: "hexRE_MatchString s \<longleftrightarrow> length s = 64 \<and> set s \<subseteq> set hextable"
  unfolding hexRE_MatchString_def hextable_def [symmetric] list_all_iff by blast

text \<open>\<open>BlobID.Validate\<close> accepts exactly the lower-case hexadecimal encodings of 32
  bytes, that is, every printed SHA-256 sum and nothing else; any other identifier gives
  \<open>ErrInvalidBlobID\<close>.\<close>
theorem Validate_accepts_sha256_hex:
  "BlobID_Validate s = (if \<exists>bs. length bs = 32 \<and> s = hex_Encode bs
     then Inr () else Inl (Sentinel ErrInvalidBlobID))"
proof -
  have "hexRE_MatchString s \<longleftrightarrow> (\<exists>bs. length bs = 32 \<and> s = hex_Encode bs)"
    using hexRE_hex_Encode hex_Encode_onto [of s 32] by (auto simp: hexRE_hextable)
  then show ?thesis by (simp add: BlobID_Validate_def)
qed

definition sampleID :: string where "sampleID = replicate 64 (CHR ''a'')"

lemma sampleID_ok [simp]: "hexRE_MatchString sampleID" "BlobID_Validate sampleID = Inr ()"
  by (simp_all add: sampleID_def hexRE_MatchString_def BlobID_Validate_def list_all_iff)

definition sample_s3 :: s3_api where
  "sample_s3 = \<lparr>s3_PresignPutObject = \<lambda>_ _ key _. Inr (''put/'' @ key),
     s3_PresignGetObject = \<lambda>_ _ key _. Inr (''get/'' @ key),
     s3_PresignUploadPart = \<lambda>_ _ key _ n _. Inr (''part/'' @ key @ strconv_Itoa n),
     s3_CreateMultipartUpload = \<lambda>_ _ _ _. Inr (Some ''upload-1''),
     s3_CompleteMultipartUpload = \<lambda>_ _ _ _ _. Inr (),
     s3_AbortMultipartUpload = \<lambda>_ _ _ _. Inr ()\<rparr>"

definition sample_r2 :: R2Client where
  "sample_r2 = \<lparr>r2_client = sample_s3, r2_bucket = ''blobs''\<rparr>"

definition sample_cfg :: Config where
  "sample_cfg = \<lparr>PresignPutTTL = 900 * Second, PresignGetMaxTTL = 3600 * Second,
     MultipartThresholdBytes = 10485760\<rparr>"

definition sample_row :: "string \<Rightarrow> int option \<Rightarrow> blob_row" where
  "sample_row state ts = \<lparr>br_id = sampleID, br_size_bytes = 7, br_content_type = ''image/png'',
     br_r2_key = sampleID, br_state = state, br_created_at = 0, br_committed_at = ts\<rparr>"

definition sample_md :: grpc_metadata where
  "sample_md key = (if key = ''authorization'' then [''Bearer t''] else [])"

definition sample_verify :: id_token_verifier where
  "sample_verify k tok = (if tok = ''t'' then Inr (Inr ''service'') else Inl 1)"

lemmas sample_defs = sample_s3_def sample_r2_def sample_cfg_def sample_row_def sample_md_def sample_verify_def

lemma sample_invar [simp]:
  "blob_invar [sample_row ''PENDING'' None]" "blob_invar [sample_row ''COMMITTED'' (Some 1)]"
  by (simp_all add: blob_invar_def blob_ok_def sample_row_def rowToBlob_def
      StatePending_def StateCommitted_def)

lemmas blob_eval = blob_rpc_def AuthInterceptor_Unary_def AuthInterceptor_authenticate_def
  extractBearerToken_def App_defs Server_defs BlobRepo_defs R2_defs sql_select_blob_def
  sql_insert_blob_def sql_mark_committed_def run_db_exec run_oracle_call Let_def NewBlob_def
  blob_state_check_def rowToBlob_def StatePending_def StateCommitted_def mark_row_def

section \<open>Life cycle\<close>

text \<open>C2: every RPC of the blob service, whatever the token, the failures of the database
  and the answers of S3, keeps the table's invariant and takes the table by at most one
  step of the documented life cycle: nothing happens, an absent blob is registered as
  PENDING, or a PENDING blob becomes COMMITTED.\<close>
theorem blob_rpc_life_cycle:
  assumes "run_state (blob_rpc verify r2 cfg md req) w = (r, w')" "blob_invar (db w)"
  shows "blob_invar (db w') \<and> life_step (blob_view (db w)) (blob_view (db w'))"
  using assms by (rule blob_rpc_refines)

theorem blob_rpc_life_cycle_witness:
  "\<exists>r w'. run_state (blob_rpc sample_verify sample_r2 sample_cfg (Some sample_md)
        (CompleteUploadRequest sampleID)) (idle_world [sample_row ''PENDING'' None]) = (r, w')
     \<and> db w' = [sample_row ''COMMITTED'' (Some 2)] \<and> blob_invar (db w')
     \<and> life_step (blob_view [sample_row ''PENDING'' None]) (blob_view (db w'))"
proof -
  let ?w = "idle_world [sample_row ''PENDING'' None]"
  let ?run = "run_state (blob_rpc sample_verify sample_r2 sample_cfg (Some sample_md)
        (CompleteUploadRequest sampleID)) ?w"
  have "db (snd ?run) = [sample_row ''COMMITTED'' (Some 2)]"
    by (simp add: blob_eval sample_defs strings_HasPrefix_def strings_TrimPrefix_def)
  then show ?thesis
    using blob_rpc_life_cycle [of sample_verify sample_r2 sample_cfg "Some sample_md"
        "CompleteUploadRequest sampleID" ?w "fst ?run" "snd ?run"]
    by (intro exI [of _ "fst ?run"] exI [of _ "snd ?run"]) simp
qed

text \<open>C11: a committed blob never changes again and is never removed: over any history of
  requests, in any environment, its row, commit time included, is read back as it was.\<close>
theorem committed_blob_immutable:
  assumes "blob_history d d'" "blob_invar d"
    and "blob_view d bid = Some b" "bState b = StateCommitted"
  shows "blob_view d' bid = Some b"
  using blob_history_refines [OF assms(1,2)] assms(3,4) life_steps_committed by blast

theorem committed_blob_immutable_witness:
  "blob_view (db (snd (run_state (blob_rpc sample_verify sample_r2 sample_cfg (Some sample_md)
     (InitiateUploadRequest sampleID 9 ''text/plain'')) (idle_world [sample_row ''COMMITTED'' (Some 1)])))) sampleID
   = Some (rowToBlob (sample_row ''COMMITTED'' (Some 1)))"
proof (rule committed_blob_immutable)
  let ?w = "idle_world [sample_row ''COMMITTED'' (Some 1)]"
  have "blob_history [sample_row ''COMMITTED'' (Some 1)] (db ?w)" by (simp add: blob_history.refl)
  then show "blob_history [sample_row ''COMMITTED'' (Some 1)]
      (db (snd (run_state (blob_rpc sample_verify sample_r2 sample_cfg (Some sample_md)
        (InitiateUploadRequest sampleID 9 ''text/plain'')) ?w)))"
    by (rule blob_history.serve) (rule surjective_pairing)
qed (simp_all, simp_all add: blob_view_def sample_row_def rowToBlob_def StateCommitted_def)

text \<open>C9: in every interleaving of the SQL statements of concurrent requests, each statement
  possibly failing, at most one \<open>MarkCommitted\<close> of a blob succeeds, and the blob then
  stays committed with that statement's time.\<close>
theorem commit_at_most_once:
  assumes "blob_schedule d log d'" "blob_invar d"
  shows "length (commits bid log) \<le> 1 \<and>
    (\<forall>t \<in> set (commits bid log). \<exists>b. blob_view d' bid = Some b \<and> bCommittedAt b = Some t)"
  using schedule_commits [OF assms, of bid] by auto

theorem commit_at_most_once_witness:
  "\<exists>r1 r2 w1 w2. run_state (exec_stmt (StMark sampleID 5)) (idle_world [sample_row ''PENDING'' None]) = (r1, w1)
     \<and> run_state (exec_stmt (StMark sampleID 6)) w1 = (r2, w2) \<and> r1 = Inr ()
     \<and> length (commits sampleID [(StMark sampleID 5, r1), (StMark sampleID 6, r2)]) \<le> 1
     \<and> commits sampleID [(StMark sampleID 5, r1), (StMark sampleID 6, r2)] = [5]"
proof -
  let ?w = "idle_world [sample_row ''PENDING'' None]"
  obtain r1 w1 where s1: "run_state (exec_stmt (StMark sampleID 5)) ?w = (r1, w1)" by fastforce
  obtain r2 w2 where s2: "run_state (exec_stmt (StMark sampleID 6)) w1 = (r2, w2)" by fastforce
  have "blob_schedule (db ?w) ([] @ [(StMark sampleID 5, r1)]) (db w1)"
    by (rule blob_schedule.exec [OF _ s1]) (rule blob_schedule.start)
  then have "blob_schedule (db ?w) ([(StMark sampleID 5, r1)] @ [(StMark sampleID 6, r2)]) (db w2)"
    using blob_schedule.exec [OF _ s2] by force
  moreover have "r1 = Inr ()" using s1 by (auto simp: blob_eval sample_row_def)
  ultimately show ?thesis
    using s1 s2 commit_at_most_once [where d = "db ?w" and bid = sampleID and d' = "db w2"
        and log = "[(StMark sampleID 5, r1), (StMark sampleID 6, r2)]"]
    by (auto simp: commits_def split: sum.splits)
qed

section \<open>The upload and download calls\<close>

text \<open>C17: a \<open>CompleteUpload\<close> RPC that answers found the blob PENDING and has committed it with
  the time it reports; one that fails has left the table as it was. No commit time is
  reported for a blob that was already committed.\<close>
theorem complete_upload_commits:
  assumes "run_state (Server_CompleteUpload (blobApp r2 cfg) bid) w = (r, w')" "blob_invar (db w)"
  shows "case r of
      Inl e \<Rightarrow> db w' = db w
    | Inr resp \<Rightarrow> \<exists>b t. resp = CompleteUploadResponse bid (timestamppb_New t)
        \<and> blob_view (db w) bid = Some b \<and> bState b = StatePending
        \<and> blob_view (db w') = (blob_view (db w))
            (bid \<mapsto> b\<lparr>bState := StateCommitted, bCommittedAt := Some t\<rparr>)"
  using assms
  by (auto simp: Server_CompleteUpload_def split: prod.splits sum.splits
      dest!: svc.complete_done svc.complete_error)

theorem complete_upload_commits_witness:
  "\<exists>w'. run_state (Server_CompleteUpload (blobApp sample_r2 sample_cfg) sampleID)
      (idle_world [sample_row ''PENDING'' None]) =
        (Inr (CompleteUploadResponse sampleID (timestamppb_New 1)), w')
    \<and> (\<exists>b. blob_view [sample_row ''PENDING'' None] sampleID = Some b \<and> bState b = StatePending)"
proof -
  let ?run = "run_state (Server_CompleteUpload (blobApp sample_r2 sample_cfg) sampleID)
      (idle_world [sample_row ''PENDING'' None])"
  have "fst ?run = Inr (CompleteUploadResponse sampleID (timestamppb_New 1))"
    by (simp add: blob_eval sample_defs)
  then show ?thesis
    using complete_upload_commits [of sample_r2 sample_cfg sampleID
        "idle_world [sample_row ''PENDING'' None]" "fst ?run" "snd ?run"]
    by (intro exI [of _ "snd ?run"]) (auto simp: prod_eq_iff)
qed

lemma initiate_upload_answer_facts:
  assumes "run_state (App_InitiateUpload (blobApp r2 cfg) bid n ct) w = (Inr res, w')" "blob_invar (db w)"
  shows "(iuAlreadyExists res \<longleftrightarrow>
      (\<exists>b. blob_view (db w) bid = Some b \<and> bState b = StateCommitted)) \<and>
    (\<not> iuAlreadyExists res \<longrightarrow> (\<exists>b. blob_view (db w') bid = Some b \<and> bState b = StatePending))"
proof -
  have "blob_invar (db w')" and step: "life_step (blob_view (db w)) (blob_view (db w'))"
    using svc.initiate_refines [OF assms] by auto
  then show ?thesis
    using svc.initiate_done [OF assms] life_step_committed [OF step] blob_view_state [of "db w'" bid]
    by (auto split: if_splits)
qed

text \<open>C16: \<open>InitiateUpload\<close> says that a blob exists already exactly when it is committed, and
  then gives no URL and changes nothing; otherwise the blob is registered (PENDING) when the
  presigned URL goes out, and the URL expires at most one put time-to-live after the answer.\<close>
theorem initiate_upload_answer:
  assumes "run_state (App_InitiateUpload (blobApp r2 cfg) bid n ct) w = (Inr res, w')" "blob_invar (db w)"
  shows "(iuAlreadyExists res \<longleftrightarrow>
      (\<exists>b. blob_view (db w) bid = Some b \<and> bState b = StateCommitted)) \<and>
    (if iuAlreadyExists res then db w' = db w
     else iuExpiresAt res \<le> clock w' + PresignPutTTL cfg
       \<and> (\<exists>b. blob_view (db w') bid = Some b \<and> bState b = StatePending))"
  using initiate_upload_answer_facts [OF assms] svc.initiate_done [OF assms]
  by (auto split: if_splits)

theorem initiate_upload_answer_witness:
  "\<exists>res w'. run_state (App_InitiateUpload (blobApp sample_r2 sample_cfg) sampleID 7 ''image/png'')
       (idle_world []) = (Inr res, w') \<and> iuAlreadyExists res = False
     \<and> (\<exists>b. blob_view (db w') sampleID = Some b \<and> bState b = StatePending)"
proof -
  let ?run = "run_state (App_InitiateUpload (blobApp sample_r2 sample_cfg) sampleID 7 ''image/png'') (idle_world [])"
  obtain res where res: "fst ?run = Inr res" "iuAlreadyExists res = False"
    by (simp add: blob_eval sample_defs)
  then show ?thesis
    using initiate_upload_answer [of sample_r2 sample_cfg sampleID 7 "''image/png''" "idle_world []" res "snd ?run"]
    by (intro exI [of _ res] exI [of _ "snd ?run"]) (auto simp: prod_eq_iff)
qed

text \<open>C31: a multipart upload is started only for a part count of at least one and a blob that is
  not committed, and its part URLs are numbered \<open>1 .. part_count\<close> in order (S3 numbers
  parts from 1), none missing and none twice.\<close>
theorem multipart_part_numbers:
  assumes "run_state (App_InitiateMultipartUpload (blobApp r2 cfg) bid n ct k) w = (Inr res, w')"
    and "blob_invar (db w)" "k < 2 ^ 31"
  shows "if imAlreadyExists res
    then imParts res = [] \<and> (\<exists>b. blob_view (db w) bid = Some b \<and> bState b = StateCommitted)
    else 1 \<le> k \<and> map puPartNumber (imParts res) = [1..k]
      \<and> (\<exists>b. blob_view (db w') bid = Some b \<and> bState b \<noteq> StateCommitted)"
  using svc.multipart_done [OF assms] by simp

theorem multipart_part_numbers_witness:
  "\<exists>res w'. run_state (App_InitiateMultipartUpload (blobApp sample_r2 sample_cfg) sampleID 7 ''image/png'' 2)
       (idle_world []) = (Inr res, w') \<and> map puPartNumber (imParts res) = [1..2]"
proof -
  let ?run = "run_state (App_InitiateMultipartUpload (blobApp sample_r2 sample_cfg) sampleID 7 ''image/png'' 2) (idle_world [])"
  obtain res where res: "fst ?run = Inr res" "\<not> imAlreadyExists res"
    by (simp add: blob_eval sample_defs numeral_2_eq_2 aws_ToString_def)
  then show ?thesis
    using multipart_part_numbers [of sample_r2 sample_cfg sampleID 7 "''image/png''" 2 "idle_world []" res "snd ?run"]
    by (intro exI [of _ res] exI [of _ "snd ?run"]) (auto simp: prod_eq_iff)
qed

text \<open>C30: a download URL is handed out only for a committed blob, and it expires no later than
  the requested time-to-live after the answer, or the configured maximum where the request
  asks for more, for zero or for a negative time; nothing is changed.\<close>
theorem download_only_committed:
  assumes "run_state (App_GetDownloadURL (blobApp r2 cfg) bid ttl) w = (Inr res, w')" "blob_invar (db w)"
  shows "(\<exists>b. blob_view (db w) bid = Some b \<and> bState b = StateCommitted) \<and> db w' = db w \<and>
    gdExpiresAt res \<le> clock w' +
      (if 0 < ttl \<and> ttl \<le> PresignGetMaxTTL cfg then ttl else PresignGetMaxTTL cfg)"
  using svc.download_done [OF assms] by (simp only: blobApp_sel)

theorem download_only_committed_witness:
  "\<exists>res w'. run_state (App_GetDownloadURL (blobApp sample_r2 sample_cfg) sampleID (5 * Second))
       (idle_world [sample_row ''COMMITTED'' (Some 1)]) = (Inr res, w')
     \<and> gdExpiresAt res \<le> clock w' + 5 * Second"
proof -
  let ?run = "run_state (App_GetDownloadURL (blobApp sample_r2 sample_cfg) sampleID (5 * Second))
       (idle_world [sample_row ''COMMITTED'' (Some 1)])"
  obtain res where res: "fst ?run = Inr res"
    by (simp add: blob_eval sample_defs)
  then show ?thesis
    using download_only_committed [of sample_r2 sample_cfg sampleID "5 * Second"
        "idle_world [sample_row ''COMMITTED'' (Some 1)]" res "snd ?run"]
    by (intro exI [of _ res] exI [of _ "snd ?run"]) (auto simp: prod_eq_iff sample_cfg_def)
qed

text \<open>What the storage must do for uploads to run through: presign every PUT.\<close>

definition r2_presigns :: "R2Client \<Rightarrow> bool" where
  "r2_presigns c \<longleftrightarrow> (\<forall>k b key ttl. \<exists>url. s3_PresignPutObject (r2_client c) k b key ttl = Inr url)"

lemma r2_presigns_put:
  "r2_presigns r2 \<Longrightarrow> \<exists>url exp. fst (run_state (PresignedPutURL (R2Storage r2) key ttl) w) = Inr (url, exp)"
proof -
  assume "r2_presigns r2"
  then obtain url where "s3_PresignPutObject (r2_client r2) (step w) (r2_bucket r2) key ttl = Inr url"
    unfolding r2_presigns_def by blast
  then show ?thesis by (simp add: R2_defs run_oracle_call)
qed

lemma quiet_initiate:
  assumes "run_state (App_InitiateUpload (blobApp r2 cfg) bid n ct) w = (Inr res, w')" "quiet w"
  shows "quiet w'"
  using assms
  by (auto simp: App_InitiateUpload_def BlobRepo_defs R2_defs Let_def run_oracle_call run_db_exec_quiet
      split: sum.splits prod.splits option.splits if_splits)

text \<open>C32: while the database and S3 answer, uploading runs through: an upload of a new, valid
  identifier is initiated, completing it succeeds, and from then on initiating it again says
  that it exists.\<close>
theorem upload_protocol_completes:
  assumes "hexRE_MatchString bid" "blob_view (db w) bid = None" "blob_invar (db w)" "quiet w" "r2_presigns r2"
  shows "\<exists>res w1 done w2. run_state (App_InitiateUpload (blobApp r2 cfg) bid n ct) w = (Inr res, w1)
    \<and> \<not> iuAlreadyExists res
    \<and> run_state (App_CompleteUpload (blobApp r2 cfg) bid) w1 = (Inr done, w2)
    \<and> (\<forall>n' ct' again w3. run_state (App_InitiateUpload (blobApp r2 cfg) bid n' ct') w2 = (Inr again, w3)
         \<longrightarrow> iuAlreadyExists again)"
proof -
  have put: "\<exists>url exp. fst (run_state (PresignedPutURL (app_storage (blobApp r2 cfg)) bid
      (PresignPutTTL (app_cfg (blobApp r2 cfg)))) w1) = Inr (url, exp)" for w1
    using r2_presigns_put [OF assms(5)] by simp
  obtain res w1 where s1: "run_state (App_InitiateUpload (blobApp r2 cfg) bid n ct) w = (Inr res, w1)"
    using svc.initiate_live [OF assms(1,3,4) put, of n ct] by (metis prod.collapse)
  have new: "\<not> iuAlreadyExists res" and i1: "blob_invar (db w1)"
    using initiate_upload_answer_facts [OF s1 assms(3)] svc.initiate_refines [OF s1 assms(3)] assms(2) by auto
  obtain b where b: "blob_view (db w1) bid = Some b" "bState b = StatePending"
    using initiate_upload_answer_facts [OF s1 assms(3)] new by auto
  obtain d w2 where s2: "run_state (App_CompleteUpload (blobApp r2 cfg) bid) w1 = (Inr d, w2)"
    using svc.complete_live [OF assms(1) i1 quiet_initiate [OF s1 assms(4)] b] by (metis prod.collapse)
  have "blob_invar (db w2)" and "\<exists>b. blob_view (db w2) bid = Some b \<and> bState b = StateCommitted"
    using svc.complete_refines [OF s2 i1] svc.complete_done [OF s2 i1] by auto
  then have "iuAlreadyExists again"
    if "run_state (App_InitiateUpload (blobApp r2 cfg) bid n' ct') w2 = (Inr again, w3)" for n' ct' again w3
    using initiate_upload_answer_facts [OF that] by auto
  with s1 s2 new show ?thesis by blast
qed

theorem upload_protocol_completes_witness:
  "\<exists>res w1 done w2. run_state (App_InitiateUpload (blobApp sample_r2 sample_cfg) sampleID 7 ''image/png'') (idle_world [])
      = (Inr res, w1) \<and> run_state (App_CompleteUpload (blobApp sample_r2 sample_cfg) sampleID) w1 = (Inr done, w2)"
proof -
  have "r2_presigns sample_r2" by (simp add: r2_presigns_def sample_defs)
  then show ?thesis
    using upload_protocol_completes [of sampleID "idle_world []" sample_r2 sample_cfg 7 "''image/png''"]
    by (auto simp: blob_view_def)
qed

section \<open>Requests that are refused\<close>

fun request_id :: "blob_request \<Rightarrow> string" where
  "request_id (InitiateUploadRequest bid n ct) = bid"
| "request_id (CompleteUploadRequest bid) = bid"
| "request_id (InitiateMultipartUploadRequest bid n ct k) = bid"
| "request_id (CompleteMultipartUploadRequest bid uid ps) = bid"
| "request_id (AbortMultipartUploadRequest bid uid) = bid"
| "request_id (GetDownloadURLRequest bid ttl) = bid"
| "request_id (GetBlobInfoRequest bid) = bid"

text \<open>C34: an RPC on a malformed identifier is refused with \<open>INVALID_ARGUMENT\<close> before anything
  happens: no statement is sent, S3 is not called (the world is the one of the call).\<close>
theorem malformed_id_refused:
  assumes "\<not> hexRE_MatchString (request_id req)"
  shows "run_state (blob_dispatch (blobApp r2 cfg) req) w =
    (Inl (StatusErr InvalidArgument ''invalid blob_id: must be 64-char lowercase hex''), w)"
  using assms
  by (cases req) (auto simp: Server_defs App_defs Let_def BlobID_Validate_def mapError_def)

theorem malformed_id_refused_witness:
  "run_state (blob_dispatch (blobApp sample_r2 sample_cfg) (GetDownloadURLRequest ''../etc'' 60)) (idle_world []) =
    (Inl (StatusErr InvalidArgument ''invalid blob_id: must be 64-char lowercase hex''), idle_world [])"
  by (rule malformed_id_refused) (simp add: hexRE_MatchString_def)

text \<open>C33: without a bearer token that the verifier accepts with a non-empty subject, an RPC
  is refused with \<open>UNAUTHENTICATED\<close> and the table is not touched; with one, the handler's
  answer is the RPC's. So every effect and every success is that of an authenticated call.\<close>
theorem rpc_authenticated:
  "(case extractBearerToken md of
      Inl e \<Rightarrow> (\<exists>m. e = StatusErr Unauthenticated m) \<and> run_state (blob_rpc verify r2 cfg md req) w = (Inl e, w)
    | Inr token \<Rightarrow>
        (case verify (step w) token of
           Inr (Inr sub) \<Rightarrow> if sub = []
             then run_state (blob_rpc verify r2 cfg md req) w = (Inl (StatusErr Unauthenticated ''missing sub claim''), pass w)
             else run_state (blob_rpc verify r2 cfg md req) w = run_state (blob_dispatch (blobApp r2 cfg) req) (pass w)
         | Inr (Inl n) \<Rightarrow> run_state (blob_rpc verify r2 cfg md req) w =
             (Inl (StatusErr Unauthenticated ''missing sub claim''), pass w)
         | Inl n \<Rightarrow> run_state (blob_rpc verify r2 cfg md req) w =
             (Inl (StatusErr Unauthenticated ''invalid token''), pass w)))"
  by (auto simp: blob_rpc_def AuthInterceptor_Unary_def AuthInterceptor_authenticate_def run_oracle_call
      extractBearerToken_def split: sum.splits option.splits list.splits if_splits)

text \<open>The status codes of the read and completion RPCs on a valid identifier: an unknown
  blob is \<open>NOT_FOUND\<close>, an operation on a blob in the wrong state \<open>FAILED_PRECONDITION\<close>, and a
  database failure \<open>INTERNAL\<close> with a text that says nothing of it.\<close>
theorem rpc_status_codes:
  assumes "hexRE_MatchString bid" "blob_invar (db w)"
  shows "(quiet w \<longrightarrow>
      (case blob_view (db w) bid of
         None \<Rightarrow> (\<forall>req \<in> {CompleteUploadRequest bid, GetDownloadURLRequest bid ttl, GetBlobInfoRequest bid,
                    CompleteMultipartUploadRequest bid uid ps}.
             \<exists>m. fst (run_state (blob_dispatch (blobApp r2 cfg) req) w) = Inl (StatusErr NotFound m))
       | Some b \<Rightarrow> fst (run_state (blob_dispatch (blobApp r2 cfg)
             (if bState b = StatePending then GetDownloadURLRequest bid ttl else CompleteUploadRequest bid)) w)
           = Inl (StatusErr FailedPrecondition
               (if bState b = StatePending then ''GetDownloadURL: blob is in PENDING state''
                else ''CompleteUpload: blob already committed''))))
    \<and> (fault w (step w) = Some k \<longrightarrow>
        (\<forall>req \<in> {CompleteUploadRequest bid, GetDownloadURLRequest bid ttl, GetBlobInfoRequest bid,
            InitiateUploadRequest bid n ct}.
          fst (run_state (blob_dispatch (blobApp r2 cfg) req) w) = Inl (StatusErr Internal ''internal error'')))"
  using assms blob_view_state [OF assms(2), of bid]
  by (auto simp: Server_defs App_defs BlobRepo_defs Let_def BlobID_Validate_def run_db_exec
      sql_select_blob_def blob_view_def mapError_def split: option.splits)

theorem rpc_status_codes_witness:
  "fst (run_state (blob_dispatch (blobApp sample_r2 sample_cfg) (GetDownloadURLRequest sampleID 60))
      (idle_world [sample_row ''PENDING'' None])) =
    Inl (StatusErr FailedPrecondition ''GetDownloadURL: blob is in PENDING state'')"
  using rpc_status_codes [of sampleID "idle_world [sample_row ''PENDING'' None]" 60 "[]" "[]" sample_r2 sample_cfg]
  by (simp add: blob_view_def) (simp add: sample_row_def rowToBlob_def StatePending_def)

end
