(* ===== verification/GoHttp.thy ===== *)
theory GoHttp
  imports GoEncoding
begin

text \<open>
  Requests and responses of \<open>net/http\<close> as the handlers see them, and the functions of
  \<open>net\<close> and \<open>strings\<close> that read addresses. A header, query or form lookup answers the first
  value, or the empty string; \<open>rqForm\<close> is None when \<open>ParseForm\<close> fails (a malformed or too
  large body).
\<close>

record http_request =
  rqMethod :: string
  rqPath :: string
  rqHeader :: "string \<Rightarrow> string"
  rqQuery :: "string \<Rightarrow> string"
  rqForm :: "(string \<Rightarrow> string) option"
  rqCookie :: "string \<Rightarrow> string option"
  rqRemoteAddr :: string

datatype same_site = SameSiteLax | SameSiteStrict

record cookie =
  ckName :: string
  ckValue :: string
  ckMaxAge :: int
  ckHttpOnly :: bool
  ckSecure :: bool
  ckSameSite :: same_site
  ckPath :: string

record http_response =
  rsStatus :: nat
  rsBody :: string
  rsLocation :: "string option"
  rsCookies :: "cookie list"

definition http_Error :: "cookie list \<Rightarrow> string \<Rightarrow> nat \<Rightarrow> http_response" where
  "http_Error cookies msg code =
     \<lparr>rsStatus = code, rsBody = msg @ [CHR 0x0A], rsLocation = None, rsCookies = cookies\<rparr>"

definition http_Redirect :: "cookie list \<Rightarrow> string \<Rightarrow> nat \<Rightarrow> http_response" where
  "http_Redirect cookies url code = \<lparr>rsStatus = code, rsBody = [], rsLocation = Some url, rsCookies = cookies\<rparr>"

lemma http_response_sel [simp]:
  "rsStatus (http_Error cs m n) = n" "rsCookies (http_Error cs m n) = cs" "rsLocation (http_Error cs m n) = None"
  "rsStatus (http_Redirect cs u n) = n" "rsCookies (http_Redirect cs u n) = cs"
  "rsLocation (http_Redirect cs u n) = Some u"
  by (simp_all add: http_Error_def http_Redirect_def)

section \<open>Addresses\<close>

fun strings_IndexByte :: "string \<Rightarrow> char \<Rightarrow> nat option" where
  "strings_IndexByte [] c = None"
| "strings_IndexByte (d # s) c = (if d = c then Some 0 else map_option Suc (strings_IndexByte s c))"

definition strings_LastIndexByte :: "string \<Rightarrow> char \<Rightarrow> nat option" where
  "strings_LastIndexByte s c = map_option (\<lambda>i. length s - 1 - i) (strings_IndexByte (rev s) c)"

definition is_space :: "char \<Rightarrow> bool" where
  "is_space c \<longleftrightarrow> c \<in> {CHR '' '', CHR 0x09, CHR 0x0A, CHR 0x0B, CHR 0x0C, CHR 0x0D}"

text \<open>\<open>strings.TrimSpace\<close> on ASCII text.\<close>

definition strings_TrimSpace :: "string \<Rightarrow> string" where
  "strings_TrimSpace s = rev (dropWhile is_space (rev (dropWhile is_space s)))"

text \<open>\<open>strings.Split\<close> for a non-empty separator.\<close>

function strings_Split :: "string \<Rightarrow> string \<Rightarrow> string \<Rightarrow> string list" where
  "strings_Split acc [] sep = [acc]"
| "strings_Split acc (c # s) sep =
     (if sep \<noteq> [] \<and> strings_HasPrefix (c # s) sep
      then acc # strings_Split [] (drop (length sep) (c # s)) sep
      else strings_Split (acc @ [c]) s sep)"
  by pat_completeness auto
termination by (relation "measure (\<lambda>(_, s, _). length s)") (auto simp: neq_Nil_conv)

text \<open>\<open>net.SplitHostPort\<close>: the host of \<open>host:port\<close> or \<open>[host]:port\<close>, None for an error.\<close>

definition SplitHostPort :: "string \<Rightarrow> (string \<times> string) option" where
  "SplitHostPort hp =
     (case strings_LastIndexByte hp (CHR '':'') of
        None \<Rightarrow> None
      | Some i \<Rightarrow>
          if hd hp = CHR ''['' then
            (case strings_IndexByte hp (CHR '']'') of
               None \<Rightarrow> None
             | Some j \<Rightarrow>
                 if j + 1 \<noteq> i then None
                 else if CHR ''['' \<in> set (drop 1 hp) \<or> CHR '']'' \<in> set (drop (j + 1) hp) then None
                 else Some (drop 1 (take j hp), drop (i + 1) hp))
          else if CHR '':'' \<in> set (take i hp) then None
          else if CHR ''['' \<in> set hp \<or> CHR '']'' \<in> set hp then None
          else Some (take i hp, drop (i + 1) hp))"

lemma IndexByte_append: "c \<notin> set s \<Longrightarrow> strings_IndexByte (s @ c # t) c = Some (length s)"
  by (induction s) auto

lemma LastIndexByte_append: "c \<notin> set t \<Longrightarrow> strings_LastIndexByte (s @ c # t) c = Some (length s)"
  using IndexByte_append [of c "rev t" "rev s"] by (simp add: strings_LastIndexByte_def)

text \<open>An address without a colon in its host, as the server writes it for IPv4.\<close>

lemma SplitHostPort_plain:
  assumes "CHR '':'' \<notin> set h" "CHR '':'' \<notin> set p" "{CHR ''['', CHR '']''} \<inter> set (h @ p) = {}"
  shows "SplitHostPort (h @ CHR '':'' # p) = Some (h, p)"
proof -
  have "hd (h @ CHR '':'' # p) \<noteq> CHR ''[''" using assms(3) by (cases h) auto
  then show ?thesis using assms LastIndexByte_append [OF assms(2), of h] by (simp add: SplitHostPort_def)
qed

end
