(* ===== verification/GoJson.thy ===== *)
theory GoJson
  imports GoEncoding
begin

text \<open>
  \<open>encoding/json\<close> as the services use it: UTF-8, the escaping of strings, the grammar of
  values with its nesting limit, and the printing of objects whose fields are strings. Strings
  are byte strings, as in Go; invalid UTF-8 becomes U+FFFD on both ways.
\<close>

section \<open>UTF-8\<close>

abbreviation ord :: "char \<Rightarrow> nat" where "ord c \<equiv> of_char c"

definition in_range :: "nat \<Rightarrow> nat \<Rightarrow> char \<Rightarrow> bool" where
  "in_range lo hi c \<longleftrightarrow> lo \<le> ord c \<and> ord c \<le> hi"

text \<open>\<open>utf8.DecodeRune\<close>: the bytes of the encoding a non-empty string starts with, 0 if it
  is not valid.\<close>

definition is_ascii :: "char \<Rightarrow> bool" where
  "is_ascii c \<longleftrightarrow> ord c < 0x80"

definition second3 :: "char \<Rightarrow> char \<Rightarrow> bool" where
  "second3 c d \<longleftrightarrow> in_range (if ord c = 0xE0 then 0xA0 else 0x80) (if ord c = 0xED then 0x9F else 0xBF) d"

definition second4 :: "char \<Rightarrow> char \<Rightarrow> bool" where
  "second4 c d \<longleftrightarrow> in_range (if ord c = 0xF0 then 0x90 else 0x80) (if ord c = 0xF4 then 0x8F else 0xBF) d"

fun utf8_size :: "string \<Rightarrow> nat" where
  "utf8_size [] = 0"
| "utf8_size (c # s) =
     (if is_ascii c then 1
      else if in_range 0xC2 0xDF c then
        (case s of d # _ \<Rightarrow> if in_range 0x80 0xBF d then 2 else 0 | [] \<Rightarrow> 0)
      else if in_range 0xE0 0xEF c then
        (case s of d # e # _ \<Rightarrow> if second3 c d \<and> in_range 0x80 0xBF e then 3 else 0 | _ \<Rightarrow> 0)
      else if in_range 0xF0 0xF4 c then
        (case s of d # e # f # _ \<Rightarrow>
           if second4 c d \<and> in_range 0x80 0xBF e \<and> in_range 0x80 0xBF f then 4 else 0
         | _ \<Rightarrow> 0)
      else 0)"

definition utf8_encode :: "nat \<Rightarrow> string" where
  "utf8_encode r =
     (if r < 0x80 then [char_of r]
      else if r < 0x800 then [char_of (0xC0 + r div 64), char_of (0x80 + r mod 64)]
      else if r < 0x10000 then
        [char_of (0xE0 + r div 4096), char_of (0x80 + r div 64 mod 64), char_of (0x80 + r mod 64)]
      else [char_of (0xF0 + r div 262144), char_of (0x80 + r div 4096 mod 64),
            char_of (0x80 + r div 64 mod 64), char_of (0x80 + r mod 64)])"

definition replacement :: string where
  "replacement = utf8_encode 0xFFFD"

lemma utf8_size_le: "utf8_size s \<le> length s"
  by (cases s) (auto split: list.splits)

function valid_utf8 :: "string \<Rightarrow> bool" where
  "valid_utf8 s =
     (if s = [] then True else if utf8_size s = 0 then False else valid_utf8 (drop (utf8_size s) s))"
  by auto
termination by (relation "measure length") auto

declare valid_utf8.simps [simp del]

section \<open>Strings\<close>

definition short_escapes :: "(char \<times> char) list" where
  "short_escapes = [(CHR 0x22, CHR 0x22), (CHR 0x5C, CHR 0x5C), (CHR 0x08, CHR ''b''), (CHR 0x0C, CHR ''f''),
     (CHR 0x0A, CHR ''n''), (CHR 0x0D, CHR ''r''), (CHR 0x09, CHR ''t'')]"

definition json_escape_byte :: "char \<Rightarrow> string" where
  "json_escape_byte c =
     (case map_of short_escapes c of
        Some e \<Rightarrow> [CHR 0x5C, e]
      | None \<Rightarrow> if ord c < 0x20 \<or> c \<in> {CHR ''<'', CHR ''>'', CHR ''&''}
          then CHR 0x5C # ''u00'' @ [hextable ! (ord c div 16), hextable ! (ord c mod 16)]
          else [c])"

text \<open>U+2028 and U+2029 are escaped, too.\<close>

definition json_escape_rune :: "string \<Rightarrow> string" where
  "json_escape_rune r =
     (if r = utf8_encode 0x2028 then CHR 0x5C # ''u2028''
      else if r = utf8_encode 0x2029 then CHR 0x5C # ''u2029''
      else r)"

function json_escape :: "string \<Rightarrow> string" where
  "json_escape [] = []"
| "json_escape (c # s) =
     (if is_ascii c then json_escape_byte c @ json_escape s
      else if utf8_size (c # s) = 0 then (CHR 0x5C # ''ufffd'') @ json_escape s
      else json_escape_rune (take (utf8_size (c # s)) (c # s)) @ json_escape (drop (utf8_size (c # s)) (c # s)))"
  by pat_completeness auto
termination by (relation "measure length") auto

definition json_quote :: "string \<Rightarrow> string" where
  "json_quote s = CHR 0x22 # json_escape s @ [CHR 0x22]"

fun hex4 :: "string \<Rightarrow> (nat \<times> string) option" where
  "hex4 (a # b # c # d # s) =
     (case (hex_val a, hex_val b, hex_val c, hex_val d) of
        (Some x, Some y, Some z, Some w) \<Rightarrow> Some (((x * 16 + y) * 16 + z) * 16 + w, s)
      | _ \<Rightarrow> None)"
| "hex4 _ = None"

text \<open>A surrogate stands for a character together with the low surrogate after it only.\<close>

definition low_surrogate :: "string \<Rightarrow> (nat \<times> string) option" where
  "low_surrogate s =
     (case s of
        x # y # t \<Rightarrow> if x = CHR 0x5C \<and> y = CHR ''u''
          then (case hex4 t of
                  Some (r, t') \<Rightarrow> if 0xDC00 \<le> r \<and> r < 0xE000 then Some (r, t') else None
                | None \<Rightarrow> None)
          else None
      | _ \<Rightarrow> None)"

definition unescape_rune :: "nat \<Rightarrow> string \<Rightarrow> string \<times> string" where
  "unescape_rune r s =
     (if r < 0xD800 \<or> 0xE000 \<le> r then (utf8_encode r, s)
      else if 0xDC00 \<le> r then (replacement, s)
      else case low_surrogate s of
        Some (r2, t) \<Rightarrow> (utf8_encode (0x10000 + (r - 0xD800) * 1024 + (r2 - 0xDC00)), t)
      | None \<Rightarrow> (replacement, s))"

definition simple_escape :: "char \<Rightarrow> char option" where
  "simple_escape c = map_of [(CHR 0x22, CHR 0x22), (CHR 0x5C, CHR 0x5C), (CHR ''/'', CHR ''/''),
     (CHR ''b'', CHR 0x08), (CHR ''f'', CHR 0x0C), (CHR ''n'', CHR 0x0A), (CHR ''r'', CHR 0x0D),
     (CHR ''t'', CHR 0x09)] c"

definition json_unescape :: "string \<Rightarrow> (string \<times> string) option" where
  "json_unescape s =
     (case s of
        [] \<Rightarrow> None
      | e # t \<Rightarrow> if e = CHR ''u'' then map_option (\<lambda>(r, t'). unescape_rune r t') (hex4 t)
                 else map_option (\<lambda>x. ([x], t)) (simple_escape e))"

lemma hex4_length: "hex4 s = Some (r, t) \<Longrightarrow> length t < length s"
  by (induction s rule: hex4.induct) (auto split: option.splits)

lemma unescape_rune_length: "unescape_rune r s = (x, t) \<Longrightarrow> length t \<le> length s"
  by (auto simp: unescape_rune_def low_surrogate_def split: if_splits list.splits option.splits dest!: hex4_length)

lemma json_unescape_length: "json_unescape s = Some (x, t) \<Longrightarrow> length t < length s"
  by (auto simp: json_unescape_def split: list.splits if_splits dest!: hex4_length unescape_rune_length)

text \<open>The rest of a string literal, after its opening quote: its value, and what follows it.\<close>

function json_chars :: "string \<Rightarrow> (string \<times> string) option" where
  "json_chars [] = None"
| "json_chars (c # s) =
     (if c = CHR 0x22 then Some ([], s)
      else if c = CHR 0x5C then
        (case json_unescape s of
           None \<Rightarrow> None
         | Some (x, t) \<Rightarrow> map_option (apfst ((@) x)) (json_chars t))
      else if ord c < 0x20 then None
      else if utf8_size (c # s) = 0 then map_option (apfst ((@) replacement)) (json_chars s)
      else map_option (apfst ((@) (take (utf8_size (c # s)) (c # s)))) (json_chars (drop (utf8_size (c # s)) (c # s))))"
  by pat_completeness auto
termination by (relation "measure length") (auto dest: json_unescape_length)


section \<open>Values\<close>

datatype json =
    JNull | JBool bool | JNum string | JStr string | JArr "json list" | JObj "(string \<times> json) list"

fun skip_ws :: "string \<Rightarrow> string" where
  "skip_ws [] = []"
| "skip_ws (c # s) = (if c \<in> {CHR '' '', CHR 0x09, CHR 0x0A, CHR 0x0D} then skip_ws s else c # s)"

definition is_digit :: "char \<Rightarrow> bool" where
  "is_digit c \<longleftrightarrow> digit_val c \<noteq> None"

text \<open>A number literal: an optional sign, digits without a leading zero, an optional fraction
  and an optional exponent. Each part answers what it read and what follows.\<close>

definition num_digits :: "string \<Rightarrow> (string \<times> string) option" where
  "num_digits s = (if takeWhile is_digit s = [] then None else Some (takeWhile is_digit s, dropWhile is_digit s))"

definition num_sign :: "string \<Rightarrow> string \<Rightarrow> string \<times> string" where
  "num_sign cs s = (case s of c # t \<Rightarrow> if c \<in> set cs then ([c], t) else ([], s) | [] \<Rightarrow> ([], s))"

definition num_int :: "string \<Rightarrow> (string \<times> string) option" where
  "num_int s = (case s of
     c # t \<Rightarrow> if c = CHR ''0'' then Some ([c], t) else num_digits s | [] \<Rightarrow> None)"

definition num_frac :: "string \<Rightarrow> (string \<times> string) option" where
  "num_frac s = (case s of
     c # t \<Rightarrow> if c = CHR ''.'' then map_option (apfst ((#) c)) (num_digits t) else Some ([], s)
   | [] \<Rightarrow> Some ([], s))"

definition num_exp :: "string \<Rightarrow> (string \<times> string) option" where
  "num_exp s = (case s of
     c # t \<Rightarrow> if c = CHR ''e'' \<or> c = CHR ''E''
       then (let (sg, t1) = num_sign ''+-'' t in map_option (apfst (\<lambda>ds. c # sg @ ds)) (num_digits t1))
       else Some ([], s)
   | [] \<Rightarrow> Some ([], s))"

definition json_number :: "string \<Rightarrow> (string \<times> string) option" where
  "json_number s =
     (let (sg, s1) = num_sign ''-'' s
      in Option.bind (num_int s1) (\<lambda>(a, s2). Option.bind (num_frac s2) (\<lambda>(b, s3).
         map_option (apfst (\<lambda>e. sg @ a @ b @ e)) (num_exp s3))))"

definition json_literal :: "string \<Rightarrow> (json \<times> string) option" where
  "json_literal s =
     (if strings_HasPrefix s ''true'' then Some (JBool True, drop 4 s)
      else if strings_HasPrefix s ''false'' then Some (JBool False, drop 5 s)
      else if strings_HasPrefix s ''null'' then Some (JNull, drop 4 s)
      else map_option (apfst JNum) (json_number s))"

text \<open>
  Values by recursive descent. \<open>depth\<close> is the nesting still allowed (Go allows 10000), the
  first argument a bound on the steps: every call reads a character before the next one, so the
  length of the input is enough.
\<close>

fun json_value :: "nat \<Rightarrow> nat \<Rightarrow> string \<Rightarrow> (json \<times> string) option"
  and json_elements :: "nat \<Rightarrow> nat \<Rightarrow> string \<Rightarrow> (json list \<times> string) option"
  and json_members :: "nat \<Rightarrow> nat \<Rightarrow> string \<Rightarrow> ((string \<times> json) list \<times> string) option" where
  "json_value 0 depth s = None"
| "json_value (Suc n) depth s =
     (case skip_ws s of
        [] \<Rightarrow> None
      | c # t \<Rightarrow>
          if c = CHR 0x22 then map_option (apfst JStr) (json_chars t)
          else if c = CHR ''{'' then
            (if depth = 0 then None
             else case skip_ws t of
               [] \<Rightarrow> None
             | d # t' \<Rightarrow> if d = CHR ''}'' then Some (JObj [], t')
                 else map_option (apfst JObj) (json_members n (depth - 1) t))
          else if c = CHR ''['' then
            (if depth = 0 then None
             else case skip_ws t of
               [] \<Rightarrow> None
             | d # t' \<Rightarrow> if d = CHR '']'' then Some (JArr [], t')
                 else map_option (apfst JArr) (json_elements n (depth - 1) t))
          else json_literal (c # t))"
| "json_elements 0 depth s = None"
| "json_elements (Suc n) depth s =
     (case json_value n depth s of
        None \<Rightarrow> None
      | Some (v, t) \<Rightarrow>
          (case skip_ws t of
             [] \<Rightarrow> None
           | d # t' \<Rightarrow> if d = CHR '']'' then Some ([v], t')
               else if d = CHR '','' then map_option (apfst ((#) v)) (json_elements n depth t')
               else None))"
| "json_members 0 depth s = None"
| "json_members (Suc n) depth s =
     (case skip_ws s of
        [] \<Rightarrow> None
      | c # t \<Rightarrow> if c \<noteq> CHR 0x22 then None
          else case json_chars t of
            None \<Rightarrow> None
          | Some (k, t1) \<Rightarrow>
              (case skip_ws t1 of
                 [] \<Rightarrow> None
               | c1 # t2 \<Rightarrow> if c1 \<noteq> CHR '':'' then None
                   else case json_value n depth t2 of
                     None \<Rightarrow> None
                   | Some (v, t3) \<Rightarrow>
                       (case skip_ws t3 of
                          [] \<Rightarrow> None
                        | d # t4 \<Rightarrow> if d = CHR ''}'' then Some ([(k, v)], t4)
                            else if d = CHR '','' then map_option (apfst ((#) (k, v))) (json_members n depth t4)
                            else None)))"

text \<open>\<open>Decoder.Decode\<close> reads the first value, \<open>json.Unmarshal\<close> wants nothing after it.\<close>

definition json_first :: "string \<Rightarrow> (json \<times> string) option" where
  "json_first s = json_value (2 * length s + 1) 10000 s"

definition json_parse :: "string \<Rightarrow> json option" where
  "json_parse s = (case json_first s of
     Some (v, t) \<Rightarrow> if skip_ws t = [] then Some v else None
   | None \<Rightarrow> None)"

text \<open>Field names are matched without regard to ASCII case; the last match wins, null and
  unknown fields are ignored.\<close>

definition ascii_lower :: "char \<Rightarrow> char" where
  "ascii_lower c = (if in_range 0x41 0x5A c then char_of (ord c + 0x20) else c)"

definition same_field :: "string \<Rightarrow> string \<Rightarrow> bool" where
  "same_field a b \<longleftrightarrow> map ascii_lower a = map ascii_lower b"

text \<open>Decoding into a string field and into a boolean one: another type is an error.\<close>

fun into_string :: "json \<Rightarrow> string \<Rightarrow> string option" where
  "into_string (JStr s) old = Some s"
| "into_string JNull old = Some old"
| "into_string _ old = None"

fun into_bool :: "json \<Rightarrow> bool \<Rightarrow> bool option" where
  "into_bool (JBool b) old = Some b"
| "into_bool JNull old = Some old"
| "into_bool _ old = None"

fun into_int64 :: "json \<Rightarrow> int \<Rightarrow> int option" where
  "into_int64 (JNum n) old = strconv_Atoi n"
| "into_int64 JNull old = Some old"
| "into_int64 _ old = None"

fun into_field :: "(json \<Rightarrow> 'a \<Rightarrow> 'a option) \<Rightarrow> string \<Rightarrow> (string \<times> json) list \<Rightarrow> 'a \<Rightarrow> 'a option" where
  "into_field f name [] old = Some old"
| "into_field f name ((k, v) # kvs) old =
     (if same_field k name then Option.bind (f v old) (into_field f name kvs) else into_field f name kvs old)"

text \<open>An object with string fields, as \<open>json.Marshal\<close> prints it.\<close>

fun json_print_fields :: "(string \<times> string) list \<Rightarrow> string" where
  "json_print_fields [] = []"
| "json_print_fields [(k, v)] = json_quote k @ '':'' @ json_quote v"
| "json_print_fields ((k, v) # kvs) = json_quote k @ '':'' @ json_quote v @ '','' @ json_print_fields kvs"

definition json_print :: "(string \<times> string) list \<Rightarrow> string" where
  "json_print kvs = ''{'' @ json_print_fields kvs @ ''}''"


section \<open>Round trip of strings\<close>

lemma utf8_size_prefix:
  assumes "0 < utf8_size s"
  shows "utf8_size (take (utf8_size s) s @ t) = utf8_size s"
  using assms by (cases s) (auto split: list.splits if_splits)

lemma utf8_size_ascii: "utf8_size (c # s) = 1 \<longleftrightarrow> is_ascii c"
  by (auto split: list.splits if_splits)

lemma append_fun: "(@) (c # r) = (\<lambda>t. c # r @ t)"
  by (simp add: fun_eq_iff)

lemma utf8_encode_ascii: "r < 0x80 \<Longrightarrow> utf8_encode r = [char_of r]"
  by (simp add: utf8_encode_def)

lemma hex4_byte:
  assumes "n < 256"
  shows "hex4 (''00'' @ [hextable ! (n div 16), hextable ! (n mod 16)] @ t) = Some (n, t)"
proof -
  have "n div 16 < 16" using assms by simp
  moreover have "hex_val CHR ''0'' = Some 0" by code_simp
  ultimately show ?thesis by (simp add: hex_val_table)
qed

lemma json_chars_escape_byte:
  assumes "is_ascii c"
  shows "json_chars (json_escape_byte c @ t) = map_option (apfst ((#) c)) (json_chars t)"
proof (cases "map_of short_escapes c")
  case (Some e)
  have "\<forall>(x, y) \<in> set short_escapes. simple_escape y = Some x \<and> y \<noteq> CHR ''u''" by code_simp
  with map_of_SomeD [OF Some] have "simple_escape e = Some c" "e \<noteq> CHR ''u''" by auto
  with Some show ?thesis by (simp add: json_escape_byte_def json_unescape_def append_fun)
next
  case None
  then have n: "c \<noteq> CHR 0x22" "c \<noteq> CHR 0x5C" by (auto simp: short_escapes_def split: if_splits)
  show ?thesis
  proof (cases "ord c < 0x20 \<or> c \<in> {CHR ''<'', CHR ''>'', CHR ''&''}")
    case True
    have "unescape_rune (ord c) t = ([c], t)" using assms by (simp add: is_ascii_def unescape_rune_def utf8_encode_def)
    then have "json_unescape (''u00'' @ [hextable ! (ord c div 16), hextable ! (ord c mod 16)] @ t) = Some ([c], t)"
      using hex4_byte [of "ord c" t] assms by (simp add: is_ascii_def json_unescape_def)
    then show ?thesis using None True by (simp add: json_escape_byte_def append_fun)
  next
    case False
    then show ?thesis using None n assms by (simp add: json_escape_byte_def append_fun)
  qed
qed

lemma json_chars_escape_rune:
  assumes "0 < utf8_size (c # s)" "\<not> is_ascii c"
  shows "json_chars (json_escape_rune (take (utf8_size (c # s)) (c # s)) @ t) =
    map_option (apfst ((@) (take (utf8_size (c # s)) (c # s)))) (json_chars t)"
proof -
  let ?n = "utf8_size (c # s)" let ?r = "take ?n (c # s)"
  have n: "0 < ?n" using assms(1) .
  then obtain r where r: "?r = c # r" by (cases ?n) simp_all
  have size: "utf8_size (c # r @ t) = ?n" using utf8_size_prefix [OF assms(1), of t] r by simp
  have len: "length ?r = ?n" using utf8_size_le [of "c # s"] by simp
  have "take ?n (c # r @ t) = ?r" "drop ?n (c # r @ t) = t" using len r
    by (metis append_Cons append_eq_conv_conj)+
  moreover have "c \<noteq> CHR 0x22" "c \<noteq> CHR 0x5C" "\<not> ord c < 0x20"
    using assms(2) by (auto simp: is_ascii_def)
  ultimately have plain: "json_chars (?r @ t) = map_option (apfst ((@) ?r)) (json_chars t)"
    using n size unfolding r append_Cons by (simp add: append_fun del: utf8_size.simps)
  have special: "json_chars ((CHR 0x5C # ''u2028'') @ t) = map_option (apfst ((@) (utf8_encode 0x2028))) (json_chars t)"
    "json_chars ((CHR 0x5C # ''u2029'') @ t) = map_option (apfst ((@) (utf8_encode 0x2029))) (json_chars t)"
  proof -
    have h: "hex4 (''2028'' @ t) = Some (0x2028, t)" "hex4 (''2029'' @ t) = Some (0x2029, t)"
    proof -
      have "hex_val CHR ''2'' = Some 2 \<and> hex_val CHR ''0'' = Some 0 \<and> hex_val CHR ''8'' = Some 8 \<and> hex_val CHR ''9'' = Some 9"
        by code_simp
      then show "hex4 (''2028'' @ t) = Some (0x2028, t)" "hex4 (''2029'' @ t) = Some (0x2029, t)" by simp_all
    qed
    show "json_chars ((CHR 0x5C # ''u2028'') @ t) = map_option (apfst ((@) (utf8_encode 0x2028))) (json_chars t)"
      "json_chars ((CHR 0x5C # ''u2029'') @ t) = map_option (apfst ((@) (utf8_encode 0x2029))) (json_chars t)"
      using h by (simp_all add: json_unescape_def unescape_rune_def)
  qed
  show ?thesis
    using plain special by (auto simp: json_escape_rune_def)
qed

lemma json_chars_quote:
  assumes "valid_utf8 s"
  shows "json_chars (json_escape s @ CHR 0x22 # t) = Some (s, t)"
  using assms
proof (induction s rule: json_escape.induct)
  case (2 c s)
  have size: "utf8_size (c # s) \<noteq> 0" and rest: "valid_utf8 (drop (utf8_size (c # s)) (c # s))"
    using 2(4) by (simp_all add: valid_utf8.simps [of "c # s"] del: utf8_size.simps split: if_splits)
  show ?case
  proof (cases "is_ascii c")
    case True
    then have "utf8_size (c # s) = 1" by (simp only: utf8_size_ascii)
    with rest have "valid_utf8 s" by (simp del: utf8_size.simps)
    with 2(1) True show ?thesis by (simp add: json_chars_escape_byte)
  next
    case False
    let ?n = "utf8_size (c # s)"
    have "json_chars (json_escape (drop ?n (c # s)) @ CHR 0x22 # t) = Some (drop ?n (c # s), t)"
      using 2(3) False size rest by blast
    then show ?thesis
      using False size json_chars_escape_rune [of c s]
      by (simp del: utf8_size.simps)
  qed
qed simp


section \<open>Round trip of objects with string fields\<close>

lemma json_value_quote: "valid_utf8 v \<Longrightarrow> json_value (Suc n) depth (json_quote v @ t) = Some (JStr v, t)"
  by (simp add: json_quote_def json_chars_quote)

lemma skip_quote: "skip_ws (json_quote k @ t) = CHR 0x22 # json_escape k @ CHR 0x22 # t"
  by (simp add: json_quote_def)

lemma json_members_step:
  assumes "valid_utf8 k" "valid_utf8 v" "d \<in> {CHR ''}'', CHR '',''}"
  shows "json_members (Suc (Suc n)) depth (json_quote k @ CHR '':'' # json_quote v @ d # t) =
    (if d = CHR ''}'' then Some ([(k, JStr v)], t)
     else map_option (apfst ((#) (k, JStr v))) (json_members (Suc n) depth t))"
proof -
  have c: "skip_ws (CHR '':'' # r) = CHR '':'' # r" "skip_ws (d # t) = d # t" for r using assms(3) by auto
  show ?thesis
    unfolding json_members.simps(2) [of "Suc n"] skip_quote list.case json_chars_quote [OF assms(1)] option.case
      prod.case c json_value_quote [OF assms(2)]
    using assms(3) by auto
qed

lemma json_members_print:
  assumes "kvs \<noteq> []" "\<forall>(k, v) \<in> set kvs. valid_utf8 k \<and> valid_utf8 v" "length kvs < n"
  shows "json_members n depth (json_print_fields kvs @ CHR ''}'' # t) = Some (map (apsnd JStr) kvs, t)"
  using assms
proof (induction kvs arbitrary: n rule: json_print_fields.induct)
  case (2 k v)
  then have n: "n = Suc (Suc (n - 2))" by simp
  show ?case using 2(2) json_members_step [of k v "CHR ''}''" "n - 2" depth t, folded n] by simp
next
  case (3 k v kv kvs)
  then have n: "n = Suc (Suc (n - 2))" by simp
  have rest: "json_members (Suc (n - 2)) depth (json_print_fields (kv # kvs) @ CHR ''}'' # t) = Some (map (apsnd JStr) (kv # kvs), t)"
    by (rule 3(1)) (use 3(3,4) in auto)
  then show ?case
    using 3(3) json_members_step [of k v "CHR '',''" "n - 2" depth "json_print_fields (kv # kvs) @ CHR ''}'' # t", folded n]
    by simp
qed simp

lemma print_fields_length: "length kvs \<le> length (json_print_fields kvs)"
  by (induction kvs rule: json_print_fields.induct) (auto simp: json_quote_def)

lemma print_fields_quote: "kvs \<noteq> [] \<Longrightarrow> \<exists>r. json_print_fields kvs = CHR 0x22 # r"
  by (cases kvs rule: json_print_fields.cases) (auto simp: json_quote_def)

lemma json_parse_print:
  assumes "kvs \<noteq> []" "\<forall>(k, v) \<in> set kvs. valid_utf8 k \<and> valid_utf8 v"
  shows "json_parse (json_print kvs) = Some (JObj (map (apsnd JStr) kvs))"
proof -
  let ?m = "2 * length (json_print kvs)"
  obtain r where r: "json_print_fields kvs = CHR 0x22 # r" using print_fields_quote [OF assms(1)] by blast
  have "length kvs < ?m" using print_fields_length [of kvs] by (simp add: json_print_def)
  from json_members_print [OF assms this, of 9999 "[]"]
  have "json_value (Suc ?m) 10000 (json_print kvs) = Some (JObj (map (apsnd JStr) kvs), [])"
    by (simp add: json_print_def r)
  then show ?thesis by (simp add: json_parse_def json_first_def)
qed

section \<open>The fuel is enough\<close>

lemma skip_ws_length: "length (skip_ws s) \<le> length s"
  by (induction s) auto

lemma skip_ws_Cons: "skip_ws s = c # t \<Longrightarrow> length t < length s"
  using skip_ws_length [of s] by simp

lemma json_chars_length: "json_chars s = Some (x, t) \<Longrightarrow> length t < length s"
proof (induction s arbitrary: x t rule: json_chars.induct)
  case (2 c s)
  consider "c = CHR 0x22" | "c = CHR 0x5C" | "utf8_size (c # s) = 0" "c \<noteq> CHR 0x22" "c \<noteq> CHR 0x5C"
    | "utf8_size (c # s) > 0" "c \<noteq> CHR 0x22" "c \<noteq> CHR 0x5C" by auto
  then show ?case
  proof cases
    case 1
    with 2 show ?thesis by simp
  next
    case 2
    with "2.prems" obtain y u z where "json_unescape s = Some (y, u)" "json_chars u = Some (z, t)"
      by (auto split: option.splits)
    with "2.IH"(1) [of "(y, u)" y u] json_unescape_length 2 show ?thesis by fastforce
  next
    case 3
    with "2.prems" obtain z where "json_chars s = Some (z, t)" "\<not> ord c < 0x20" by (auto split: if_splits)
    with "2.IH"(2) 3 show ?thesis by fastforce
  next
    case 4
    with "2.prems" obtain z where "json_chars (drop (utf8_size (c # s)) (c # s)) = Some (z, t)" "\<not> ord c < 0x20"
      by (auto split: if_splits)
    with "2.IH"(3) 4 have "length t < length (drop (utf8_size (c # s)) (c # s))" by blast
    then show ?thesis using 4 by simp
  qed
qed simp

lemma num_digits_length: "num_digits s = Some (a, t) \<Longrightarrow> length t < length s"
  unfolding num_digits_def
  by (cases s) (auto split: if_splits simp: le_imp_less_Suc length_dropWhile_le)

lemma num_sign_length: "num_sign cs s = (a, t) \<Longrightarrow> length t \<le> length s"
  by (auto simp: num_sign_def split: list.splits if_splits)

lemma num_int_length: "num_int s = Some (a, t) \<Longrightarrow> length t < length s"
  by (auto simp: num_int_def split: list.splits if_splits dest: num_digits_length)

lemma num_frac_length: "num_frac s = Some (a, t) \<Longrightarrow> length t \<le> length s"
  by (auto simp: num_frac_def split: list.splits if_splits dest: num_digits_length)

lemma num_exp_length: "num_exp s = Some (a, t) \<Longrightarrow> length t \<le> length s"
  by (auto simp: num_exp_def split: list.splits if_splits prod.splits dest!: num_digits_length num_sign_length)

lemma json_number_length: "json_number s = Some (a, t) \<Longrightarrow> length t < length s"
  by (auto simp: json_number_def split: prod.splits bind_splits
      dest!: num_sign_length num_int_length num_frac_length num_exp_length)

lemma HasPrefix_length: "strings_HasPrefix s p \<Longrightarrow> length p \<le> length s"
  by (auto simp: HasPrefix_iff)

lemma json_literal_length: "json_literal s = Some (v, t) \<Longrightarrow> length t < length s"
  using HasPrefix_length [of s]
  by (auto simp: json_literal_def split: if_splits dest: json_number_length) (fastforce dest: HasPrefix_length)+

text \<open>Fuel: as many steps as characters are read are enough.\<close>

lemma fuelI:
  assumes "length t < length s" "\<And>k. length s \<le> Suc k + length t \<Longrightarrow> P (Suc k)"
  shows "length t < length s \<and> (\<forall>m. length s \<le> m + length t \<longrightarrow> P m)"
proof (intro conjI allI impI assms(1))
  fix m assume "length s \<le> m + length t"
  with assms show "P m" by (cases m) auto
qed

lemma json_fuel:
  "json_value n depth s = Some (v, t) \<Longrightarrow>
     length t < length s \<and> (\<forall>m. length s \<le> m + length t \<longrightarrow> json_value m depth s = Some (v, t))"
  "json_elements n depth s = Some (vs, t) \<Longrightarrow>
     length t < length s \<and> (\<forall>m. length s \<le> m + length t \<longrightarrow> json_elements m depth s = Some (vs, t))"
  "json_members n depth s = Some (ms, t) \<Longrightarrow>
     length t < length s \<and> (\<forall>m. length s \<le> m + length t \<longrightarrow> json_members m depth s = Some (ms, t))"
proof (induction n depth s and n depth s and n depth s arbitrary: v t and vs t and ms t
    rule: json_value_json_elements_json_members.induct)
  case (2 n depth s)
  from "2.prems" obtain c u where s: "skip_ws s = c # u" by (auto split: list.splits)
  note len = skip_ws_Cons [OF s]
  consider (str) "c = CHR 0x22" | (obj) "c = CHR ''{''" | (arr) "c = CHR ''[''" | (lit) "c \<notin> {CHR 0x22, CHR ''{'', CHR ''[''}"
    by blast
  then show ?case
  proof cases
    case str
    with "2.prems" s obtain x where x: "json_chars u = Some (x, t)" "v = JStr x" by auto
    from json_chars_length [OF x(1)] len x str s show ?thesis by (intro fuelI) auto
  next
    case obj
    with "2.prems" s obtain d t' where d: "depth \<noteq> 0" "skip_ws u = d # t'"
      by (auto split: if_splits list.splits)
    show ?thesis
    proof (cases "d = CHR ''}''")
      case True
      with "2.prems" s obj d have "v = JObj []" "t = t'" by auto
      with True s obj d len skip_ws_Cons [OF d(2)] show ?thesis by (intro fuelI) auto
    next
      case False
      with "2.prems" s obj d obtain kvs where m: "json_members n (depth - 1) u = Some (kvs, t)" "v = JObj kvs"
        by auto
      have ih: "length t < length u"
        "\<forall>m. length u \<le> m + length t \<longrightarrow> json_members m (depth - 1) u = Some (kvs, t)"
        using "2.IH"(1) [OF s _ _ d(1) d(2) False m(1)] obj by simp_all
      with s obj d False m len show ?thesis by (intro fuelI) auto
    qed
  next
    case arr
    with "2.prems" s obtain d t' where d: "depth \<noteq> 0" "skip_ws u = d # t'"
      by (auto split: if_splits list.splits)
    show ?thesis
    proof (cases "d = CHR '']''")
      case True
      with "2.prems" s arr d have "v = JArr []" "t = t'" by auto
      with True s arr d len skip_ws_Cons [OF d(2)] show ?thesis by (intro fuelI) auto
    next
      case False
      with "2.prems" s arr d obtain xs where m: "json_elements n (depth - 1) u = Some (xs, t)" "v = JArr xs"
        by auto
      have ih: "length t < length u"
        "\<forall>m. length u \<le> m + length t \<longrightarrow> json_elements m (depth - 1) u = Some (xs, t)"
        using "2.IH"(2) [OF s _ _ _ d(1) d(2) False m(1)] arr by simp_all
      with s arr d False m len show ?thesis by (intro fuelI) auto
    qed
  next
    case lit
    with "2.prems" s have "json_literal (c # u) = Some (v, t)" by simp
    with json_literal_length [OF this] skip_ws_length [of s] s lit show ?thesis by (intro fuelI) auto
  qed
next
  case (4 n depth s)
  from "4.prems" obtain v u where v: "json_value n depth s = Some (v, u)" by (auto split: option.splits)
  note ihv = "4.IH"(1) [OF v]
  from "4.prems" v obtain d t' where d: "skip_ws u = d # t'" by (auto split: list.splits)
  show ?case
  proof (cases "d = CHR '']''")
    case True
    with "4.prems" v d have "vs = [v]" "t = t'" by auto
    with True v d ihv skip_ws_Cons [OF d] show ?thesis by (intro fuelI) auto
  next
    case False
    with "4.prems" v d obtain ws where w: "d = CHR '',''" "json_elements n depth t' = Some (ws, t)" "vs = v # ws"
      by (auto split: if_splits)
    have ih: "length t < length t'"
      "\<forall>m. length t' \<le> m + length t \<longrightarrow> json_elements m depth t' = Some (ws, t)"
      using "4.IH"(2) [OF v refl d False w(1,2)] by simp_all
    with False v d w ihv skip_ws_Cons [OF d] show ?thesis by (intro fuelI) auto
  qed
next
  case (6 n depth s)
  from "6.prems" obtain u0 where s: "skip_ws s = CHR 0x22 # u0" by (auto split: list.splits if_splits)
  with "6.prems" obtain k t1 where k: "json_chars u0 = Some (k, t1)" by (auto split: option.splits)
  with "6.prems" s obtain t2 where t2: "skip_ws t1 = CHR '':'' # t2" by (auto split: list.splits if_splits)
  with "6.prems" s k obtain v t3 where v: "json_value n depth t2 = Some (v, t3)" by (auto split: option.splits)
  from "6.IH"(1) [of "CHR 0x22" u0 "(k, t1)" k t1 "CHR '':''" t2 v t3] s k t2 v have ihv: "length t3 < length t2"
    "\<forall>m. length t2 \<le> m + length t3 \<longrightarrow> json_value m depth t2 = Some (v, t3)" by auto
  from "6.prems" s k t2 v obtain d t4 where d: "skip_ws t3 = d # t4" by (auto split: list.splits)
  note lens = skip_ws_Cons [OF s] json_chars_length [OF k] skip_ws_Cons [OF t2] skip_ws_Cons [OF d]
  show ?case
  proof (cases "d = CHR ''}''")
    case True
    with "6.prems" s k t2 v d have "ms = [(k, v)]" "t = t4" by auto
    with True s k t2 v d ihv lens show ?thesis by (intro fuelI) auto
  next
    case False
    with "6.prems" s k t2 v d obtain ws where w: "d = CHR '',''" "json_members n depth t4 = Some (ws, t)"
      "ms = (k, v) # ws" by (auto split: if_splits)
    from "6.IH"(2) [of "CHR 0x22" u0 "(k, t1)" k t1 "CHR '':''" t2 "(v, t3)" v t3 d t4 ws t] s k t2 v d w False
    have ih: "length t < length t4"
      "\<forall>m. length t4 \<le> m + length t \<longrightarrow> json_members m depth t4 = Some (ws, t)" by auto
    with False s k t2 v d w ihv lens show ?thesis by (intro fuelI) auto
  qed
qed simp_all

text \<open>So the decoders' answers do not depend on the fuel they choose.\<close>

lemma json_first_fuel:
  assumes "length s \<le> n"
  shows "json_value n 10000 s = json_first s"
proof (cases "json_value n 10000 s")
  case (Some p)
  obtain v t where p: "p = (v, t)" by (cases p)
  from json_fuel(1) [of n 10000 s v t] Some p show ?thesis unfolding json_first_def by (simp del: json_value.simps)
next
  case None
  show ?thesis
  proof (cases "json_first s")
    case (Some p)
    obtain v t where p: "p = (v, t)" by (cases p)
    with Some json_fuel(1) [of "2 * length s + 1" 10000 s v t] assms None show ?thesis
      unfolding json_first_def by (simp del: json_value.simps)
  qed (use None in simp)
qed

end
