(* ===== verification/OidcDomain.thy ===== *)
theory OidcDomain
  imports GoEncoding
begin

text \<open>
  The data of the identity service: \<open>internal/identity/domain.go\<close>,
  \<open>internal/oidc/domain.go\<close>, and the repository interfaces of the two \<open>ports.go\<close> as
  records of methods. A nil and an empty slice are the same list; \<open>*string\<close> and
  \<open>*time.Time\<close> are options; a \<open>time.Time\<close> is an integer number of nanoseconds.
\<close>

section \<open>Identities\<close>

record User =
  uID :: string
  uEmail :: string
  uEmailVerified :: bool
  uName :: string
  uGivenName :: string
  uFamilyName :: string
  uPicture :: string
  uCreatedAt :: int
  uUpdatedAt :: int
  uLocalName :: "string option"
  uLocalPicture :: "string option"

record FederatedIdentity =
  fiID :: string
  fiUserID :: string
  fiProvider :: string
  fiProviderSubject :: string
  fiProviderEmail :: string
  fiProviderEmailVerified :: bool
  fiProviderDisplayName :: string
  fiProviderGivenName :: string
  fiProviderFamilyName :: string
  fiProviderPictureURL :: string
  fiLastLoginAt :: int
  fiCreatedAt :: int
  fiUpdatedAt :: int

record FederatedClaims =
  fcSubject :: string
  fcEmail :: string
  fcEmailVerified :: bool
  fcName :: string
  fcGivenName :: string
  fcFamilyName :: string
  fcPicture :: string

record 'w Repository =
  User_GetByID :: "string \<Rightarrow> ('w, goerr + User) state"
  FindByFederatedIdentity :: "string \<Rightarrow> string \<Rightarrow> ('w, goerr + User option) state"
  CreateWithFederatedIdentity :: "User \<Rightarrow> FederatedIdentity \<Rightarrow> ('w, goerr + unit) state"
  UpdateUserFromClaims :: "string \<Rightarrow> FederatedClaims \<Rightarrow> int \<Rightarrow> ('w, goerr + unit) state"
  UpdateFederatedIdentityClaims ::
    "string \<Rightarrow> string \<Rightarrow> FederatedClaims \<Rightarrow> int \<Rightarrow> ('w, goerr + unit) state"
  ListFederatedIdentities :: "string \<Rightarrow> ('w, goerr + FederatedIdentity list) state"
  DeleteFederatedIdentity :: "string \<Rightarrow> string \<Rightarrow> ('w, goerr + unit) state"
  UpdateLocalProfile ::
    "string \<Rightarrow> string option \<Rightarrow> string option \<Rightarrow> int \<Rightarrow> ('w, goerr + unit) state"

section \<open>OpenID Connect\<close>

record AuthRequest =
  arID :: string
  arClientID :: string
  arRedirectURI :: string
  arState :: string
  arNonce :: string
  arScopes :: "string list"
  arResponseType :: string
  arResponseMode :: string
  arCodeChallenge :: string
  arCodeChallengeMethod :: string
  arPrompt :: "string list"
  arMaxAge :: "int option"
  arLoginHint :: string
  arUserID :: string
  arAuthTime :: int
  arAMR :: "string list"
  arIsDone :: bool
  arCode :: string
  arCreatedAt :: int
  arDeviceSessionID :: string

record Client =
  clID :: string
  clSecretHash :: string
  clRedirectURIs :: "string list"
  clPostLogoutRedirectURIs :: "string list"
  clApplicationType :: string
  clAuthMethod :: string
  clResponseTypes :: "string list"
  clGrantTypes :: "string list"
  clAccessTokenType :: string
  clAllowedScopes :: "string list"
  clIDTokenLifetimeSeconds :: int
  clClockSkewSeconds :: int
  clIDTokenUserinfoAssertion :: bool
  clCreatedAt :: int
  clUpdatedAt :: int

record Token =
  tkID :: string
  tkClientID :: string
  tkSubject :: string
  tkAudience :: "string list"
  tkScopes :: "string list"
  tkExpiration :: int
  tkRefreshTokenID :: string
  tkCreatedAt :: int

record RefreshToken =
  rtID :: string
  rtToken :: string
  rtClientID :: string
  rtUserID :: string
  rtAudience :: "string list"
  rtScopes :: "string list"
  rtAuthTime :: int
  rtAMR :: "string list"
  rtAccessTokenID :: string
  rtExpiration :: int
  rtCreatedAt :: int
  rtDeviceSessionID :: string

record DeviceSession =
  dsID :: string
  dsUserID :: string
  dsUserAgent :: string
  dsIPAddress :: string
  dsDeviceName :: string
  dsCreatedAt :: int
  dsLastUsedAt :: int
  dsRevokedAt :: "int option"

record 'w AuthRequestRepository =
  AR_Create :: "AuthRequest \<Rightarrow> ('w, goerr + unit) state"
  AR_GetByID :: "string \<Rightarrow> ('w, goerr + AuthRequest) state"
  AR_GetByCode :: "string \<Rightarrow> ('w, goerr + AuthRequest) state"
  AR_SaveCode :: "string \<Rightarrow> string \<Rightarrow> ('w, goerr + unit) state"
  AR_CompleteLogin :: "string \<Rightarrow> string \<Rightarrow> int \<Rightarrow> string list \<Rightarrow> string \<Rightarrow> ('w, goerr + unit) state"
  AR_Delete :: "string \<Rightarrow> ('w, goerr + unit) state"
  AR_DeleteExpiredBefore :: "int \<Rightarrow> ('w, goerr + nat) state"

record 'w ClientRepository =
  CL_GetByID :: "string \<Rightarrow> ('w, goerr + Client) state"

record 'w TokenRepository =
  TK_CreateAccess :: "Token \<Rightarrow> ('w, goerr + unit) state"
  TK_CreateAccessAndRefresh :: "Token \<Rightarrow> RefreshToken \<Rightarrow> string \<Rightarrow> ('w, goerr + unit) state"
  TK_GetByID :: "string \<Rightarrow> ('w, goerr + Token) state"
  TK_GetRefreshToken :: "string \<Rightarrow> ('w, goerr + RefreshToken) state"
  TK_GetRefreshInfo :: "string \<Rightarrow> ('w, goerr + string \<times> string) state"
  TK_DeleteByUserAndClient :: "string \<Rightarrow> string \<Rightarrow> ('w, goerr + unit) state"
  TK_Revoke :: "string \<Rightarrow> string \<Rightarrow> ('w, goerr + unit) state"
  TK_RevokeRefreshToken :: "string \<Rightarrow> string \<Rightarrow> ('w, goerr + unit) state"
  TK_DeleteExpired :: "int \<Rightarrow> ('w, goerr + nat \<times> nat) state"
  TK_GetLatestDeviceSessionID :: "string \<Rightarrow> string \<Rightarrow> ('w, goerr + string) state"

record 'w DeviceSessionRepository =
  DS_FindOrCreate ::
    "string \<Rightarrow> string \<Rightarrow> string \<Rightarrow> string \<Rightarrow> string \<Rightarrow> ('w, goerr + DeviceSession) state"
  DS_RevokeByID :: "string \<Rightarrow> string \<Rightarrow> ('w, goerr + unit) state"
  DS_ListActiveByUserID :: "string \<Rightarrow> ('w, goerr + DeviceSession list) state"
  DS_DeleteRevokedBefore :: "int \<Rightarrow> ('w, goerr + nat) state"

end
