(* ===== verification/IdentityDb.thy ===== *)
theory IdentityDb
  imports OidcDomain
begin

text \<open>
  The database of the identity service, \<open>identity-service/migrations\<close>: one list of rows per
  table, in insertion order, nullable columns as options, and the constraints (primary keys,
  UNIQUE, foreign keys) as the invariant \<open>db_ok\<close>. The generic statements below carry the
  row counts that the repositories look at. A violated constraint is reported with its
  SQLSTATE, \<open>23505\<close> for a key and \<open>23503\<close> for a reference.
\<close>

section \<open>Rows\<close>

record userRow =
  ur_id :: string
  ur_email :: string
  ur_email_verified :: bool
  ur_name :: string
  ur_given_name :: string
  ur_family_name :: string
  ur_picture :: string
  ur_created_at :: int
  ur_updated_at :: int
  ur_local_name :: "string option"
  ur_local_picture :: "string option"

record fiRow =
  fr_id :: string
  fr_user_id :: string
  fr_provider :: string
  fr_provider_subject :: string
  fr_provider_email :: string
  fr_provider_email_verified :: bool
  fr_provider_display_name :: string
  fr_provider_given_name :: string
  fr_provider_family_name :: string
  fr_provider_picture_url :: string
  fr_last_login_at :: int
  fr_created_at :: int
  fr_updated_at :: int

record auth_request_row =
  qr_id :: string
  qr_client_id :: string
  qr_redirect_uri :: string
  qr_state :: string
  qr_nonce :: string
  qr_scopes :: "string list"
  qr_response_type :: string
  qr_response_mode :: string
  qr_code_challenge :: string
  qr_code_challenge_method :: string
  qr_prompt :: "string list"
  qr_max_age :: "int option"
  qr_login_hint :: string
  qr_user_id :: "string option"
  qr_auth_time :: "int option"
  qr_amr :: "string list"
  qr_is_done :: bool
  qr_code :: "string option"
  qr_device_session_id :: "string option"
  qr_created_at :: int

record token_row =
  kr_id :: string
  kr_client_id :: string
  kr_subject :: string
  kr_audience :: "string list"
  kr_scopes :: "string list"
  kr_expiration :: int
  kr_refresh_token_id :: "string option"
  kr_created_at :: int

record refresh_row =
  rr_id :: string
  rr_token_hash :: string
  rr_client_id :: string
  rr_user_id :: string
  rr_audience :: "string list"
  rr_scopes :: "string list"
  rr_auth_time :: int
  rr_amr :: "string list"
  rr_access_token_id :: "string option"
  rr_device_session_id :: "string option"
  rr_expiration :: int
  rr_created_at :: int

record device_row =
  dr_id :: string
  dr_user_id :: string
  dr_user_agent :: string
  dr_ip_address :: string
  dr_device_name :: string
  dr_created_at :: int
  dr_last_used_at :: int
  dr_revoked_at :: "int option"

text \<open>A row of \<open>clients\<close> has no nullable column and is scanned field by field into a \<open>Client\<close>.\<close>

record identity_db =
  t_users :: "userRow list"
  t_fids :: "fiRow list"
  t_clients :: "Client list"
  t_auth_requests :: "auth_request_row list"
  t_tokens :: "token_row list"
  t_refresh_tokens :: "refresh_row list"
  t_device_sessions :: "device_row list"

definition empty_identity_db :: identity_db where
  "empty_identity_db = \<lparr>t_users = [], t_fids = [], t_clients = [], t_auth_requests = [],
     t_tokens = [], t_refresh_tokens = [], t_device_sessions = []\<rparr>"

section \<open>Generic statements\<close>

definition sql_insert :: "('r \<Rightarrow> 'k) \<Rightarrow> 'r \<Rightarrow> 'r list \<Rightarrow> goerr + 'r list" where
  "sql_insert key r t = (if key r \<in> key ` set t then Inl (PqError ''23505'') else Inr (t @ [r]))"

definition sql_update :: "('r \<Rightarrow> bool) \<Rightarrow> ('r \<Rightarrow> 'r) \<Rightarrow> 'r list \<Rightarrow> 'r list" where
  "sql_update P f t = map (\<lambda>r. if P r then f r else r) t"

definition sql_delete :: "('r \<Rightarrow> bool) \<Rightarrow> 'r list \<Rightarrow> 'r list" where
  "sql_delete P t = filter (\<lambda>r. \<not> P r) t"

definition sql_count :: "('r \<Rightarrow> bool) \<Rightarrow> 'r list \<Rightarrow> nat" where
  "sql_count P t = length (filter P t)"

definition sql_first :: "('r \<Rightarrow> bool) \<Rightarrow> 'r list \<Rightarrow> goerr + 'r" where
  "sql_first P t = (case find P t of None \<Rightarrow> Inl (Sentinel SqlErrNoRows) | Some r \<Rightarrow> Inr r)"

text \<open>\<open>ORDER BY f ASC\<close> and \<open>DESC\<close>, rows with equal keys in table order.\<close>

definition sql_order_asc :: "('r \<Rightarrow> int) \<Rightarrow> 'r list \<Rightarrow> 'r list" where
  "sql_order_asc f t = sort_key f t"

definition sql_order_desc :: "('r \<Rightarrow> int) \<Rightarrow> 'r list \<Rightarrow> 'r list" where
  "sql_order_desc f t = sort_key (\<lambda>r. - f r) t"

definition nilIfEmpty :: "string \<Rightarrow> string option" where
  "nilIfEmpty s = (if s = [] then None else Some s)"

definition stringOrEmpty :: "string option \<Rightarrow> string" where
  "stringOrEmpty p = (case p of None \<Rightarrow> [] | Some s \<Rightarrow> s)"

lemma nilIfEmpty_inverse [simp]: "stringOrEmpty (nilIfEmpty s) = s"
  by (simp add: nilIfEmpty_def stringOrEmpty_def)

lemma nilIfEmpty_simps [simp]: "nilIfEmpty [] = None" "s \<noteq> [] \<Longrightarrow> nilIfEmpty s = Some s"
  by (simp_all add: nilIfEmpty_def)

lemma stringOrEmpty_simps [simp]: "stringOrEmpty None = []" "stringOrEmpty (Some s) = s"
  by (simp_all add: stringOrEmpty_def)

subsection \<open>Keys under the generic statements\<close>

lemma sql_insert_Inr:
  "sql_insert key r t = Inr t' \<longleftrightarrow> key r \<notin> key ` set t \<and> t' = t @ [r]"
  by (auto simp: sql_insert_def)

lemma sql_insert_Inl:
  "sql_insert key r t = Inl e \<longleftrightarrow> key r \<in> key ` set t \<and> e = PqError ''23505''"
  by (auto simp: sql_insert_def)

lemma set_sql_update: "set (sql_update P f t) = (\<lambda>r. if P r then f r else r) ` set t"
  by (simp add: sql_update_def)

lemma set_sql_delete [simp]: "set (sql_delete P t) = {r \<in> set t. \<not> P r}"
  by (auto simp: sql_delete_def)

lemma map_sql_update:
  "(\<And>r. P r \<Longrightarrow> key (f r) = key r) \<Longrightarrow> map key (sql_update P f t) = map key t"
  by (auto simp: sql_update_def)

lemma image_sql_update:
  "(\<And>r. P r \<Longrightarrow> key (f r) = key r) \<Longrightarrow> key ` set (sql_update P f t) = key ` set t"
  using map_sql_update [of P key f t] by (metis set_map)

lemma distinct_sql_delete: "distinct (map key t) \<Longrightarrow> distinct (map key (sql_delete P t))"
  by (induction t) (auto simp: sql_delete_def)

lemma sql_count_0: "sql_count P t = 0 \<longleftrightarrow> (\<forall>r \<in> set t. \<not> P r)"
  by (simp add: sql_count_def filter_empty_conv)

lemma find_SomeD: "find P t = Some r \<Longrightarrow> r \<in> set t \<and> P r"
  by (induction t) (auto split: if_splits)

lemma sql_first_Inr: "sql_first P t = Inr r \<longleftrightarrow> find P t = Some r"
  by (auto simp: sql_first_def split: option.splits)

lemma sql_first_Inl:
  "sql_first P t = Inl e \<longleftrightarrow> e = Sentinel SqlErrNoRows \<and> (\<forall>r \<in> set t. \<not> P r)"
  by (auto simp: sql_first_def find_None_iff dest: find_SomeD split: option.splits)

lemma find_key_eq:
  "distinct (map key t) \<Longrightarrow> r \<in> set t \<Longrightarrow> find (\<lambda>s. key s = key r) t = Some r"
  by (induction t) force+

lemma key_unique:
  "distinct (map key t) \<Longrightarrow> r \<in> set t \<Longrightarrow> s \<in> set t \<Longrightarrow> key r = key s \<Longrightarrow> r = s"
  by (auto simp: distinct_map dest: inj_onD)

lemma find_key_iff:
  "distinct (map key t) \<Longrightarrow> find (\<lambda>s. key s = k) t = Some r \<longleftrightarrow> r \<in> set t \<and> key r = k"
  using find_key_eq find_SomeD by fastforce

lemma find_update:
  "(\<And>r. P r \<Longrightarrow> key (f r) = key r) \<Longrightarrow>
   find (\<lambda>s. key s = k) (sql_update P f t) =
     map_option (\<lambda>r. if P r then f r else r) (find (\<lambda>s. key s = k) t)"
  by (induction t) (auto simp: sql_update_def)

lemma option_eqI: "(\<And>r. x = Some r \<longleftrightarrow> y = Some r) \<Longrightarrow> x = y"
  by (cases x; cases y) auto

lemma find_delete_key:
  assumes "distinct (map key t)"
  shows "find (\<lambda>s. key s = k) (sql_delete P t) =
     (case find (\<lambda>s. key s = k) t of None \<Rightarrow> None | Some r \<Rightarrow> if P r then None else Some r)"
proof (rule option_eqI)
  fix r
  have "(case find (\<lambda>s. key s = k) t of None \<Rightarrow> None | Some r \<Rightarrow> if P r then None else Some r) = Some r
    \<longleftrightarrow> find (\<lambda>s. key s = k) t = Some r \<and> \<not> P r"
    by (auto split: option.splits)
  then show "find (\<lambda>s. key s = k) (sql_delete P t) = Some r \<longleftrightarrow>
      (case find (\<lambda>s. key s = k) t of None \<Rightarrow> None | Some r \<Rightarrow> if P r then None else Some r) = Some r"
    using find_key_iff [OF assms, of k r] find_key_iff [OF distinct_sql_delete [OF assms], of k P r] by auto
qed

lemma find_snoc: "find P (t @ [r]) = (case find P t of None \<Rightarrow> if P r then Some r else None | Some x \<Rightarrow> Some x)"
  by (induction t) auto

lemma find_snoc_key:
  "key r \<notin> key ` set t \<Longrightarrow> find (\<lambda>s. key s = k) (t @ [r]) = (if k = key r then Some r else find (\<lambda>s. key s = k) t)"
  by (induction t) auto

lemma find_key_and:
  assumes "distinct (map key t)"
  shows "find (\<lambda>s. key s = k \<and> P s) t =
    (case find (\<lambda>s. key s = k) t of None \<Rightarrow> None | Some r \<Rightarrow> if P r then Some r else None)"
proof (cases "find (\<lambda>s. key s = k) t")
  case None
  then have "find (\<lambda>s. key s = k \<and> P s) t = None" by (auto simp: find_None_iff)
  with None show ?thesis by simp
next
  case (Some r)
  then have r: "r \<in> set t" "key r = k" using find_SomeD by fastforce+
  show ?thesis
  proof (cases "P r")
    case True
    then obtain q where q: "find (\<lambda>s. key s = k \<and> P s) t = Some q"
      using r by (cases "find (\<lambda>s. key s = k \<and> P s) t") (auto simp: find_None_iff)
    then have "q \<in> set t" "key q = k" using find_SomeD by fastforce+
    then have "q = r" using key_unique [OF assms] r by blast
    with q Some True show ?thesis by simp
  next
    case False
    then have "find (\<lambda>s. key s = k \<and> P s) t = None"
      using key_unique [OF assms] r unfolding find_None_iff by blast
    with Some False show ?thesis by simp
  qed
qed

lemma count_key:
  assumes "distinct (map key t)"
  shows "sql_count (\<lambda>s. key s = k \<and> P s) t = 0 \<longleftrightarrow>
    (case find (\<lambda>s. key s = k) t of None \<Rightarrow> True | Some r \<Rightarrow> \<not> P r)"
proof -
  have "sql_count (\<lambda>s. key s = k \<and> P s) t = 0 \<longleftrightarrow> find (\<lambda>s. key s = k \<and> P s) t = None"
    by (auto simp: sql_count_0 find_None_iff)
  then show ?thesis by (auto simp: find_key_and [OF assms] split: option.splits)
qed

lemma find_key_None: "find (\<lambda>s. key s = k) t = None \<longleftrightarrow> k \<notin> key ` set t"
  by (auto simp: find_None_iff)

section \<open>The constraints\<close>

text \<open>The columns of \<open>UNIQUE(provider, provider_subject)\<close>.\<close>

definition fr_key :: "fiRow \<Rightarrow> string \<times> string" where
  "fr_key r = (fr_provider r, fr_provider_subject r)"

definition db_ok :: "identity_db \<Rightarrow> bool" where
  "db_ok d \<longleftrightarrow>
     distinct (map ur_id (t_users d))
   \<and> distinct (map fr_id (t_fids d))
   \<and> distinct (map fr_key (t_fids d))
   \<and> distinct (map clID (t_clients d))
   \<and> distinct (map qr_id (t_auth_requests d))
   \<and> distinct (map kr_id (t_tokens d))
   \<and> distinct (map rr_id (t_refresh_tokens d))
   \<and> distinct (map rr_token_hash (t_refresh_tokens d))
   \<and> distinct (map dr_id (t_device_sessions d))
   \<and> (\<forall>r \<in> set (t_fids d). fr_user_id r \<in> ur_id ` set (t_users d))
   \<and> (\<forall>r \<in> set (t_refresh_tokens d). rr_user_id r \<in> ur_id ` set (t_users d))
   \<and> (\<forall>r \<in> set (t_device_sessions d). dr_user_id r \<in> ur_id ` set (t_users d))
   \<and> (\<forall>r \<in> set (t_refresh_tokens d). \<forall>s. rr_device_session_id r = Some s \<longrightarrow>
        s \<in> dr_id ` set (t_device_sessions d))
   \<and> (\<forall>r \<in> set (t_auth_requests d). \<forall>s. qr_device_session_id r = Some s \<longrightarrow>
        s \<in> dr_id ` set (t_device_sessions d))"

lemma db_ok_empty [simp]: "db_ok empty_identity_db"
  by (simp add: db_ok_def empty_identity_db_def)

text \<open>Replacing one table: what must be checked of the new rows.\<close>

lemma db_ok_tokens: "db_ok d \<Longrightarrow> distinct (map kr_id ts) \<Longrightarrow> db_ok (d\<lparr>t_tokens := ts\<rparr>)"
  by (simp add: db_ok_def)

definition device_exists :: "identity_db \<Rightarrow> string option \<Rightarrow> bool" where
  "device_exists d p = (case p of None \<Rightarrow> True | Some s \<Rightarrow> s \<in> dr_id ` set (t_device_sessions d))"

lemma db_ok_refresh_tokens:
  assumes "db_ok d" "distinct (map rr_id rs)" "distinct (map rr_token_hash rs)"
    and "\<And>r. r \<in> set rs \<Longrightarrow> rr_user_id r \<in> ur_id ` set (t_users d) \<and> device_exists d (rr_device_session_id r)"
  shows "db_ok (d\<lparr>t_refresh_tokens := rs\<rparr>)"
proof -
  have "\<forall>r \<in> set rs. rr_user_id r \<in> ur_id ` set (t_users d)" using assms(4) by blast
  moreover have "\<forall>r \<in> set rs. \<forall>s. rr_device_session_id r = Some s \<longrightarrow> s \<in> dr_id ` set (t_device_sessions d)"
    using assms(4) unfolding device_exists_def by (metis option.simps(5))
  ultimately show ?thesis using assms(1-3) unfolding db_ok_def by simp
qed

lemma db_ok_refresh_row:
  "db_ok d \<Longrightarrow> r \<in> set (t_refresh_tokens d) \<Longrightarrow>
     rr_user_id r \<in> ur_id ` set (t_users d) \<and> device_exists d (rr_device_session_id r)"
  unfolding db_ok_def device_exists_def by (simp split: option.split)

lemma db_ok_auth_requests:
  assumes "db_ok d" "distinct (map qr_id rs)"
    and "\<And>r. r \<in> set rs \<Longrightarrow> device_exists d (qr_device_session_id r)"
  shows "db_ok (d\<lparr>t_auth_requests := rs\<rparr>)"
proof -
  have "\<forall>r \<in> set rs. \<forall>s. qr_device_session_id r = Some s \<longrightarrow> s \<in> dr_id ` set (t_device_sessions d)"
    using assms(3) unfolding device_exists_def by (metis option.simps(5))
  then show ?thesis using assms(1,2) unfolding db_ok_def by simp
qed

lemma db_ok_auth_row:
  "db_ok d \<Longrightarrow> r \<in> set (t_auth_requests d) \<Longrightarrow> device_exists d (qr_device_session_id r)"
  unfolding db_ok_def device_exists_def by (simp split: option.split)

lemma db_ok_device_sessions:
  assumes "db_ok d" "distinct (map dr_id ds)" "dr_id ` set (t_device_sessions d) \<subseteq> dr_id ` set ds"
    and "\<And>r. r \<in> set ds \<Longrightarrow> dr_user_id r \<in> ur_id ` set (t_users d)"
  shows "db_ok (d\<lparr>t_device_sessions := ds\<rparr>)"
proof -
  have "\<forall>r \<in> set (t_refresh_tokens d). \<forall>s. rr_device_session_id r = Some s \<longrightarrow> s \<in> dr_id ` set ds"
    using assms(1,3) unfolding db_ok_def by blast
  moreover have "\<forall>r \<in> set (t_auth_requests d). \<forall>s. qr_device_session_id r = Some s \<longrightarrow> s \<in> dr_id ` set ds"
    using assms(1,3) unfolding db_ok_def by blast
  ultimately show ?thesis using assms(1,2,4) unfolding db_ok_def by simp
qed

lemma db_ok_fewer_devices:
  assumes "db_ok d" "distinct (map dr_id ds)"
    and "\<And>r. r \<in> set ds \<Longrightarrow> dr_user_id r \<in> ur_id ` set (t_users d)"
    and "\<And>r. r \<in> set (t_refresh_tokens d) \<Longrightarrow> device_exists (d\<lparr>t_device_sessions := ds\<rparr>) (rr_device_session_id r)"
    and "\<And>r. r \<in> set (t_auth_requests d) \<Longrightarrow> device_exists (d\<lparr>t_device_sessions := ds\<rparr>) (qr_device_session_id r)"
  shows "db_ok (d\<lparr>t_device_sessions := ds\<rparr>)"
proof -
  have "\<forall>r \<in> set (t_refresh_tokens d). \<forall>s. rr_device_session_id r = Some s \<longrightarrow> s \<in> dr_id ` set ds"
  proof (intro ballI allI impI)
    fix r s assume "r \<in> set (t_refresh_tokens d)" "rr_device_session_id r = Some s"
    then show "s \<in> dr_id ` set ds" using assms(4) [of r] by (simp add: device_exists_def)
  qed
  moreover have "\<forall>r \<in> set (t_auth_requests d). \<forall>s. qr_device_session_id r = Some s \<longrightarrow> s \<in> dr_id ` set ds"
  proof (intro ballI allI impI)
    fix r s assume "r \<in> set (t_auth_requests d)" "qr_device_session_id r = Some s"
    then show "s \<in> dr_id ` set ds" using assms(5) [of r] by (simp add: device_exists_def)
  qed
  ultimately show ?thesis using assms(1,2,3) unfolding db_ok_def by simp
qed

lemma db_ok_device_row:
  "db_ok d \<Longrightarrow> r \<in> set (t_device_sessions d) \<Longrightarrow> dr_user_id r \<in> ur_id ` set (t_users d)"
  unfolding db_ok_def by blast

end
