(* ===== verification/UserRepo.thy ===== *)
theory UserRepo
  imports IdentityDb
begin

text \<open>
  The contract of \<open>identity.Repository\<close> and its PostgreSQL implementation,
  \<open>internal/identity/postgres/user_repo.go\<close>.
\<close>

section \<open>The contract\<close>

text \<open>What a login does to the stored profile: a locally overridden name or picture stays.\<close>

definition apply_claims :: "FederatedClaims \<Rightarrow> int \<Rightarrow> User \<Rightarrow> User" where
  "apply_claims c t u = u\<lparr>uEmail := fcEmail c, uEmailVerified := fcEmailVerified c,
     uName := (if uLocalName u = None then fcName c else uName u),
     uGivenName := fcGivenName c, uFamilyName := fcFamilyName c,
     uPicture := (if uLocalPicture u = None then fcPicture c else uPicture u), uUpdatedAt := t\<rparr>"

definition set_local :: "string option \<Rightarrow> string option \<Rightarrow> string option" where
  "set_local new old = (case new of None \<Rightarrow> old | Some s \<Rightarrow> if s = [] then None else Some s)"

locale identity_repository =
  fixes repo :: "'db go_world Repository"
    and vu :: "'db \<Rightarrow> string \<Rightarrow> User option"
    and vf :: "'db \<Rightarrow> string \<times> string \<Rightarrow> FederatedIdentity option"
    and invar :: "'db \<Rightarrow> bool"
  assumes user_key: "invar d \<Longrightarrow> vu d uid = Some u \<Longrightarrow> uID u = uid"
    and fid_key: "invar d \<Longrightarrow> vf d (p, s) = Some f \<Longrightarrow>
      fiProvider f = p \<and> fiProviderSubject f = s \<and> vu d (fiUserID f) \<noteq> None"
    and get_done: "run_state (User_GetByID repo uid) w = (Inr u, w') \<Longrightarrow> invar (db w) \<Longrightarrow>
      vu (db w) uid = Some u \<and> db w' = db w"
    and get_error: "run_state (User_GetByID repo uid) w = (Inl e, w') \<Longrightarrow> invar (db w) \<Longrightarrow>
      db w' = db w \<and> (errors_Is e ErrNotFound \<longrightarrow> vu (db w) uid = None)"
    and find_done: "run_state (FindByFederatedIdentity repo p s) w = (Inr ou, w') \<Longrightarrow> invar (db w) \<Longrightarrow>
      db w' = db w \<and> ou = (case vf (db w) (p, s) of None \<Rightarrow> None | Some f \<Rightarrow> vu (db w) (fiUserID f))"
    and find_error: "run_state (FindByFederatedIdentity repo p s) w = (Inl e, w') \<Longrightarrow> db w' = db w"
    and create_done: "run_state (CreateWithFederatedIdentity repo u f) w = (Inr x, w') \<Longrightarrow> invar (db w) \<Longrightarrow>
      fiUserID f = uID u \<Longrightarrow> uLocalName u = None \<Longrightarrow> uLocalPicture u = None \<Longrightarrow>
      invar (db w') \<and> vu (db w) (uID u) = None \<and> vf (db w) (fiProvider f, fiProviderSubject f) = None
      \<and> vu (db w') = (vu (db w))(uID u \<mapsto> u)
      \<and> vf (db w') = (vf (db w))((fiProvider f, fiProviderSubject f) \<mapsto> f)"
    and create_error: "run_state (CreateWithFederatedIdentity repo u f) w = (Inl e, w') \<Longrightarrow> db w' = db w"
    and claims_done: "run_state (UpdateUserFromClaims repo uid c t) w = (Inr x, w') \<Longrightarrow> invar (db w) \<Longrightarrow>
      invar (db w') \<and> vf (db w') = vf (db w)
      \<and> vu (db w') = (vu (db w))(uid := map_option (apply_claims c t) (vu (db w) uid))"
    and claims_error: "run_state (UpdateUserFromClaims repo uid c t) w = (Inl e, w') \<Longrightarrow> db w' = db w"
    and fclaims_done: "run_state (UpdateFederatedIdentityClaims repo p s c t) w = (Inr x, w') \<Longrightarrow> invar (db w) \<Longrightarrow>
      invar (db w') \<and> vu (db w') = vu (db w) \<and> (\<forall>k. k \<noteq> (p, s) \<longrightarrow> vf (db w') k = vf (db w) k)
      \<and> map_option (\<lambda>f. (fiID f, fiUserID f)) (vf (db w') (p, s)) = map_option (\<lambda>f. (fiID f, fiUserID f)) (vf (db w) (p, s))
      \<and> (\<forall>f. vf (db w') (p, s) = Some f \<longrightarrow> fiProviderEmail f = fcEmail c \<and> fiLastLoginAt f = t)"
    and fclaims_error: "run_state (UpdateFederatedIdentityClaims repo p s c t) w = (Inl e, w') \<Longrightarrow> db w' = db w"
    and list_done: "run_state (ListFederatedIdentities repo uid) w = (Inr fs, w') \<Longrightarrow> invar (db w) \<Longrightarrow>
      db w' = db w \<and> sorted (map fiCreatedAt fs) \<and> set fs = {f. fiUserID f = uid \<and> f \<in> ran (vf (db w))}"
    and list_error: "run_state (ListFederatedIdentities repo uid) w = (Inl e, w') \<Longrightarrow> db w' = db w"
    and delete_done: "run_state (DeleteFederatedIdentity repo fid uid) w = (Inr x, w') \<Longrightarrow> invar (db w) \<Longrightarrow>
      invar (db w') \<and> vu (db w') = vu (db w) \<and>
      (\<exists>k f k2 f2. vf (db w) k = Some f \<and> fiID f = fid \<and> fiUserID f = uid \<and> vf (db w') = (vf (db w))(k := None)
         \<and> k2 \<noteq> k \<and> vf (db w) k2 = Some f2 \<and> fiUserID f2 = uid)"
    and delete_error: "run_state (DeleteFederatedIdentity repo fid uid) w = (Inl e, w') \<Longrightarrow> db w' = db w"
    and profile_done: "run_state (UpdateLocalProfile repo uid nm pic t) w = (Inr x, w') \<Longrightarrow> invar (db w) \<Longrightarrow>
      invar (db w') \<and> vf (db w') = vf (db w)
      \<and> vu (db w') = (vu (db w))(uid := map_option (\<lambda>u. u\<lparr>uLocalName := set_local nm (uLocalName u),
            uLocalPicture := set_local pic (uLocalPicture u), uUpdatedAt := t\<rparr>) (vu (db w) uid))"
    and profile_error: "run_state (UpdateLocalProfile repo uid nm pic t) w = (Inl e, w') \<Longrightarrow> db w' = db w"

section \<open>The statements\<close>

definition toUser :: "userRow \<Rightarrow> User" where
  "toUser row = \<lparr>uID = ur_id row, uEmail = ur_email row, uEmailVerified = ur_email_verified row,
     uName = ur_name row, uGivenName = ur_given_name row, uFamilyName = ur_family_name row,
     uPicture = ur_picture row, uCreatedAt = ur_created_at row, uUpdatedAt = ur_updated_at row,
     uLocalName = ur_local_name row, uLocalPicture = ur_local_picture row\<rparr>"

definition toFederatedIdentity :: "fiRow \<Rightarrow> FederatedIdentity" where
  "toFederatedIdentity row = \<lparr>fiID = fr_id row, fiUserID = fr_user_id row, fiProvider = fr_provider row,
     fiProviderSubject = fr_provider_subject row, fiProviderEmail = fr_provider_email row,
     fiProviderEmailVerified = fr_provider_email_verified row,
     fiProviderDisplayName = fr_provider_display_name row, fiProviderGivenName = fr_provider_given_name row,
     fiProviderFamilyName = fr_provider_family_name row, fiProviderPictureURL = fr_provider_picture_url row,
     fiLastLoginAt = fr_last_login_at row, fiCreatedAt = fr_created_at row, fiUpdatedAt = fr_updated_at row\<rparr>"

definition sql_select_user :: "string \<Rightarrow> int \<Rightarrow> identity_db \<Rightarrow> goerr + userRow \<times> identity_db" where
  "sql_select_user uid t d =
     (case sql_first (\<lambda>r. ur_id r = uid) (t_users d) of Inl e \<Rightarrow> Inl e | Inr r \<Rightarrow> Inr (r, d))"

definition sql_select_federated :: "string \<Rightarrow> string \<Rightarrow> int \<Rightarrow> identity_db \<Rightarrow> goerr + userRow \<times> identity_db" where
  "sql_select_federated provider subj t d =
     (case concat (map (\<lambda>f. filter (\<lambda>u. fr_user_id f = ur_id u) (t_users d))
        (filter (\<lambda>f. fr_provider f = provider \<and> fr_provider_subject f = subj) (t_fids d))) of
        [] \<Rightarrow> Inl (Sentinel SqlErrNoRows)
      | u # _ \<Rightarrow> Inr (u, d))"

definition sql_insert_user :: "userRow \<Rightarrow> int \<Rightarrow> identity_db \<Rightarrow> goerr + unit \<times> identity_db" where
  "sql_insert_user r t d =
     (case sql_insert ur_id r (t_users d) of Inl e \<Rightarrow> Inl e | Inr us \<Rightarrow> Inr ((), d\<lparr>t_users := us\<rparr>))"

definition sql_insert_fid :: "fiRow \<Rightarrow> int \<Rightarrow> identity_db \<Rightarrow> goerr + unit \<times> identity_db" where
  "sql_insert_fid r t d =
     (if fr_key r \<in> fr_key ` set (t_fids d)
      then Inl (PqError ''23505'')
      else case sql_insert fr_id r (t_fids d) of
        Inl e \<Rightarrow> Inl e
      | Inr fs \<Rightarrow> if fr_user_id r \<notin> ur_id ` set (t_users d) then Inl (PqError ''23503'')
                  else Inr ((), d\<lparr>t_fids := fs\<rparr>))"

definition sql_update_user_claims ::
  "string \<Rightarrow> FederatedClaims \<Rightarrow> int \<Rightarrow> int \<Rightarrow> identity_db \<Rightarrow> goerr + unit \<times> identity_db" where
  "sql_update_user_claims uid c ts t d = Inr ((), d\<lparr>t_users := sql_update (\<lambda>r. ur_id r = uid)
     (\<lambda>r. r\<lparr>ur_email := fcEmail c, ur_email_verified := fcEmailVerified c,
        ur_name := (case ur_local_name r of None \<Rightarrow> fcName c | Some _ \<Rightarrow> ur_name r),
        ur_given_name := fcGivenName c, ur_family_name := fcFamilyName c,
        ur_picture := (case ur_local_picture r of None \<Rightarrow> fcPicture c | Some _ \<Rightarrow> ur_picture r),
        ur_updated_at := ts\<rparr>) (t_users d)\<rparr>)"

definition sql_update_fid_claims ::
  "string \<Rightarrow> string \<Rightarrow> FederatedClaims \<Rightarrow> int \<Rightarrow> int \<Rightarrow> identity_db \<Rightarrow> goerr + unit \<times> identity_db" where
  "sql_update_fid_claims provider subj c lastLogin t d = Inr ((), d\<lparr>t_fids := sql_update
     (\<lambda>r. fr_provider r = provider \<and> fr_provider_subject r = subj)
     (\<lambda>r. r\<lparr>fr_provider_email := fcEmail c, fr_provider_email_verified := fcEmailVerified c,
        fr_provider_display_name := fcName c, fr_provider_given_name := fcGivenName c,
        fr_provider_family_name := fcFamilyName c, fr_provider_picture_url := fcPicture c,
        fr_last_login_at := lastLogin, fr_updated_at := t\<rparr>) (t_fids d)\<rparr>)"

definition sql_list_fids :: "string \<Rightarrow> int \<Rightarrow> identity_db \<Rightarrow> goerr + fiRow list \<times> identity_db" where
  "sql_list_fids uid t d =
     Inr (sql_order_asc fr_created_at (filter (\<lambda>r. fr_user_id r = uid) (t_fids d)), d)"

text \<open>
  \<open>SELECT COUNT(*) ... FOR UPDATE\<close>: PostgreSQL documents that \<open>FOR UPDATE\<close> cannot be used
  with an aggregate and answers with SQLSTATE 0A000. \<open>agg\<close> says whether the server takes the
  statement all the same.
\<close>

definition sql_count_fids_for_update ::
  "bool \<Rightarrow> string \<Rightarrow> int \<Rightarrow> identity_db \<Rightarrow> goerr + nat \<times> identity_db" where
  "sql_count_fids_for_update agg uid t d =
     (if agg then Inr (sql_count (\<lambda>r. fr_user_id r = uid) (t_fids d), d) else Inl (PqError ''0A000''))"

definition sql_delete_fid :: "string \<Rightarrow> string \<Rightarrow> int \<Rightarrow> identity_db \<Rightarrow> goerr + nat \<times> identity_db" where
  "sql_delete_fid fid uid t d =
     (let P = (\<lambda>r. fr_id r = fid \<and> fr_user_id r = uid)
      in Inr (sql_count P (t_fids d), d\<lparr>t_fids := sql_delete P (t_fids d)\<rparr>))"

text \<open>\<open>CASE WHEN set THEN v ELSE column END\<close>, and \<open>sql.NullString\<close> for a pointer.\<close>

definition nullableString :: "string option \<Rightarrow> string option" where
  "nullableString s = (case s of None \<Rightarrow> None | Some x \<Rightarrow> if x = [] then None else Some x)"

definition sql_update_local ::
  "string \<Rightarrow> bool \<Rightarrow> string option \<Rightarrow> bool \<Rightarrow> string option \<Rightarrow> int \<Rightarrow> int \<Rightarrow> identity_db
   \<Rightarrow> goerr + unit \<times> identity_db" where
  "sql_update_local uid setName nm setPic pic ts t d = Inr ((), d\<lparr>t_users := sql_update (\<lambda>r. ur_id r = uid)
     (\<lambda>r. r\<lparr>ur_local_name := (if setName then nm else ur_local_name r),
        ur_local_picture := (if setPic then pic else ur_local_picture r),
        ur_updated_at := ts\<rparr>) (t_users d)\<rparr>)"

lemmas user_sql_defs = sql_select_user_def sql_select_federated_def sql_insert_user_def sql_insert_fid_def
  sql_update_user_claims_def sql_update_fid_claims_def sql_list_fids_def sql_count_fids_for_update_def
  sql_delete_fid_def sql_update_local_def

section \<open>The repository\<close>

definition UserRepository_GetByID :: "string \<Rightarrow> (identity_db, User) eio" where
  "UserRepository_GetByID uid = do {
     r \<leftarrow> db_exec (sql_select_user uid);
     case r of
       Inl err \<Rightarrow> if errors_Is err SqlErrNoRows then ret (Inl (Sentinel ErrNotFound)) else ret (Inl err)
     | Inr row \<Rightarrow> ret (Inr (toUser row)) }"

definition UserRepository_FindByFederatedIdentity :: "string \<Rightarrow> string \<Rightarrow> (identity_db, User option) eio" where
  "UserRepository_FindByFederatedIdentity provider subj = do {
     r \<leftarrow> db_exec (sql_select_federated provider subj);
     case r of
       Inl err \<Rightarrow> if errors_Is err SqlErrNoRows then ret (Inr None) else ret (Inl err)
     | Inr row \<Rightarrow> ret (Inr (Some (toUser row))) }"

definition UserRepository_CreateWithFederatedIdentity ::
  "User \<Rightarrow> FederatedIdentity \<Rightarrow> (identity_db, unit) eio" where
  "UserRepository_CreateWithFederatedIdentity user fi = in_tx (\<lambda>t. do {
     r \<leftarrow> tx_exec t (sql_insert_user \<lparr>ur_id = uID user, ur_email = uEmail user,
         ur_email_verified = uEmailVerified user, ur_name = uName user, ur_given_name = uGivenName user,
         ur_family_name = uFamilyName user, ur_picture = uPicture user, ur_created_at = uCreatedAt user,
         ur_updated_at = uUpdatedAt user, ur_local_name = None, ur_local_picture = None\<rparr>);
     case r of
       Inl err \<Rightarrow> ret (Inl err)
     | Inr _ \<Rightarrow> tx_exec t (sql_insert_fid \<lparr>fr_id = fiID fi, fr_user_id = fiUserID fi,
         fr_provider = fiProvider fi, fr_provider_subject = fiProviderSubject fi,
         fr_provider_email = fiProviderEmail fi, fr_provider_email_verified = fiProviderEmailVerified fi,
         fr_provider_display_name = fiProviderDisplayName fi, fr_provider_given_name = fiProviderGivenName fi,
         fr_provider_family_name = fiProviderFamilyName fi, fr_provider_picture_url = fiProviderPictureURL fi,
         fr_last_login_at = fiLastLoginAt fi, fr_created_at = fiCreatedAt fi, fr_updated_at = fiUpdatedAt fi\<rparr>) })"

definition UserRepository_UpdateUserFromClaims ::
  "string \<Rightarrow> FederatedClaims \<Rightarrow> int \<Rightarrow> (identity_db, unit) eio" where
  "UserRepository_UpdateUserFromClaims uid claims updatedAt = db_exec (sql_update_user_claims uid claims updatedAt)"

definition UserRepository_UpdateFederatedIdentityClaims ::
  "string \<Rightarrow> string \<Rightarrow> FederatedClaims \<Rightarrow> int \<Rightarrow> (identity_db, unit) eio" where
  "UserRepository_UpdateFederatedIdentityClaims provider subj claims lastLoginAt =
     db_exec (sql_update_fid_claims provider subj claims lastLoginAt)"

definition UserRepository_ListFederatedIdentities :: "string \<Rightarrow> (identity_db, FederatedIdentity list) eio" where
  "UserRepository_ListFederatedIdentities uid = do {
     r \<leftarrow> db_exec (sql_list_fids uid);
     case r of
       Inl err \<Rightarrow> ret (Inl err)
     | Inr rows \<Rightarrow> ret (Inr (map toFederatedIdentity rows)) }"

definition UserRepository_DeleteFederatedIdentity :: "bool \<Rightarrow> string \<Rightarrow> string \<Rightarrow> (identity_db, unit) eio" where
  "UserRepository_DeleteFederatedIdentity agg fid uid = in_tx (\<lambda>t. do {
     c \<leftarrow> tx_exec t (sql_count_fids_for_update agg uid);
     case c of
       Inl err \<Rightarrow> ret (Inl err)
     | Inr count \<Rightarrow>
         if count \<le> 1 then ret (Inl (Sentinel ErrFailedPrecondition))
         else do {
           r \<leftarrow> tx_exec t (sql_delete_fid fid uid);
           case r of
             Inl err \<Rightarrow> ret (Inl err)
           | Inr n \<Rightarrow> if n = 0 then ret (Inl (Sentinel ErrNotFound)) else ret (Inr ()) } })"

definition UserRepository_UpdateLocalProfile ::
  "string \<Rightarrow> string option \<Rightarrow> string option \<Rightarrow> int \<Rightarrow> (identity_db, unit) eio" where
  "UserRepository_UpdateLocalProfile uid name picture updatedAt =
     db_exec (sql_update_local uid (name \<noteq> None) (nullableString name)
       (picture \<noteq> None) (nullableString picture) updatedAt)"

definition UserRepository :: "bool \<Rightarrow> identity_db go_world Repository" where
  "UserRepository agg = \<lparr>User_GetByID = UserRepository_GetByID,
     FindByFederatedIdentity = UserRepository_FindByFederatedIdentity,
     CreateWithFederatedIdentity = UserRepository_CreateWithFederatedIdentity,
     UpdateUserFromClaims = UserRepository_UpdateUserFromClaims,
     UpdateFederatedIdentityClaims = UserRepository_UpdateFederatedIdentityClaims,
     ListFederatedIdentities = UserRepository_ListFederatedIdentities,
     DeleteFederatedIdentity = UserRepository_DeleteFederatedIdentity agg,
     UpdateLocalProfile = UserRepository_UpdateLocalProfile\<rparr>"

lemmas UserRepository_defs = UserRepository_def UserRepository_GetByID_def
  UserRepository_FindByFederatedIdentity_def UserRepository_CreateWithFederatedIdentity_def
  UserRepository_UpdateUserFromClaims_def UserRepository_UpdateFederatedIdentityClaims_def
  UserRepository_ListFederatedIdentities_def UserRepository_DeleteFederatedIdentity_def
  UserRepository_UpdateLocalProfile_def

section \<open>The tables as maps\<close>

definition user_view :: "identity_db \<Rightarrow> string \<Rightarrow> User option" where
  "user_view d uid = map_option toUser (find (\<lambda>r. ur_id r = uid) (t_users d))"

definition fid_view :: "identity_db \<Rightarrow> string \<times> string \<Rightarrow> FederatedIdentity option" where
  "fid_view d k = map_option toFederatedIdentity
     (find (\<lambda>r. fr_key r = k) (t_fids d))"

lemma toUser_id [simp]: "uID (toUser r) = ur_id r"
  by (simp add: toUser_def)

lemma toFid_sel [simp]:
  "fiID (toFederatedIdentity r) = fr_id r" "fiUserID (toFederatedIdentity r) = fr_user_id r"
  "fiProvider (toFederatedIdentity r) = fr_provider r"
  "fiProviderSubject (toFederatedIdentity r) = fr_provider_subject r"
  "fiCreatedAt (toFederatedIdentity r) = fr_created_at r"
  by (simp_all add: toFederatedIdentity_def)

lemma user_view_Some: "db_ok d \<Longrightarrow> user_view d uid = Some u \<longleftrightarrow> (\<exists>r \<in> set (t_users d). ur_id r = uid \<and> u = toUser r)"
  by (auto simp: user_view_def db_ok_def find_key_iff)

lemma user_view_None: "user_view d uid = None \<longleftrightarrow> uid \<notin> ur_id ` set (t_users d)"
  by (auto simp: user_view_def find_None_iff)

lemma fid_view_Some:
  "db_ok d \<Longrightarrow> fid_view d k = Some f \<longleftrightarrow>
     (\<exists>r \<in> set (t_fids d). fr_key r = k \<and> f = toFederatedIdentity r)"
  by (auto simp: fid_view_def db_ok_def find_key_iff)

lemma fid_view_None:
  "fid_view d k = None \<longleftrightarrow> k \<notin> fr_key ` set (t_fids d)"
  by (auto simp: fid_view_def find_None_iff)

subsection \<open>The statements keep the constraints\<close>

lemma db_ok_users:
  assumes "db_ok d" "map ur_id us = map ur_id (t_users d)"
  shows "db_ok (d\<lparr>t_users := us\<rparr>)"
proof -
  have "ur_id ` set us = ur_id ` set (t_users d)" using assms(2) by (metis set_map)
  then show ?thesis using assms unfolding db_ok_def by simp
qed

lemma insert_user_ok: "db_ok d \<Longrightarrow> sql_insert_user r t d = Inr (x, d') \<Longrightarrow> db_ok d'"
  by (auto simp: sql_insert_user_def sql_insert_Inr db_ok_def split: sum.splits)

lemma insert_fid_ok: "db_ok d \<Longrightarrow> sql_insert_fid r t d = Inr (x, d') \<Longrightarrow> db_ok d'"
  by (auto simp: sql_insert_fid_def sql_insert_Inr db_ok_def split: sum.splits if_splits)

lemma update_user_claims_ok: "db_ok d \<Longrightarrow> sql_update_user_claims uid c ts t d = Inr (x, d') \<Longrightarrow> db_ok d'"
  unfolding sql_update_user_claims_def by (auto intro!: db_ok_users map_sql_update)

lemma update_local_ok: "db_ok d \<Longrightarrow> sql_update_local uid a nm b pic ts t d = Inr (x, d') \<Longrightarrow> db_ok d'"
  unfolding sql_update_local_def by (auto intro!: db_ok_users map_sql_update)

lemma db_ok_fids:
  assumes "db_ok d" "map fr_id fs = map fr_id (t_fids d)" "map fr_user_id fs = map fr_user_id (t_fids d)"
    "map fr_key fs = map fr_key (t_fids d)"
  shows "db_ok (d\<lparr>t_fids := fs\<rparr>)"
proof -
  have "fr_user_id ` set fs = fr_user_id ` set (t_fids d)" using assms(3) by (metis set_map)
  then have "\<forall>r \<in> set fs. fr_user_id r \<in> ur_id ` set (t_users d)"
    using assms(1) unfolding db_ok_def by (metis (no_types, lifting) image_iff)
  then show ?thesis using assms unfolding db_ok_def by simp
qed

lemma update_fid_claims_ok: "db_ok d \<Longrightarrow> sql_update_fid_claims p s c ts t d = Inr (x, d') \<Longrightarrow> db_ok d'"
  unfolding sql_update_fid_claims_def by (auto simp: fr_key_def intro!: db_ok_fids map_sql_update)

lemma delete_fid_ok: "db_ok d \<Longrightarrow> sql_delete_fid fid uid t d = Inr (x, d') \<Longrightarrow> db_ok d'"
  by (auto simp: sql_delete_fid_def db_ok_def Let_def intro!: distinct_sql_delete)

subsection \<open>Their effect on the maps\<close>

lemma view_insert_user:
  "sql_insert_user r t d = Inr (x, d') \<Longrightarrow> user_view d (ur_id r) = None \<and>
     user_view d' = (user_view d)(ur_id r \<mapsto> toUser r) \<and> fid_view d' = fid_view d"
  by (auto simp: sql_insert_user_def sql_insert_Inr user_view_def fid_view_def find_snoc_key fun_eq_iff
      find_key_None split: sum.splits)

lemma view_insert_fid:
  "sql_insert_fid r t d = Inr (x, d') \<Longrightarrow> fid_view d (fr_key r) = None \<and>
     fid_view d' = (fid_view d)(fr_key r \<mapsto> toFederatedIdentity r) \<and>
     user_view d' = user_view d"
  by (auto simp: sql_insert_fid_def sql_insert_Inr user_view_def fid_view_def find_snoc_key fun_eq_iff
      find_key_None split: sum.splits if_splits)

lemma view_update_users:
  assumes "\<And>r. ur_id (f r) = ur_id r" "\<And>r. ur_id r = uid \<Longrightarrow> toUser (f r) = g (toUser r)"
  shows "user_view (d\<lparr>t_users := sql_update (\<lambda>r. ur_id r = uid) f (t_users d)\<rparr>) =
    (user_view d)(uid := map_option g (user_view d uid))"
  using assms by (auto simp: user_view_def fun_eq_iff find_update option.map_comp comp_def
      intro!: option.map_cong dest!: find_SomeD)

lemma view_update_user_claims:
  "sql_update_user_claims uid c ts t d = Inr (x, d') \<Longrightarrow>
     user_view d' = (user_view d)(uid := map_option (apply_claims c ts) (user_view d uid)) \<and> fid_view d' = fid_view d"
  unfolding sql_update_user_claims_def
  by (auto simp: fid_view_def toUser_def apply_claims_def split: option.splits intro!: view_update_users)

lemma view_update_local:
  "sql_update_local uid (nm \<noteq> None) (nullableString nm) (pic \<noteq> None) (nullableString pic) ts t d = Inr (x, d') \<Longrightarrow>
     user_view d' = (user_view d)(uid := map_option (\<lambda>u. u\<lparr>uLocalName := set_local nm (uLocalName u),
            uLocalPicture := set_local pic (uLocalPicture u), uUpdatedAt := ts\<rparr>) (user_view d uid))
     \<and> fid_view d' = fid_view d"
  unfolding sql_update_local_def
  by (auto simp: fid_view_def toUser_def set_local_def nullableString_def split: option.splits
      intro!: view_update_users)

lemma view_update_fid_claims:
  assumes "sql_update_fid_claims p s c ts t d = Inr (x, d')"
  shows "user_view d' = user_view d"
    and "fid_view d' k = (if k = (p, s)
      then map_option (\<lambda>f. f\<lparr>fiProviderEmail := fcEmail c, fiProviderEmailVerified := fcEmailVerified c,
        fiProviderDisplayName := fcName c, fiProviderGivenName := fcGivenName c,
        fiProviderFamilyName := fcFamilyName c, fiProviderPictureURL := fcPicture c,
        fiLastLoginAt := ts, fiUpdatedAt := t\<rparr>) (fid_view d k)
      else fid_view d k)"
proof -
  let ?P = "\<lambda>r. fr_provider r = p \<and> fr_provider_subject r = s"
  obtain f where d': "d' = d\<lparr>t_fids := sql_update ?P f (t_fids d)\<rparr>"
    and f: "\<And>r. fr_key (f r) = fr_key r" "\<And>r. toFederatedIdentity (f r) = (toFederatedIdentity r)\<lparr>fiProviderEmail := fcEmail c, fiProviderEmailVerified := fcEmailVerified c,
        fiProviderDisplayName := fcName c, fiProviderGivenName := fcGivenName c,
        fiProviderFamilyName := fcFamilyName c, fiProviderPictureURL := fcPicture c,
        fiLastLoginAt := ts, fiUpdatedAt := t\<rparr>"
    using assms by (auto simp: sql_update_fid_claims_def toFederatedIdentity_def fr_key_def)
  show "user_view d' = user_view d" by (simp add: d' user_view_def fun_eq_iff)
  have "find (\<lambda>r. fr_key r = k) (sql_update ?P f (t_fids d)) =
      map_option (\<lambda>r. if ?P r then f r else r) (find (\<lambda>r. fr_key r = k) (t_fids d))"
    by (rule find_update) (rule f(1))
  then show "fid_view d' k = (if k = (p, s)
      then map_option (\<lambda>f. f\<lparr>fiProviderEmail := fcEmail c, fiProviderEmailVerified := fcEmailVerified c,
        fiProviderDisplayName := fcName c, fiProviderGivenName := fcGivenName c,
        fiProviderFamilyName := fcFamilyName c, fiProviderPictureURL := fcPicture c,
        fiLastLoginAt := ts, fiUpdatedAt := t\<rparr>) (fid_view d k)
      else fid_view d k)"
    using find_SomeD [of "\<lambda>r. fr_key r = k" "t_fids d"]
    by (cases "find (\<lambda>r. fr_key r = k) (t_fids d)") (auto simp: d' fid_view_def f(2) fr_key_def)
qed

text \<open>Deleting by identifier removes the one federated identity it names.\<close>

lemma view_delete_fid:
  assumes "db_ok d" "r \<in> set (t_fids d)"
  shows "fid_view (d\<lparr>t_fids := sql_delete (\<lambda>s. fr_id s = fr_id r \<and> fr_user_id s = fr_user_id r) (t_fids d)\<rparr>) =
    (fid_view d)(fr_key r := None)"
proof -
  let ?P = "\<lambda>s. fr_id s = fr_id r \<and> fr_user_id s = fr_user_id r"
  have dk: "distinct (map fr_key (t_fids d))" and di: "distinct (map fr_id (t_fids d))"
    using assms(1) by (auto simp: db_ok_def)
  have same: "s = r" if "s \<in> set (t_fids d)" "fr_id s = fr_id r" for s
    using key_unique [OF di that(1) assms(2) that(2)] .
  have "find (\<lambda>s. fr_key s = k) (sql_delete ?P (t_fids d)) =
      (if k = fr_key r then None else find (\<lambda>s. fr_key s = k) (t_fids d))" for k
  proof (cases "find (\<lambda>s. fr_key s = k) (t_fids d)")
    case None
    then show ?thesis by (simp add: find_delete_key [OF dk])
  next
    case (Some s)
    then have s: "s \<in> set (t_fids d)" "fr_key s = k" using find_SomeD by fastforce+
    have "?P s \<longleftrightarrow> k = fr_key r" using same [OF s(1)] key_unique [OF dk s(1) assms(2)] s(2) by blast
    with Some show ?thesis by (simp add: find_delete_key [OF dk])
  qed
  then show ?thesis by (auto simp: fid_view_def fun_eq_iff)
qed

lemma count_two:
  assumes "db_ok d" "sql_count (\<lambda>r. fr_user_id r = uid) (t_fids d) > 1" "r \<in> set (t_fids d)" "fr_user_id r = uid"
  obtains s where "s \<in> set (t_fids d)" "fr_user_id s = uid"
    "fr_key s \<noteq> fr_key r"
proof -
  have dk: "distinct (map fr_key (t_fids d))" using assms(1) by (simp add: db_ok_def)
  then have "distinct (t_fids d)" by (simp add: distinct_map)
  then have card: "card {s \<in> set (t_fids d). fr_user_id s = uid} > 1"
    using assms(2) distinct_card [of "filter (\<lambda>r. fr_user_id r = uid) (t_fids d)"]
    by (simp add: sql_count_def)
  have "\<not> {s \<in> set (t_fids d). fr_user_id s = uid} \<subseteq> {r}"
    using card card_mono [of "{r}" "{s \<in> set (t_fids d). fr_user_id s = uid}"] by auto
  then obtain s where s: "s \<in> set (t_fids d)" "fr_user_id s = uid" "s \<noteq> r" by blast
  have "fr_key s \<noteq> fr_key r" using key_unique [OF dk s(1) assms(3)] s(3) by blast
  with s that show ?thesis by blast
qed

section \<open>The repository meets the contract\<close>

lemma filter_unique:
  assumes "distinct xs" "x \<in> set xs" "\<And>y. y \<in> set xs \<Longrightarrow> P y \<longleftrightarrow> y = x"
  shows "filter P xs = [x]"
proof -
  have "filter P xs = filter (\<lambda>y. y = x) xs" using assms(3) by (intro filter_cong) auto
  also have "\<dots> = [x]" using assms(1,2) by (induction xs) (auto simp: filter_empty_conv)
  finally show ?thesis .
qed

lemma federated_select:
  assumes "db_ok d"
  shows "sql_select_federated p s t d =
    (case fid_view d (p, s) of
       None \<Rightarrow> Inl (Sentinel SqlErrNoRows)
     | Some f \<Rightarrow> Inr (the (find (\<lambda>r. ur_id r = fiUserID f) (t_users d)), d))"
proof (cases "find (\<lambda>r. fr_key r = (p, s)) (t_fids d)")
  case None
  then have "filter (\<lambda>f. fr_provider f = p \<and> fr_provider_subject f = s) (t_fids d) = []"
    by (auto simp: find_None_iff fr_key_def filter_empty_conv)
  with None show ?thesis by (simp add: sql_select_federated_def fid_view_def)
next
  case (Some r)
  have r: "r \<in> set (t_fids d)" "fr_key r = (p, s)" using find_SomeD [OF Some] by auto
  have dk: "distinct (map fr_key (t_fids d))" and du: "distinct (map ur_id (t_users d))"
    and fk: "fr_user_id r \<in> ur_id ` set (t_users d)"
    using assms r(1) by (auto simp: db_ok_def)
  have fs: "filter (\<lambda>f. fr_provider f = p \<and> fr_provider_subject f = s) (t_fids d) = [r]"
  proof (rule filter_unique)
    show "distinct (t_fids d)" using dk by (simp add: distinct_map)
    show "(fr_provider y = p \<and> fr_provider_subject y = s) = (y = r)" if "y \<in> set (t_fids d)" for y
      using key_unique [OF dk that r(1)] r(2) by (auto simp: fr_key_def)
  qed (rule r(1))
  obtain u where u: "find (\<lambda>u. ur_id u = fr_user_id r) (t_users d) = Some u"
    using fk by (cases "find (\<lambda>u. ur_id u = fr_user_id r) (t_users d)") (auto simp: find_None_iff)
  have "filter (\<lambda>u. fr_user_id r = ur_id u) (t_users d) = [u]"
  proof (rule filter_unique)
    show "distinct (t_users d)" using du by (simp add: distinct_map)
    show "u \<in> set (t_users d)" using find_SomeD [OF u] by simp
    show "(fr_user_id r = ur_id y) = (y = u)" if "y \<in> set (t_users d)" for y
      using key_unique [OF du that, of u] find_SomeD [OF u] by auto
  qed
  then show ?thesis
    unfolding sql_select_federated_def fs using Some u by (simp add: fid_view_def)
qed

lemma fid_user_exists:
  assumes "db_ok d" "fid_view d k = Some f"
  shows "\<exists>r. find (\<lambda>r. ur_id r = fiUserID f) (t_users d) = Some r"
proof -
  obtain r where "r \<in> set (t_fids d)" "f = toFederatedIdentity r" using assms by (auto simp: fid_view_Some)
  with assms(1) have "fiUserID f \<in> ur_id ` set (t_users d)" by (simp add: db_ok_def)
  then show ?thesis by (cases "find (\<lambda>r. ur_id r = fiUserID f) (t_users d)") (auto simp: find_None_iff)
qed

lemma fid_view_ran: "db_ok d \<Longrightarrow> ran (fid_view d) = toFederatedIdentity ` set (t_fids d)"
  by (auto simp: ran_def fid_view_Some image_iff) (metis surj_pair)

lemma toUser_row:
  "uLocalName u = None \<Longrightarrow> uLocalPicture u = None \<Longrightarrow>
   toUser \<lparr>ur_id = uID u, ur_email = uEmail u, ur_email_verified = uEmailVerified u, ur_name = uName u,
     ur_given_name = uGivenName u, ur_family_name = uFamilyName u, ur_picture = uPicture u,
     ur_created_at = uCreatedAt u, ur_updated_at = uUpdatedAt u, ur_local_name = None, ur_local_picture = None\<rparr> = u"
  by (cases u) (simp add: toUser_def)

lemma toFid_row:
  "toFederatedIdentity \<lparr>fr_id = fiID f, fr_user_id = fiUserID f,
         fr_provider = fiProvider f, fr_provider_subject = fiProviderSubject f,
         fr_provider_email = fiProviderEmail f, fr_provider_email_verified = fiProviderEmailVerified f,
         fr_provider_display_name = fiProviderDisplayName f, fr_provider_given_name = fiProviderGivenName f,
         fr_provider_family_name = fiProviderFamilyName f, fr_provider_picture_url = fiProviderPictureURL f,
         fr_last_login_at = fiLastLoginAt f, fr_created_at = fiCreatedAt f, fr_updated_at = fiUpdatedAt f\<rparr> = f"
  by (cases f) (simp add: toFederatedIdentity_def)

lemma insert_user_step:
  "sql_insert_user r t d = Inr (x, d') \<Longrightarrow> db_ok d \<Longrightarrow> db_ok d' \<and> user_view d (ur_id r) = None \<and>
     user_view d' = (user_view d)(ur_id r \<mapsto> toUser r) \<and> fid_view d' = fid_view d"
  using insert_user_ok view_insert_user by blast

lemma insert_fid_step:
  "sql_insert_fid r t d = Inr (x, d') \<Longrightarrow> db_ok d \<Longrightarrow> db_ok d' \<and> fid_view d (fr_key r) = None \<and>
     fid_view d' = (fid_view d)(fr_key r \<mapsto> toFederatedIdentity r) \<and> user_view d' = user_view d"
  using insert_fid_ok view_insert_fid by blast

lemma create_effect:
  assumes "run_state (UserRepository_CreateWithFederatedIdentity u f) w = (Inr x, w')" "db_ok (db w)"
    and "uLocalName u = None" "uLocalPicture u = None"
  shows "db_ok (db w') \<and> user_view (db w) (uID u) = None
    \<and> fid_view (db w) (fiProvider f, fiProviderSubject f) = None
    \<and> user_view (db w') = (user_view (db w))(uID u \<mapsto> u)
    \<and> fid_view (db w') = (fid_view (db w))((fiProvider f, fiProviderSubject f) \<mapsto> f)"
  using assms(1,2) unfolding UserRepository_CreateWithFederatedIdentity_def
  by (elim in_tx_Inr)
    (auto simp: tx_exec_def toUser_row [OF assms(3,4)] toFid_row fr_key_def split: prod.splits sum.splits
      elim!: db_exec_cases dest!: insert_user_step insert_fid_step)

lemma delete_run:
  assumes "run_state (UserRepository_DeleteFederatedIdentity agg fid uid) w = (Inr x, w')"
  shows "sql_count (\<lambda>r. fr_user_id r = uid) (t_fids (db w)) > 1
    \<and> sql_count (\<lambda>r. fr_id r = fid \<and> fr_user_id r = uid) (t_fids (db w)) \<noteq> 0
    \<and> db w' = (db w)\<lparr>t_fids := sql_delete (\<lambda>r. fr_id r = fid \<and> fr_user_id r = uid) (t_fids (db w))\<rparr>"
  using assms unfolding UserRepository_DeleteFederatedIdentity_def
  by (elim in_tx_Inr)
    (auto simp: tx_exec_def sql_count_fids_for_update_def sql_delete_fid_def Let_def run_db_exec
      split: prod.splits sum.splits option.splits if_splits)

lemma delete_effect:
  assumes "run_state (UserRepository_DeleteFederatedIdentity agg fid uid) w = (Inr x, w')" "db_ok (db w)"
  shows "db_ok (db w') \<and> user_view (db w') = user_view (db w) \<and>
      (\<exists>k f k2 f2. fid_view (db w) k = Some f \<and> fiID f = fid \<and> fiUserID f = uid
         \<and> fid_view (db w') = (fid_view (db w))(k := None)
         \<and> k2 \<noteq> k \<and> fid_view (db w) k2 = Some f2 \<and> fiUserID f2 = uid)"
proof -
  let ?P = "\<lambda>r. fr_id r = fid \<and> fr_user_id r = uid"
  have two: "sql_count (\<lambda>r. fr_user_id r = uid) (t_fids (db w)) > 1" and n: "sql_count ?P (t_fids (db w)) \<noteq> 0"
    and d': "db w' = (db w)\<lparr>t_fids := sql_delete ?P (t_fids (db w))\<rparr>"
    using delete_run [OF assms(1)] by auto
  obtain r where r: "r \<in> set (t_fids (db w))" "fr_id r = fid" "fr_user_id r = uid"
    using n by (auto simp: sql_count_0)
  obtain s where s: "s \<in> set (t_fids (db w))" "fr_user_id s = uid" "fr_key s \<noteq> fr_key r"
    using count_two [OF assms(2) two r(1,3)] .
  have "db_ok (db w')"
    using delete_fid_ok [OF assms(2), of fid uid 0 "sql_count ?P (t_fids (db w))" "db w'"]
    by (simp add: sql_delete_fid_def d' Let_def)
  moreover have "fid_view (db w') = (fid_view (db w))(fr_key r := None)"
    using view_delete_fid [OF assms(2) r(1)] r(2,3) d' by simp
  moreover have "user_view (db w') = user_view (db w)" by (simp add: d' user_view_def fun_eq_iff)
  moreover have "fid_view (db w) (fr_key r) = Some (toFederatedIdentity r)"
    "fid_view (db w) (fr_key s) = Some (toFederatedIdentity s)"
    using r(1) s(1) by (auto simp: fid_view_Some [OF assms(2)])
  ultimately show ?thesis using r(2,3) s(2,3)
    by (intro conjI exI [of _ "fr_key r"] exI [of _ "toFederatedIdentity r"] exI [of _ "fr_key s"]
        exI [of _ "toFederatedIdentity s"]) simp_all
qed

interpretation pg_users: identity_repository "UserRepository agg" user_view fid_view db_ok for agg
proof (unfold_locales, goal_cases)
  case (1 d uid u)
  then show ?case by (auto simp: user_view_Some)
next
  case (2 d p s f)
  then show ?case by (auto simp: fid_view_Some fr_key_def user_view_None db_ok_def)
next
  case (3 uid w u w')
  then show ?case
    by (auto simp: UserRepository_defs sql_select_user_def sql_first_def user_view_def
        split: sum.splits prod.splits option.splits if_splits elim!: db_exec_cases)
next
  case (4 uid w e w')
  then show ?case
    by (auto simp: UserRepository_defs sql_select_user_def sql_first_def user_view_def
        split: sum.splits prod.splits option.splits if_splits elim!: db_exec_cases)
next
  case (5 p s w ou w')
  then show ?case
    using fid_user_exists [of "db w" "(p, s)"]
    by (cases "fid_view (db w) (p, s)")
      (auto simp: UserRepository_defs federated_select user_view_def run_db_exec
        split: sum.splits prod.splits option.splits if_splits)
next
  case (6 p s w e w')
  then show ?case
    by (auto simp: UserRepository_defs split: sum.splits prod.splits if_splits dest: db_exec_Inl)
next
  case (7 u f w x w')
  then show ?case using create_effect [of u f w x w'] by (simp add: UserRepository_def)
next
  case (8 u f w e w')
  then show ?case by (auto simp: UserRepository_defs dest: in_tx_Inl)
next
  case (9 uid c t w x w')
  then show ?case
    by (auto simp: UserRepository_defs dest: update_user_claims_ok view_update_user_claims elim!: db_exec_cases)
next
  case (10 uid c t w e w')
  then show ?case by (auto simp: UserRepository_defs dest: db_exec_Inl)
next
  case (11 p s c t w x w')
  then obtain t' where run: "sql_update_fid_claims p s c t t' (db w) = Inr (x, db w')"
    by (auto simp: UserRepository_defs elim!: db_exec_cases)
  show ?case
    using update_fid_claims_ok [OF 11(2) run] view_update_fid_claims [OF run]
    by (auto simp: option.map_comp comp_def)
next
  case (12 p s c t w e w')
  then show ?case by (auto simp: UserRepository_defs dest: db_exec_Inl)
next
  case (13 uid w fs w')
  then show ?case
    by (auto simp: UserRepository_defs sql_list_fids_def sql_order_asc_def fid_view_ran comp_def
        split: sum.splits prod.splits elim!: db_exec_cases)
next
  case (14 uid w e w')
  then show ?case
    by (auto simp: UserRepository_defs split: sum.splits prod.splits dest: db_exec_Inl)
next
  case (15 fid uid w x w')
  then show ?case using delete_effect [of agg fid uid w x w'] by (simp add: UserRepository_def)
next
  case (16 fid uid w e w')
  then show ?case by (auto simp: UserRepository_defs dest: in_tx_Inl)
next
  case (17 uid nm pic t w x w')
  then show ?case
    by (auto simp: UserRepository_defs simp del: not_None_eq dest: update_local_ok view_update_local
        elim!: db_exec_cases)
next
  case (18 uid nm pic t w e w')
  then show ?case by (auto simp: UserRepository_defs dest: db_exec_Inl)
qed

end
