(* ===== verification/IdentitySvc.thy ===== *)
theory IdentitySvc
  imports UserRepo
begin

text \<open>
  \<open>internal/identity/service.go\<close>: federated login, profiles and linked providers, over any
  repository that keeps the contract \<open>identity_repository\<close>; the lemmas of the context are
  what the service promises, the properties at the end state them for PostgreSQL.
\<close>

definition applyLocalOverrides :: "User \<Rightarrow> User" where
  "applyLocalOverrides u =
     (let u1 = (case uLocalName u of
                  Some n \<Rightarrow> if n \<noteq> [] then u\<lparr>uName := n\<rparr> else u
                | None \<Rightarrow> u)
      in case uLocalPicture u1 of
           Some p \<Rightarrow> if p \<noteq> [] then u1\<lparr>uPicture := p\<rparr> else u1
         | None \<Rightarrow> u1)"

definition identityService_GetUser :: "'db go_world Repository \<Rightarrow> string \<Rightarrow> ('db, User) eio" where
  "identityService_GetUser repo uid = do {
     r \<leftarrow> User_GetByID repo uid;
     case r of
       Inl err \<Rightarrow> ret (Inl (errorf (''identity.GetUser('' @ uid @ ''): '') err))
     | Inr user \<Rightarrow> ret (Inr (applyLocalOverrides user)) }"

definition identityService_FindOrCreateByFederatedLogin ::
  "'db go_world Repository \<Rightarrow> string \<Rightarrow> FederatedClaims \<Rightarrow> ('db, User) eio" where
  "identityService_FindOrCreateByFederatedLogin repo provider claims = do {
     r \<leftarrow> FindByFederatedIdentity repo provider (fcSubject claims);
     case r of
       Inl err \<Rightarrow> ret (Inl (errorf ''identity.FindOrCreate: lookup: '' err))
     | Inr (Some existing) \<Rightarrow> do {
         now \<leftarrow> time_Now;
         a \<leftarrow> UpdateUserFromClaims repo (uID existing) claims now;
         case a of
           Inl err \<Rightarrow> ret (Inl (errorf ''identity.FindOrCreate: update user: '' err))
         | Inr _ \<Rightarrow> do {
             b \<leftarrow> UpdateFederatedIdentityClaims repo provider (fcSubject claims) claims now;
             case b of
               Inl err \<Rightarrow> ret (Inl (errorf ''identity.FindOrCreate: update claims: '' err))
             | Inr _ \<Rightarrow> ret (Inr (existing\<lparr>uEmail := fcEmail claims, uEmailVerified := fcEmailVerified claims,
                 uName := fcName claims, uGivenName := fcGivenName claims, uFamilyName := fcFamilyName claims,
                 uPicture := fcPicture claims, uUpdatedAt := now\<rparr>)) } }
     | Inr None \<Rightarrow> do {
         now \<leftarrow> time_Now;
         userID \<leftarrow> ulid_Make;
         let user = \<lparr>uID = userID, uEmail = fcEmail claims, uEmailVerified = fcEmailVerified claims,
           uName = fcName claims, uGivenName = fcGivenName claims, uFamilyName = fcFamilyName claims,
           uPicture = fcPicture claims, uCreatedAt = now, uUpdatedAt = now,
           uLocalName = None, uLocalPicture = None\<rparr>;
         fidID \<leftarrow> ulid_Make;
         let fi = \<lparr>fiID = fidID, fiUserID = uID user, fiProvider = provider,
           fiProviderSubject = fcSubject claims, fiProviderEmail = fcEmail claims,
           fiProviderEmailVerified = fcEmailVerified claims, fiProviderDisplayName = fcName claims,
           fiProviderGivenName = fcGivenName claims, fiProviderFamilyName = fcFamilyName claims,
           fiProviderPictureURL = fcPicture claims, fiLastLoginAt = now, fiCreatedAt = now,
           fiUpdatedAt = now\<rparr>;
         c \<leftarrow> CreateWithFederatedIdentity repo user fi;
         case c of
           Inl err \<Rightarrow> ret (Inl (errorf ''identity.FindOrCreate: create: '' err))
         | Inr _ \<Rightarrow> ret (Inr user) } }"

definition identityService_UpdateProfile ::
  "'db go_world Repository \<Rightarrow> string \<Rightarrow> string option \<Rightarrow> string option \<Rightarrow> ('db, User) eio" where
  "identityService_UpdateProfile repo uid name picture = do {
     now \<leftarrow> time_Now;
     r \<leftarrow> UpdateLocalProfile repo uid name picture now;
     case r of
       Inl err \<Rightarrow> ret (Inl (errorf ''identity.UpdateProfile: '' err))
     | Inr _ \<Rightarrow> identityService_GetUser repo uid }"

definition identityService_ListLinkedProviders ::
  "'db go_world Repository \<Rightarrow> string \<Rightarrow> ('db, FederatedIdentity list) eio" where
  "identityService_ListLinkedProviders repo uid = do {
     r \<leftarrow> ListFederatedIdentities repo uid;
     case r of
       Inl err \<Rightarrow> ret (Inl (errorf ''identity.ListLinkedProviders: '' err))
     | Inr fis \<Rightarrow> ret (Inr fis) }"

definition identityService_UnlinkProvider ::
  "'db go_world Repository \<Rightarrow> string \<Rightarrow> string \<Rightarrow> ('db, unit) eio" where
  "identityService_UnlinkProvider repo uid identityID = do {
     r \<leftarrow> DeleteFederatedIdentity repo identityID uid;
     case r of
       Inl err \<Rightarrow> ret (Inl (errorf ''identity.UnlinkProvider: '' err))
     | Inr _ \<Rightarrow> ret (Inr ()) }"

lemmas identityService_defs = identityService_GetUser_def identityService_FindOrCreateByFederatedLogin_def
  identityService_UpdateProfile_def identityService_ListLinkedProviders_def identityService_UnlinkProvider_def

text \<open>The displayed name and picture: a non-empty local value wins.\<close>

lemma applyLocalOverrides_sel:
  "uID (applyLocalOverrides u) = uID u" "uEmail (applyLocalOverrides u) = uEmail u"
  "uLocalName (applyLocalOverrides u) = uLocalName u"
  "uName (applyLocalOverrides u) = (case uLocalName u of Some n \<Rightarrow> if n \<noteq> [] then n else uName u | None \<Rightarrow> uName u)"
  "uPicture (applyLocalOverrides u) =
     (case uLocalPicture u of Some n \<Rightarrow> if n \<noteq> [] then n else uPicture u | None \<Rightarrow> uPicture u)"
  by (auto simp: applyLocalOverrides_def Let_def split: option.splits)

section \<open>What the service promises\<close>

text \<open>Where a provider's subject is linked: the user of the federated identity.\<close>

definition linked :: "(string \<times> string \<Rightarrow> FederatedIdentity option) \<Rightarrow> string \<Rightarrow> string \<Rightarrow> string option" where
  "linked m p s = map_option fiUserID (m (p, s))"

context identity_repository
begin

lemma getUser_done:
  assumes "run_state (identityService_GetUser repo uid) w = (Inr u, w')" "invar (db w)"
  shows "db w' = db w \<and> (\<exists>v. vu (db w) uid = Some v \<and> u = applyLocalOverrides v)"
  using assms by (auto simp: identityService_GetUser_def split: prod.splits sum.splits dest: get_done)

lemma linked_user: "invar d \<Longrightarrow> linked (vf d) p s = Some uid \<Longrightarrow> \<exists>u. vu d uid = Some u"
  by (auto simp: linked_def dest: fid_key)

lemma login_done:
  assumes "run_state (identityService_FindOrCreateByFederatedLogin repo p c) w = (Inr u, w')" "invar (db w)"
  shows "invar (db w') \<and> linked (vf (db w')) p (fcSubject c) = Some (uID u)
    \<and> (linked (vf (db w)) p (fcSubject c) = (if vu (db w) (uID u) = None then None else Some (uID u)))
    \<and> (\<forall>x. x \<noteq> uID u \<longrightarrow> vu (db w') x = vu (db w) x)
    \<and> (\<forall>k. k \<noteq> (p, fcSubject c) \<longrightarrow> vf (db w') k = vf (db w) k)
    \<and> vu (db w') (uID u) = Some (case vu (db w) (uID u) of None \<Rightarrow> u | Some v \<Rightarrow> apply_claims c (uUpdatedAt u) v)"
proof (cases "vf (db w) (p, fcSubject c)")
  case None
  with assms show ?thesis
    by (auto simp: identityService_FindOrCreateByFederatedLogin_def Let_def linked_def
        split: prod.splits sum.splits option.splits dest!: find_done create_done)
next
  case (Some f)
  with assms(2) obtain v where v: "vu (db w) (fiUserID f) = Some v" "uID v = fiUserID f"
    using fid_key user_key by fastforce
  with assms Some show ?thesis
    by (auto simp: identityService_FindOrCreateByFederatedLogin_def Let_def linked_def
        split: prod.splits sum.splits option.splits dest!: find_done claims_done fclaims_done)
qed

lemma login_error:
  assumes "run_state (identityService_FindOrCreateByFederatedLogin repo p c) w = (Inl e, w')" "invar (db w)"
    and "linked (vf (db w)) p (fcSubject c) = None"
  shows "db w' = db w"
  using assms
  by (auto simp: identityService_FindOrCreateByFederatedLogin_def Let_def linked_def
      split: prod.splits sum.splits option.splits dest!: find_done find_error create_error)

lemma login_keeps_overrides:
  assumes "run_state (identityService_FindOrCreateByFederatedLogin repo p c) w = (Inr u, w')" "invar (db w)"
    and "vu (db w) (uID u) = Some v"
  shows "\<exists>v'. vu (db w') (uID u) = Some v' \<and>
    uLocalName v' = uLocalName v \<and> uLocalPicture v' = uLocalPicture v
    \<and> (uLocalName v \<noteq> None \<longrightarrow> uName (applyLocalOverrides v') = uName (applyLocalOverrides v))"
  using login_done [OF assms(1,2)] assms(3)
  by (auto simp: apply_claims_def applyLocalOverrides_sel split: option.splits)

lemma profile_update_done:
  assumes "run_state (identityService_UpdateProfile repo uid nm pic) w = (Inr u, w')" "invar (db w)"
  shows "invar (db w') \<and> (\<exists>v. vu (db w) uid = Some v \<and>
     vu (db w') = (vu (db w))(uid \<mapsto> v\<lparr>uLocalName := set_local nm (uLocalName v),
       uLocalPicture := set_local pic (uLocalPicture v), uUpdatedAt := clock w\<rparr>)
     \<and> u = applyLocalOverrides (the (vu (db w') uid))) \<and> vf (db w') = vf (db w)"
  using assms
  by (auto simp: identityService_UpdateProfile_def split: prod.splits sum.splits
      dest!: profile_done getUser_done)

lemma unlink_done:
  assumes "run_state (identityService_UnlinkProvider repo uid fid) w = (Inr u, w')" "invar (db w)"
  shows "invar (db w') \<and> vu (db w') = vu (db w)
    \<and> (\<exists>k f. vf (db w) k = Some f \<and> fiID f = fid \<and> fiUserID f = uid \<and> vf (db w') = (vf (db w))(k := None))
    \<and> (\<exists>k f. vf (db w') k = Some f \<and> fiUserID f = uid)"
proof -
  have run: "\<exists>x. run_state (DeleteFederatedIdentity repo fid uid) w = (Inr x, w')"
    using assms(1) by (auto simp: identityService_UnlinkProvider_def split: prod.splits sum.splits)
  then obtain k f k2 f2 where inv: "invar (db w')" "vu (db w') = vu (db w)"
    and f: "vf (db w) k = Some f" "fiID f = fid" "fiUserID f = uid" "vf (db w') = (vf (db w))(k := None)"
    and f2: "k2 \<noteq> k" "vf (db w) k2 = Some f2" "fiUserID f2 = uid"
    using delete_done assms(2) by blast
  then have "vf (db w') k2 = Some f2" by simp
  with inv f f2(3) show ?thesis by blast
qed

end

end
