(* ===== verification/TokenRepo.thy ===== *)
theory TokenRepo
  imports IdentityDb
begin

text \<open>
  The contract of \<open>oidc.TokenRepository\<close> and its PostgreSQL implementation,
  \<open>internal/oidc/postgres/token_repo.go\<close>. Access tokens are read as a map from their
  identifiers, refresh tokens as a map from their hashes, expired ones included; a token is
  live while the database's clock is before its expiration.
\<close>

section \<open>The contract\<close>

text \<open>The maps after a rotation: the old pair goes, the new pair comes.\<close>

definition rotate_refresh ::
  "string \<Rightarrow> RefreshToken \<Rightarrow> (string \<Rightarrow> RefreshToken option) \<Rightarrow> string \<Rightarrow> RefreshToken option" where
  "rotate_refresh cur r m = ((if cur = [] then m else m(cur := None))(rtToken r \<mapsto> r))"

definition rotate_access ::
  "string \<Rightarrow> (string \<Rightarrow> RefreshToken option) \<Rightarrow> Token \<Rightarrow> (string \<Rightarrow> Token option) \<Rightarrow> string \<Rightarrow> Token option" where
  "rotate_access cur m a acc =
     ((case (if cur = [] then None else m cur) of
         None \<Rightarrow> acc
       | Some old \<Rightarrow> if rtAccessTokenID old = [] then acc else acc(rtAccessTokenID old := None))
      (tkID a \<mapsto> a))"

definition inherit_session :: "string \<Rightarrow> (string \<Rightarrow> RefreshToken option) \<Rightarrow> RefreshToken \<Rightarrow> string" where
  "inherit_session cur m r =
     (if rtDeviceSessionID r = [] \<and> cur \<noteq> []
      then (case m cur of None \<Rightarrow> [] | Some old \<Rightarrow> rtDeviceSessionID old)
      else rtDeviceSessionID r)"

locale token_repository =
  fixes repo :: "'db go_world TokenRepository"
    and access :: "'db \<Rightarrow> string \<Rightarrow> Token option"
    and refresh :: "'db \<Rightarrow> string \<Rightarrow> RefreshToken option"
    and invar :: "'db \<Rightarrow> bool"
  assumes access_key: "invar d \<Longrightarrow> access d i = Some a \<Longrightarrow> tkID a = i"
    and refresh_key: "invar d \<Longrightarrow> refresh d h = Some r \<Longrightarrow> rtToken r = h"
    and create_done: "run_state (TK_CreateAccess repo a) w = (Inr x, w') \<Longrightarrow> invar (db w) \<Longrightarrow>
      invar (db w') \<and> access (db w) (tkID a) = None \<and> refresh (db w') = refresh (db w)
      \<and> access (db w') = (access (db w))(tkID a \<mapsto> a\<lparr>tkCreatedAt := clock w\<rparr>)"
    and create_error: "run_state (TK_CreateAccess repo a) w = (Inl e, w') \<Longrightarrow> db w' = db w"
    and rotate_done: "run_state (TK_CreateAccessAndRefresh repo a r cur) w = (Inr x, w') \<Longrightarrow> invar (db w) \<Longrightarrow>
      invar (db w') \<and> (cur \<noteq> [] \<longrightarrow> (\<exists>old. refresh (db w) cur = Some old \<and> clock w < rtExpiration old))
      \<and> refresh (db w') = rotate_refresh cur (r\<lparr>rtCreatedAt := clock w,
           rtDeviceSessionID := inherit_session cur (refresh (db w)) r\<rparr>) (refresh (db w))
      \<and> access (db w') = rotate_access cur (refresh (db w)) (a\<lparr>tkCreatedAt := clock w\<rparr>) (access (db w))"
    and rotate_error: "run_state (TK_CreateAccessAndRefresh repo a r cur) w = (Inl e, w') \<Longrightarrow> invar (db w) \<Longrightarrow>
      db w' = db w"
    and rotate_stale: "run_state (TK_CreateAccessAndRefresh repo a r cur) w = (rr, w') \<Longrightarrow> invar (db w) \<Longrightarrow>
      cur \<noteq> [] \<Longrightarrow> quiet w \<Longrightarrow> (\<And>old. refresh (db w) cur = Some old \<Longrightarrow> rtExpiration old \<le> clock w) \<Longrightarrow>
      \<exists>e. rr = Inl e \<and> errors_Is e ErrNotFound"
    and get_done: "run_state (TK_GetByID repo i) w = (Inr a, w') \<Longrightarrow> invar (db w) \<Longrightarrow>
      db w' = db w \<and> access (db w) i = Some a \<and> clock w < tkExpiration a"
    and get_error: "run_state (TK_GetByID repo i) w = (Inl e, w') \<Longrightarrow> invar (db w) \<Longrightarrow> db w' = db w
      \<and> (errors_Is e ErrNotFound \<longrightarrow> (\<forall>a. access (db w) i = Some a \<longrightarrow> tkExpiration a \<le> clock w))"
    and get_live: "run_state (TK_GetByID repo i) w = (ra, w') \<Longrightarrow> invar (db w) \<Longrightarrow> quiet w \<Longrightarrow> quiet w' \<and>
      (if \<exists>a. access (db w) i = Some a \<and> clock w < tkExpiration a then ra = Inr (the (access (db w) i))
       else \<exists>e. ra = Inl e \<and> errors_Is e ErrNotFound)"
    and getr_done: "run_state (TK_GetRefreshToken repo h) w = (Inr r, w') \<Longrightarrow> invar (db w) \<Longrightarrow>
      db w' = db w \<and> refresh (db w) h = Some r \<and> clock w < rtExpiration r"
    and getr_error: "run_state (TK_GetRefreshToken repo h) w = (Inl e, w') \<Longrightarrow> db w' = db w"
    and getr_live: "run_state (TK_GetRefreshToken repo h) w = (rg, w') \<Longrightarrow> invar (db w) \<Longrightarrow> quiet w \<Longrightarrow> quiet w' \<and>
      (if \<exists>r. refresh (db w) h = Some r \<and> clock w < rtExpiration r then rg = Inr (the (refresh (db w) h))
       else \<exists>e. rg = Inl e \<and> errors_Is e ErrNotFound)"
    and info_done: "run_state (TK_GetRefreshInfo repo h) w = (Inr ui, w') \<Longrightarrow> invar (db w) \<Longrightarrow> db w' = db w \<and>
      (\<exists>r. refresh (db w) h = Some r \<and> clock w < rtExpiration r \<and> ui = (rtUserID r, rtID r))"
    and info_error: "run_state (TK_GetRefreshInfo repo h) w = (Inl e, w') \<Longrightarrow> db w' = db w"
    and delete_done: "run_state (TK_DeleteByUserAndClient repo u c) w = (Inr x, w') \<Longrightarrow> invar (db w) \<Longrightarrow> invar (db w')
      \<and> (\<forall>h. refresh (db w') h = (case refresh (db w) h of
            Some r \<Rightarrow> if rtUserID r = u \<and> rtClientID r = c then None else Some r | None \<Rightarrow> None))
      \<and> (\<forall>i. access (db w') i = (case access (db w) i of
            Some a \<Rightarrow> if tkSubject a = u \<and> tkClientID a = c then None else Some a | None \<Rightarrow> None))"
    and delete_error: "run_state (TK_DeleteByUserAndClient repo u c) w = (Inl e, w') \<Longrightarrow> db w' = db w"
    and revoke_done: "run_state (TK_Revoke repo i c) w = (Inr x, w') \<Longrightarrow> invar (db w) \<Longrightarrow> invar (db w')
      \<and> (\<exists>a. access (db w) i = Some a \<and> tkClientID a = c)
      \<and> access (db w') = (access (db w))(i := None) \<and> refresh (db w') = refresh (db w)"
    and revoke_error: "run_state (TK_Revoke repo i c) w = (Inl e, w') \<Longrightarrow> invar (db w) \<Longrightarrow> db w' = db w"
    and revoker_done: "run_state (TK_RevokeRefreshToken repo h c) w = (Inr x, w') \<Longrightarrow> invar (db w) \<Longrightarrow> invar (db w')
      \<and> (\<exists>r. refresh (db w) h = Some r \<and> rtClientID r = c)
      \<and> refresh (db w') = (refresh (db w))(h := None) \<and> access (db w') = access (db w)"
    and revoker_error: "run_state (TK_RevokeRefreshToken repo h c) w = (Inl e, w') \<Longrightarrow> invar (db w) \<Longrightarrow> db w' = db w"
    and expired_done: "run_state (TK_DeleteExpired repo b) w = (Inr n, w') \<Longrightarrow> invar (db w) \<Longrightarrow> invar (db w')
      \<and> (\<forall>h. refresh (db w') h = (case refresh (db w) h of
            Some r \<Rightarrow> if rtExpiration r < b then None else Some r | None \<Rightarrow> None))
      \<and> (\<forall>i. access (db w') i = (case access (db w) i of
            Some a \<Rightarrow> if tkExpiration a < b then None else Some a | None \<Rightarrow> None))"
    and expired_error: "run_state (TK_DeleteExpired repo b) w = (Inl e, w') \<Longrightarrow> invar (db w) \<Longrightarrow> invar (db w')
      \<and> refresh (db w') = refresh (db w)"
    and latest_done: "run_state (TK_GetLatestDeviceSessionID repo u c) w = (Inr s, w') \<Longrightarrow> invar (db w) \<Longrightarrow>
      db w' = db w \<and> (s \<noteq> [] \<longrightarrow> (\<exists>h r. refresh (db w) h = Some r \<and> rtUserID r = u \<and> rtClientID r = c
         \<and> clock w < rtExpiration r \<and> rtDeviceSessionID r = s
         \<and> (\<forall>h' r'. refresh (db w) h' = Some r' \<and> rtUserID r' = u \<and> rtClientID r' = c \<and> clock w < rtExpiration r'
              \<longrightarrow> rtCreatedAt r' \<le> rtCreatedAt r)))"
    and latest_error: "run_state (TK_GetLatestDeviceSessionID repo u c) w = (Inl e, w') \<Longrightarrow> db w' = db w"

section \<open>The statements\<close>

definition scanToken :: "token_row \<Rightarrow> Token" where
  "scanToken r = \<lparr>tkID = kr_id r, tkClientID = kr_client_id r, tkSubject = kr_subject r,
     tkAudience = kr_audience r, tkScopes = kr_scopes r, tkExpiration = kr_expiration r,
     tkRefreshTokenID = stringOrEmpty (kr_refresh_token_id r), tkCreatedAt = kr_created_at r\<rparr>"

definition scanRefreshToken :: "refresh_row \<Rightarrow> RefreshToken" where
  "scanRefreshToken r = \<lparr>rtID = rr_id r, rtToken = rr_token_hash r, rtClientID = rr_client_id r,
     rtUserID = rr_user_id r, rtAudience = rr_audience r, rtScopes = rr_scopes r, rtAuthTime = rr_auth_time r,
     rtAMR = rr_amr r, rtAccessTokenID = stringOrEmpty (rr_access_token_id r), rtExpiration = rr_expiration r,
     rtCreatedAt = rr_created_at r, rtDeviceSessionID = stringOrEmpty (rr_device_session_id r)\<rparr>"

text \<open>\<open>created_at\<close> is not among the inserted columns: it takes its default, \<open>now()\<close>.\<close>

definition sql_insert_token :: "Token \<Rightarrow> string option \<Rightarrow> int \<Rightarrow> identity_db \<Rightarrow> goerr + unit \<times> identity_db" where
  "sql_insert_token a rtid t d =
     (case sql_insert kr_id \<lparr>kr_id = tkID a, kr_client_id = tkClientID a, kr_subject = tkSubject a,
             kr_audience = tkAudience a, kr_scopes = tkScopes a, kr_expiration = tkExpiration a,
             kr_refresh_token_id = rtid, kr_created_at = t\<rparr> (t_tokens d) of
        Inl e \<Rightarrow> Inl e | Inr ts \<Rightarrow> Inr ((), d\<lparr>t_tokens := ts\<rparr>))"

definition refresh_values :: "RefreshToken \<Rightarrow> int \<Rightarrow> refresh_row" where
  "refresh_values r t = \<lparr>rr_id = rtID r, rr_token_hash = rtToken r, rr_client_id = rtClientID r,
     rr_user_id = rtUserID r, rr_audience = rtAudience r, rr_scopes = rtScopes r,
     rr_auth_time = rtAuthTime r, rr_amr = rtAMR r, rr_access_token_id = Some (rtAccessTokenID r),
     rr_device_session_id = nilIfEmpty (rtDeviceSessionID r), rr_expiration = rtExpiration r,
     rr_created_at = t\<rparr>"

definition sql_insert_refresh :: "RefreshToken \<Rightarrow> int \<Rightarrow> identity_db \<Rightarrow> goerr + unit \<times> identity_db" where
  "sql_insert_refresh r t d =
     (if rtToken r \<in> rr_token_hash ` set (t_refresh_tokens d) then Inl (PqError ''23505'')
      else case sql_insert rr_id (refresh_values r t) (t_refresh_tokens d) of
        Inl e \<Rightarrow> Inl e
      | Inr rs \<Rightarrow>
          if rtUserID r \<notin> ur_id ` set (t_users d) then Inl (PqError ''23503'')
          else if \<not> device_exists d (nilIfEmpty (rtDeviceSessionID r)) then Inl (PqError ''23503'')
          else Inr ((), d\<lparr>t_refresh_tokens := rs\<rparr>))"

definition sql_old_refresh ::
  "string \<Rightarrow> int \<Rightarrow> identity_db \<Rightarrow> goerr + (string option \<times> string option) \<times> identity_db" where
  "sql_old_refresh h t d =
     (case sql_first (\<lambda>r. rr_token_hash r = h) (t_refresh_tokens d) of
        Inl e \<Rightarrow> Inl e
      | Inr r \<Rightarrow> Inr ((rr_access_token_id r, rr_device_session_id r), d))"

definition sql_delete_tokens :: "(token_row \<Rightarrow> bool) \<Rightarrow> int \<Rightarrow> identity_db \<Rightarrow> goerr + nat \<times> identity_db" where
  "sql_delete_tokens P t d = Inr (sql_count P (t_tokens d), d\<lparr>t_tokens := sql_delete P (t_tokens d)\<rparr>)"

definition sql_delete_refresh :: "(int \<Rightarrow> refresh_row \<Rightarrow> bool) \<Rightarrow> int \<Rightarrow> identity_db \<Rightarrow> goerr + nat \<times> identity_db" where
  "sql_delete_refresh P t d =
     Inr (sql_count (P t) (t_refresh_tokens d), d\<lparr>t_refresh_tokens := sql_delete (P t) (t_refresh_tokens d)\<rparr>)"

definition sql_touch_device :: "string \<Rightarrow> int \<Rightarrow> identity_db \<Rightarrow> goerr + unit \<times> identity_db" where
  "sql_touch_device s t d = Inr ((), d\<lparr>t_device_sessions :=
     sql_update (\<lambda>r. dr_id r = s) (\<lambda>r. r\<lparr>dr_last_used_at := t\<rparr>) (t_device_sessions d)\<rparr>)"

definition sql_select_token :: "string \<Rightarrow> int \<Rightarrow> identity_db \<Rightarrow> goerr + token_row \<times> identity_db" where
  "sql_select_token i t d =
     (case sql_first (\<lambda>r. kr_id r = i \<and> kr_expiration r > t) (t_tokens d) of Inl e \<Rightarrow> Inl e | Inr r \<Rightarrow> Inr (r, d))"

definition sql_select_refresh :: "string \<Rightarrow> int \<Rightarrow> identity_db \<Rightarrow> goerr + refresh_row \<times> identity_db" where
  "sql_select_refresh h t d =
     (case sql_first (\<lambda>r. rr_token_hash r = h \<and> rr_expiration r > t) (t_refresh_tokens d) of
        Inl e \<Rightarrow> Inl e | Inr r \<Rightarrow> Inr (r, d))"

definition sql_latest_session ::
  "string \<Rightarrow> string \<Rightarrow> int \<Rightarrow> identity_db \<Rightarrow> goerr + string option \<times> identity_db" where
  "sql_latest_session u c t d =
     (case sql_order_desc rr_created_at
             (filter (\<lambda>r. rr_user_id r = u \<and> rr_client_id r = c \<and> rr_expiration r > t) (t_refresh_tokens d)) of
        [] \<Rightarrow> Inl (Sentinel SqlErrNoRows)
      | r # _ \<Rightarrow> Inr (rr_device_session_id r, d))"

section \<open>The repository\<close>

definition TokenRepository_CreateAccess :: "Token \<Rightarrow> (identity_db, unit) eio" where
  "TokenRepository_CreateAccess a = db_exec (sql_insert_token a (nilIfEmpty (tkRefreshTokenID a)))"

text \<open>
  The block \<open>if currentRefreshToken != ""\<close> in its three statements; its result is the
  refresh token to insert, with the session of the old one where it has none.
\<close>

definition TokenRepository_lookupOld :: "int \<Rightarrow> string \<Rightarrow> (identity_db, string option \<times> string option) eio" where
  "TokenRepository_lookupOld t cur = do {
     q \<leftarrow> tx_exec t (sql_old_refresh cur);
     case q of
       Inl err \<Rightarrow> if \<not> errors_Is err SqlErrNoRows then ret (Inl (errorf ''lookup old refresh token: '' err))
                  else ret (Inr (None, None))
     | Inr old \<Rightarrow> ret (Inr old) }"

definition TokenRepository_revokeOldAccess :: "int \<Rightarrow> string option \<Rightarrow> (identity_db, unit) eio" where
  "TokenRepository_revokeOldAccess t oldAccess =
     (if oldAccess \<noteq> None \<and> oldAccess \<noteq> Some [] then do {
        y \<leftarrow> tx_exec t (sql_delete_tokens (\<lambda>k. Some (kr_id k) = oldAccess));
        case y of
          Inl err \<Rightarrow> ret (Inl (errorf ''revoke old access token: '' err))
        | Inr _ \<Rightarrow> ret (Inr ()) }
      else ret (Inr ()))"

definition TokenRepository_deleteOldRefresh :: "int \<Rightarrow> string \<Rightarrow> (identity_db, unit) eio" where
  "TokenRepository_deleteOldRefresh t cur = do {
     z \<leftarrow> tx_exec t (sql_delete_refresh (\<lambda>now k. rr_token_hash k = cur \<and> rr_expiration k > now));
     case z of
       Inl err \<Rightarrow> ret (Inl (errorf ''delete old refresh token: '' err))
     | Inr n \<Rightarrow>
         if n = 0 then ret (Inl (errorf ''refresh token already used or expired: '' (Sentinel ErrNotFound)))
         else ret (Inr ()) }"

definition TokenRepository_retireOld :: "int \<Rightarrow> RefreshToken \<Rightarrow> string \<Rightarrow> (identity_db, RefreshToken) eio" where
  "TokenRepository_retireOld t r cur = do {
     q \<leftarrow> TokenRepository_lookupOld t cur;
     case q of
       Inl err \<Rightarrow> ret (Inl err)
     | Inr (oldAccess, oldSession) \<Rightarrow> do {
         let r' = (if rtDeviceSessionID r = [] \<and> oldSession \<noteq> None
                   then r\<lparr>rtDeviceSessionID := the oldSession\<rparr> else r);
         x \<leftarrow> TokenRepository_revokeOldAccess t oldAccess;
         case x of
           Inl err \<Rightarrow> ret (Inl err)
         | Inr _ \<Rightarrow> do {
             z \<leftarrow> TokenRepository_deleteOldRefresh t cur;
             case z of
               Inl err \<Rightarrow> ret (Inl err)
             | Inr _ \<Rightarrow> ret (Inr r') } } }"

definition TokenRepository_CreateAccessAndRefresh ::
  "Token \<Rightarrow> RefreshToken \<Rightarrow> string \<Rightarrow> (identity_db, unit) eio" where
  "TokenRepository_CreateAccessAndRefresh a r cur = in_tx (\<lambda>t. do {
     q \<leftarrow> (if cur \<noteq> [] then TokenRepository_retireOld t r cur else ret (Inr r));
     case q of
       Inl err \<Rightarrow> ret (Inl err)
     | Inr r' \<Rightarrow> do {
         x \<leftarrow> tx_exec t (sql_insert_token a (Some (tkRefreshTokenID a)));
         case x of
           Inl err \<Rightarrow> ret (Inl err)
         | Inr _ \<Rightarrow> do {
             y \<leftarrow> tx_exec t (sql_insert_refresh r');
             case y of
               Inl err \<Rightarrow> ret (Inl err)
             | Inr _ \<Rightarrow>
                 if rtDeviceSessionID r' \<noteq> [] then do {
                   z \<leftarrow> tx_exec t (sql_touch_device (rtDeviceSessionID r'));
                   case z of
                     Inl err \<Rightarrow> ret (Inl (errorf ''update device session last_used_at: '' err))
                   | Inr _ \<Rightarrow> ret (Inr ()) }
                 else ret (Inr ()) } } })"

definition TokenRepository_GetByID :: "string \<Rightarrow> (identity_db, Token) eio" where
  "TokenRepository_GetByID i = do {
     r \<leftarrow> db_exec (sql_select_token i);
     case r of
       Inl err \<Rightarrow> if errors_Is err SqlErrNoRows then ret (Inl (errorf ''token: '' (Sentinel ErrNotFound)))
                  else ret (Inl err)
     | Inr row \<Rightarrow> ret (Inr (scanToken row)) }"

definition TokenRepository_GetRefreshToken :: "string \<Rightarrow> (identity_db, RefreshToken) eio" where
  "TokenRepository_GetRefreshToken h = do {
     r \<leftarrow> db_exec (sql_select_refresh h);
     case r of
       Inl err \<Rightarrow> if errors_Is err SqlErrNoRows then ret (Inl (errorf ''refresh token: '' (Sentinel ErrNotFound)))
                  else ret (Inl err)
     | Inr row \<Rightarrow> ret (Inr (scanRefreshToken row)) }"

definition TokenRepository_GetRefreshInfo :: "string \<Rightarrow> (identity_db, string \<times> string) eio" where
  "TokenRepository_GetRefreshInfo h = do {
     r \<leftarrow> db_exec (sql_select_refresh h);
     case r of
       Inl err \<Rightarrow> if errors_Is err SqlErrNoRows then ret (Inl (errorf ''refresh token: '' (Sentinel ErrNotFound)))
                  else ret (Inl err)
     | Inr row \<Rightarrow> ret (Inr (rr_user_id row, rr_id row)) }"

definition TokenRepository_DeleteByUserAndClient :: "string \<Rightarrow> string \<Rightarrow> (identity_db, unit) eio" where
  "TokenRepository_DeleteByUserAndClient userID clientID = in_tx (\<lambda>t. do {
     x \<leftarrow> tx_exec t (sql_delete_refresh (\<lambda>_ k. rr_user_id k = userID \<and> rr_client_id k = clientID));
     case x of
       Inl err \<Rightarrow> ret (Inl err)
     | Inr _ \<Rightarrow> do {
         y \<leftarrow> tx_exec t (sql_delete_tokens (\<lambda>k. kr_subject k = userID \<and> kr_client_id k = clientID));
         case y of
           Inl err \<Rightarrow> ret (Inl err)
         | Inr _ \<Rightarrow> ret (Inr ()) } })"

definition TokenRepository_Revoke :: "string \<Rightarrow> string \<Rightarrow> (identity_db, unit) eio" where
  "TokenRepository_Revoke i clientID = do {
     r \<leftarrow> db_exec (sql_delete_tokens (\<lambda>k. kr_id k = i \<and> kr_client_id k = clientID));
     case r of
       Inl err \<Rightarrow> ret (Inl err)
     | Inr n \<Rightarrow> if n = 0 then ret (Inl (errorf (''token '' @ i @ '': '') (Sentinel ErrNotFound))) else ret (Inr ()) }"

definition TokenRepository_RevokeRefreshToken :: "string \<Rightarrow> string \<Rightarrow> (identity_db, unit) eio" where
  "TokenRepository_RevokeRefreshToken h clientID = do {
     r \<leftarrow> db_exec (sql_delete_refresh (\<lambda>_ k. rr_token_hash k = h \<and> rr_client_id k = clientID));
     case r of
       Inl err \<Rightarrow> ret (Inl err)
     | Inr n \<Rightarrow> if n = 0 then ret (Inl (errorf ''refresh token: '' (Sentinel ErrNotFound))) else ret (Inr ()) }"

definition TokenRepository_DeleteExpired :: "int \<Rightarrow> (identity_db, nat \<times> nat) eio" where
  "TokenRepository_DeleteExpired before = do {
     r1 \<leftarrow> db_exec (sql_delete_tokens (\<lambda>k. kr_expiration k < before));
     case r1 of
       Inl err \<Rightarrow> ret (Inl (errorf ''delete expired access tokens: '' err))
     | Inr accessDeleted \<Rightarrow> do {
         r2 \<leftarrow> db_exec (sql_delete_refresh (\<lambda>_ k. rr_expiration k < before));
         case r2 of
           Inl err \<Rightarrow> ret (Inl (errorf ''delete expired refresh tokens: '' err))
         | Inr refreshDeleted \<Rightarrow> ret (Inr (accessDeleted, refreshDeleted)) } }"

definition TokenRepository_GetLatestDeviceSessionID :: "string \<Rightarrow> string \<Rightarrow> (identity_db, string) eio" where
  "TokenRepository_GetLatestDeviceSessionID userID clientID = do {
     r \<leftarrow> db_exec (sql_latest_session userID clientID);
     case r of
       Inl err \<Rightarrow> if errors_Is err SqlErrNoRows then ret (Inr [])
                  else ret (Inl (errorf ''get latest device session id: '' err))
     | Inr dsid \<Rightarrow> (case dsid of Some s \<Rightarrow> ret (Inr s) | None \<Rightarrow> ret (Inr [])) }"

definition TokenRepository :: "identity_db go_world TokenRepository" where
  "TokenRepository = \<lparr>TK_CreateAccess = TokenRepository_CreateAccess,
     TK_CreateAccessAndRefresh = TokenRepository_CreateAccessAndRefresh,
     TK_GetByID = TokenRepository_GetByID, TK_GetRefreshToken = TokenRepository_GetRefreshToken,
     TK_GetRefreshInfo = TokenRepository_GetRefreshInfo,
     TK_DeleteByUserAndClient = TokenRepository_DeleteByUserAndClient,
     TK_Revoke = TokenRepository_Revoke, TK_RevokeRefreshToken = TokenRepository_RevokeRefreshToken,
     TK_DeleteExpired = TokenRepository_DeleteExpired,
     TK_GetLatestDeviceSessionID = TokenRepository_GetLatestDeviceSessionID\<rparr>"

lemmas TokenRepository_defs = TokenRepository_def TokenRepository_CreateAccess_def
  TokenRepository_CreateAccessAndRefresh_def TokenRepository_GetByID_def TokenRepository_GetRefreshToken_def
  TokenRepository_GetRefreshInfo_def TokenRepository_DeleteByUserAndClient_def TokenRepository_Revoke_def
  TokenRepository_RevokeRefreshToken_def TokenRepository_DeleteExpired_def
  TokenRepository_GetLatestDeviceSessionID_def

section \<open>The tables as maps\<close>

definition access_view :: "identity_db \<Rightarrow> string \<Rightarrow> Token option" where
  "access_view d i = map_option scanToken (find (\<lambda>r. kr_id r = i) (t_tokens d))"

definition refresh_view :: "identity_db \<Rightarrow> string \<Rightarrow> RefreshToken option" where
  "refresh_view d h = map_option scanRefreshToken (find (\<lambda>r. rr_token_hash r = h) (t_refresh_tokens d))"

lemma scan_sel [simp]:
  "tkID (scanToken r) = kr_id r" "tkExpiration (scanToken r) = kr_expiration r"
  "tkSubject (scanToken r) = kr_subject r" "tkClientID (scanToken r) = kr_client_id r"
  "rtToken (scanRefreshToken q) = rr_token_hash q" "rtExpiration (scanRefreshToken q) = rr_expiration q"
  "rtUserID (scanRefreshToken q) = rr_user_id q" "rtClientID (scanRefreshToken q) = rr_client_id q"
  "rtID (scanRefreshToken q) = rr_id q" "rtCreatedAt (scanRefreshToken q) = rr_created_at q"
  "rtDeviceSessionID (scanRefreshToken q) = stringOrEmpty (rr_device_session_id q)"
  "rtAccessTokenID (scanRefreshToken q) = stringOrEmpty (rr_access_token_id q)"
  by (simp_all add: scanToken_def scanRefreshToken_def)

lemma db_ok_keys [simp]:
  assumes "db_ok d"
  shows "distinct (map kr_id (t_tokens d))" "distinct (map rr_token_hash (t_refresh_tokens d))"
    "distinct (map rr_id (t_refresh_tokens d))" "distinct (map dr_id (t_device_sessions d))"
    "distinct (map qr_id (t_auth_requests d))" "distinct (map clID (t_clients d))"
  using assms by (auto simp: db_ok_def)

lemma refresh_view_Some:
  "db_ok d \<Longrightarrow> refresh_view d h = Some r \<longleftrightarrow>
     (\<exists>q \<in> set (t_refresh_tokens d). rr_token_hash q = h \<and> r = scanRefreshToken q)"
  by (auto simp: refresh_view_def find_key_iff)

lemma view_tokens_only [simp]:
  "refresh_view (d\<lparr>t_tokens := ts\<rparr>) = refresh_view d" "access_view (d\<lparr>t_refresh_tokens := rs\<rparr>) = access_view d"
  "refresh_view (d\<lparr>t_device_sessions := ds\<rparr>) = refresh_view d" "access_view (d\<lparr>t_device_sessions := ds\<rparr>) = access_view d"
  by (simp_all add: refresh_view_def access_view_def fun_eq_iff)

lemma insert_token_step:
  "sql_insert_token a rt t d = Inr (x, d') \<Longrightarrow> db_ok d \<Longrightarrow> db_ok d' \<and> access_view d (tkID a) = None
     \<and> access_view d' = (access_view d)(tkID a \<mapsto> a\<lparr>tkCreatedAt := t, tkRefreshTokenID := stringOrEmpty rt\<rparr>)
     \<and> refresh_view d' = refresh_view d"
  by (auto simp: sql_insert_token_def sql_insert_Inr access_view_def find_key_None find_snoc_key
      fun_eq_iff scanToken_def split: sum.splits intro!: db_ok_tokens)

lemma refresh_values_sel [simp]:
  "rr_id (refresh_values r t) = rtID r" "rr_token_hash (refresh_values r t) = rtToken r"
  "rr_user_id (refresh_values r t) = rtUserID r"
  "rr_device_session_id (refresh_values r t) = nilIfEmpty (rtDeviceSessionID r)"
  "scanRefreshToken (refresh_values r t) = r\<lparr>rtCreatedAt := t\<rparr>"
  by (simp_all add: refresh_values_def scanRefreshToken_def)

lemma insert_refresh_step:
  assumes "sql_insert_refresh r t d = Inr (x, d')" "db_ok d"
  shows "db_ok d' \<and> refresh_view d (rtToken r) = None
     \<and> refresh_view d' = (refresh_view d)(rtToken r \<mapsto> r\<lparr>rtCreatedAt := t\<rparr>) \<and> access_view d' = access_view d"
proof -
  have new: "rtToken r \<notin> rr_token_hash ` set (t_refresh_tokens d)" "rtID r \<notin> rr_id ` set (t_refresh_tokens d)"
    and user: "rtUserID r \<in> ur_id ` set (t_users d)"
    and dev: "device_exists d (nilIfEmpty (rtDeviceSessionID r))"
    and d': "d' = d\<lparr>t_refresh_tokens := t_refresh_tokens d @ [refresh_values r t]\<rparr>"
    using assms(1) unfolding sql_insert_refresh_def
    by (simp_all add: sql_insert_Inr sql_insert_def split: sum.splits if_splits)
  have "db_ok d'"
    unfolding d' using assms(2) new user dev db_ok_refresh_row [OF assms(2)]
    by (intro db_ok_refresh_tokens) auto
  then show ?thesis
    using new(1) by (auto simp: d' refresh_view_def find_key_None find_snoc_key fun_eq_iff)
qed

lemma delete_tokens_step:
  assumes "sql_delete_tokens P t d = Inr (n, d')" "db_ok d" "\<And>r. P r = Q (scanToken r)"
  shows "db_ok d' \<and> refresh_view d' = refresh_view d \<and> access_view d' i =
    (case access_view d i of None \<Rightarrow> None | Some a \<Rightarrow> if Q a then None else Some a)"
proof -
  have d': "d' = d\<lparr>t_tokens := sql_delete P (t_tokens d)\<rparr>" using assms(1) by (simp add: sql_delete_tokens_def)
  have "db_ok d'" using assms(2) unfolding d' by (intro db_ok_tokens distinct_sql_delete) auto
  then show ?thesis
    using assms(2,3) by (auto simp: d' access_view_def find_delete_key split: option.splits)
qed

lemma delete_refresh_step:
  assumes "sql_delete_refresh P t d = Inr (n, d')" "db_ok d" "\<And>r. P t r = Q (scanRefreshToken r)"
  shows "db_ok d' \<and> access_view d' = access_view d \<and> refresh_view d' h =
    (case refresh_view d h of None \<Rightarrow> None | Some a \<Rightarrow> if Q a then None else Some a)"
proof -
  have d': "d' = d\<lparr>t_refresh_tokens := sql_delete (P t) (t_refresh_tokens d)\<rparr>"
    using assms(1) by (simp add: sql_delete_refresh_def)
  have "db_ok d'" using assms(2) db_ok_refresh_row [OF assms(2)] unfolding d'
    by (intro db_ok_refresh_tokens distinct_sql_delete) auto
  then show ?thesis
    using assms(2,3) by (auto simp: d' refresh_view_def find_delete_key split: option.splits)
qed

lemma touch_device_step:
  assumes "sql_touch_device s t d = Inr (x, d')" "db_ok d"
  shows "db_ok d' \<and> access_view d' = access_view d \<and> refresh_view d' = refresh_view d"
proof -
  have d': "d' = d\<lparr>t_device_sessions := sql_update (\<lambda>r. dr_id r = s) (\<lambda>r. r\<lparr>dr_last_used_at := t\<rparr>) (t_device_sessions d)\<rparr>"
    using assms(1) by (simp add: sql_touch_device_def)
  have "db_ok d'"
    unfolding d'
  proof (rule db_ok_device_sessions [OF assms(2)])
    show "dr_user_id r \<in> ur_id ` set (t_users d)"
      if "r \<in> set (sql_update (\<lambda>r. dr_id r = s) (\<lambda>r. r\<lparr>dr_last_used_at := t\<rparr>) (t_device_sessions d))" for r
      using that db_ok_device_row [OF assms(2)] by (auto simp: set_sql_update)
  qed (simp_all add: assms(2) map_sql_update image_sql_update)
  then show ?thesis by (simp add: d')
qed

text \<open>Retiring the old pair: it was live, and both of its tokens are gone.\<close>

lemma lookupOld_step:
  assumes "run_state (TokenRepository_lookupOld t cur) w = (Inr (oa, os), w')"
  shows "db w' = db w \<and>
    (let row = find (\<lambda>r. rr_token_hash r = cur) (t_refresh_tokens (db w))
     in oa = Option.bind row rr_access_token_id \<and> os = Option.bind row rr_device_session_id)"
  using assms
  by (auto simp: TokenRepository_lookupOld_def tx_exec_def sql_old_refresh_def sql_first_def
      split: sum.splits prod.splits option.splits if_splits elim!: db_exec_cases)

lemma revokeOld_step:
  assumes "run_state (TokenRepository_revokeOldAccess t oa) w = (Inr x, w')" "db_ok (db w)"
  shows "db_ok (db w') \<and> t_refresh_tokens (db w') = t_refresh_tokens (db w) \<and> refresh_view (db w') = refresh_view (db w)
    \<and> access_view (db w') = (if stringOrEmpty oa = [] then access_view (db w) else (access_view (db w))(stringOrEmpty oa := None))"
proof (cases "oa = None \<or> oa = Some []")
  case True
  then show ?thesis using assms by (auto simp: TokenRepository_revokeOldAccess_def)
next
  case False
  then obtain i where i: "oa = Some i" "i \<noteq> []" by (cases oa) auto
  then obtain n where del: "sql_delete_tokens (\<lambda>k. Some (kr_id k) = oa) t (db w) = Inr (n, db w')"
    using assms(1) False
    by (auto simp: TokenRepository_revokeOldAccess_def tx_exec_def split: sum.splits prod.splits elim!: db_exec_cases)
  have "access_view (db w) i = Some a \<Longrightarrow> tkID a = i" for a
    by (auto simp: access_view_def dest: find_SomeD)
  moreover have "access_view (db w) k = Some a \<Longrightarrow> tkID a = k" for k a
    by (auto simp: access_view_def dest: find_SomeD)
  ultimately have "access_view (db w') = (access_view (db w))(i := None)"
    using delete_tokens_step [OF del assms(2), where Q = "\<lambda>a. tkID a = i"] i(1)
    by (auto simp: fun_eq_iff split: option.splits)
  moreover have "t_refresh_tokens (db w') = t_refresh_tokens (db w)"
    using del by (auto simp: sql_delete_tokens_def dest!: sym [of _ "db w'"])
  ultimately show ?thesis
    using delete_tokens_step [OF del assms(2), where Q = "\<lambda>a. tkID a = i"] i by auto
qed

lemma deleteOld_step:
  assumes "run_state (TokenRepository_deleteOldRefresh t cur) w = (Inr x, w')" "db_ok (db w)"
  shows "db_ok (db w') \<and> access_view (db w') = access_view (db w)
    \<and> refresh_view (db w') = (refresh_view (db w))(cur := None)
    \<and> (\<exists>row. find (\<lambda>r. rr_token_hash r = cur) (t_refresh_tokens (db w)) = Some row \<and> t < rr_expiration row)"
proof -
  let ?P = "\<lambda>now k. rr_token_hash k = cur \<and> rr_expiration k > now"
  obtain n where del: "sql_delete_refresh ?P t (db w) = Inr (n, db w')" and "n \<noteq> 0"
    using assms(1) by (auto simp: TokenRepository_deleteOldRefresh_def tx_exec_def
        split: sum.splits prod.splits if_splits elim!: db_exec_cases)
  then have "sql_count (?P t) (t_refresh_tokens (db w)) \<noteq> 0" by (simp add: sql_delete_refresh_def)
  then obtain row where row: "find (\<lambda>r. rr_token_hash r = cur) (t_refresh_tokens (db w)) = Some row" "t < rr_expiration row"
    using count_key [of rr_token_hash "t_refresh_tokens (db w)" cur "\<lambda>k. rr_expiration k > t"] assms(2)
    by (auto split: option.splits)
  have key: "refresh_view (db w) h = Some a \<Longrightarrow> rtToken a = h" for h a
    by (auto simp: refresh_view_def dest: find_SomeD)
  have at_cur: "refresh_view (db w) cur = Some (scanRefreshToken row)" "rr_token_hash row = cur"
    using row(1) find_SomeD [OF row(1)] by (simp_all add: refresh_view_def)
  have "refresh_view (db w') h = ((refresh_view (db w))(cur := None)) h" for h
    using delete_refresh_step [OF del assms(2), where Q = "\<lambda>a. rtToken a = cur \<and> rtExpiration a > t" and h = h]
      at_cur key [of h] row(2)
    by (cases "h = cur"; cases "refresh_view (db w) h") auto
  then show ?thesis
    using delete_refresh_step [OF del assms(2), where Q = "\<lambda>a. rtToken a = cur \<and> rtExpiration a > t"] row
    by (auto simp: fun_eq_iff)
qed

text \<open>Retiring the old pair: it was live, and both of its tokens are gone.\<close>

lemma retire_step:
  assumes "run_state (TokenRepository_retireOld t r cur) w = (Inr r', w')" "db_ok (db w)"
  shows "\<exists>old. refresh_view (db w) cur = Some old \<and> t < rtExpiration old \<and> db_ok (db w')
    \<and> r' = r\<lparr>rtDeviceSessionID := if rtDeviceSessionID r = [] then rtDeviceSessionID old else rtDeviceSessionID r\<rparr>
    \<and> refresh_view (db w') = (refresh_view (db w))(cur := None)
    \<and> access_view (db w') = (if rtAccessTokenID old = [] then access_view (db w)
        else (access_view (db w))(rtAccessTokenID old := None))"
proof -
  obtain oa os w1 w2 x y
    where s1: "run_state (TokenRepository_lookupOld t cur) w = (Inr (oa, os), w1)"
      and s2: "run_state (TokenRepository_revokeOldAccess t oa) w1 = (Inr x, w2)"
      and s3: "run_state (TokenRepository_deleteOldRefresh t cur) w2 = (Inr y, w')"
      and r': "r' = (if rtDeviceSessionID r = [] \<and> os \<noteq> None then r\<lparr>rtDeviceSessionID := the os\<rparr> else r)"
    using assms(1) by (auto simp: TokenRepository_retireOld_def Let_def simp del: not_None_eq
        split: sum.splits prod.splits if_splits)
  have d1: "db w1 = db w" using lookupOld_step [OF s1] by simp
  have ok1: "db_ok (db w1)" using assms(2) d1 by simp
  note r2 = revokeOld_step [OF s2 ok1]
  then have ok2: "db_ok (db w2)" by simp
  note r3 = deleteOld_step [OF s3 ok2]
  then obtain row where row: "find (\<lambda>r. rr_token_hash r = cur) (t_refresh_tokens (db w)) = Some row" "t < rr_expiration row"
    using r2 d1 by auto
  then have "oa = rr_access_token_id row" "os = rr_device_session_id row"
    using lookupOld_step [OF s1] by (simp_all add: Let_def)
  then show ?thesis
    using r2 r3 row d1 r'
    by (intro exI [of _ "scanRefreshToken row"]) (cases os; auto simp: refresh_view_def)
qed

lemma rotate_run:
  assumes "run_state (TokenRepository_CreateAccessAndRefresh a r cur) w = (Inr x, w')"
  obtains r' w1 w2 w3 y where
    "run_state (if cur \<noteq> [] then TokenRepository_retireOld (clock w) r cur else ret (Inr r)) (pass w) = (Inr r', w1)"
    "run_state (tx_exec (clock w) (sql_insert_token a (Some (tkRefreshTokenID a)))) w1 = (Inr (), w2)"
    "run_state (tx_exec (clock w) (sql_insert_refresh r')) w2 = (Inr (), w3)"
    "db w' = db w3 \<or> sql_touch_device (rtDeviceSessionID r') (clock w) (db w3) = Inr (y, db w')"
  using assms unfolding TokenRepository_CreateAccessAndRefresh_def
  by (elim in_tx_Inr bind_runE)
    (auto simp: tx_exec_def [of _ "sql_touch_device s" for s] split: sum.splits prod.splits if_splits elim: db_exec_cases)

lemma tx_exec_Inr: "run_state (tx_exec t f) w = (Inr x, w') \<Longrightarrow> f t (db w) = Inr (x, db w')"
  by (auto simp: tx_exec_def elim: db_exec_cases)

lemma rotate_step:
  assumes "run_state (TokenRepository_CreateAccessAndRefresh a r cur) w = (Inr x, w')" "db_ok (db w)"
  shows "db_ok (db w') \<and> (cur \<noteq> [] \<longrightarrow> (\<exists>old. refresh_view (db w) cur = Some old \<and> clock w < rtExpiration old))
      \<and> refresh_view (db w') = rotate_refresh cur (r\<lparr>rtCreatedAt := clock w,
           rtDeviceSessionID := inherit_session cur (refresh_view (db w)) r\<rparr>) (refresh_view (db w))
      \<and> access_view (db w') = rotate_access cur (refresh_view (db w)) (a\<lparr>tkCreatedAt := clock w\<rparr>) (access_view (db w))
      \<and> (if cur = [] then refresh_view (db w) else (refresh_view (db w))(cur := None)) (rtToken r) = None"
  using assms(1)
proof (rule rotate_run)
  fix r' w1 w2 w3 y
  assume old: "run_state (if cur \<noteq> [] then TokenRepository_retireOld (clock w) r cur else ret (Inr r)) (pass w) = (Inr r', w1)"
    and acc: "run_state (tx_exec (clock w) (sql_insert_token a (Some (tkRefreshTokenID a)))) w1 = (Inr (), w2)"
    and ref: "run_state (tx_exec (clock w) (sql_insert_refresh r')) w2 = (Inr (), w3)"
    and dev: "db w' = db w3 \<or> sql_touch_device (rtDeviceSessionID r') (clock w) (db w3) = Inr (y, db w')"
  have r1: "db_ok (db w1) \<and> r' = r\<lparr>rtDeviceSessionID := inherit_session cur (refresh_view (db w)) r\<rparr>
      \<and> (cur \<noteq> [] \<longrightarrow> (\<exists>old. refresh_view (db w) cur = Some old \<and> clock w < rtExpiration old))
      \<and> refresh_view (db w1) = (if cur = [] then refresh_view (db w) else (refresh_view (db w))(cur := None))
      \<and> access_view (db w1) = (case (if cur = [] then None else refresh_view (db w) cur) of
           None \<Rightarrow> access_view (db w)
         | Some old \<Rightarrow> if rtAccessTokenID old = [] then access_view (db w)
                      else (access_view (db w))(rtAccessTokenID old := None))"
  proof (cases "cur = []")
    case True
    with old assms(2) show ?thesis by (auto simp: inherit_session_def)
  next
    case False
    with old retire_step [of "clock w" r cur "pass w" r' w1] assms(2) show ?thesis
      by (auto simp: inherit_session_def)
  qed
  have r2: "db_ok (db w2) \<and> access_view (db w2) = (access_view (db w1))(tkID a \<mapsto> a\<lparr>tkCreatedAt := clock w\<rparr>)
      \<and> refresh_view (db w2) = refresh_view (db w1)"
    using insert_token_step [OF tx_exec_Inr [OF acc]] r1 by simp
  have r3: "db_ok (db w3) \<and> access_view (db w3) = access_view (db w2)
      \<and> refresh_view (db w3) = (refresh_view (db w2))(rtToken r' \<mapsto> r'\<lparr>rtCreatedAt := clock w\<rparr>)
      \<and> refresh_view (db w2) (rtToken r') = None"
    using insert_refresh_step [OF tx_exec_Inr [OF ref]] r2 by simp
  have r4: "db_ok (db w') \<and> access_view (db w') = access_view (db w3) \<and> refresh_view (db w') = refresh_view (db w3)"
    using dev r3 touch_device_step by metis
  show ?thesis
    using r1 r2 r3 r4 by (auto simp: rotate_refresh_def rotate_access_def)
qed

text \<open>Without failures, a rotation of a token that is not live is refused as not found.\<close>

lemma retire_stale:
  assumes "quiet w" "db_ok (db w)" "\<And>old. refresh_view (db w) cur = Some old \<Longrightarrow> rtExpiration old \<le> t"
  shows "\<exists>e w'. run_state (TokenRepository_retireOld t r cur) w = (Inl e, w') \<and> errors_Is e ErrNotFound"
proof -
  have none: "sql_count (\<lambda>k. rr_token_hash k = cur \<and> t < rr_expiration k) (t_refresh_tokens (db w)) = 0"
    using assms(3) count_key [of rr_token_hash "t_refresh_tokens (db w)" cur "\<lambda>k. t < rr_expiration k"] assms(2)
    by (auto simp: refresh_view_def split: option.splits)
  show ?thesis
    using assms(1) none
    by (auto simp: TokenRepository_retireOld_def TokenRepository_lookupOld_def TokenRepository_revokeOldAccess_def
        TokenRepository_deleteOldRefresh_def tx_exec_def run_db_exec_quiet sql_old_refresh_def sql_first_def
        sql_delete_tokens_def sql_delete_refresh_def Let_def split: option.splits)
qed

section \<open>The repository meets the contract\<close>

lemma select_token_eq:
  "db_ok d \<Longrightarrow> sql_first (\<lambda>r. kr_id r = i \<and> kr_expiration r > t) (t_tokens d) =
     (case find (\<lambda>r. kr_id r = i) (t_tokens d) of
        Some r \<Rightarrow> if t < kr_expiration r then Inr r else Inl (Sentinel SqlErrNoRows)
      | None \<Rightarrow> Inl (Sentinel SqlErrNoRows))"
  by (simp add: sql_first_def find_key_and split: option.splits)

lemma select_refresh_eq:
  "db_ok d \<Longrightarrow> sql_first (\<lambda>r. rr_token_hash r = h \<and> rr_expiration r > t) (t_refresh_tokens d) =
     (case find (\<lambda>r. rr_token_hash r = h) (t_refresh_tokens d) of
        Some r \<Rightarrow> if t < rr_expiration r then Inr r else Inl (Sentinel SqlErrNoRows)
      | None \<Rightarrow> Inl (Sentinel SqlErrNoRows))"
  by (simp add: sql_first_def find_key_and split: option.splits)

lemma latest_session_head:
  assumes "sql_order_desc f (filter P t) = r # rs"
  shows "r \<in> set t \<and> P r \<and> (\<forall>q \<in> set t. P q \<longrightarrow> f q \<le> (f r :: int))"
proof -
  have s: "sorted (map (\<lambda>r. - f r) (r # rs))" and m: "set (r # rs) = set (filter P t)"
    using assms unfolding sql_order_desc_def by (metis sorted_sort_key, metis set_sort)
  then show ?thesis by auto
qed

interpretation pg_tokens: token_repository TokenRepository access_view refresh_view db_ok
proof (unfold_locales, goal_cases)
  case (1 d i a)
  then show ?case by (auto simp: access_view_def dest: find_SomeD)
next
  case (2 d h r)
  then show ?case by (auto simp: refresh_view_def dest: find_SomeD)
next
  case (3 a w x w')
  then have ins: "sql_insert_token a (nilIfEmpty (tkRefreshTokenID a)) (clock w) (db w) = Inr (x, db w')"
    by (auto simp: TokenRepository_defs elim!: db_exec_cases)
  show ?case using insert_token_step [OF ins 3(2)] by simp
next
  case (4 a w e w')
  then show ?case by (auto simp: TokenRepository_defs dest: db_exec_Inl)
next
  case (5 a r cur w x w')
  then show ?case using rotate_step [of a r cur w x w'] by (simp add: TokenRepository_def)
next
  case (6 a r cur w e w')
  then show ?case by (auto simp: TokenRepository_def TokenRepository_CreateAccessAndRefresh_def dest: in_tx_Inl)
next
  case (7 a r cur w rr w')
  then obtain e w1 where st: "run_state (TokenRepository_retireOld (clock w) r cur) (pass w) = (Inl e, w1)"
      and e: "errors_Is e ErrNotFound"
    using retire_stale [of "pass w" cur "clock w" r] by auto
  then show ?case
    using 7 by (auto simp: TokenRepository_def TokenRepository_CreateAccessAndRefresh_def in_tx_def tx_Begin_def
        run_db_exec_quiet tx_Rollback_def)
next
  case (8 i w a w')
  then show ?case
    by (auto simp: TokenRepository_defs sql_select_token_def select_token_eq access_view_def
        split: sum.splits prod.splits option.splits if_splits elim!: db_exec_cases)
next
  case (9 i w e w')
  then show ?case
    by (auto simp: TokenRepository_defs sql_select_token_def select_token_eq access_view_def
        split: sum.splits prod.splits option.splits if_splits elim!: db_exec_cases)
next
  case (10 i w ra w')
  then show ?case
    by (auto simp: TokenRepository_defs sql_select_token_def select_token_eq access_view_def run_db_exec_quiet
        split: sum.splits prod.splits option.splits if_splits)
next
  case (11 h w r w')
  then show ?case
    by (auto simp: TokenRepository_defs sql_select_refresh_def select_refresh_eq refresh_view_def
        split: sum.splits prod.splits option.splits if_splits elim!: db_exec_cases)
next
  case (12 h w e w')
  then show ?case
    by (auto simp: TokenRepository_defs split: sum.splits prod.splits if_splits dest: db_exec_Inl)
next
  case (13 h w rg w')
  then show ?case
    by (auto simp: TokenRepository_defs sql_select_refresh_def select_refresh_eq refresh_view_def run_db_exec_quiet
        split: sum.splits prod.splits option.splits if_splits)
next
  case (14 h w ui w')
  then show ?case
    by (auto simp: TokenRepository_defs sql_select_refresh_def select_refresh_eq refresh_view_def
        split: sum.splits prod.splits option.splits if_splits elim!: db_exec_cases)
next
  case (15 h w e w')
  then show ?case
    by (auto simp: TokenRepository_defs split: sum.splits prod.splits if_splits dest: db_exec_Inl)
next
  case (16 u c w x w')
  obtain n d1 m where del: "sql_delete_refresh (\<lambda>_ k. rr_user_id k = u \<and> rr_client_id k = c) (clock w) (db w) = Inr (n, d1)"
      "sql_delete_tokens (\<lambda>k. kr_subject k = u \<and> kr_client_id k = c) (clock w) d1 = Inr (m, db w')"
    using 16(1) unfolding TokenRepository_def TokenRepository_DeleteByUserAndClient_def
    by (simp, elim in_tx_Inr) (auto simp: tx_exec_def split: sum.splits prod.splits elim!: db_exec_cases)
  note a = delete_refresh_step [OF del(1) 16(2), where Q = "\<lambda>r. rtUserID r = u \<and> rtClientID r = c"]
  have ok: "db_ok d1" using a by simp
  note b = delete_tokens_step [OF del(2) ok, where Q = "\<lambda>r. tkSubject r = u \<and> tkClientID r = c"]
  show ?case using a b by (simp split: option.splits)
next
  case (17 u c w e w')
  then show ?case by (auto simp: TokenRepository_def TokenRepository_DeleteByUserAndClient_def dest: in_tx_Inl)
next
  case (18 i c w x w')
  let ?P = "\<lambda>k. kr_id k = i \<and> kr_client_id k = c"
  obtain n where del: "sql_delete_tokens ?P (clock w) (db w) = Inr (n, db w')" and n: "n \<noteq> 0"
    using 18(1) by (auto simp: TokenRepository_defs split: sum.splits prod.splits if_splits elim!: db_exec_cases)
  note b = delete_tokens_step [OF del 18(2), where Q = "\<lambda>r. tkID r = i \<and> tkClientID r = c"]
  have "sql_count ?P (t_tokens (db w)) \<noteq> 0" using del n by (simp add: sql_delete_tokens_def)
  then obtain a where a: "access_view (db w) i = Some a" "tkClientID a = c" "tkID a = i"
    using count_key [of kr_id "t_tokens (db w)" i "\<lambda>k. kr_client_id k = c"] 18(2)
    by (auto simp: access_view_def dest: find_SomeD split: option.splits)
  have key: "access_view (db w) j = Some b \<Longrightarrow> tkID b = j" for j b
    by (auto simp: access_view_def dest: find_SomeD)
  have "access_view (db w') j = ((access_view (db w))(i := None)) j" for j
    using b [of j] a key [of j] by (cases "j = i"; cases "access_view (db w) j") auto
  then show ?case using a b by auto
next
  case (19 i c w e w')
  then have "\<And>n d'. sql_delete_tokens (\<lambda>k. kr_id k = i \<and> kr_client_id k = c) (clock w) (db w) = Inr (0, d') \<Longrightarrow> d' = db w"
    by (auto simp: sql_delete_tokens_def sql_count_0 sql_delete_def filter_id_conv)
  then show ?case using 19
    by (auto simp: TokenRepository_defs split: sum.splits prod.splits if_splits elim!: db_exec_cases)
next
  case (20 h c w x w')
  let ?P = "\<lambda>_ k. rr_token_hash k = h \<and> rr_client_id k = c"
  obtain n where del: "sql_delete_refresh ?P (clock w) (db w) = Inr (n, db w')" and n: "n \<noteq> 0"
    using 20(1) by (auto simp: TokenRepository_defs split: sum.splits prod.splits if_splits elim!: db_exec_cases)
  note b = delete_refresh_step [OF del 20(2), where Q = "\<lambda>r. rtToken r = h \<and> rtClientID r = c"]
  have "sql_count (?P (clock w)) (t_refresh_tokens (db w)) \<noteq> 0" using del n by (simp add: sql_delete_refresh_def)
  then obtain a where a: "refresh_view (db w) h = Some a" "rtClientID a = c" "rtToken a = h"
    using count_key [of rr_token_hash "t_refresh_tokens (db w)" h "\<lambda>k. rr_client_id k = c"] 20(2)
    by (auto simp: refresh_view_def dest: find_SomeD split: option.splits)
  have key: "refresh_view (db w) j = Some b \<Longrightarrow> rtToken b = j" for j b
    by (auto simp: refresh_view_def dest: find_SomeD)
  have "refresh_view (db w') j = ((refresh_view (db w))(h := None)) j" for j
    using b [of j] a key [of j] by (cases "j = h"; cases "refresh_view (db w) j") auto
  then show ?case using a b by auto
next
  case (21 h c w e w')
  then have "\<And>n d'. sql_delete_refresh (\<lambda>_ k. rr_token_hash k = h \<and> rr_client_id k = c) (clock w) (db w) = Inr (0, d') \<Longrightarrow> d' = db w"
    by (auto simp: sql_delete_refresh_def sql_count_0 sql_delete_def filter_id_conv)
  then show ?case using 21
    by (auto simp: TokenRepository_defs split: sum.splits prod.splits if_splits elim!: db_exec_cases)
next
  case (22 b w n w')
  obtain k d1 m t' where del: "sql_delete_tokens (\<lambda>k. kr_expiration k < b) (clock w) (db w) = Inr (k, d1)"
      "sql_delete_refresh (\<lambda>_ k. rr_expiration k < b) t' d1 = Inr (m, db w')"
    using 22(1) by (auto simp: TokenRepository_defs split: sum.splits prod.splits elim!: db_exec_cases)
  note a = delete_tokens_step [OF del(1) 22(2), where Q = "\<lambda>r. tkExpiration r < b"]
  have ok: "db_ok d1" using a by simp
  note b = delete_refresh_step [OF del(2) ok, where Q = "\<lambda>r. rtExpiration r < b"]
  show ?case using a b by (simp split: option.splits)
next
  case (23 b w e w')
  show ?case
  proof (cases "run_state (db_exec (sql_delete_tokens (\<lambda>k. kr_expiration k < b))) w")
    case (Pair r1 w1)
    show ?thesis
    proof (cases r1)
      case (Inl e1)
      with Pair have same: "db w1 = db w" using db_exec_Inl by blast
      have "w' = w1" using 23(1) Pair Inl by (simp add: TokenRepository_defs)
      with same 23(2) show ?thesis by simp
    next
      case (Inr n)
      with Pair obtain t where del: "sql_delete_tokens (\<lambda>k. kr_expiration k < b) t (db w) = Inr (n, db w1)"
        by (auto elim!: db_exec_cases)
      obtain r2 where run2: "run_state (db_exec (sql_delete_refresh (\<lambda>_ k. rr_expiration k < b))) w1 = (r2, w')"
          and r2: "\<exists>e2. r2 = Inl e2"
        using 23(1) Pair Inr by (auto simp: TokenRepository_defs split: prod.splits sum.splits)
      then have same: "db w' = db w1" using db_exec_Inl by blast
      show ?thesis
        using delete_tokens_step [OF del 23(2), where Q = "\<lambda>r. tkExpiration r < b"] same by simp
    qed
  qed
next
  case (24 u c w s w')
  let ?P = "\<lambda>r. rr_user_id r = u \<and> rr_client_id r = c \<and> rr_expiration r > clock w"
  have same: "db w' = db w"
    using 24(1) by (auto simp: TokenRepository_defs sql_latest_session_def
        split: sum.splits prod.splits option.splits if_splits list.splits elim!: db_exec_cases)
  moreover have "\<exists>q \<in> set (t_refresh_tokens (db w)). ?P q \<and> rr_device_session_id q = Some s
      \<and> (\<forall>q' \<in> set (t_refresh_tokens (db w)). ?P q' \<longrightarrow> rr_created_at q' \<le> rr_created_at q)" if ne: "s \<noteq> []"
  proof -
    obtain q qs where "sql_order_desc rr_created_at (filter ?P (t_refresh_tokens (db w))) = q # qs"
        and "rr_device_session_id q = Some s"
      using 24(1) ne by (auto simp: TokenRepository_defs sql_latest_session_def
          split: sum.splits prod.splits option.splits if_splits list.splits elim!: db_exec_cases)
    with latest_session_head [OF this(1)] show ?thesis by blast
  qed
  ultimately show ?case
  proof (intro conjI impI)
    assume "s \<noteq> []" and *: "s \<noteq> [] \<Longrightarrow> \<exists>q \<in> set (t_refresh_tokens (db w)). ?P q \<and> rr_device_session_id q = Some s
      \<and> (\<forall>q' \<in> set (t_refresh_tokens (db w)). ?P q' \<longrightarrow> rr_created_at q' \<le> rr_created_at q)"
    then obtain q where q: "q \<in> set (t_refresh_tokens (db w))" "?P q" "rr_device_session_id q = Some s"
      "\<forall>q' \<in> set (t_refresh_tokens (db w)). ?P q' \<longrightarrow> rr_created_at q' \<le> rr_created_at q" by blast
    have "refresh_view (db w) (rr_token_hash q) = Some (scanRefreshToken q)"
      using q(1) by (auto simp: refresh_view_Some [OF 24(2)])
    moreover have "rtCreatedAt r' \<le> rr_created_at q"
      if "refresh_view (db w) h' = Some r'" "rtUserID r' = u" "rtClientID r' = c" "clock w < rtExpiration r'" for h' r'
      using that q(4) by (auto simp: refresh_view_Some [OF 24(2)])
    ultimately show "\<exists>h r. refresh_view (db w) h = Some r \<and> rtUserID r = u \<and> rtClientID r = c
         \<and> clock w < rtExpiration r \<and> rtDeviceSessionID r = s
         \<and> (\<forall>h' r'. refresh_view (db w) h' = Some r' \<and> rtUserID r' = u \<and> rtClientID r' = c \<and> clock w < rtExpiration r'
              \<longrightarrow> rtCreatedAt r' \<le> rtCreatedAt r)"
      using q(2,3) by (intro exI [of _ "rr_token_hash q"] exI [of _ "scanRefreshToken q"]) auto
  qed
next
  case (25 u c w e w')
  then show ?case
    by (auto simp: TokenRepository_defs split: sum.splits prod.splits option.splits if_splits dest: db_exec_Inl)
qed

end
