(* ===== verification/AuthRequestRepo.thy ===== *)
theory AuthRequestRepo
  imports IdentityDb
begin

text \<open>
  The contracts of \<open>oidc.AuthRequestRepository\<close> and \<open>oidc.ClientRepository\<close> with their
  PostgreSQL implementations, \<open>internal/oidc/postgres/authrequest_repo.go\<close> and
  \<open>client_repo.go\<close>.
\<close>

section \<open>The contracts\<close>

text \<open>What \<open>Create\<close> stores of a request: no login, no code, and the time of the insertion.\<close>

definition stored_request :: "AuthRequest \<Rightarrow> int \<Rightarrow> AuthRequest" where
  "stored_request ar t = ar\<lparr>arUserID := [], arAuthTime := zeroTime, arAMR := [], arIsDone := False,
     arCode := [], arCreatedAt := t, arDeviceSessionID := []\<rparr>"

locale auth_request_repository =
  fixes repo :: "'db go_world AuthRequestRepository"
    and view :: "'db \<Rightarrow> string \<Rightarrow> AuthRequest option"
    and invar :: "'db \<Rightarrow> bool"
  assumes view_key: "invar d \<Longrightarrow> view d i = Some ar \<Longrightarrow> arID ar = i"
    and create_done: "run_state (AR_Create repo ar) w = (Inr x, w') \<Longrightarrow> invar (db w) \<Longrightarrow>
      invar (db w') \<and> view (db w) (arID ar) = None \<and> view (db w') = (view (db w))(arID ar \<mapsto> stored_request ar (clock w))"
    and create_error: "run_state (AR_Create repo ar) w = (Inl e, w') \<Longrightarrow> db w' = db w"
    and get_done: "run_state (AR_GetByID repo i) w = (Inr ar, w') \<Longrightarrow> invar (db w) \<Longrightarrow>
      db w' = db w \<and> view (db w) i = Some ar"
    and get_error: "run_state (AR_GetByID repo i) w = (Inl e, w') \<Longrightarrow> invar (db w) \<Longrightarrow>
      db w' = db w \<and> (errors_Is e ErrNotFound \<longrightarrow> view (db w) i = None)"
    and get_live: "run_state (AR_GetByID repo i) w = (ra, w') \<Longrightarrow> invar (db w) \<Longrightarrow> quiet w \<Longrightarrow>
      (case view (db w) i of Some ar \<Rightarrow> ra = Inr ar | None \<Rightarrow> \<exists>e. ra = Inl e \<and> errors_Is e ErrNotFound)"
    and code_done: "run_state (AR_GetByCode repo c) w = (Inr ar, w') \<Longrightarrow> invar (db w) \<Longrightarrow>
      db w' = db w \<and> view (db w) (arID ar) = Some ar \<and> arCode ar = c"
    and code_error: "run_state (AR_GetByCode repo c) w = (Inl e, w') \<Longrightarrow> db w' = db w"
    and save_done: "run_state (AR_SaveCode repo i c) w = (Inr x, w') \<Longrightarrow> invar (db w) \<Longrightarrow>
      invar (db w') \<and> view (db w') = (view (db w))(i := map_option (\<lambda>ar. ar\<lparr>arCode := c\<rparr>) (view (db w) i))"
    and save_error: "run_state (AR_SaveCode repo i c) w = (Inl e, w') \<Longrightarrow> db w' = db w"
    and login_done: "run_state (AR_CompleteLogin repo i uid t amr s) w = (Inr x, w') \<Longrightarrow> invar (db w) \<Longrightarrow>
      invar (db w') \<and> view (db w') = (view (db w))(i := map_option (\<lambda>ar. ar\<lparr>arUserID := uid, arAuthTime := t,
         arAMR := amr, arIsDone := True, arDeviceSessionID := s\<rparr>) (view (db w) i))"
    and login_error: "run_state (AR_CompleteLogin repo i uid t amr s) w = (Inl e, w') \<Longrightarrow> db w' = db w"
    and delete_done: "run_state (AR_Delete repo i) w = (Inr x, w') \<Longrightarrow> invar (db w) \<Longrightarrow>
      invar (db w') \<and> view (db w') = (view (db w))(i := None)"
    and delete_error: "run_state (AR_Delete repo i) w = (Inl e, w') \<Longrightarrow> db w' = db w"
    and expired_done: "run_state (AR_DeleteExpiredBefore repo b) w = (Inr n, w') \<Longrightarrow> invar (db w) \<Longrightarrow> invar (db w')
      \<and> (\<forall>i. view (db w') i = (case view (db w) i of
           Some ar \<Rightarrow> if arCreatedAt ar < b then None else Some ar | None \<Rightarrow> None))"
    and expired_error: "run_state (AR_DeleteExpiredBefore repo b) w = (Inl e, w') \<Longrightarrow> db w' = db w"
    and get_clock: "run_state (AR_GetByID repo i) w = (ra, w') \<Longrightarrow> clock w \<le> clock w'"
    and code_clock: "run_state (AR_GetByCode repo c) w = (ra, w') \<Longrightarrow> clock w \<le> clock w'"

locale client_repository =
  fixes repo :: "'db go_world ClientRepository"
    and view :: "'db \<Rightarrow> string \<Rightarrow> Client option"
    and invar :: "'db \<Rightarrow> bool"
  assumes get_done: "run_state (CL_GetByID repo i) w = (Inr c, w') \<Longrightarrow> invar (db w) \<Longrightarrow>
      db w' = db w \<and> view (db w) i = Some c \<and> clID c = i"
    and get_error: "run_state (CL_GetByID repo i) w = (Inl e, w') \<Longrightarrow> invar (db w) \<Longrightarrow>
      db w' = db w \<and> \<not> errors_Is e ErrUnauthorized \<and> (errors_Is e ErrNotFound \<longrightarrow> view (db w) i = None)"
    and get_live: "run_state (CL_GetByID repo i) w = (rc, w') \<Longrightarrow> invar (db w) \<Longrightarrow> quiet w \<Longrightarrow>
      quiet w' \<and> (case view (db w) i of Some c \<Rightarrow> rc = Inr c | None \<Rightarrow> \<exists>e. rc = Inl e \<and> errors_Is e ErrNotFound)"

section \<open>Authorization requests\<close>

definition nilIfEmptyStr :: "string \<Rightarrow> string option" where
  "nilIfEmptyStr s = (if s = [] then None else Some s)"

definition scanAuthRequest :: "auth_request_row \<Rightarrow> AuthRequest" where
  "scanAuthRequest r = \<lparr>arID = qr_id r, arClientID = qr_client_id r, arRedirectURI = qr_redirect_uri r,
     arState = qr_state r, arNonce = qr_nonce r, arScopes = qr_scopes r, arResponseType = qr_response_type r,
     arResponseMode = qr_response_mode r, arCodeChallenge = qr_code_challenge r,
     arCodeChallengeMethod = qr_code_challenge_method r, arPrompt = qr_prompt r, arMaxAge = qr_max_age r,
     arLoginHint = qr_login_hint r, arUserID = stringOrEmpty (qr_user_id r),
     arAuthTime = (case qr_auth_time r of None \<Rightarrow> zeroTime | Some t \<Rightarrow> t), arAMR = qr_amr r,
     arIsDone = qr_is_done r, arCode = stringOrEmpty (qr_code r), arCreatedAt = qr_created_at r,
     arDeviceSessionID = stringOrEmpty (qr_device_session_id r)\<rparr>"

definition auth_request_values :: "AuthRequest \<Rightarrow> int \<Rightarrow> auth_request_row" where
  "auth_request_values ar t = \<lparr>qr_id = arID ar, qr_client_id = arClientID ar, qr_redirect_uri = arRedirectURI ar,
     qr_state = arState ar, qr_nonce = arNonce ar, qr_scopes = arScopes ar, qr_response_type = arResponseType ar,
     qr_response_mode = arResponseMode ar, qr_code_challenge = arCodeChallenge ar,
     qr_code_challenge_method = arCodeChallengeMethod ar, qr_prompt = arPrompt ar, qr_max_age = arMaxAge ar,
     qr_login_hint = arLoginHint ar, qr_user_id = None, qr_auth_time = None, qr_amr = [], qr_is_done = False,
     qr_code = None, qr_device_session_id = None, qr_created_at = t\<rparr>"

text \<open>The column \<open>max_age\<close> is a 32-bit \<open>INTEGER\<close>: a value out of its range is refused (22003).\<close>

definition sql_insert_auth_request :: "AuthRequest \<Rightarrow> int \<Rightarrow> identity_db \<Rightarrow> goerr + unit \<times> identity_db" where
  "sql_insert_auth_request ar t d =
     (if (case arMaxAge ar of None \<Rightarrow> False | Some m \<Rightarrow> m < - (2 ^ 31) \<or> 2 ^ 31 \<le> m) then Inl (PqError ''22003'')
      else case sql_insert qr_id (auth_request_values ar t) (t_auth_requests d) of
        Inl e \<Rightarrow> Inl e
      | Inr rs \<Rightarrow> Inr ((), d\<lparr>t_auth_requests := rs\<rparr>))"

definition sql_select_auth_request ::
  "(auth_request_row \<Rightarrow> bool) \<Rightarrow> int \<Rightarrow> identity_db \<Rightarrow> goerr + auth_request_row \<times> identity_db" where
  "sql_select_auth_request P t d =
     (case sql_first P (t_auth_requests d) of Inl e \<Rightarrow> Inl e | Inr r \<Rightarrow> Inr (r, d))"

definition sql_save_code :: "string \<Rightarrow> string \<Rightarrow> int \<Rightarrow> identity_db \<Rightarrow> goerr + unit \<times> identity_db" where
  "sql_save_code i c t d = Inr ((), d\<lparr>t_auth_requests :=
     sql_update (\<lambda>r. qr_id r = i) (\<lambda>r. r\<lparr>qr_code := Some c\<rparr>) (t_auth_requests d)\<rparr>)"

text \<open>The reference of \<open>device_session_id\<close> is checked when a row is changed.\<close>

definition sql_complete_login ::
  "string \<Rightarrow> string \<Rightarrow> int \<Rightarrow> string list \<Rightarrow> string option \<Rightarrow> int \<Rightarrow> identity_db \<Rightarrow> goerr + unit \<times> identity_db" where
  "sql_complete_login i uid authTime amr dsid t d =
     (if sql_count (\<lambda>r. qr_id r = i) (t_auth_requests d) \<noteq> 0 \<and> \<not> device_exists d dsid then Inl (PqError ''23503'')
      else Inr ((), d\<lparr>t_auth_requests := sql_update (\<lambda>r. qr_id r = i)
        (\<lambda>r. r\<lparr>qr_user_id := Some uid, qr_auth_time := Some authTime, qr_amr := amr, qr_is_done := True,
           qr_device_session_id := dsid\<rparr>) (t_auth_requests d)\<rparr>))"

definition sql_delete_auth_requests ::
  "(auth_request_row \<Rightarrow> bool) \<Rightarrow> int \<Rightarrow> identity_db \<Rightarrow> goerr + nat \<times> identity_db" where
  "sql_delete_auth_requests P t d =
     Inr (sql_count P (t_auth_requests d), d\<lparr>t_auth_requests := sql_delete P (t_auth_requests d)\<rparr>)"

definition AuthRequestRepository_Create :: "AuthRequest \<Rightarrow> (identity_db, unit) eio" where
  "AuthRequestRepository_Create ar = db_exec (sql_insert_auth_request ar)"

definition AuthRequestRepository_scanOne :: "(auth_request_row \<Rightarrow> bool) \<Rightarrow> (identity_db, AuthRequest) eio" where
  "AuthRequestRepository_scanOne P = do {
     r \<leftarrow> db_exec (sql_select_auth_request P);
     case r of
       Inl err \<Rightarrow> if errors_Is err SqlErrNoRows then ret (Inl (errorf ''auth request: '' (Sentinel ErrNotFound)))
                  else ret (Inl err)
     | Inr row \<Rightarrow> ret (Inr (scanAuthRequest row)) }"

definition AuthRequestRepository_GetByID :: "string \<Rightarrow> (identity_db, AuthRequest) eio" where
  "AuthRequestRepository_GetByID i = AuthRequestRepository_scanOne (\<lambda>r. qr_id r = i)"

definition AuthRequestRepository_GetByCode :: "string \<Rightarrow> (identity_db, AuthRequest) eio" where
  "AuthRequestRepository_GetByCode code = AuthRequestRepository_scanOne (\<lambda>r. qr_code r = Some code)"

definition AuthRequestRepository_SaveCode :: "string \<Rightarrow> string \<Rightarrow> (identity_db, unit) eio" where
  "AuthRequestRepository_SaveCode i code = db_exec (sql_save_code i code)"

definition AuthRequestRepository_CompleteLogin ::
  "string \<Rightarrow> string \<Rightarrow> int \<Rightarrow> string list \<Rightarrow> string \<Rightarrow> (identity_db, unit) eio" where
  "AuthRequestRepository_CompleteLogin i userID authTime amr deviceSessionID =
     db_exec (sql_complete_login i userID authTime amr (nilIfEmptyStr deviceSessionID))"

definition AuthRequestRepository_Delete :: "string \<Rightarrow> (identity_db, unit) eio" where
  "AuthRequestRepository_Delete i = do {
     r \<leftarrow> db_exec (sql_delete_auth_requests (\<lambda>r. qr_id r = i));
     case r of Inl err \<Rightarrow> ret (Inl err) | Inr _ \<Rightarrow> ret (Inr ()) }"

definition AuthRequestRepository_DeleteExpiredBefore :: "int \<Rightarrow> (identity_db, nat) eio" where
  "AuthRequestRepository_DeleteExpiredBefore before =
     db_exec (sql_delete_auth_requests (\<lambda>r. qr_created_at r < before))"

definition AuthRequestRepository :: "identity_db go_world AuthRequestRepository" where
  "AuthRequestRepository = \<lparr>AR_Create = AuthRequestRepository_Create, AR_GetByID = AuthRequestRepository_GetByID,
     AR_GetByCode = AuthRequestRepository_GetByCode, AR_SaveCode = AuthRequestRepository_SaveCode,
     AR_CompleteLogin = AuthRequestRepository_CompleteLogin, AR_Delete = AuthRequestRepository_Delete,
     AR_DeleteExpiredBefore = AuthRequestRepository_DeleteExpiredBefore\<rparr>"

lemmas AuthRequestRepository_defs = AuthRequestRepository_def AuthRequestRepository_Create_def
  AuthRequestRepository_scanOne_def AuthRequestRepository_GetByID_def AuthRequestRepository_GetByCode_def
  AuthRequestRepository_SaveCode_def AuthRequestRepository_CompleteLogin_def AuthRequestRepository_Delete_def
  AuthRequestRepository_DeleteExpiredBefore_def

definition request_view :: "identity_db \<Rightarrow> string \<Rightarrow> AuthRequest option" where
  "request_view d i = map_option scanAuthRequest (find (\<lambda>r. qr_id r = i) (t_auth_requests d))"

lemma scanAuthRequest_sel [simp]:
  "arID (scanAuthRequest r) = qr_id r" "arCreatedAt (scanAuthRequest r) = qr_created_at r"
  "arCode (scanAuthRequest r) = stringOrEmpty (qr_code r)"
  by (simp_all add: scanAuthRequest_def)

lemma db_ok_request_ids [simp]: "db_ok d \<Longrightarrow> distinct (map qr_id (t_auth_requests d))"
  by (simp add: db_ok_def)

lemma update_request_step:
  assumes "db_ok d" "\<And>r. qr_id (f r) = qr_id r" "\<And>r. scanAuthRequest (f r) = g (scanAuthRequest r)"
    and "\<And>r. r \<in> set (t_auth_requests d) \<Longrightarrow> qr_id r = i \<Longrightarrow> device_exists d (qr_device_session_id (f r))"
  shows "db_ok (d\<lparr>t_auth_requests := sql_update (\<lambda>r. qr_id r = i) f (t_auth_requests d)\<rparr>) \<and>
    request_view (d\<lparr>t_auth_requests := sql_update (\<lambda>r. qr_id r = i) f (t_auth_requests d)\<rparr>) =
      (request_view d)(i := map_option g (request_view d i))"
proof -
  have "find (\<lambda>r. qr_id r = j) (sql_update (\<lambda>r. qr_id r = i) f (t_auth_requests d)) =
      map_option (\<lambda>r. if qr_id r = i then f r else r) (find (\<lambda>r. qr_id r = j) (t_auth_requests d))" for j
    by (rule find_update) (rule assms(2))
  note found = this
  have "request_view (d\<lparr>t_auth_requests := sql_update (\<lambda>r. qr_id r = i) f (t_auth_requests d)\<rparr>) j =
      ((request_view d)(i := map_option g (request_view d i))) j" for j
  proof (cases "find (\<lambda>r. qr_id r = j) (t_auth_requests d)")
    case None
    with found [of j] show ?thesis by (auto simp: request_view_def)
  next
    case (Some r)
    then have "qr_id r = j" using find_SomeD by fastforce
    with Some found [of j] show ?thesis by (cases "j = i") (simp_all add: request_view_def assms(3))
  qed
  moreover have "db_ok (d\<lparr>t_auth_requests := sql_update (\<lambda>r. qr_id r = i) f (t_auth_requests d)\<rparr>)"
  proof (rule db_ok_auth_requests [OF assms(1)])
    show "device_exists d (qr_device_session_id r)"
      if "r \<in> set (sql_update (\<lambda>r. qr_id r = i) f (t_auth_requests d))" for r
      using that assms(4) db_ok_auth_row [OF assms(1)] by (auto simp: set_sql_update)
  qed (simp add: map_sql_update assms(1,2))
  ultimately show ?thesis by auto
qed

lemma delete_request_step:
  assumes "sql_delete_auth_requests P t d = Inr (n, d')" "db_ok d" "\<And>r. P r = Q (scanAuthRequest r)"
  shows "db_ok d' \<and> request_view d' i =
    (case request_view d i of None \<Rightarrow> None | Some a \<Rightarrow> if Q a then None else Some a)"
proof -
  have d': "d' = d\<lparr>t_auth_requests := sql_delete P (t_auth_requests d)\<rparr>"
    using assms(1) by (simp add: sql_delete_auth_requests_def)
  have "db_ok d'" using assms(2) db_ok_auth_row [OF assms(2)] unfolding d'
    by (intro db_ok_auth_requests distinct_sql_delete) auto
  then show ?thesis
    using assms(2,3) by (auto simp: d' request_view_def find_delete_key split: option.splits)
qed

lemma insert_request_step:
  assumes "sql_insert_auth_request ar t d = Inr (x, d')" "db_ok d"
  shows "db_ok d' \<and> request_view d (arID ar) = None \<and>
    request_view d' = (request_view d)(arID ar \<mapsto> stored_request ar t)"
proof -
  have sel: "qr_id (auth_request_values ar t) = arID ar" "qr_device_session_id (auth_request_values ar t) = None"
    "scanAuthRequest (auth_request_values ar t) = stored_request ar t"
    by (simp_all add: auth_request_values_def scanAuthRequest_def stored_request_def)
  have new: "arID ar \<notin> qr_id ` set (t_auth_requests d)"
    and d': "d' = d\<lparr>t_auth_requests := t_auth_requests d @ [auth_request_values ar t]\<rparr>"
    using assms(1) unfolding sql_insert_auth_request_def
    by (simp_all add: sql_insert_def sel(1) split: if_splits)
  have "db_ok d'"
    unfolding d' using assms(2) new db_ok_auth_row [OF assms(2)] sel
    by (intro db_ok_auth_requests) (auto simp: device_exists_def)
  then show ?thesis
    using new sel by (auto simp: d' request_view_def find_key_None find_snoc_key fun_eq_iff)
qed

lemma scanOne_done:
  "run_state (AuthRequestRepository_scanOne P) w = (Inr ar, w') \<Longrightarrow>
     \<exists>r. find P (t_auth_requests (db w)) = Some r \<and> ar = scanAuthRequest r \<and> db w' = db w"
  by (auto simp: AuthRequestRepository_scanOne_def sql_select_auth_request_def sql_first_def
      split: sum.splits prod.splits option.splits if_splits elim!: db_exec_cases)

lemma complete_login_Inr:
  "sql_complete_login i uid authTime amr dsid t d = Inr (x, d') \<Longrightarrow>
     (sql_count (\<lambda>r. qr_id r = i) (t_auth_requests d) = 0 \<or> device_exists d dsid) \<and>
     d' = d\<lparr>t_auth_requests := sql_update (\<lambda>r. qr_id r = i)
        (\<lambda>r. r\<lparr>qr_user_id := Some uid, qr_auth_time := Some authTime, qr_amr := amr, qr_is_done := True,
           qr_device_session_id := dsid\<rparr>) (t_auth_requests d)\<rparr>"
  unfolding sql_complete_login_def by (simp split: if_splits)

interpretation pg_requests: auth_request_repository AuthRequestRepository request_view db_ok
proof (unfold_locales, goal_cases)
  case (1 d i ar)
  then show ?case by (auto simp: request_view_def dest: find_SomeD)
next
  case (2 ar w x w')
  then have "sql_insert_auth_request ar (clock w) (db w) = Inr (x, db w')"
    by (auto simp: AuthRequestRepository_defs elim!: db_exec_cases)
  then show ?case using insert_request_step [of ar "clock w" "db w" x "db w'"] 2 by simp
next
  case (3 ar w e w')
  then show ?case by (auto simp: AuthRequestRepository_defs dest: db_exec_Inl)
next
  case (4 i w ar w')
  then show ?case
    by (auto simp: AuthRequestRepository_defs sql_select_auth_request_def sql_first_def request_view_def
        split: sum.splits prod.splits option.splits if_splits elim!: db_exec_cases)
next
  case (5 i w e w')
  then show ?case
    by (auto simp: AuthRequestRepository_defs sql_select_auth_request_def sql_first_def request_view_def
        split: sum.splits prod.splits option.splits if_splits elim!: db_exec_cases)
next
  case (6 i w ra w')
  then show ?case
    by (auto simp: AuthRequestRepository_defs sql_select_auth_request_def sql_first_def request_view_def
        run_db_exec_quiet split: sum.splits prod.splits option.splits if_splits)
next
  case (7 c w ar w')
  then obtain r where r: "find (\<lambda>r. qr_code r = Some c) (t_auth_requests (db w)) = Some r"
      "ar = scanAuthRequest r" "db w' = db w"
    using scanOne_done [of "\<lambda>r. qr_code r = Some c" w ar w']
    by (auto simp: AuthRequestRepository_def AuthRequestRepository_GetByCode_def)
  note rr = find_SomeD [OF r(1)]
  show ?case
    using rr r find_key_eq [of qr_id "t_auth_requests (db w)" r] 7(2) by (simp add: request_view_def)
next
  case (8 c w e w')
  then show ?case
    by (auto simp: AuthRequestRepository_defs split: sum.splits prod.splits if_splits dest: db_exec_Inl)
next
  case (9 i c w x w')
  have "db w' = (db w)\<lparr>t_auth_requests := sql_update (\<lambda>r. qr_id r = i) (\<lambda>r. r\<lparr>qr_code := Some c\<rparr>) (t_auth_requests (db w))\<rparr>"
    using 9(1) by (auto simp: AuthRequestRepository_defs sql_save_code_def elim!: db_exec_cases)
  then show ?case
    using update_request_step [of "db w" "\<lambda>r. r\<lparr>qr_code := Some c\<rparr>" "\<lambda>ar. ar\<lparr>arCode := c\<rparr>" i]
      db_ok_auth_row [of "db w"] 9(2) by (simp add: scanAuthRequest_def)
next
  case (10 i c w e w')
  then show ?case by (auto simp: AuthRequestRepository_defs dest: db_exec_Inl)
next
  case (11 i uid t amr s w x w')
  let ?f = "\<lambda>r. r\<lparr>qr_user_id := Some uid, qr_auth_time := Some t, qr_amr := amr, qr_is_done := True,
           qr_device_session_id := nilIfEmptyStr s\<rparr>"
  have "db w' = (db w)\<lparr>t_auth_requests := sql_update (\<lambda>r. qr_id r = i) ?f (t_auth_requests (db w))\<rparr>"
    and "sql_count (\<lambda>r. qr_id r = i) (t_auth_requests (db w)) = 0 \<or> device_exists (db w) (nilIfEmptyStr s)"
    using complete_login_Inr [of i uid t amr "nilIfEmptyStr s" "clock w" "db w" x "db w'"] 11(1)
    by (auto simp: AuthRequestRepository_defs elim!: db_exec_cases)
  moreover have "scanAuthRequest (?f r) = (scanAuthRequest r)\<lparr>arUserID := uid, arAuthTime := t,
         arAMR := amr, arIsDone := True, arDeviceSessionID := s\<rparr>" for r
    by (simp add: scanAuthRequest_def nilIfEmptyStr_def)
  moreover have "device_exists (db w) (qr_device_session_id (?f r))"
    if "r \<in> set (t_auth_requests (db w))" "qr_id r = i" for r
    using calculation(2) that by (auto simp: sql_count_0)
  ultimately show ?case
    using update_request_step [of "db w" ?f "\<lambda>ar. ar\<lparr>arUserID := uid, arAuthTime := t,
         arAMR := amr, arIsDone := True, arDeviceSessionID := s\<rparr>" i, OF 11(2)] by simp
next
  case (12 i uid t amr s w e w')
  then show ?case by (auto simp: AuthRequestRepository_defs dest: db_exec_Inl)
next
  case (13 i w x w')
  then obtain n where del: "sql_delete_auth_requests (\<lambda>r. qr_id r = i) (clock w) (db w) = Inr (n, db w')"
    by (auto simp: AuthRequestRepository_defs split: sum.splits prod.splits elim!: db_exec_cases)
  have key: "request_view (db w) j = Some b \<Longrightarrow> arID b = j" for j b
    by (auto simp: request_view_def dest: find_SomeD)
  have "request_view (db w') j = ((request_view (db w))(i := None)) j" for j
    using delete_request_step [OF del 13(2), where Q = "\<lambda>r. arID r = i" and i = j] key [of j]
    by (cases "request_view (db w) j") auto
  then show ?case using delete_request_step [OF del 13(2), where Q = "\<lambda>r. arID r = i"] by auto
next
  case (14 i w e w')
  then show ?case
    by (auto simp: AuthRequestRepository_defs split: sum.splits prod.splits dest: db_exec_Inl)
next
  case (15 b w n w')
  then have del: "sql_delete_auth_requests (\<lambda>r. qr_created_at r < b) (clock w) (db w) = Inr (n, db w')"
    by (auto simp: AuthRequestRepository_defs elim!: db_exec_cases)
  note b = delete_request_step [OF del 15(2), where Q = "\<lambda>a. arCreatedAt a < b"]
  show ?case using b by (simp split: option.splits)
next
  case (16 b w e w')
  then show ?case by (auto simp: AuthRequestRepository_defs dest: db_exec_Inl)
next
  case (17 i w ra w')
  then show ?case by (auto simp: AuthRequestRepository_defs split: sum.splits prod.splits if_splits elim!: db_exec_cases)
next
  case (18 c w ra w')
  then show ?case by (auto simp: AuthRequestRepository_defs split: sum.splits prod.splits if_splits elim!: db_exec_cases)
qed

section \<open>Clients\<close>

definition sql_select_client :: "string \<Rightarrow> int \<Rightarrow> identity_db \<Rightarrow> goerr + Client \<times> identity_db" where
  "sql_select_client i t d =
     (case sql_first (\<lambda>c. clID c = i) (t_clients d) of Inl e \<Rightarrow> Inl e | Inr c \<Rightarrow> Inr (c, d))"

definition ClientRepository_GetByID :: "string \<Rightarrow> (identity_db, Client) eio" where
  "ClientRepository_GetByID clientID = do {
     r \<leftarrow> db_exec (sql_select_client clientID);
     case r of
       Inl err \<Rightarrow> if errors_Is err SqlErrNoRows
                  then ret (Inl (errorf (''client '' @ clientID @ '': '') (Sentinel ErrNotFound)))
                  else ret (Inl err)
     | Inr c \<Rightarrow> ret (Inr c) }"

definition ClientRepository :: "identity_db go_world ClientRepository" where
  "ClientRepository = \<lparr>CL_GetByID = ClientRepository_GetByID\<rparr>"

definition client_view :: "identity_db \<Rightarrow> string \<Rightarrow> Client option" where
  "client_view d i = find (\<lambda>c. clID c = i) (t_clients d)"

interpretation pg_clients: client_repository ClientRepository client_view db_ok
  by unfold_locales
    (auto simp: ClientRepository_def ClientRepository_GetByID_def sql_select_client_def sql_first_def
      client_view_def run_db_exec split: sum.splits prod.splits option.splits if_splits dest: find_SomeD)

end
