(* ===== verification/DeviceSessionRepo.thy ===== *)
theory DeviceSessionRepo
  imports TokenRepo
begin

text \<open>
  The contract of \<open>oidc.DeviceSessionRepository\<close> and its PostgreSQL implementation,
  \<open>internal/oidc/postgres/device_session_repo.go\<close>. A session is read with its revocation
  time; the contract also says what becomes of the refresh tokens bound to a session.
\<close>

section \<open>The contract\<close>

locale device_session_repository =
  fixes repo :: "'db go_world DeviceSessionRepository"
    and dev :: "'db \<Rightarrow> string \<Rightarrow> DeviceSession option"
    and refresh :: "'db \<Rightarrow> string \<Rightarrow> RefreshToken option"
    and invar :: "'db \<Rightarrow> bool"
  assumes dev_key: "invar d \<Longrightarrow> dev d i = Some s \<Longrightarrow> dsID s = i"
    and find_done: "run_state (DS_FindOrCreate repo i uid ua ip nm) w = (Inr s, w') \<Longrightarrow> invar (db w) \<Longrightarrow>
      invar (db w') \<and> refresh (db w') = refresh (db w) \<and> dsUserID s = uid \<and> dsRevokedAt s = None
      \<and> (\<forall>j. j \<noteq> dsID s \<longrightarrow> dev (db w') j = dev (db w) j)
      \<and> (\<exists>s'. dev (db w') (dsID s) = Some s' \<and> dsUserID s' = uid \<and> dsRevokedAt s' = None \<and> dsUserAgent s' = ua
           \<and> dsIPAddress s' = ip)
      \<and> (case dev (db w) i of
           None \<Rightarrow> dsID s = i
         | Some old \<Rightarrow> if dsUserID old = uid \<and> dsRevokedAt old = None then dsID s = i
                      else dsID s \<noteq> i \<and> dev (db w) (dsID s) = None)"
    and find_error: "run_state (DS_FindOrCreate repo i uid ua ip nm) w = (Inl e, w') \<Longrightarrow> db w' = db w"
    and revoke_done: "run_state (DS_RevokeByID repo i uid) w = (Inr x, w') \<Longrightarrow> invar (db w) \<Longrightarrow> invar (db w')
      \<and> (\<exists>s. dev (db w) i = Some s \<and> dsUserID s = uid \<and> dsRevokedAt s = None
           \<and> dev (db w') = (dev (db w))(i \<mapsto> s\<lparr>dsRevokedAt := Some (clock w)\<rparr>))
      \<and> (i \<noteq> [] \<longrightarrow> (\<forall>h. refresh (db w') h = (case refresh (db w) h of
            Some r \<Rightarrow> if rtDeviceSessionID r = i then None else Some r | None \<Rightarrow> None)))"
    and revoke_error: "run_state (DS_RevokeByID repo i uid) w = (Inl e, w') \<Longrightarrow> db w' = db w"
    and list_done: "run_state (DS_ListActiveByUserID repo uid) w = (Inr ss, w') \<Longrightarrow> invar (db w) \<Longrightarrow> db w' = db w
      \<and> sorted (rev (map dsLastUsedAt ss)) \<and> set ss = {s \<in> ran (dev (db w)). dsUserID s = uid \<and> dsRevokedAt s = None}"
    and list_error: "run_state (DS_ListActiveByUserID repo uid) w = (Inl e, w') \<Longrightarrow> db w' = db w"
    and purge_done: "run_state (DS_DeleteRevokedBefore repo b) w = (Inr n, w') \<Longrightarrow> invar (db w) \<Longrightarrow> invar (db w')
      \<and> (\<forall>i. i \<noteq> [] \<longrightarrow> dev (db w') i = (case dev (db w) i of
            None \<Rightarrow> None
          | Some s \<Rightarrow> if (\<exists>t. dsRevokedAt s = Some t \<and> t < b) \<and>
                (\<forall>h r. refresh (db w) h = Some r \<and> rtDeviceSessionID r = i \<longrightarrow> rtExpiration r \<le> clock w)
              then None else Some s))"
    and purge_error: "run_state (DS_DeleteRevokedBefore repo b) w = (Inl e, w') \<Longrightarrow> db w' = db w"

section \<open>The repository\<close>

text \<open>Neither query copies \<open>revoked_at\<close> into the result: only rows without it are returned.\<close>

definition scanDeviceSession :: "device_row \<Rightarrow> DeviceSession" where
  "scanDeviceSession r = \<lparr>dsID = dr_id r, dsUserID = dr_user_id r, dsUserAgent = dr_user_agent r,
     dsIPAddress = dr_ip_address r, dsDeviceName = dr_device_name r, dsCreatedAt = dr_created_at r,
     dsLastUsedAt = dr_last_used_at r, dsRevokedAt = None\<rparr>"

definition sql_select_device :: "string \<Rightarrow> int \<Rightarrow> identity_db \<Rightarrow> goerr + device_row \<times> identity_db" where
  "sql_select_device i t d =
     (case sql_first (\<lambda>r. dr_id r = i) (t_device_sessions d) of Inl e \<Rightarrow> Inl e | Inr r \<Rightarrow> Inr (r, d))"

definition sql_use_device :: "string \<Rightarrow> string \<Rightarrow> string \<Rightarrow> int \<Rightarrow> identity_db \<Rightarrow> goerr + unit \<times> identity_db" where
  "sql_use_device ua ip i t d = Inr ((), d\<lparr>t_device_sessions := sql_update (\<lambda>r. dr_id r = i)
     (\<lambda>r. r\<lparr>dr_user_agent := ua, dr_ip_address := ip, dr_last_used_at := t\<rparr>) (t_device_sessions d)\<rparr>)"

definition sql_insert_device :: "device_row \<Rightarrow> int \<Rightarrow> identity_db \<Rightarrow> goerr + unit \<times> identity_db" where
  "sql_insert_device r t d =
     (case sql_insert dr_id r (t_device_sessions d) of
        Inl e \<Rightarrow> Inl e
      | Inr rs \<Rightarrow> if dr_user_id r \<notin> ur_id ` set (t_users d) then Inl (PqError ''23503'')
                 else Inr ((), d\<lparr>t_device_sessions := rs\<rparr>))"

definition sql_revoke_device :: "string \<Rightarrow> string \<Rightarrow> int \<Rightarrow> identity_db \<Rightarrow> goerr + nat \<times> identity_db" where
  "sql_revoke_device i uid t d =
     (let P = (\<lambda>r. dr_id r = i \<and> dr_user_id r = uid \<and> dr_revoked_at r = None)
      in Inr (sql_count P (t_device_sessions d),
           d\<lparr>t_device_sessions := sql_update P (\<lambda>r. r\<lparr>dr_revoked_at := Some t\<rparr>) (t_device_sessions d)\<rparr>))"

definition sql_list_active :: "string \<Rightarrow> int \<Rightarrow> identity_db \<Rightarrow> goerr + device_row list \<times> identity_db" where
  "sql_list_active uid t d = Inr (sql_order_desc dr_last_used_at
     (filter (\<lambda>r. dr_user_id r = uid \<and> dr_revoked_at r = None) (t_device_sessions d)), d)"

text \<open>The deletion of a session sets the references to it to NULL, in both tables.\<close>

definition purgeable :: "int \<Rightarrow> int \<Rightarrow> identity_db \<Rightarrow> device_row \<Rightarrow> bool" where
  "purgeable before t d r \<longleftrightarrow>
     (case dr_revoked_at r of None \<Rightarrow> False | Some x \<Rightarrow> x < before)
     \<and> \<not> list_ex (\<lambda>k. rr_device_session_id k = Some (dr_id r) \<and> rr_expiration k > t) (t_refresh_tokens d)"

definition sql_purge_devices :: "int \<Rightarrow> int \<Rightarrow> identity_db \<Rightarrow> goerr + nat \<times> identity_db" where
  "sql_purge_devices before t d =
     (let P = purgeable before t d;
          gone = map (\<lambda>r. Some (dr_id r)) (filter P (t_device_sessions d))
      in Inr (sql_count P (t_device_sessions d),
           d\<lparr>t_refresh_tokens := sql_update (\<lambda>k. rr_device_session_id k \<in> set gone)
               (\<lambda>k. k\<lparr>rr_device_session_id := None\<rparr>) (t_refresh_tokens d),
             t_auth_requests := sql_update (\<lambda>k. qr_device_session_id k \<in> set gone)
               (\<lambda>k. k\<lparr>qr_device_session_id := None\<rparr>) (t_auth_requests d),
             t_device_sessions := sql_delete P (t_device_sessions d)\<rparr>))"

definition DeviceSessionRepository_create ::
  "string \<Rightarrow> string \<Rightarrow> string \<Rightarrow> string \<Rightarrow> string \<Rightarrow> (identity_db, DeviceSession) eio" where
  "DeviceSessionRepository_create i userID userAgent ipAddress deviceName = do {
     now \<leftarrow> time_Now;
     r \<leftarrow> db_exec (sql_insert_device \<lparr>dr_id = i, dr_user_id = userID, dr_user_agent = userAgent,
            dr_ip_address = ipAddress, dr_device_name = deviceName, dr_created_at = now,
            dr_last_used_at = now, dr_revoked_at = None\<rparr>);
     case r of
       Inl err \<Rightarrow> ret (Inl (errorf ''create device session: '' err))
     | Inr _ \<Rightarrow> ret (Inr \<lparr>dsID = i, dsUserID = userID, dsUserAgent = userAgent, dsIPAddress = ipAddress,
         dsDeviceName = deviceName, dsCreatedAt = now, dsLastUsedAt = now, dsRevokedAt = None\<rparr>) }"

text \<open>The branch of \<open>FindOrCreate\<close> for the user's own active session.\<close>

definition DeviceSessionRepository_reuse :: "device_row \<Rightarrow> string \<Rightarrow> string \<Rightarrow> (identity_db, DeviceSession) eio" where
  "DeviceSessionRepository_reuse row userAgent ipAddress = do {
     u \<leftarrow> db_exec (sql_use_device userAgent ipAddress (dr_id row));
     case u of
       Inl err \<Rightarrow> ret (Inl (errorf ''update device session: '' err))
     | Inr _ \<Rightarrow> do {
         now \<leftarrow> time_Now;
         ret (Inr ((scanDeviceSession row)\<lparr>dsUserAgent := userAgent, dsIPAddress := ipAddress,
           dsLastUsedAt := now\<rparr>)) } }"

definition DeviceSessionRepository_FindOrCreate ::
  "string \<Rightarrow> string \<Rightarrow> string \<Rightarrow> string \<Rightarrow> string \<Rightarrow> (identity_db, DeviceSession) eio" where
  "DeviceSessionRepository_FindOrCreate i userID userAgent ipAddress deviceName = do {
     r \<leftarrow> db_exec (sql_select_device i);
     case r of
       Inr row \<Rightarrow>
         if dr_user_id row \<noteq> userID \<or> dr_revoked_at row \<noteq> None then do {
           newID \<leftarrow> ulid_Make;
           DeviceSessionRepository_create newID userID userAgent ipAddress deviceName }
         else DeviceSessionRepository_reuse row userAgent ipAddress
     | Inl err \<Rightarrow>
         if \<not> errors_Is err SqlErrNoRows then ret (Inl (errorf ''lookup device session: '' err))
         else DeviceSessionRepository_create i userID userAgent ipAddress deviceName }"

definition DeviceSessionRepository_RevokeByID :: "string \<Rightarrow> string \<Rightarrow> (identity_db, unit) eio" where
  "DeviceSessionRepository_RevokeByID i userID = in_tx (\<lambda>t. do {
     r \<leftarrow> tx_exec t (sql_revoke_device i userID);
     case r of
       Inl err \<Rightarrow> ret (Inl (errorf ''revoke device session: '' err))
     | Inr n \<Rightarrow>
         if n = 0 then ret (Inl (errorf (''device session '' @ i @ '': '') (Sentinel ErrNotFound)))
         else do {
           x \<leftarrow> tx_exec t (sql_delete_refresh (\<lambda>_ k. rr_device_session_id k = Some i));
           case x of
             Inl err \<Rightarrow> ret (Inl (errorf ''delete refresh tokens for device session: '' err))
           | Inr _ \<Rightarrow> ret (Inr ()) } })"

definition DeviceSessionRepository_ListActiveByUserID :: "string \<Rightarrow> (identity_db, DeviceSession list) eio" where
  "DeviceSessionRepository_ListActiveByUserID userID = do {
     r \<leftarrow> db_exec (sql_list_active userID);
     case r of
       Inl err \<Rightarrow> ret (Inl err)
     | Inr rows \<Rightarrow> ret (Inr (map scanDeviceSession rows)) }"

definition DeviceSessionRepository_DeleteRevokedBefore :: "int \<Rightarrow> (identity_db, nat) eio" where
  "DeviceSessionRepository_DeleteRevokedBefore before = do {
     r \<leftarrow> db_exec (sql_purge_devices before);
     case r of
       Inl err \<Rightarrow> ret (Inl (errorf ''delete revoked device sessions: '' err))
     | Inr n \<Rightarrow> ret (Inr n) }"

definition DeviceSessionRepository :: "identity_db go_world DeviceSessionRepository" where
  "DeviceSessionRepository = \<lparr>DS_FindOrCreate = DeviceSessionRepository_FindOrCreate,
     DS_RevokeByID = DeviceSessionRepository_RevokeByID,
     DS_ListActiveByUserID = DeviceSessionRepository_ListActiveByUserID,
     DS_DeleteRevokedBefore = DeviceSessionRepository_DeleteRevokedBefore\<rparr>"

lemmas DeviceSessionRepository_defs = DeviceSessionRepository_def DeviceSessionRepository_FindOrCreate_def
  DeviceSessionRepository_create_def DeviceSessionRepository_RevokeByID_def
  DeviceSessionRepository_ListActiveByUserID_def DeviceSessionRepository_DeleteRevokedBefore_def

section \<open>The table as a map\<close>

definition device_of :: "device_row \<Rightarrow> DeviceSession" where
  "device_of r = (scanDeviceSession r)\<lparr>dsRevokedAt := dr_revoked_at r\<rparr>"

definition device_view :: "identity_db \<Rightarrow> string \<Rightarrow> DeviceSession option" where
  "device_view d i = map_option device_of (find (\<lambda>r. dr_id r = i) (t_device_sessions d))"

lemma device_of_sel [simp]:
  "dsID (device_of r) = dr_id r" "dsUserID (device_of r) = dr_user_id r" "dsRevokedAt (device_of r) = dr_revoked_at r"
  "dsLastUsedAt (device_of r) = dr_last_used_at r" "dsUserAgent (device_of r) = dr_user_agent r"
  "dsIPAddress (device_of r) = dr_ip_address r"
  by (simp_all add: device_of_def scanDeviceSession_def)

lemma scanDevice_sel [simp]:
  "dsID (scanDeviceSession r) = dr_id r" "dsUserID (scanDeviceSession r) = dr_user_id r"
  "dsRevokedAt (scanDeviceSession r) = None" "dsLastUsedAt (scanDeviceSession r) = dr_last_used_at r"
  by (simp_all add: scanDeviceSession_def)

lemma device_of_active: "dr_revoked_at r = None \<Longrightarrow> device_of r = scanDeviceSession r"
  by (simp add: device_of_def scanDeviceSession_def)

lemma device_view_Some:
  "db_ok d \<Longrightarrow> device_view d i = Some s \<longleftrightarrow> (\<exists>r \<in> set (t_device_sessions d). dr_id r = i \<and> s = device_of r)"
  by (auto simp: device_view_def find_key_iff)

lemma device_view_refresh [simp]: "device_view (d\<lparr>t_refresh_tokens := rs\<rparr>) = device_view d"
  by (simp add: device_view_def fun_eq_iff)

lemma insert_device_step:
  assumes "sql_insert_device r t d = Inr (x, d')" "db_ok d"
  shows "db_ok d' \<and> device_view d (dr_id r) = None \<and> device_view d' = (device_view d)(dr_id r \<mapsto> device_of r)
    \<and> refresh_view d' = refresh_view d"
proof -
  have new: "dr_id r \<notin> dr_id ` set (t_device_sessions d)" and user: "dr_user_id r \<in> ur_id ` set (t_users d)"
    and d': "d' = d\<lparr>t_device_sessions := t_device_sessions d @ [r]\<rparr>"
    using assms(1) unfolding sql_insert_device_def by (simp_all add: sql_insert_def split: if_splits)
  have "db_ok d'"
    unfolding d' using assms(2) new user db_ok_device_row [OF assms(2)]
    by (intro db_ok_device_sessions) auto
  then show ?thesis
    using new by (auto simp: d' device_view_def find_key_None find_snoc_key fun_eq_iff)
qed

text \<open>Changing the session with one identifier, with or without a further condition.\<close>

lemma update_device_step:
  assumes "db_ok d" "\<And>r. dr_id (f r) = dr_id r" "\<And>r. dr_user_id (f r) = dr_user_id r"
    and "d' = d\<lparr>t_device_sessions := sql_update (\<lambda>r. dr_id r = i \<and> P r) f (t_device_sessions d)\<rparr>"
  shows "db_ok d' \<and> refresh_view d' = refresh_view d \<and> device_view d' = (device_view d)
    (i := map_option (\<lambda>r. device_of (if P r then f r else r)) (find (\<lambda>r. dr_id r = i) (t_device_sessions d)))"
proof -
  let ?Q = "\<lambda>r. dr_id r = i \<and> P r"
  have found: "find (\<lambda>r. dr_id r = j) (sql_update ?Q f (t_device_sessions d)) =
      map_option (\<lambda>r. if ?Q r then f r else r) (find (\<lambda>r. dr_id r = j) (t_device_sessions d))" for j
    by (rule find_update) (rule assms(2))
  have "device_view d' j = ((device_view d)
    (i := map_option (\<lambda>r. device_of (if P r then f r else r)) (find (\<lambda>r. dr_id r = i) (t_device_sessions d)))) j" for j
  proof (cases "find (\<lambda>r. dr_id r = j) (t_device_sessions d)")
    case None
    with found [of j] show ?thesis by (auto simp: device_view_def assms(4))
  next
    case (Some r)
    then have "dr_id r = j" using find_SomeD by fastforce
    with Some found [of j] show ?thesis by (cases "j = i") (simp_all add: device_view_def assms(4))
  qed
  moreover have "db_ok d'"
    unfolding assms(4)
  proof (rule db_ok_device_sessions [OF assms(1)])
    show "dr_user_id r \<in> ur_id ` set (t_users d)" if "r \<in> set (sql_update ?Q f (t_device_sessions d))" for r
      using that db_ok_device_row [OF assms(1)] assms(3) by (auto simp: set_sql_update)
  qed (simp_all add: assms(1,2) map_sql_update image_sql_update)
  ultimately show ?thesis by (auto simp: assms(4))
qed

lemma create_device_done:
  assumes "run_state (DeviceSessionRepository_create i uid ua ip nm) w = (Inr s, w')" "db_ok (db w)"
  shows "db_ok (db w') \<and> refresh_view (db w') = refresh_view (db w) \<and> device_view (db w) i = None
    \<and> dsID s = i \<and> dsUserID s = uid \<and> dsRevokedAt s = None \<and> dsUserAgent s = ua \<and> dsIPAddress s = ip
    \<and> device_view (db w') = (device_view (db w))(i \<mapsto> s)"
proof -
  let ?r = "\<lparr>dr_id = i, dr_user_id = uid, dr_user_agent = ua, dr_ip_address = ip, dr_device_name = nm,
     dr_created_at = clock w, dr_last_used_at = clock w, dr_revoked_at = None\<rparr>"
  obtain t where ins: "sql_insert_device ?r t (db w) = Inr ((), db w')" and s: "s = device_of ?r"
    using assms(1) by (auto simp: DeviceSessionRepository_create_def device_of_def scanDeviceSession_def
        split: sum.splits prod.splits elim!: db_exec_cases)
  show ?thesis using insert_device_step [OF ins assms(2)] s
    by (simp add: device_of_def scanDeviceSession_def)
qed

lemma create_device_error:
  "run_state (DeviceSessionRepository_create i uid ua ip nm) w = (Inl e, w') \<Longrightarrow> db w' = db w"
  by (auto simp: DeviceSessionRepository_create_def split: sum.splits prod.splits dest: db_exec_Inl)

section \<open>The repository meets the contract\<close>

lemma reuse_run:
  "run_state (DeviceSessionRepository_reuse row ua ip) w = (Inr s, w') \<Longrightarrow>
   \<exists>t n. sql_use_device ua ip (dr_id row) t (db w) = Inr ((), db w')
     \<and> s = (scanDeviceSession row)\<lparr>dsUserAgent := ua, dsIPAddress := ip, dsLastUsedAt := n\<rparr>"
  by (auto simp: DeviceSessionRepository_reuse_def split: sum.splits prod.splits elim!: db_exec_cases)

lemma reuse_error: "run_state (DeviceSessionRepository_reuse row ua ip) w = (Inl e, w') \<Longrightarrow> db w' = db w"
  by (auto simp: DeviceSessionRepository_reuse_def split: sum.splits prod.splits dest: db_exec_Inl)

lemma found_run:
  assumes "run_state (DeviceSessionRepository_FindOrCreate i uid ua ip nm) w = (Inr s, w')"
    and "find (\<lambda>r. dr_id r = i) (t_device_sessions (db w)) = Some row"
  shows "run_state (if dr_user_id row \<noteq> uid \<or> dr_revoked_at row \<noteq> None
      then do { k \<leftarrow> ulid_Make; DeviceSessionRepository_create k uid ua ip nm }
      else DeviceSessionRepository_reuse row ua ip) (pass w) = (Inr s, w')"
  using assms(1) unfolding DeviceSessionRepository_FindOrCreate_def
  by (cases "fault w (step w)") (simp_all add: run_db_exec sql_select_device_def sql_first_def assms(2))

lemma find_or_create_done:
  assumes "run_state (DeviceSessionRepository_FindOrCreate i uid ua ip nm) w = (Inr s, w')" "db_ok (db w)"
  shows "db_ok (db w') \<and> refresh_view (db w') = refresh_view (db w) \<and> dsUserID s = uid \<and> dsRevokedAt s = None
      \<and> (\<forall>j. j \<noteq> dsID s \<longrightarrow> device_view (db w') j = device_view (db w) j)
      \<and> (\<exists>s'. device_view (db w') (dsID s) = Some s' \<and> dsUserID s' = uid \<and> dsRevokedAt s' = None
           \<and> dsUserAgent s' = ua \<and> dsIPAddress s' = ip)
      \<and> (case device_view (db w) i of
           None \<Rightarrow> dsID s = i
         | Some old \<Rightarrow> if dsUserID old = uid \<and> dsRevokedAt old = None then dsID s = i
                      else dsID s \<noteq> i \<and> device_view (db w) (dsID s) = None)"
proof (cases "find (\<lambda>r. dr_id r = i) (t_device_sessions (db w))")
  case None
  then obtain w1 where "run_state (DeviceSessionRepository_create i uid ua ip nm) w1 = (Inr s, w')" "db w1 = db w"
    using assms(1) by (auto simp: DeviceSessionRepository_FindOrCreate_def sql_select_device_def sql_first_def
        split: sum.splits prod.splits if_splits elim!: db_exec_cases)
  with create_device_done [OF this(1)] assms(2) None show ?thesis by (auto simp: device_view_def)
next
  case (Some row)
  then have row: "dr_id row = i" using find_SomeD by fastforce
  have old: "device_view (db w) i = Some (device_of row)" using Some by (simp add: device_view_def)
  show ?thesis
  proof (cases "dr_user_id row \<noteq> uid \<or> dr_revoked_at row \<noteq> None")
    case True
    then have w1: "run_state (DeviceSessionRepository_create (ulid w (Suc (step w))) uid ua ip nm) (pass (pass w)) = (Inr s, w')"
      using found_run [OF assms(1) Some] by (auto split: if_splits)
    show ?thesis using create_device_done [OF w1] assms(2) True old by auto
  next
    case False
    then have w1: "run_state (DeviceSessionRepository_reuse row ua ip) (pass w) = (Inr s, w')"
      using found_run [OF assms(1) Some] by simp
    obtain t n where use: "sql_use_device ua ip i t (db w) = Inr ((), db w')"
      and s: "s = (scanDeviceSession row)\<lparr>dsUserAgent := ua, dsIPAddress := ip, dsLastUsedAt := n\<rparr>"
      using reuse_run [OF w1] row by auto
    have d': "db w' = (db w)\<lparr>t_device_sessions := sql_update (\<lambda>r. dr_id r = i \<and> True)
          (\<lambda>r. r\<lparr>dr_user_agent := ua, dr_ip_address := ip, dr_last_used_at := t\<rparr>) (t_device_sessions (db w))\<rparr>"
      using use by (simp add: sql_use_device_def)
    show ?thesis
      using update_device_step [OF assms(2) _ _ d'] Some False row old s by simp
  qed
qed

lemma find_or_create_error:
  "run_state (DeviceSessionRepository_FindOrCreate i uid ua ip nm) w = (Inl e, w') \<Longrightarrow> db w' = db w"
  by (auto simp: DeviceSessionRepository_FindOrCreate_def sql_select_device_def
      split: sum.splits prod.splits if_splits elim!: db_exec_cases dest!: create_device_error reuse_error)

lemma revoke_device_done:
  assumes "run_state (DeviceSessionRepository_RevokeByID i uid) w = (Inr x, w')" "db_ok (db w)"
  shows "db_ok (db w')
      \<and> (\<exists>s. device_view (db w) i = Some s \<and> dsUserID s = uid \<and> dsRevokedAt s = None
           \<and> device_view (db w') = (device_view (db w))(i \<mapsto> s\<lparr>dsRevokedAt := Some (clock w)\<rparr>))
      \<and> (i \<noteq> [] \<longrightarrow> (\<forall>h. refresh_view (db w') h = (case refresh_view (db w) h of
            Some r \<Rightarrow> if rtDeviceSessionID r = i then None else Some r | None \<Rightarrow> None)))"
proof -
  let ?P = "\<lambda>r. dr_user_id r = uid \<and> dr_revoked_at r = None"
  obtain d1 n m where n: "sql_count (\<lambda>r. dr_id r = i \<and> ?P r) (t_device_sessions (db w)) \<noteq> 0"
    and d1: "d1 = (db w)\<lparr>t_device_sessions := sql_update (\<lambda>r. dr_id r = i \<and> ?P r)
         (\<lambda>r. r\<lparr>dr_revoked_at := Some (clock w)\<rparr>) (t_device_sessions (db w))\<rparr>"
    and del: "sql_delete_refresh (\<lambda>_ k. rr_device_session_id k = Some i) (clock w) d1 = Inr (m, db w')"
    using assms(1) unfolding DeviceSessionRepository_RevokeByID_def
    by (elim in_tx_Inr) (auto simp: tx_exec_def sql_revoke_device_def Let_def
        split: sum.splits prod.splits if_splits elim!: db_exec_cases)
  obtain row where row: "find (\<lambda>r. dr_id r = i) (t_device_sessions (db w)) = Some row" "?P row"
    using n count_key [of dr_id "t_device_sessions (db w)" i ?P] assms(2) by (auto split: option.splits)
  note s1 = update_device_step [OF assms(2) _ _ d1]
  have ok1: "db_ok d1" using s1 by simp
  have dv: "device_view (db w') = device_view d1" 
  proof -
    have "db w' = d1\<lparr>t_refresh_tokens := sql_delete (\<lambda>k. rr_device_session_id k = Some i) (t_refresh_tokens d1)\<rparr>"
      using del by (simp add: sql_delete_refresh_def)
    then show ?thesis by simp
  qed
  have dev: "device_view d1 = (device_view (db w))(i \<mapsto> (device_of row)\<lparr>dsRevokedAt := Some (clock w)\<rparr>)"
    using s1 row by (simp add: device_of_def scanDeviceSession_def)
  have ds: "device_view (db w) i = Some (device_of row)" using row by (simp add: device_view_def)
  have rv: "refresh_view d1 = refresh_view (db w)" using s1 by simp
  have rr: "db_ok (db w') \<and> (i \<noteq> [] \<longrightarrow> refresh_view (db w') h = (case refresh_view d1 h of
            Some r \<Rightarrow> if rtDeviceSessionID r = i then None else Some r | None \<Rightarrow> None))" for h
  proof (cases "i = []")
    case True
    have d': "db w' = d1\<lparr>t_refresh_tokens := sql_delete (\<lambda>k. rr_device_session_id k = Some i) (t_refresh_tokens d1)\<rparr>"
      using del by (simp add: sql_delete_refresh_def)
    have "db_ok (db w')" unfolding d' using ok1 db_ok_refresh_row [OF ok1]
      by (intro db_ok_refresh_tokens distinct_sql_delete) auto
    with True show ?thesis by simp
  next
    case False
    then have "(rr_device_session_id k = Some i) = (rtDeviceSessionID (scanRefreshToken k) = i)" for k
      by (cases "rr_device_session_id k") auto
    then show ?thesis
      using delete_refresh_step [OF del ok1, where Q = "\<lambda>r. rtDeviceSessionID r = i" and h = h]
      by (auto split: option.splits)
  qed
  show ?thesis using rr ds dev dv rv row(2) by auto
qed

lemma purgeable_iff:
  assumes "db_ok d" "dr_id r \<noteq> []"
  shows "purgeable b t d r \<longleftrightarrow> (\<exists>x. dr_revoked_at r = Some x \<and> x < b) \<and>
    (\<forall>h k. refresh_view d h = Some k \<and> rtDeviceSessionID k = dr_id r \<longrightarrow> rtExpiration k \<le> t)"
proof -
  have ds: "(rr_device_session_id k = Some (dr_id r)) = (rtDeviceSessionID (scanRefreshToken k) = dr_id r)" for k
    using assms(2) by (cases "rr_device_session_id k") auto
  have "list_ex (\<lambda>k. rr_device_session_id k = Some (dr_id r) \<and> rr_expiration k > t) (t_refresh_tokens d) \<longleftrightarrow>
     (\<exists>h k. refresh_view d h = Some k \<and> rtDeviceSessionID k = dr_id r \<and> rtExpiration k > t)"
    unfolding list_ex_iff ds refresh_view_Some [OF assms(1)] by (metis scan_sel(6))
  then show ?thesis by (auto simp: purgeable_def not_less split: option.splits)
qed

lemma purge_device_done:
  assumes "sql_purge_devices b t d = Inr (n, d')" "db_ok d"
  shows "db_ok d' \<and> (\<forall>i. i \<noteq> [] \<longrightarrow> device_view d' i = (case device_view d i of
            None \<Rightarrow> None
          | Some s \<Rightarrow> if (\<exists>x. dsRevokedAt s = Some x \<and> x < b) \<and>
                (\<forall>h r. refresh_view d h = Some r \<and> rtDeviceSessionID r = i \<longrightarrow> rtExpiration r \<le> t)
              then None else Some s))"
proof -
  let ?P = "purgeable b t d"
  let ?gone = "set (map (\<lambda>r. Some (dr_id r)) (filter ?P (t_device_sessions d)))"
  let ?rs = "sql_update (\<lambda>k. rr_device_session_id k \<in> ?gone) (\<lambda>k. k\<lparr>rr_device_session_id := None\<rparr>) (t_refresh_tokens d)"
  let ?qs = "sql_update (\<lambda>k. qr_device_session_id k \<in> ?gone) (\<lambda>k. k\<lparr>qr_device_session_id := None\<rparr>) (t_auth_requests d)"
  let ?ds = "sql_delete ?P (t_device_sessions d)"
  let ?d1 = "d\<lparr>t_refresh_tokens := ?rs\<rparr>" let ?d2 = "?d1\<lparr>t_auth_requests := ?qs\<rparr>"
  have d': "d' = ?d2\<lparr>t_device_sessions := ?ds\<rparr>"
    using assms(1) unfolding sql_purge_devices_def Let_def by simp
  have ok1: "db_ok ?d1"
    using db_ok_refresh_row [OF assms(2)]
    by (intro db_ok_refresh_tokens [OF assms(2)])
      (auto simp: set_sql_update map_sql_update assms(2) device_exists_def)
  have ok2: "db_ok ?d2"
    using db_ok_auth_row [OF ok1]
    by (intro db_ok_auth_requests [OF ok1])
      (auto simp: set_sql_update map_sql_update assms(2) device_exists_def)
  have keep: "device_exists (?d2\<lparr>t_device_sessions := ?ds\<rparr>) p" if "device_exists d p" "p \<notin> ?gone" for p
    using that by (auto simp: device_exists_def split: option.splits)
  have "db_ok d'"
    unfolding d'
  proof (rule db_ok_fewer_devices [OF ok2])
    show "device_exists (?d2\<lparr>t_device_sessions := ?ds\<rparr>) (rr_device_session_id r)" if "r \<in> set (t_refresh_tokens ?d2)" for r
    proof (cases "rr_device_session_id r")
      case (Some x)
      then have "r \<in> set (t_refresh_tokens d)" "rr_device_session_id r \<notin> ?gone"
        using that by (auto simp: set_sql_update split: if_splits)
      then show ?thesis using keep db_ok_refresh_row [OF assms(2)] by blast
    qed (simp add: device_exists_def)
    show "device_exists (?d2\<lparr>t_device_sessions := ?ds\<rparr>) (qr_device_session_id r)" if "r \<in> set (t_auth_requests ?d2)" for r
    proof (cases "qr_device_session_id r")
      case (Some x)
      then have "r \<in> set (t_auth_requests d)" "qr_device_session_id r \<notin> ?gone"
        using that by (auto simp: set_sql_update split: if_splits)
      then show ?thesis using keep db_ok_auth_row [OF assms(2)] by blast
    qed (simp add: device_exists_def)
  qed (use db_ok_device_row [OF assms(2)] assms(2) in \<open>auto intro: distinct_sql_delete\<close>)
  moreover have "device_view d' i = (case device_view d i of
            None \<Rightarrow> None
          | Some s \<Rightarrow> if (\<exists>x. dsRevokedAt s = Some x \<and> x < b) \<and>
                (\<forall>h r. refresh_view d h = Some r \<and> rtDeviceSessionID r = i \<longrightarrow> rtExpiration r \<le> t)
              then None else Some s)" if "i \<noteq> []" for i
  proof (cases "find (\<lambda>r. dr_id r = i) (t_device_sessions d)")
    case None
    then show ?thesis using assms(2) by (simp add: d' device_view_def find_delete_key)
  next
    case (Some row)
    then have "dr_id row = i" using find_SomeD by fastforce
    then show ?thesis
      using Some assms(2) purgeable_iff [OF assms(2), of row b t] that
      by (simp add: d' device_view_def find_delete_key)
  qed
  ultimately show ?thesis by blast
qed

interpretation pg_devices: device_session_repository DeviceSessionRepository device_view refresh_view db_ok
proof (unfold_locales, goal_cases)
  case (1 d i s)
  then show ?case by (auto simp: device_view_def dest: find_SomeD)
next
  case (2 i uid ua ip nm w s w')
  then show ?case using find_or_create_done [of i uid ua ip nm w s w'] by (simp add: DeviceSessionRepository_def)
next
  case (3 i uid ua ip nm w e w')
  then show ?case using find_or_create_error by (simp add: DeviceSessionRepository_def)
next
  case (4 i uid w x w')
  then show ?case using revoke_device_done [of i uid w x w'] by (simp add: DeviceSessionRepository_def)
next
  case (5 i uid w e w')
  then show ?case by (auto simp: DeviceSessionRepository_def DeviceSessionRepository_RevokeByID_def dest: in_tx_Inl)
next
  case (6 uid w ss w')
  let ?P = "\<lambda>r. dr_user_id r = uid \<and> dr_revoked_at r = None"
  have ss: "ss = map scanDeviceSession (sql_order_desc dr_last_used_at (filter ?P (t_device_sessions (db w))))"
    and same: "db w' = db w"
    using 6(1) by (auto simp: DeviceSessionRepository_defs sql_list_active_def
        split: sum.splits prod.splits elim!: db_exec_cases)
  have "sorted (map (\<lambda>r. - dr_last_used_at r) (sql_order_desc dr_last_used_at (filter ?P (t_device_sessions (db w)))))"
    unfolding sql_order_desc_def by (rule sorted_sort_key)
  then have "sorted (rev (map dsLastUsedAt ss))"
    by (simp add: ss comp_def sorted_wrt_rev sorted_wrt_map)
  moreover have "set ss = {s \<in> ran (device_view (db w)). dsUserID s = uid \<and> dsRevokedAt s = None}"
    unfolding ss sql_order_desc_def ran_def device_view_Some [OF 6(2)]
    by (auto simp: device_of_active image_iff) (metis device_of_active)
  ultimately show ?case using same by simp
next
  case (7 uid w e w')
  then show ?case
    by (auto simp: DeviceSessionRepository_defs split: sum.splits prod.splits dest: db_exec_Inl)
next
  case (8 b w n w')
  then obtain m where "sql_purge_devices b (clock w) (db w) = Inr (m, db w')"
    by (auto simp: DeviceSessionRepository_defs split: sum.splits prod.splits elim!: db_exec_cases)
  then show ?case using purge_device_done 8(2) by blast
next
  case (9 b w e w')
  then show ?case
    by (auto simp: DeviceSessionRepository_defs split: sum.splits prod.splits dest: db_exec_Inl)
qed

end
