(* ===== verification/OidcServices.thy ===== *)
theory OidcServices
  imports TokenRepo AuthRequestRepo DeviceSessionRepo
begin

text \<open>
  The services of \<open>internal/oidc\<close> over their repositories: \<open>token_svc.go\<close>,
  \<open>authrequest_svc.go\<close>, \<open>client_svc.go\<close> and \<open>device_session_svc.go\<close>. SHA-256 and bcrypt
  are parameters. What a service promises is proved from its repository's contract.
\<close>

section \<open>Tokens\<close>

record 'db tokenService =
  ts_repo :: "'db go_world TokenRepository"
  ts_sha256 :: "byte list \<Rightarrow> byte list"

definition newRefreshTokenValue :: "('db, string) eio" where
  "newRefreshTokenValue = do {
     r \<leftarrow> rand_Read 32;
     case r of
       Inl err \<Rightarrow> ret (Inl (errorf ''generate refresh token: '' err))
     | Inr b \<Rightarrow> ret (Inr (b64_Encode False b)) }"

definition hashRefreshToken :: "(byte list \<Rightarrow> byte list) \<Rightarrow> string \<Rightarrow> string" where
  "hashRefreshToken sha256 raw = hex_Encode (sha256 (bytes_of raw))"

definition tokenService_CreateAccess ::
  "'db tokenService \<Rightarrow> string \<Rightarrow> string \<Rightarrow> string list \<Rightarrow> string list \<Rightarrow> int \<Rightarrow> ('db, string) eio" where
  "tokenService_CreateAccess s clientID subject audience scopes expiration = do {
     i \<leftarrow> ulid_Make;
     now \<leftarrow> time_Now;
     let acc = \<lparr>tkID = i, tkClientID = clientID, tkSubject = subject, tkAudience = audience,
       tkScopes = scopes, tkExpiration = expiration, tkRefreshTokenID = [], tkCreatedAt = now\<rparr>;
     r \<leftarrow> TK_CreateAccess (ts_repo s) acc;
     case r of
       Inl err \<Rightarrow> ret (Inl err)
     | Inr _ \<Rightarrow> ret (Inr i) }"

definition tokenService_CreateAccessAndRefresh ::
  "'db tokenService \<Rightarrow> string \<Rightarrow> string \<Rightarrow> string list \<Rightarrow> string list \<Rightarrow> int \<Rightarrow> int \<Rightarrow> int \<Rightarrow> string list
   \<Rightarrow> string \<Rightarrow> string \<Rightarrow> ('db, string \<times> string) eio" where
  "tokenService_CreateAccessAndRefresh s clientID subject audience scopes accessExpiration refreshExpiration
     authTime amr currentRefreshToken deviceSessionID = do {
     now \<leftarrow> time_Now;
     accessID \<leftarrow> ulid_Make;
     refreshID \<leftarrow> ulid_Make;
     v \<leftarrow> newRefreshTokenValue;
     case v of
       Inl err \<Rightarrow> ret (Inl err)
     | Inr raw \<Rightarrow> do {
         let acc = \<lparr>tkID = accessID, tkClientID = clientID, tkSubject = subject, tkAudience = audience,
           tkScopes = scopes, tkExpiration = accessExpiration, tkRefreshTokenID = refreshID, tkCreatedAt = now\<rparr>;
         let ref = \<lparr>rtID = refreshID, rtToken = hashRefreshToken (ts_sha256 s) raw, rtClientID = clientID,
           rtUserID = subject, rtAudience = audience, rtScopes = scopes, rtAuthTime = authTime, rtAMR = amr,
           rtAccessTokenID = accessID, rtExpiration = refreshExpiration, rtCreatedAt = now,
           rtDeviceSessionID = deviceSessionID\<rparr>;
         let currentHash = (if currentRefreshToken \<noteq> [] then hashRefreshToken (ts_sha256 s) currentRefreshToken else []);
         r \<leftarrow> TK_CreateAccessAndRefresh (ts_repo s) acc ref currentHash;
         case r of
           Inl err \<Rightarrow> ret (Inl err)
         | Inr _ \<Rightarrow> ret (Inr (accessID, raw)) } }"

definition tokenService_GetByID :: "'db tokenService \<Rightarrow> string \<Rightarrow> ('db, Token) eio" where
  "tokenService_GetByID s tokenID = TK_GetByID (ts_repo s) tokenID"

definition tokenService_GetRefreshToken :: "'db tokenService \<Rightarrow> string \<Rightarrow> ('db, RefreshToken) eio" where
  "tokenService_GetRefreshToken s raw = TK_GetRefreshToken (ts_repo s) (hashRefreshToken (ts_sha256 s) raw)"

definition tokenService_GetRefreshInfo :: "'db tokenService \<Rightarrow> string \<Rightarrow> ('db, string \<times> string) eio" where
  "tokenService_GetRefreshInfo s raw = TK_GetRefreshInfo (ts_repo s) (hashRefreshToken (ts_sha256 s) raw)"

definition tokenService_DeleteByUserAndClient :: "'db tokenService \<Rightarrow> string \<Rightarrow> string \<Rightarrow> ('db, unit) eio" where
  "tokenService_DeleteByUserAndClient s userID clientID = TK_DeleteByUserAndClient (ts_repo s) userID clientID"

definition tokenService_Revoke :: "'db tokenService \<Rightarrow> string \<Rightarrow> string \<Rightarrow> ('db, unit) eio" where
  "tokenService_Revoke s tokenID clientID = TK_Revoke (ts_repo s) tokenID clientID"

definition tokenService_RevokeRefreshToken :: "'db tokenService \<Rightarrow> string \<Rightarrow> string \<Rightarrow> ('db, unit) eio" where
  "tokenService_RevokeRefreshToken s raw clientID =
     TK_RevokeRefreshToken (ts_repo s) (hashRefreshToken (ts_sha256 s) raw) clientID"

definition tokenService_DeleteExpired :: "'db tokenService \<Rightarrow> int \<Rightarrow> ('db, nat \<times> nat) eio" where
  "tokenService_DeleteExpired s before = TK_DeleteExpired (ts_repo s) before"

definition tokenService_GetLatestDeviceSessionID :: "'db tokenService \<Rightarrow> string \<Rightarrow> string \<Rightarrow> ('db, string) eio" where
  "tokenService_GetLatestDeviceSessionID s userID clientID = TK_GetLatestDeviceSessionID (ts_repo s) userID clientID"

lemmas tokenService_defs = tokenService_CreateAccess_def tokenService_CreateAccessAndRefresh_def
  tokenService_GetByID_def tokenService_GetRefreshToken_def tokenService_GetRefreshInfo_def
  tokenService_DeleteByUserAndClient_def tokenService_Revoke_def tokenService_RevokeRefreshToken_def
  tokenService_DeleteExpired_def tokenService_GetLatestDeviceSessionID_def

section \<open>Authorization requests\<close>

record 'db authRequestService =
  ars_repo :: "'db go_world AuthRequestRepository"
  ars_authRequestTTL :: int

text \<open>The check that \<open>GetByID\<close> and \<open>GetByCode\<close> share.\<close>

definition check_request_age :: "int \<Rightarrow> goerr + AuthRequest \<Rightarrow> ('db, AuthRequest) eio" where
  "check_request_age ttl r =
     (case r of
        Inl err \<Rightarrow> ret (Inl err)
      | Inr ar \<Rightarrow> do {
          now \<leftarrow> time_Now;
          if now > arCreatedAt ar + ttl
          then ret (Inl (errorf ''auth request expired: '' (Sentinel ErrNotFound)))
          else ret (Inr ar) })"

definition authRequestService_Create :: "'db authRequestService \<Rightarrow> AuthRequest \<Rightarrow> ('db, unit) eio" where
  "authRequestService_Create s ar = AR_Create (ars_repo s) ar"

definition authRequestService_GetByID :: "'db authRequestService \<Rightarrow> string \<Rightarrow> ('db, AuthRequest) eio" where
  "authRequestService_GetByID s i = do {
     r \<leftarrow> AR_GetByID (ars_repo s) i;
     check_request_age (ars_authRequestTTL s) r }"

definition authRequestService_GetByCode :: "'db authRequestService \<Rightarrow> string \<Rightarrow> ('db, AuthRequest) eio" where
  "authRequestService_GetByCode s code = do {
     r \<leftarrow> AR_GetByCode (ars_repo s) code;
     check_request_age (ars_authRequestTTL s) r }"

definition authRequestService_SaveCode :: "'db authRequestService \<Rightarrow> string \<Rightarrow> string \<Rightarrow> ('db, unit) eio" where
  "authRequestService_SaveCode s i code = AR_SaveCode (ars_repo s) i code"

definition authRequestService_CompleteLogin ::
  "'db authRequestService \<Rightarrow> string \<Rightarrow> string \<Rightarrow> int \<Rightarrow> string list \<Rightarrow> string \<Rightarrow> ('db, unit) eio" where
  "authRequestService_CompleteLogin s i userID authTime amr deviceSessionID =
     AR_CompleteLogin (ars_repo s) i userID authTime amr deviceSessionID"

definition authRequestService_Delete :: "'db authRequestService \<Rightarrow> string \<Rightarrow> ('db, unit) eio" where
  "authRequestService_Delete s i = AR_Delete (ars_repo s) i"

definition authRequestService_DeleteExpiredBefore :: "'db authRequestService \<Rightarrow> int \<Rightarrow> ('db, nat) eio" where
  "authRequestService_DeleteExpiredBefore s before = AR_DeleteExpiredBefore (ars_repo s) before"

section \<open>Clients\<close>

record 'db clientService =
  cs_repo :: "'db go_world ClientRepository"
  cs_bcrypt :: "string \<Rightarrow> string \<Rightarrow> bool"

definition clientService_GetByID :: "'db clientService \<Rightarrow> string \<Rightarrow> ('db, Client) eio" where
  "clientService_GetByID s clientID = CL_GetByID (cs_repo s) clientID"

definition clientService_ClientCredentials :: "'db clientService \<Rightarrow> string \<Rightarrow> string \<Rightarrow> ('db, Client) eio" where
  "clientService_ClientCredentials s clientID clientSecret = do {
     r \<leftarrow> CL_GetByID (cs_repo s) clientID;
     case r of
       Inl err \<Rightarrow> ret (Inl err)
     | Inr c \<Rightarrow>
         if \<not> cs_bcrypt s (clSecretHash c) clientSecret
         then ret (Inl (errorf (''client '' @ clientID @ '': '') (Sentinel ErrUnauthorized)))
         else ret (Inr c) }"

definition clientService_AuthorizeSecret :: "'db clientService \<Rightarrow> string \<Rightarrow> string \<Rightarrow> ('db, unit) eio" where
  "clientService_AuthorizeSecret s clientID clientSecret = do {
     r \<leftarrow> clientService_ClientCredentials s clientID clientSecret;
     case r of Inl err \<Rightarrow> ret (Inl err) | Inr _ \<Rightarrow> ret (Inr ()) }"

section \<open>Device sessions\<close>

record 'db deviceSessionService =
  dss_repo :: "'db go_world DeviceSessionRepository"

definition deviceSessionService_FindOrCreate ::
  "'db deviceSessionService \<Rightarrow> string \<Rightarrow> string \<Rightarrow> string \<Rightarrow> string \<Rightarrow> string \<Rightarrow> ('db, DeviceSession) eio" where
  "deviceSessionService_FindOrCreate s i userID userAgent ipAddress deviceName =
     DS_FindOrCreate (dss_repo s) i userID userAgent ipAddress deviceName"

definition deviceSessionService_RevokeByID :: "'db deviceSessionService \<Rightarrow> string \<Rightarrow> string \<Rightarrow> ('db, unit) eio" where
  "deviceSessionService_RevokeByID s i userID = DS_RevokeByID (dss_repo s) i userID"

definition deviceSessionService_ListActiveByUserID ::
  "'db deviceSessionService \<Rightarrow> string \<Rightarrow> ('db, DeviceSession list) eio" where
  "deviceSessionService_ListActiveByUserID s userID = DS_ListActiveByUserID (dss_repo s) userID"

definition deviceSessionService_DeleteRevokedBefore :: "'db deviceSessionService \<Rightarrow> int \<Rightarrow> ('db, nat) eio" where
  "deviceSessionService_DeleteRevokedBefore s before = DS_DeleteRevokedBefore (dss_repo s) before"

section \<open>What the token service promises\<close>

text \<open>SHA-256 sums have 32 bytes.\<close>

definition sha_ok :: "(byte list \<Rightarrow> byte list) \<Rightarrow> bool" where
  "sha_ok sha256 \<longleftrightarrow> (\<forall>bs. length (sha256 bs) = 32)"

lemma hash_nonempty [simp]: "sha_ok sha256 \<Longrightarrow> hashRefreshToken sha256 raw \<noteq> []"
  using length_hex_Encode [of "sha256 (bytes_of raw)"]
  by (auto simp: hashRefreshToken_def sha_ok_def simp del: length_hex_Encode)

context token_repository
begin

lemma service_create_done:
  assumes "run_state (tokenService_CreateAccess \<lparr>ts_repo = repo, ts_sha256 = sha\<rparr> c u aud scp ex) w = (Inr i, w')"
    and "invar (db w)"
  shows "invar (db w') \<and> refresh (db w') = refresh (db w) \<and> access (db w) i = None \<and>
    (\<exists>a. access (db w') = (access (db w))(i \<mapsto> a) \<and> tkID a = i \<and> tkSubject a = u \<and> tkClientID a = c
       \<and> tkScopes a = scp \<and> tkAudience a = aud \<and> tkExpiration a = ex \<and> tkRefreshTokenID a = [])"
  using assms by (auto simp: tokenService_CreateAccess_def Let_def split: prod.splits sum.splits dest!: create_done)

lemma service_rotate_run:
  assumes "run_state (tokenService_CreateAccessAndRefresh \<lparr>ts_repo = repo, ts_sha256 = sha\<rparr> c u aud scp ae re at' amr cur ds) w
      = (r, w')"
  obtains (noentropy) e where "r = Inl e" "db w' = db w"
  | (stored) acc ref raw w1 x where
      "run_state (TK_CreateAccessAndRefresh repo acc ref (if cur = [] then [] else hashRefreshToken sha cur)) w1 = (x, w')"
      "db w1 = db w" "quiet w \<longrightarrow> quiet w1" "clock w \<le> clock w1"
      "r = (case x of Inl e \<Rightarrow> Inl e | Inr _ \<Rightarrow> Inr (tkID acc, raw))"
      "tkSubject acc = u" "tkClientID acc = c" "tkExpiration acc = ae" "tkScopes acc = scp" "tkAudience acc = aud"
      "tkRefreshTokenID acc = rtID ref"
      "rtToken ref = hashRefreshToken sha raw" "rtUserID ref = u" "rtClientID ref = c" "rtExpiration ref = re"
      "rtScopes ref = scp" "rtAudience ref = aud" "rtAMR ref = amr" "rtAuthTime ref = at'"
      "rtAccessTokenID ref = tkID acc" "rtDeviceSessionID ref = ds"
proof (cases "run_state newRefreshTokenValue (pass (pass (pass w)))")
  case (Pair v w1)
  then have w1: "w1 = pass (pass (pass (pass w)))"
    by (auto simp: newRefreshTokenValue_def run_rand_Read split: option.splits)
  show ?thesis
  proof (cases v)
    case (Inl e)
    with assms Pair w1 show ?thesis
      by (intro noentropy [of e]) (auto simp: tokenService_CreateAccessAndRefresh_def)
  next
    case (Inr raw)
    let ?acc = "\<lparr>tkID = ulid w (Suc (step w)), tkClientID = c, tkSubject = u, tkAudience = aud,
           tkScopes = scp, tkExpiration = ae, tkRefreshTokenID = ulid w (Suc (Suc (step w))), tkCreatedAt = clock w\<rparr>"
    let ?ref = "\<lparr>rtID = ulid w (Suc (Suc (step w))), rtToken = hashRefreshToken sha raw, rtClientID = c,
           rtUserID = u, rtAudience = aud, rtScopes = scp, rtAuthTime = at', rtAMR = amr,
           rtAccessTokenID = ulid w (Suc (step w)), rtExpiration = re, rtCreatedAt = clock w,
           rtDeviceSessionID = ds\<rparr>"
    obtain x w2 where run: "run_state (TK_CreateAccessAndRefresh repo ?acc ?ref
        (if cur = [] then [] else hashRefreshToken sha cur)) w1 = (x, w2)" by fastforce
    have "run_state (tokenService_CreateAccessAndRefresh \<lparr>ts_repo = repo, ts_sha256 = sha\<rparr> c u aud scp ae re at' amr cur ds) w
        = (case x of Inl e \<Rightarrow> Inl e | Inr _ \<Rightarrow> Inr (tkID ?acc, raw), w2)"
      using Pair Inr run by (cases x; cases "cur = []") (simp_all add: tokenService_CreateAccessAndRefresh_def Let_def)
    with assms have "w2 = w'" "r = (case x of Inl e \<Rightarrow> Inl e | Inr _ \<Rightarrow> Inr (tkID ?acc, raw))" by simp_all
    with run w1 show ?thesis by (intro stored [of ?acc ?ref w1 x raw]) simp_all
  qed
qed

lemma service_rotate_done:
  assumes "run_state (tokenService_CreateAccessAndRefresh \<lparr>ts_repo = repo, ts_sha256 = sha\<rparr> c u aud scp ae re at' amr cur ds) w
      = (Inr (accessID, raw), w')" "invar (db w)" "sha_ok sha"
  defines "h \<equiv> (if cur = [] then [] else hashRefreshToken sha cur)"
  shows "\<exists>acc ref. invar (db w') \<and> (cur \<noteq> [] \<longrightarrow> (\<exists>old. refresh (db w) h = Some old \<and> clock w < rtExpiration old))
    \<and> refresh (db w') = rotate_refresh h ref (refresh (db w))
    \<and> access (db w') = rotate_access h (refresh (db w)) acc (access (db w))
    \<and> tkID acc = accessID \<and> tkSubject acc = u \<and> tkClientID acc = c \<and> tkExpiration acc = ae \<and> tkScopes acc = scp
    \<and> rtToken ref = hashRefreshToken sha raw \<and> rtUserID ref = u \<and> rtClientID ref = c \<and> rtExpiration ref = re
    \<and> rtScopes ref = scp \<and> rtAccessTokenID ref = accessID \<and> tkRefreshTokenID acc = rtID ref
    \<and> tkAudience acc = aud \<and> rtAudience ref = aud \<and> rtAMR ref = amr \<and> rtAuthTime ref = at'
    \<and> rtDeviceSessionID ref = (if ds = [] \<and> cur \<noteq> [] then rtDeviceSessionID (the (refresh (db w) h)) else ds)"
  using assms(1)
proof (cases rule: service_rotate_run)
  case (stored acc ref raw' w1 x)
  then have x: "x = Inr ()" and id: "tkID acc = accessID" "raw' = raw" by (cases x; simp)+
  note rd = rotate_done [OF stored(1) [unfolded x, folded h_def]]
  have h: "cur \<noteq> [] \<longleftrightarrow> h \<noteq> []" using assms(3) by (simp add: h_def)
  have "\<exists>old. refresh (db w) h = Some old \<and> clock w < rtExpiration old" if "cur \<noteq> []"
    using that h rd assms(2) stored(2,4) by force
  then show ?thesis
    using rd assms(2) stored id h
    by (intro exI [of _ "acc\<lparr>tkCreatedAt := clock w1\<rparr>"]
        exI [of _ "ref\<lparr>rtCreatedAt := clock w1, rtDeviceSessionID := inherit_session h (refresh (db w)) ref\<rparr>"])
      (auto simp: inherit_session_def split: option.splits)
qed simp

lemma service_rotate_error:
  assumes "run_state (tokenService_CreateAccessAndRefresh \<lparr>ts_repo = repo, ts_sha256 = sha\<rparr> c u aud scp ae re at' amr cur ds) w
      = (Inl e, w')" "invar (db w)"
  shows "db w' = db w"
  using assms(1)
proof (cases rule: service_rotate_run)
  case (stored acc ref raw w1 x)
  then show ?thesis using rotate_error [of acc ref _ w1 e w'] assms(2) by (cases x) auto
qed simp

lemma service_rotate_stale:
  assumes "run_state (tokenService_CreateAccessAndRefresh \<lparr>ts_repo = repo, ts_sha256 = sha\<rparr> c u aud scp ae re at' amr cur ds) w
      = (r, w')" "invar (db w)" "quiet w" "cur \<noteq> []" "sha_ok sha" "refresh (db w) (hashRefreshToken sha cur) = None"
  shows "\<exists>e. r = Inl e"
  using assms(1)
proof (cases rule: service_rotate_run)
  case (stored acc ref raw w1 x)
  then have "\<exists>e. x = Inl e"
    using rotate_stale [of acc ref "hashRefreshToken sha cur" w1 x w'] assms by auto
  with stored(5) show ?thesis by auto
qed simp

end

section \<open>What the other services promise\<close>

context auth_request_repository
begin

lemma check_age_done:
  assumes "run_state (check_request_age ttl x) w = (Inr ar, w')"
  shows "x = Inr ar \<and> w' = pass w \<and> clock w \<le> arCreatedAt ar + ttl"
  using assms by (auto simp: check_request_age_def split: sum.splits if_splits)

lemma service_get_done:
  assumes "run_state (authRequestService_GetByID \<lparr>ars_repo = repo, ars_authRequestTTL = ttl\<rparr> i) w = (Inr ar, w')" "invar (db w)"
  shows "db w' = db w \<and> view (db w) i = Some ar \<and> clock w \<le> arCreatedAt ar + ttl"
  using assms
  by (auto simp: authRequestService_GetByID_def split: prod.splits dest!: check_age_done)
    (auto dest: get_done get_clock)

lemma service_code_done:
  assumes "run_state (authRequestService_GetByCode \<lparr>ars_repo = repo, ars_authRequestTTL = ttl\<rparr> c) w = (Inr ar, w')" "invar (db w)"
  shows "db w' = db w \<and> view (db w) (arID ar) = Some ar \<and> arCode ar = c \<and> clock w \<le> arCreatedAt ar + ttl"
  using assms
  by (auto simp: authRequestService_GetByCode_def split: prod.splits dest!: check_age_done)
    (auto dest: code_done code_clock)

end

context client_repository
begin

lemma credentials_done:
  assumes "run_state (clientService_ClientCredentials \<lparr>cs_repo = repo, cs_bcrypt = bc\<rparr> i pw) w = (Inr c, w')" "invar (db w)"
  shows "db w' = db w \<and> view (db w) i = Some c \<and> bc (clSecretHash c) pw"
  using assms by (auto simp: clientService_ClientCredentials_def split: prod.splits sum.splits if_splits dest: get_done)

lemma credentials_live:
  assumes "run_state (clientService_ClientCredentials \<lparr>cs_repo = repo, cs_bcrypt = bc\<rparr> i pw) w = (r, w')" "invar (db w)" "quiet w"
  shows "case view (db w) i of
      None \<Rightarrow> \<exists>e. r = Inl e \<and> errors_Is e ErrNotFound
    | Some c \<Rightarrow> if bc (clSecretHash c) pw then r = Inr c else \<exists>e. r = Inl e \<and> errors_Is e ErrUnauthorized"
  using assms by (auto simp: clientService_ClientCredentials_def split: prod.splits sum.splits if_splits option.splits dest!: get_live)

end

end
