(* ===== verification/OidcAdapter.thy ===== *)
theory OidcAdapter
  imports OidcServices
begin

text \<open>
  \<open>internal/oidc/adapter\<close>: what the OpenID Connect library calls. \<open>client.go\<close> and
  \<open>authrequest.go\<close> present the stored records to it, \<open>storage.go\<close> is its storage. The
  library itself is not part of the repository: its request values come in as \<open>token_request\<close>,
  its time conversion \<open>oidc.FromTime\<close> is a parameter.
\<close>

section \<open>Clients and scopes\<close>

datatype application_type = ApplicationTypeWeb | ApplicationTypeUserAgent | ApplicationTypeNative
datatype auth_method = AuthMethodBasic | AuthMethodPost | AuthMethodNone | AuthMethodPrivateKeyJWT
datatype access_token_type = AccessTokenTypeBearer | AccessTokenTypeJWT

definition ClientAdapter_LoginURL :: "Client \<Rightarrow> string \<Rightarrow> string" where
  "ClientAdapter_LoginURL c i = ''/login?authRequestID='' @ i"

definition ClientAdapter_ApplicationType :: "Client \<Rightarrow> application_type" where
  "ClientAdapter_ApplicationType c =
     (if clApplicationType c = ''native'' then ApplicationTypeNative
      else if clApplicationType c = ''user_agent'' then ApplicationTypeUserAgent
      else ApplicationTypeWeb)"

definition ClientAdapter_AuthMethod :: "Client \<Rightarrow> auth_method" where
  "ClientAdapter_AuthMethod c =
     (if clAuthMethod c = ''client_secret_post'' then AuthMethodPost
      else if clAuthMethod c = ''none'' then AuthMethodNone
      else if clAuthMethod c = ''private_key_jwt'' then AuthMethodPrivateKeyJWT
      else AuthMethodBasic)"

definition ClientAdapter_AccessTokenType :: "Client \<Rightarrow> access_token_type" where
  "ClientAdapter_AccessTokenType c =
     (if clAccessTokenType c = ''jwt'' then AccessTokenTypeJWT else AccessTokenTypeBearer)"

definition ClientAdapter_IDTokenLifetime :: "Client \<Rightarrow> int" where
  "ClientAdapter_IDTokenLifetime c = wrap64 (clIDTokenLifetimeSeconds c * Second)"

definition ClientAdapter_ClockSkew :: "Client \<Rightarrow> int" where
  "ClientAdapter_ClockSkew c = wrap64 (clClockSkewSeconds c * Second)"

text \<open>The rest of what a client tells the library; the two lists are converted entry by entry.\<close>

definition ClientAdapter_GetID :: "Client \<Rightarrow> string" where
  "ClientAdapter_GetID c = clID c"

definition ClientAdapter_RedirectURIs :: "Client \<Rightarrow> string list" where
  "ClientAdapter_RedirectURIs c = clRedirectURIs c"

definition ClientAdapter_PostLogoutRedirectURIs :: "Client \<Rightarrow> string list" where
  "ClientAdapter_PostLogoutRedirectURIs c = clPostLogoutRedirectURIs c"

definition ClientAdapter_DevMode :: "Client \<Rightarrow> bool" where
  "ClientAdapter_DevMode c = False"

definition ClientAdapter_IDTokenUserinfoClaimsAssertion :: "Client \<Rightarrow> bool" where
  "ClientAdapter_IDTokenUserinfoClaimsAssertion c = clIDTokenUserinfoAssertion c"

definition ClientAdapter_ResponseTypes :: "Client \<Rightarrow> string list" where
  "ClientAdapter_ResponseTypes c = map (\<lambda>rt. rt) (clResponseTypes c)"

definition ClientAdapter_GrantTypes :: "Client \<Rightarrow> string list" where
  "ClientAdapter_GrantTypes c = map (\<lambda>gt. gt) (clGrantTypes c)"

fun scope_loop :: "string list \<Rightarrow> string \<Rightarrow> bool" where
  "scope_loop [] scope = False"
| "scope_loop (s # ss) scope = (if s = scope then True else scope_loop ss scope)"

definition ClientAdapter_IsScopeAllowed :: "Client \<Rightarrow> string \<Rightarrow> bool" where
  "ClientAdapter_IsScopeAllowed c scope =
     (if clAllowedScopes c = [] then False else scope_loop (clAllowedScopes c) scope)"

fun filter_loop :: "string set \<Rightarrow> string list \<Rightarrow> string list \<Rightarrow> string list" where
  "filter_loop allowed filtered [] = filtered"
| "filter_loop allowed filtered (s # ss) =
     filter_loop allowed (if s \<in> allowed then filtered @ [s] else filtered) ss"

definition ClientAdapter_filterScopes :: "Client \<Rightarrow> string list \<Rightarrow> string list" where
  "ClientAdapter_filterScopes c scopes =
     (if clAllowedScopes c = [] then scopes else filter_loop (set (clAllowedScopes c)) [] scopes)"

lemma scope_loop_iff: "scope_loop ss scope \<longleftrightarrow> scope \<in> set ss"
  by (induction ss) auto

lemma filter_loop_eq: "filter_loop a f ss = f @ filter (\<lambda>s. s \<in> a) ss"
  by (induction ss arbitrary: f) auto

section \<open>Requests as the library sees them\<close>

text \<open>A request of another type carries what of \<open>GetAuthTime\<close>, \<open>GetAMR\<close> and
  \<open>GetDeviceSessionID\<close> it implements.\<close>

datatype token_request =
    FromAuthRequest AuthRequest
  | FromRefreshToken RefreshToken "string list"
  | ClientCredentialsRequest string "string list"
  | OtherTokenRequest string "string list" "string list" "int option" "string list option" "string option"

definition NewRefreshTokenRequest :: "RefreshToken \<Rightarrow> token_request" where
  "NewRefreshTokenRequest rt = FromRefreshToken rt (rtScopes rt)"

fun SetCurrentScopes :: "string list \<Rightarrow> token_request \<Rightarrow> token_request" where
  "SetCurrentScopes s (FromRefreshToken rt _) = FromRefreshToken rt s"
| "SetCurrentScopes s req = req"

fun GetSubject :: "token_request \<Rightarrow> string" where
  "GetSubject (FromAuthRequest ar) = arUserID ar"
| "GetSubject (FromRefreshToken rt _) = rtUserID rt"
| "GetSubject (ClientCredentialsRequest c _) = c"
| "GetSubject (OtherTokenRequest s _ _ _ _ _) = s"

fun GetAudience :: "token_request \<Rightarrow> string list" where
  "GetAudience (FromAuthRequest ar) = [arClientID ar]"
| "GetAudience (FromRefreshToken rt _) = rtAudience rt"
| "GetAudience (ClientCredentialsRequest c _) = [c]"
| "GetAudience (OtherTokenRequest _ a _ _ _ _) = a"

fun GetScopes :: "token_request \<Rightarrow> string list" where
  "GetScopes (FromAuthRequest ar) = arScopes ar"
| "GetScopes (FromRefreshToken rt scopes) = scopes"
| "GetScopes (ClientCredentialsRequest _ scopes) = scopes"
| "GetScopes (OtherTokenRequest _ _ scopes _ _ _) = scopes"

definition AuthRequest_GetCodeChallenge :: "AuthRequest \<Rightarrow> (string \<times> string) option" where
  "AuthRequest_GetCodeChallenge a =
     (if arCodeChallenge a = [] then None else Some (arCodeChallenge a, arCodeChallengeMethod a))"

fun clientIDFromRequest :: "token_request \<Rightarrow> string" where
  "clientIDFromRequest (FromAuthRequest ar) = arClientID ar"
| "clientIDFromRequest (FromRefreshToken rt _) = rtClientID rt"
| "clientIDFromRequest (ClientCredentialsRequest c _) = c"
| "clientIDFromRequest (OtherTokenRequest _ _ _ _ _ _) = []"

fun extractAuthTimeAMR :: "token_request \<Rightarrow> int \<times> string list" where
  "extractAuthTimeAMR (FromAuthRequest ar) = (arAuthTime ar, arAMR ar)"
| "extractAuthTimeAMR (FromRefreshToken rt _) = (rtAuthTime rt, rtAMR rt)"
| "extractAuthTimeAMR (OtherTokenRequest _ _ _ t amr _) =
     (case t of None \<Rightarrow> zeroTime | Some x \<Rightarrow> x, case amr of None \<Rightarrow> [] | Some x \<Rightarrow> x)"
| "extractAuthTimeAMR (ClientCredentialsRequest _ _) = (zeroTime, [])"

fun extractDeviceSessionID :: "token_request \<Rightarrow> string" where
  "extractDeviceSessionID (FromAuthRequest ar) = arDeviceSessionID ar"
| "extractDeviceSessionID (OtherTokenRequest _ _ _ _ _ d) = stringOrEmpty d"
| "extractDeviceSessionID _ = []"

definition isPublicClient :: "string \<Rightarrow> bool" where
  "isPublicClient authMethod \<longleftrightarrow> authMethod = ''none''"

text \<open>\<open>internalErr\<close> logs the error and answers without it.\<close>

definition internalErr :: "string \<Rightarrow> goerr \<Rightarrow> goerr" where
  "internalErr msg err = OidcErr ServerError ''internal error''"

section \<open>The storage\<close>

record UserClaims =
  ucSubject :: string
  ucEmail :: string
  ucEmailVerified :: bool
  ucName :: string
  ucGivenName :: string
  ucFamilyName :: string
  ucPicture :: string
  ucUpdatedAt :: int

text \<open>The parts of the library's user info and introspection response that the code sets.\<close>

record UserInfo =
  uiSubject :: string
  uiName :: string
  uiGivenName :: string
  uiFamilyName :: string
  uiPicture :: string
  uiUpdatedAt :: int
  uiEmail :: string
  uiEmailVerified :: bool

record IntrospectionResponse =
  irActive :: bool
  irClientID :: string
  irScope :: "string list"
  irAudience :: "string list"
  irExpiration :: int
  irIssuedAt :: int
  irTokenType :: string
  irUser :: UserInfo

record oidc_auth_request =
  orScopes :: "string list"
  orResponseType :: string
  orClientID :: string
  orRedirectURI :: string
  orState :: string
  orNonce :: string
  orResponseMode :: string
  orPrompt :: "string list"
  orMaxAge :: "int option"
  orLoginHint :: string
  orCodeChallenge :: string
  orCodeChallengeMethod :: string

record 'db StorageAdapter =
  sa_users :: "string \<Rightarrow> ('db, UserClaims) eio"
  sa_authReqs :: "'db authRequestService"
  sa_clients :: "'db clientService"
  sa_tokens :: "'db tokenService"
  sa_accessTTL :: int
  sa_refreshTTL :: int
  sa_healthCheck :: "('db, unit) eio"
  sa_FromTime :: "int \<Rightarrow> int"

definition StorageAdapter_CreateAuthRequest ::
  "'db StorageAdapter \<Rightarrow> oidc_auth_request \<Rightarrow> string \<Rightarrow> ('db, AuthRequest) eio" where
  "StorageAdapter_CreateAuthRequest s authReq userID = do {
     i \<leftarrow> ulid_Make;
     let ar = \<lparr>arID = i, arClientID = orClientID authReq, arRedirectURI = orRedirectURI authReq,
       arState = orState authReq, arNonce = orNonce authReq, arScopes = orScopes authReq,
       arResponseType = orResponseType authReq, arResponseMode = orResponseMode authReq,
       arCodeChallenge = orCodeChallenge authReq, arCodeChallengeMethod = orCodeChallengeMethod authReq,
       arPrompt = orPrompt authReq,
       arMaxAge = map_option (\<lambda>m. min m (2 ^ 63 - 1)) (orMaxAge authReq),
       arLoginHint = orLoginHint authReq, arUserID = userID, arAuthTime = zeroTime, arAMR = [],
       arIsDone = False, arCode = [], arCreatedAt = zeroTime, arDeviceSessionID = []\<rparr>;
     c \<leftarrow> clientService_GetByID (sa_clients s) (arClientID ar);
     if (case c of Inl _ \<Rightarrow> False | Inr client \<Rightarrow> isPublicClient (clAuthMethod client) \<and> arCodeChallenge ar = [])
     then ret (Inl (OidcErr InvalidRequest ''code_challenge is required for public clients (PKCE S256)''))
     else do {
       r \<leftarrow> authRequestService_Create (sa_authReqs s) ar;
       case r of
         Inl err \<Rightarrow> ret (Inl (internalErr ''create auth request'' err))
       | Inr _ \<Rightarrow> ret (Inr ar) } }"

definition StorageAdapter_AuthRequestByID :: "'db StorageAdapter \<Rightarrow> string \<Rightarrow> ('db, AuthRequest) eio" where
  "StorageAdapter_AuthRequestByID s i = do {
     r \<leftarrow> authRequestService_GetByID (sa_authReqs s) i;
     case r of
       Inl err \<Rightarrow> if errors_Is err ErrNotFound then ret (Inl (OidcErr InvalidRequest ''auth request not found''))
                  else ret (Inl (internalErr ''get auth request by id'' err))
     | Inr ar \<Rightarrow> ret (Inr ar) }"

definition StorageAdapter_AuthRequestByCode :: "'db StorageAdapter \<Rightarrow> string \<Rightarrow> ('db, AuthRequest) eio" where
  "StorageAdapter_AuthRequestByCode s code = do {
     r \<leftarrow> authRequestService_GetByCode (sa_authReqs s) code;
     case r of
       Inl err \<Rightarrow> if errors_Is err ErrNotFound then ret (Inl (OidcErr InvalidRequest ''auth request not found for code''))
                  else ret (Inl (internalErr ''get auth request by code'' err))
     | Inr ar \<Rightarrow> ret (Inr ar) }"

definition StorageAdapter_SaveAuthCode :: "'db StorageAdapter \<Rightarrow> string \<Rightarrow> string \<Rightarrow> ('db, unit) eio" where
  "StorageAdapter_SaveAuthCode s i code = do {
     r \<leftarrow> authRequestService_SaveCode (sa_authReqs s) i code;
     case r of Inl err \<Rightarrow> ret (Inl (internalErr ''save auth code'' err)) | Inr _ \<Rightarrow> ret (Inr ()) }"

definition StorageAdapter_DeleteAuthRequest :: "'db StorageAdapter \<Rightarrow> string \<Rightarrow> ('db, unit) eio" where
  "StorageAdapter_DeleteAuthRequest s i = do {
     r \<leftarrow> authRequestService_Delete (sa_authReqs s) i;
     case r of Inl err \<Rightarrow> ret (Inl (internalErr ''delete auth request'' err)) | Inr _ \<Rightarrow> ret (Inr ()) }"

definition StorageAdapter_CreateAccessToken ::
  "'db StorageAdapter \<Rightarrow> token_request \<Rightarrow> ('db, string \<times> int) eio" where
  "StorageAdapter_CreateAccessToken s request = do {
     now \<leftarrow> time_Now;
     let expiration = now + sa_accessTTL s;
     r \<leftarrow> tokenService_CreateAccess (sa_tokens s) (clientIDFromRequest request) (GetSubject request)
            (GetAudience request) (GetScopes request) expiration;
     case r of
       Inl err \<Rightarrow> ret (Inl (internalErr ''create access token'' err))
     | Inr tokenID \<Rightarrow> ret (Inr (tokenID, expiration)) }"

definition StorageAdapter_CreateAccessAndRefreshTokens ::
  "'db StorageAdapter \<Rightarrow> token_request \<Rightarrow> string \<Rightarrow> ('db, string \<times> string \<times> int) eio" where
  "StorageAdapter_CreateAccessAndRefreshTokens s request currentRefreshToken = do {
     now1 \<leftarrow> time_Now;
     let accessExp = now1 + sa_accessTTL s;
     now2 \<leftarrow> time_Now;
     let refreshExp = now2 + sa_refreshTTL s;
     let (authTime, amr) = extractAuthTimeAMR request;
     let deviceSessionID = extractDeviceSessionID request;
     r \<leftarrow> tokenService_CreateAccessAndRefresh (sa_tokens s) (clientIDFromRequest request) (GetSubject request)
            (GetAudience request) (GetScopes request) accessExp refreshExp authTime amr
            currentRefreshToken deviceSessionID;
     case r of
       Inl err \<Rightarrow> if errors_Is err ErrNotFound then ret (Inl (Sentinel OpErrInvalidRefreshToken))
                  else ret (Inl (internalErr ''create access and refresh tokens'' err))
     | Inr (accessID, refreshToken) \<Rightarrow> ret (Inr (accessID, refreshToken, accessExp)) }"

definition StorageAdapter_TokenRequestByRefreshToken ::
  "'db StorageAdapter \<Rightarrow> string \<Rightarrow> ('db, token_request) eio" where
  "StorageAdapter_TokenRequestByRefreshToken s refreshToken = do {
     r \<leftarrow> tokenService_GetRefreshToken (sa_tokens s) refreshToken;
     case r of
       Inl err \<Rightarrow> if errors_Is err ErrNotFound then ret (Inl (Sentinel OpErrInvalidRefreshToken))
                  else ret (Inl (internalErr ''get refresh token'' err))
     | Inr rt \<Rightarrow> ret (Inr (NewRefreshTokenRequest rt)) }"

definition StorageAdapter_TerminateSession :: "'db StorageAdapter \<Rightarrow> string \<Rightarrow> string \<Rightarrow> ('db, unit) eio" where
  "StorageAdapter_TerminateSession s userID clientID = do {
     r \<leftarrow> tokenService_DeleteByUserAndClient (sa_tokens s) userID clientID;
     case r of Inl err \<Rightarrow> ret (Inl (internalErr ''terminate session'' err)) | Inr _ \<Rightarrow> ret (Inr ()) }"

definition StorageAdapter_RevokeToken ::
  "'db StorageAdapter \<Rightarrow> string \<Rightarrow> string \<Rightarrow> string \<Rightarrow> ('db, unit) eio" where
  "StorageAdapter_RevokeToken s tokenOrTokenID userID clientID =
     (if userID \<noteq> [] then do {
        r \<leftarrow> tokenService_RevokeRefreshToken (sa_tokens s) tokenOrTokenID clientID;
        case r of
          Inl err \<Rightarrow> if errors_Is err ErrNotFound then ret (Inl (OidcErr InvalidRequest ''token not found''))
                     else ret (Inl (OidcErrWith ServerError err))
        | Inr _ \<Rightarrow> ret (Inr ()) }
      else do {
        r \<leftarrow> tokenService_Revoke (sa_tokens s) tokenOrTokenID clientID;
        case r of
          Inl err \<Rightarrow> if errors_Is err ErrNotFound then ret (Inl (OidcErr InvalidRequest ''token not found''))
                     else ret (Inl (OidcErrWith ServerError err))
        | Inr _ \<Rightarrow> ret (Inr ()) })"

definition StorageAdapter_GetRefreshTokenInfo ::
  "'db StorageAdapter \<Rightarrow> string \<Rightarrow> string \<Rightarrow> ('db, string \<times> string) eio" where
  "StorageAdapter_GetRefreshTokenInfo s clientID token = do {
     r \<leftarrow> tokenService_GetRefreshInfo (sa_tokens s) token;
     case r of
       Inl err \<Rightarrow> if errors_Is err ErrNotFound then ret (Inl (Sentinel OpErrInvalidRefreshToken))
                  else ret (Inl (internalErr ''get refresh token info'' err))
     | Inr ui \<Rightarrow> ret (Inr ui) }"

definition StorageAdapter_GetClientByClientID :: "'db StorageAdapter \<Rightarrow> string \<Rightarrow> ('db, Client) eio" where
  "StorageAdapter_GetClientByClientID s clientID = do {
     r \<leftarrow> clientService_GetByID (sa_clients s) clientID;
     case r of
       Inl err \<Rightarrow> if errors_Is err ErrNotFound then ret (Inl (OidcErr InvalidClient ''client not found''))
                  else ret (Inl (internalErr ''get client by id'' err))
     | Inr c \<Rightarrow> ret (Inr c) }"

definition StorageAdapter_AuthorizeClientIDSecret ::
  "'db StorageAdapter \<Rightarrow> string \<Rightarrow> string \<Rightarrow> ('db, unit) eio" where
  "StorageAdapter_AuthorizeClientIDSecret s clientID clientSecret = do {
     r \<leftarrow> clientService_AuthorizeSecret (sa_clients s) clientID clientSecret;
     case r of
       Inl err \<Rightarrow>
         if errors_Is err ErrNotFound then ret (Inl (OidcErr InvalidClient ''client not found''))
         else if errors_Is err ErrUnauthorized then ret (Inl (OidcErr InvalidClient ''invalid client secret''))
         else ret (Inl (internalErr ''authorize client secret'' err))
     | Inr _ \<Rightarrow> ret (Inr ()) }"

definition StorageAdapter_ClientCredentials :: "'db StorageAdapter \<Rightarrow> string \<Rightarrow> string \<Rightarrow> ('db, Client) eio" where
  "StorageAdapter_ClientCredentials s clientID clientSecret = do {
     r \<leftarrow> clientService_ClientCredentials (sa_clients s) clientID clientSecret;
     case r of
       Inl err \<Rightarrow>
         if errors_Is err ErrNotFound then ret (Inl (OidcErr InvalidClient ''client not found''))
         else if errors_Is err ErrUnauthorized then ret (Inl (OidcErr InvalidClient ''invalid client secret''))
         else ret (Inl (internalErr ''client credentials'' err))
     | Inr c \<Rightarrow> ret (Inr c) }"

definition StorageAdapter_ClientCredentialsTokenRequest :: "string \<Rightarrow> string list \<Rightarrow> goerr + token_request" where
  "StorageAdapter_ClientCredentialsTokenRequest clientID scopes = Inr (ClientCredentialsRequest clientID scopes)"

text \<open>The loop over the scopes that both user-info functions run.\<close>

fun apply_scopes :: "(int \<Rightarrow> int) \<Rightarrow> UserClaims \<Rightarrow> string list \<Rightarrow> UserInfo \<Rightarrow> UserInfo" where
  "apply_scopes fromTime user [] ui = ui"
| "apply_scopes fromTime user (scope # scopes) ui = apply_scopes fromTime user scopes
     (if scope = ''openid'' then ui\<lparr>uiSubject := ucSubject user\<rparr>
      else if scope = ''profile'' then ui\<lparr>uiName := ucName user, uiGivenName := ucGivenName user,
        uiFamilyName := ucFamilyName user, uiPicture := ucPicture user,
        uiUpdatedAt := fromTime (ucUpdatedAt user)\<rparr>
      else if scope = ''email'' then ui\<lparr>uiEmail := ucEmail user, uiEmailVerified := ucEmailVerified user\<rparr>
      else ui)"

definition StorageAdapter_setUserinfo ::
  "'db StorageAdapter \<Rightarrow> UserInfo \<Rightarrow> string \<Rightarrow> string list \<Rightarrow> ('db, UserInfo) eio" where
  "StorageAdapter_setUserinfo s userinfo userID scopes = do {
     r \<leftarrow> sa_users s userID;
     case r of
       Inl err \<Rightarrow> if errors_Is err ErrNotFound then ret (Inl (OidcErr InvalidRequest ''user not found''))
                  else ret (Inl (internalErr ''get user for userinfo'' err))
     | Inr user \<Rightarrow> ret (Inr (apply_scopes (sa_FromTime s) user scopes userinfo)) }"

definition StorageAdapter_SetUserinfoFromScopes ::
  "'db StorageAdapter \<Rightarrow> UserInfo \<Rightarrow> string \<Rightarrow> string list \<Rightarrow> ('db, UserInfo) eio" where
  "StorageAdapter_SetUserinfoFromScopes s userinfo userID scopes = StorageAdapter_setUserinfo s userinfo userID scopes"

definition StorageAdapter_SetUserinfoFromRequest ::
  "'db StorageAdapter \<Rightarrow> UserInfo \<Rightarrow> token_request \<Rightarrow> string list \<Rightarrow> ('db, UserInfo) eio" where
  "StorageAdapter_SetUserinfoFromRequest s userinfo request scopes =
     StorageAdapter_setUserinfo s userinfo (GetSubject request) scopes"

definition StorageAdapter_SetUserinfoFromToken ::
  "'db StorageAdapter \<Rightarrow> UserInfo \<Rightarrow> string \<Rightarrow> ('db, UserInfo) eio" where
  "StorageAdapter_SetUserinfoFromToken s userinfo tokenID = do {
     r \<leftarrow> tokenService_GetByID (sa_tokens s) tokenID;
     case r of
       Inl err \<Rightarrow> if errors_Is err ErrNotFound then ret (Inl (OidcErr InvalidRequest ''token not found''))
                  else ret (Inl (internalErr ''get token for userinfo'' err))
     | Inr token \<Rightarrow> StorageAdapter_setUserinfo s userinfo (tkSubject token) (tkScopes token) }"

definition StorageAdapter_SetIntrospectionFromToken ::
  "'db StorageAdapter \<Rightarrow> IntrospectionResponse \<Rightarrow> string \<Rightarrow> ('db, IntrospectionResponse) eio" where
  "StorageAdapter_SetIntrospectionFromToken s introspection tokenID = do {
     r \<leftarrow> tokenService_GetByID (sa_tokens s) tokenID;
     case r of
       Inl err \<Rightarrow> if errors_Is err ErrNotFound then ret (Inr (introspection\<lparr>irActive := False\<rparr>))
                  else ret (Inl (internalErr ''get token for introspection'' err))
     | Inr token \<Rightarrow> do {
         let resp = introspection\<lparr>irActive := True, irClientID := tkClientID token, irScope := tkScopes token,
           irAudience := tkAudience token, irExpiration := sa_FromTime s (tkExpiration token),
           irIssuedAt := sa_FromTime s (tkCreatedAt token), irTokenType := ''Bearer'',
           irUser := (irUser introspection)\<lparr>uiSubject := tkSubject token\<rparr>\<rparr>;
         u \<leftarrow> sa_users s (tkSubject token);
         case u of
           Inl err \<Rightarrow> if \<not> errors_Is err ErrNotFound then ret (Inl (internalErr ''get user for introspection'' err))
                      else ret (Inr resp)
         | Inr user \<Rightarrow> ret (Inr (resp\<lparr>irUser := apply_scopes (sa_FromTime s) user (tkScopes token) (irUser resp)\<rparr>)) } }"

definition StorageAdapter_GetPrivateClaimsFromScopes ::
  "'db StorageAdapter \<Rightarrow> string \<Rightarrow> string \<Rightarrow> ('db, (string \<times> string) list) eio" where
  "StorageAdapter_GetPrivateClaimsFromScopes s userID clientID = do {
     r \<leftarrow> tokenService_GetLatestDeviceSessionID (sa_tokens s) userID clientID;
     case r of
       Inl err \<Rightarrow> ret (Inr [])
     | Inr dsid \<Rightarrow> if dsid = [] then ret (Inr []) else ret (Inr [(''dsid'', dsid)]) }"

definition StorageAdapter_ValidateJWTProfileScopes :: "string \<Rightarrow> string list \<Rightarrow> goerr + string list" where
  "StorageAdapter_ValidateJWTProfileScopes userID scopes = Inl (ErrorString ''jwt profile grant not supported'')"

definition StorageAdapter_Health :: "'db StorageAdapter \<Rightarrow> ('db, unit) eio" where
  "StorageAdapter_Health s = sa_healthCheck s"

definition StorageAdapter_GetKeyByIDAndClientID :: "string \<Rightarrow> string \<Rightarrow> goerr + 'key" where
  "StorageAdapter_GetKeyByIDAndClientID keyID clientID = Inl (ErrorString ''jwt profile grant not supported'')"

text \<open>The token library restricts additional scopes by the same filter in both kinds of tokens.\<close>

definition ClientAdapter_RestrictAdditionalIdTokenScopes :: "Client \<Rightarrow> string list \<Rightarrow> string list" where
  "ClientAdapter_RestrictAdditionalIdTokenScopes c = ClientAdapter_filterScopes c"

definition ClientAdapter_RestrictAdditionalAccessTokenScopes :: "Client \<Rightarrow> string list \<Rightarrow> string list" where
  "ClientAdapter_RestrictAdditionalAccessTokenScopes c = ClientAdapter_filterScopes c"

end
