(* ===== verification/IdentitySystem.thy ===== *)
theory IdentitySystem
  imports IdentitySvc OidcAdapter
begin

text \<open>
  The identity service as a whole. \<open>userClaimsBridge\<close> and \<open>idp_storage\<close> are the wiring of
  \<open>main.go\<close>. The second part is the database under concurrent requests: every repository
  operation is a step, taken in a world of its own (clock, failures and identifiers are
  arbitrary), in any order; lemmas say what such a schedule keeps.
\<close>

section \<open>Wiring\<close>

definition userClaimsBridge_UserClaims :: "'db go_world Repository \<Rightarrow> string \<Rightarrow> ('db, UserClaims) eio" where
  "userClaimsBridge_UserClaims repo userID = do {
     r \<leftarrow> identityService_GetUser repo userID;
     case r of
       Inl err \<Rightarrow> ret (Inl err)
     | Inr user \<Rightarrow> ret (Inr \<lparr>ucSubject = uID user, ucEmail = uEmail user, ucEmailVerified = uEmailVerified user,
         ucName = uName user, ucGivenName = uGivenName user, ucFamilyName = uFamilyName user,
         ucPicture = uPicture user, ucUpdatedAt = uUpdatedAt user\<rparr>) }"

text \<open>What the services take from the libraries: SHA-256, bcrypt, \<open>oidc.FromTime\<close> and the
  database's ping.\<close>

record libs =
  lib_sha256 :: "byte list \<Rightarrow> byte list"
  lib_bcrypt :: "string \<Rightarrow> string \<Rightarrow> bool"
  lib_FromTime :: "int \<Rightarrow> int"
  lib_ping :: "(identity_db, unit) eio"
  lib_aggLock :: bool

definition idp_tokens :: "libs \<Rightarrow> identity_db tokenService" where
  "idp_tokens L = \<lparr>ts_repo = TokenRepository, ts_sha256 = lib_sha256 L\<rparr>"

definition idp_requests :: "int \<Rightarrow> identity_db authRequestService" where
  "idp_requests ttlMinutes = \<lparr>ars_repo = AuthRequestRepository, ars_authRequestTTL = wrap64 (ttlMinutes * Minute)\<rparr>"

definition idp_clients :: "libs \<Rightarrow> identity_db clientService" where
  "idp_clients L = \<lparr>cs_repo = ClientRepository, cs_bcrypt = lib_bcrypt L\<rparr>"

definition idp_devices :: "identity_db deviceSessionService" where
  "idp_devices = \<lparr>dss_repo = DeviceSessionRepository\<rparr>"

definition idp_storage :: "libs \<Rightarrow> int \<Rightarrow> int \<Rightarrow> int \<Rightarrow> identity_db StorageAdapter" where
  "idp_storage L ttlMinutes accessMinutes refreshDays =
     \<lparr>sa_users = userClaimsBridge_UserClaims (UserRepository (lib_aggLock L)),
      sa_authReqs = idp_requests ttlMinutes, sa_clients = idp_clients L, sa_tokens = idp_tokens L,
      sa_accessTTL = wrap64 (accessMinutes * Minute), sa_refreshTTL = wrap64 (refreshDays * 24 * Hour),
      sa_healthCheck = lib_ping L, sa_FromTime = lib_FromTime L\<rparr>"

text \<open>One round of each of the cleanup loops; a failed round is logged and the loop goes on.\<close>

definition authRequestCleanup_round :: "'db authRequestService \<Rightarrow> int \<Rightarrow> ('db, nat) eio" where
  "authRequestCleanup_round svc ttl = do {
     now \<leftarrow> time_Now;
     authRequestService_DeleteExpiredBefore svc (now - ttl) }"

definition tokenCleanup_round :: "'db tokenService \<Rightarrow> ('db, nat \<times> nat) eio" where
  "tokenCleanup_round svc = do {
     now \<leftarrow> time_Now;
     tokenService_DeleteExpired svc now }"

definition deviceSessionCleanup_round :: "'db deviceSessionService \<Rightarrow> int \<Rightarrow> ('db, nat) eio" where
  "deviceSessionCleanup_round svc maxAge = do {
     now \<leftarrow> time_Now;
     deviceSessionService_DeleteRevokedBefore svc (now - maxAge) }"

section \<open>Steps\<close>

text \<open>
  The operations concurrent requests run. A new user comes with its first identity, as
  \<open>FindOrCreateByFederatedLogin\<close> makes them.
\<close>

datatype user_stmt =
    UsGet string | UsFind string string | UsCreate string FederatedClaims string string int
  | UsClaims string FederatedClaims int | UsFidClaims string string FederatedClaims int
  | UsList string | UsDelete string string | UsLocal string "string option" "string option" int

datatype token_stmt =
    TkCreate Token | TkRotate Token RefreshToken string | TkGet string | TkGetRefresh string | TkInfo string
  | TkDeleteUser string string | TkRevoke string string | TkRevokeRefresh string string
  | TkDeleteExpired int | TkLatest string string

datatype request_stmt =
    RqCreate AuthRequest | RqGet string | RqCode string | RqSave string string
  | RqLogin string string int "string list" string | RqDelete string | RqDeleteExpired int | RqClient string

datatype device_stmt =
    DvFind string string string string string | DvRevoke string string | DvList string | DvPurge int

datatype idp_stmt = UserStmt user_stmt | TokenStmt token_stmt | RequestStmt request_stmt | DeviceStmt device_stmt

definition new_user :: "FederatedClaims \<Rightarrow> string \<Rightarrow> int \<Rightarrow> User" where
  "new_user c uid now = \<lparr>uID = uid, uEmail = fcEmail c, uEmailVerified = fcEmailVerified c, uName = fcName c,
     uGivenName = fcGivenName c, uFamilyName = fcFamilyName c, uPicture = fcPicture c, uCreatedAt = now,
     uUpdatedAt = now, uLocalName = None, uLocalPicture = None\<rparr>"

definition new_identity :: "string \<Rightarrow> FederatedClaims \<Rightarrow> string \<Rightarrow> string \<Rightarrow> int \<Rightarrow> FederatedIdentity" where
  "new_identity p c uid fid now = \<lparr>fiID = fid, fiUserID = uid, fiProvider = p, fiProviderSubject = fcSubject c,
     fiProviderEmail = fcEmail c, fiProviderEmailVerified = fcEmailVerified c, fiProviderDisplayName = fcName c,
     fiProviderGivenName = fcGivenName c, fiProviderFamilyName = fcFamilyName c,
     fiProviderPictureURL = fcPicture c, fiLastLoginAt = now, fiCreatedAt = now, fiUpdatedAt = now\<rparr>"

definition done_with :: "('s, goerr + 'a) state \<Rightarrow> ('s, goerr + unit) state" where
  "done_with m = do { r \<leftarrow> m; ret (map_sum id (\<lambda>_. ()) r) }"

fun exec_user :: "bool \<Rightarrow> user_stmt \<Rightarrow> (identity_db, unit) eio" where
  "exec_user agg (UsGet u) = done_with (User_GetByID (UserRepository agg) u)"
| "exec_user agg (UsFind p s) = done_with (FindByFederatedIdentity (UserRepository agg) p s)"
| "exec_user agg (UsCreate p c u f now) =
     CreateWithFederatedIdentity (UserRepository agg) (new_user c u now) (new_identity p c u f now)"
| "exec_user agg (UsClaims u c now) = UpdateUserFromClaims (UserRepository agg) u c now"
| "exec_user agg (UsFidClaims p s c now) = UpdateFederatedIdentityClaims (UserRepository agg) p s c now"
| "exec_user agg (UsList u) = done_with (ListFederatedIdentities (UserRepository agg) u)"
| "exec_user agg (UsDelete f u) = DeleteFederatedIdentity (UserRepository agg) f u"
| "exec_user agg (UsLocal u nm pic now) = UpdateLocalProfile (UserRepository agg) u nm pic now"

fun exec_token :: "token_stmt \<Rightarrow> (identity_db, unit) eio" where
  "exec_token (TkCreate a) = TK_CreateAccess TokenRepository a"
| "exec_token (TkRotate a r h) = TK_CreateAccessAndRefresh TokenRepository a r h"
| "exec_token (TkGet i) = done_with (TK_GetByID TokenRepository i)"
| "exec_token (TkGetRefresh h) = done_with (TK_GetRefreshToken TokenRepository h)"
| "exec_token (TkInfo h) = done_with (TK_GetRefreshInfo TokenRepository h)"
| "exec_token (TkDeleteUser u c) = TK_DeleteByUserAndClient TokenRepository u c"
| "exec_token (TkRevoke i c) = TK_Revoke TokenRepository i c"
| "exec_token (TkRevokeRefresh h c) = TK_RevokeRefreshToken TokenRepository h c"
| "exec_token (TkDeleteExpired t) = done_with (TK_DeleteExpired TokenRepository t)"
| "exec_token (TkLatest u c) = done_with (TK_GetLatestDeviceSessionID TokenRepository u c)"

fun exec_request :: "request_stmt \<Rightarrow> (identity_db, unit) eio" where
  "exec_request (RqCreate ar) = AR_Create AuthRequestRepository ar"
| "exec_request (RqGet i) = done_with (AR_GetByID AuthRequestRepository i)"
| "exec_request (RqCode c) = done_with (AR_GetByCode AuthRequestRepository c)"
| "exec_request (RqSave i c) = AR_SaveCode AuthRequestRepository i c"
| "exec_request (RqLogin i u t amr s) = AR_CompleteLogin AuthRequestRepository i u t amr s"
| "exec_request (RqDelete i) = AR_Delete AuthRequestRepository i"
| "exec_request (RqDeleteExpired t) = done_with (AR_DeleteExpiredBefore AuthRequestRepository t)"
| "exec_request (RqClient i) = done_with (CL_GetByID ClientRepository i)"

fun exec_device :: "device_stmt \<Rightarrow> (identity_db, unit) eio" where
  "exec_device (DvFind i u ua ip nm) = done_with (DS_FindOrCreate DeviceSessionRepository i u ua ip nm)"
| "exec_device (DvRevoke i u) = DS_RevokeByID DeviceSessionRepository i u"
| "exec_device (DvList u) = done_with (DS_ListActiveByUserID DeviceSessionRepository u)"
| "exec_device (DvPurge t) = done_with (DS_DeleteRevokedBefore DeviceSessionRepository t)"

fun exec_idp :: "bool \<Rightarrow> idp_stmt \<Rightarrow> (identity_db, unit) eio" where
  "exec_idp agg (UserStmt s) = exec_user agg s"
| "exec_idp agg (TokenStmt s) = exec_token s"
| "exec_idp agg (RequestStmt s) = exec_request s"
| "exec_idp agg (DeviceStmt s) = exec_device s"

inductive idp_schedule ::
  "bool \<Rightarrow> identity_db \<Rightarrow> (idp_stmt \<times> (goerr + unit)) list \<Rightarrow> identity_db \<Rightarrow> bool" for agg where
  start: "idp_schedule agg d [] d"
| exec: "idp_schedule agg d log (db w) \<Longrightarrow> run_state (exec_idp agg s) w = (r, w') \<Longrightarrow>
    idp_schedule agg d (log @ [(s, r)]) (db w')"

lemma done_with_elim:
  assumes "run_state (done_with m) w = (r, w')"
  obtains (failed) e where "r = Inl e" "run_state m w = (Inl e, w')"
  | (finished) x where "r = Inr ()" "run_state m w = (Inr x, w')"
  using assms by (auto simp: done_with_def split: prod.splits) (metis map_sum.simps obj_sumE id_apply)

text \<open>The tables the operations of each repository leave alone.\<close>

definition not_users :: "identity_db \<Rightarrow> identity_db" where
  "not_users d = d\<lparr>t_users := [], t_fids := []\<rparr>"

definition not_tokens :: "identity_db \<Rightarrow> identity_db" where
  "not_tokens d = d\<lparr>t_tokens := [], t_refresh_tokens := [], t_device_sessions := []\<rparr>"

definition not_requests :: "identity_db \<Rightarrow> identity_db" where
  "not_requests d = d\<lparr>t_auth_requests := []\<rparr>"

definition not_devices :: "identity_db \<Rightarrow> identity_db" where
  "not_devices d = d\<lparr>t_device_sessions := [], t_refresh_tokens := [], t_auth_requests := []\<rparr>"

lemma keeps_done [keeps]: "keeps P m \<Longrightarrow> keeps P (done_with m)"
  unfolding done_with_def by (intro keeps)

lemma exec_user_frame: "keeps (\<lambda>d. not_users d = not_users d0) (exec_user agg s)"
  by (cases s) (auto simp: UserRepository_defs not_users_def sql_insert_user_def sql_insert_fid_def
      sql_update_user_claims_def sql_update_fid_claims_def sql_list_fids_def sql_count_fids_for_update_def
      sql_delete_fid_def sql_update_local_def sql_select_user_def sql_select_federated_def Let_def
      intro!: keeps split: sum.splits if_splits list.splits)


section \<open>What every schedule keeps\<close>

lemma keeps_by_cases:
  assumes "\<And>w x w'. run_state m w = (Inr x, w') \<Longrightarrow> P (db w) \<Longrightarrow> P (db w')"
    and "\<And>w e w'. run_state m w = (Inl e, w') \<Longrightarrow> P (db w) \<Longrightarrow> P (db w')"
  shows "keeps P m"
  unfolding keeps_def
proof (intro allI impI)
  fix w r w' assume "run_state m w = (r, w')" "P (db w)"
  then show "P (db w')" using assms by (cases r) blast+
qed

text \<open>A step that keeps \<open>P\<close> whenever the database is well-formed.\<close>

lemma schedule_keeps:
  assumes "idp_schedule agg d log d'" "P d" "\<And>s. s \<in> fst ` set log \<Longrightarrow> keeps P (exec_idp agg s)"
  shows "P d'"
  using assms
proof (induction rule: idp_schedule.induct)
  case (exec d log w s r w')
  then have "P (db w)" by auto
  moreover have "keeps P (exec_idp agg s)" using exec.prems by auto
  ultimately show ?case by (rule keepsD [OF _ exec.hyps(2), rotated])
qed

subsection \<open>The constraints\<close>

context identity_repository
begin

lemma keeps_invar:
  "keeps invar (User_GetByID repo u)" "keeps invar (FindByFederatedIdentity repo p s)"
  "keeps invar (CreateWithFederatedIdentity repo (new_user c u t) (new_identity p c u i t))"
  "keeps invar (UpdateUserFromClaims repo u c t)" "keeps invar (UpdateFederatedIdentityClaims repo p s c t)"
  "keeps invar (ListFederatedIdentities repo u)" "keeps invar (DeleteFederatedIdentity repo i u)"
  "keeps invar (UpdateLocalProfile repo u nm pic t)"
proof -
  show "keeps invar (User_GetByID repo u)" by (rule keeps_by_cases) (metis get_done, metis get_error)
  show "keeps invar (FindByFederatedIdentity repo p s)" by (rule keeps_by_cases) (metis find_done, metis find_error)
  show "keeps invar (CreateWithFederatedIdentity repo (new_user c u t) (new_identity p c u i t))"
  proof (rule keeps_by_cases)
    fix w w' and x :: unit
    assume "run_state (CreateWithFederatedIdentity repo (new_user c u t) (new_identity p c u i t)) w = (Inr x, w')"
      "invar (db w)"
    from create_done [OF this] show "invar (db w')" by (simp add: new_user_def new_identity_def)
  qed (metis create_error)
  show "keeps invar (UpdateUserFromClaims repo u c t)" by (rule keeps_by_cases) (metis claims_done, metis claims_error)
  show "keeps invar (UpdateFederatedIdentityClaims repo p s c t)"
    by (rule keeps_by_cases) (metis fclaims_done, metis fclaims_error)
  show "keeps invar (ListFederatedIdentities repo u)" by (rule keeps_by_cases) (metis list_done, metis list_error)
  show "keeps invar (DeleteFederatedIdentity repo i u)" by (rule keeps_by_cases) (metis delete_done, metis delete_error)
  show "keeps invar (UpdateLocalProfile repo u nm pic t)"
    by (rule keeps_by_cases) (metis profile_done, metis profile_error)
qed

end

context token_repository
begin

lemma keeps_invar:
  "keeps invar (TK_CreateAccess repo a)" "keeps invar (TK_CreateAccessAndRefresh repo a r cur)"
  "keeps invar (TK_GetByID repo i)" "keeps invar (TK_GetRefreshToken repo h)" "keeps invar (TK_GetRefreshInfo repo h)"
  "keeps invar (TK_DeleteByUserAndClient repo u c)" "keeps invar (TK_Revoke repo i c)"
  "keeps invar (TK_RevokeRefreshToken repo h c)" "keeps invar (TK_DeleteExpired repo t)"
  "keeps invar (TK_GetLatestDeviceSessionID repo u c)"
proof -
  show "keeps invar (TK_CreateAccess repo a)" by (rule keeps_by_cases) (metis create_done, metis create_error)
  show "keeps invar (TK_CreateAccessAndRefresh repo a r cur)"
    by (rule keeps_by_cases) (metis rotate_done, metis rotate_error)
  show "keeps invar (TK_GetByID repo i)" by (rule keeps_by_cases) (metis get_done, metis get_error)
  show "keeps invar (TK_GetRefreshToken repo h)" by (rule keeps_by_cases) (metis getr_done, metis getr_error)
  show "keeps invar (TK_GetRefreshInfo repo h)" by (rule keeps_by_cases) (metis info_done, metis info_error)
  show "keeps invar (TK_DeleteByUserAndClient repo u c)"
    by (rule keeps_by_cases) (metis delete_done, metis delete_error)
  show "keeps invar (TK_Revoke repo i c)" by (rule keeps_by_cases) (metis revoke_done, metis revoke_error)
  show "keeps invar (TK_RevokeRefreshToken repo h c)" by (rule keeps_by_cases) (metis revoker_done, metis revoker_error)
  show "keeps invar (TK_DeleteExpired repo t)" by (rule keeps_by_cases) (metis expired_done, metis expired_error)
  show "keeps invar (TK_GetLatestDeviceSessionID repo u c)"
    by (rule keeps_by_cases) (metis latest_done, metis latest_error)
qed

end

context auth_request_repository
begin

lemma keeps_invar:
  "keeps invar (AR_Create repo ar)" "keeps invar (AR_GetByID repo i)" "keeps invar (AR_GetByCode repo c)"
  "keeps invar (AR_SaveCode repo i c)" "keeps invar (AR_CompleteLogin repo i u t amr s)" "keeps invar (AR_Delete repo i)"
  "keeps invar (AR_DeleteExpiredBefore repo b)"
proof -
  show "keeps invar (AR_Create repo ar)" by (rule keeps_by_cases) (metis create_done, metis create_error)
  show "keeps invar (AR_GetByID repo i)" by (rule keeps_by_cases) (metis get_done, metis get_error)
  show "keeps invar (AR_GetByCode repo c)" by (rule keeps_by_cases) (metis code_done, metis code_error)
  show "keeps invar (AR_SaveCode repo i c)" by (rule keeps_by_cases) (metis save_done, metis save_error)
  show "keeps invar (AR_CompleteLogin repo i u t amr s)" by (rule keeps_by_cases) (metis login_done, metis login_error)
  show "keeps invar (AR_Delete repo i)" by (rule keeps_by_cases) (metis delete_done, metis delete_error)
  show "keeps invar (AR_DeleteExpiredBefore repo b)"
    by (rule keeps_by_cases) (metis expired_done, metis expired_error)
qed

end

context client_repository
begin

lemma keeps_invar: "keeps invar (CL_GetByID repo i)"
  by (rule keeps_by_cases) (metis get_done, metis get_error)

end

context device_session_repository
begin

lemma keeps_invar:
  "keeps invar (DS_FindOrCreate repo i u ua ip nm)" "keeps invar (DS_RevokeByID repo i u)"
  "keeps invar (DS_ListActiveByUserID repo u)" "keeps invar (DS_DeleteRevokedBefore repo b)"
proof -
  show "keeps invar (DS_FindOrCreate repo i u ua ip nm)" by (rule keeps_by_cases) (metis find_done, metis find_error)
  show "keeps invar (DS_RevokeByID repo i u)" by (rule keeps_by_cases) (metis revoke_done, metis revoke_error)
  show "keeps invar (DS_ListActiveByUserID repo u)" by (rule keeps_by_cases) (metis list_done, metis list_error)
  show "keeps invar (DS_DeleteRevokedBefore repo b)" by (rule keeps_by_cases) (metis purge_done, metis purge_error)
qed

end

lemma exec_keeps_ok: "keeps db_ok (exec_idp agg s)"
proof (cases s)
  case (UserStmt q)
  then show ?thesis by (cases q) (auto intro: keeps pg_users.keeps_invar)
next
  case (TokenStmt q)
  then show ?thesis by (cases q) (auto intro: keeps pg_tokens.keeps_invar)
next
  case (RequestStmt q)
  then show ?thesis by (cases q) (auto intro: keeps pg_requests.keeps_invar pg_clients.keeps_invar)
next
  case (DeviceStmt q)
  then show ?thesis by (cases q) (auto intro: keeps pg_devices.keeps_invar)
qed

subsection \<open>Frames\<close>

lemma frame_keeps: "(\<And>d0. keeps (\<lambda>d. g d = g d0) m) \<Longrightarrow> (\<And>d. P d = Q (g d)) \<Longrightarrow> keeps P m"
  unfolding keeps_def by metis

lemma exec_token_frame: "keeps (\<lambda>d. not_tokens d = not_tokens d0) (exec_token s)"
  by (cases s) (auto simp: TokenRepository_defs TokenRepository_retireOld_def TokenRepository_lookupOld_def
      TokenRepository_revokeOldAccess_def TokenRepository_deleteOldRefresh_def not_tokens_def sql_insert_token_def
      sql_insert_refresh_def sql_old_refresh_def sql_delete_tokens_def sql_delete_refresh_def sql_touch_device_def
      sql_select_token_def sql_select_refresh_def sql_latest_session_def Let_def
      intro!: keeps split: sum.splits if_splits list.splits)

lemma exec_request_frame: "keeps (\<lambda>d. not_requests d = not_requests d0) (exec_request s)"
  by (cases s) (auto simp: AuthRequestRepository_defs not_requests_def sql_insert_auth_request_def
      sql_select_auth_request_def sql_save_code_def sql_complete_login_def sql_delete_auth_requests_def
      ClientRepository_def ClientRepository_GetByID_def sql_select_client_def
      intro!: keeps split: sum.splits if_splits option.splits)

lemma exec_device_frame: "keeps (\<lambda>d. not_devices d = not_devices d0) (exec_device s)"
  by (cases s) (auto simp: DeviceSessionRepository_defs DeviceSessionRepository_reuse_def not_devices_def
      sql_select_device_def sql_use_device_def sql_insert_device_def sql_revoke_device_def sql_list_active_def
      sql_purge_devices_def sql_delete_refresh_def Let_def
      intro!: keeps split: sum.splits if_splits)

end
