(* ===== verification/LoginFlow.thy ===== *)
theory LoginFlow
  imports GoJson GoHttp IdentitySystem
begin

text \<open>
  The federated login of the identity service: \<open>internal/pkg/crypto/aes.go\<close>, the upstream
  providers and the handlers of \<open>internal/authn\<close>. AES-GCM is given by its two operations, the
  OAuth2 and OpenID client libraries and the providers' HTTP APIs by what they answer.
\<close>

section \<open>Encryption\<close>

record aead =
  gcm_Seal :: "byte list \<Rightarrow> byte list \<Rightarrow> byte list \<Rightarrow> byte list"
  gcm_Open :: "byte list \<Rightarrow> byte list \<Rightarrow> byte list \<Rightarrow> byte list option"

text \<open>Authenticated encryption: what opens under a key and nonce is what was sealed with them.\<close>

definition aead_ok :: "aead \<Rightarrow> bool" where
  "aead_ok g \<longleftrightarrow> (\<forall>k n c p. gcm_Open g k n c = Some p \<longleftrightarrow> c = gcm_Seal g k n p)"

definition aes_NewCipher :: "byte list \<Rightarrow> goerr + unit" where
  "aes_NewCipher key = (if length key \<in> {16, 24, 32} then Inr () else Inl (ErrorString ''invalid key size''))"

definition Encrypt :: "aead \<Rightarrow> byte list \<Rightarrow> byte list \<Rightarrow> ('db, string) eio" where
  "Encrypt g key plaintext =
     (case aes_NewCipher key of
        Inl err \<Rightarrow> ret (Inl (errorf ''aes cipher: '' err))
      | Inr _ \<Rightarrow> do {
          r \<leftarrow> rand_Read 12;
          case r of
            Inl err \<Rightarrow> ret (Inl (errorf ''nonce: '' err))
          | Inr nonce \<Rightarrow>
              let ciphertext = nonce @ gcm_Seal g key nonce plaintext
              in ret (Inr (URLEncoding_EncodeToString ciphertext)) })"

definition Decrypt :: "aead \<Rightarrow> byte list \<Rightarrow> string \<Rightarrow> goerr + byte list" where
  "Decrypt g key encoded =
     (case URLEncoding_DecodeString encoded of
        None \<Rightarrow> Inl (errorf ''base64 decode: '' (DriverErr 0))
      | Some ciphertext \<Rightarrow>
          (case aes_NewCipher key of
             Inl err \<Rightarrow> Inl err
           | Inr _ \<Rightarrow>
               if length ciphertext < 12 then Inl (ErrorString ''ciphertext too short'')
               else (case gcm_Open g key (take 12 ciphertext) (drop 12 ciphertext) of
                  None \<Rightarrow> Inl (errorf ''decrypt: '' (DriverErr 1))
                | Some plaintext \<Rightarrow> Inr plaintext)))"

section \<open>The login's state\<close>

record federatedState =
  fsAuthRequestID :: string
  fsProvider :: string
  fsNonce :: string

definition state_Marshal :: "federatedState \<Rightarrow> byte list" where
  "state_Marshal st = bytes_of (json_print [(''a'', fsAuthRequestID st), (''p'', fsProvider st), (''n'', fsNonce st)])"

definition state_Unmarshal :: "byte list \<Rightarrow> goerr + federatedState" where
  "state_Unmarshal bs =
     (let zero = \<lparr>fsAuthRequestID = [], fsProvider = [], fsNonce = []\<rparr>
      in case json_parse (string_of bs) of
           Some JNull \<Rightarrow> Inr zero
         | Some (JObj kvs) \<Rightarrow>
             (case (into_field into_string ''a'' kvs [], into_field into_string ''p'' kvs [], into_field into_string ''n'' kvs []) of
                (Some a, Some p, Some n) \<Rightarrow> Inr \<lparr>fsAuthRequestID = a, fsProvider = p, fsNonce = n\<rparr>
              | _ \<Rightarrow> Inl (DriverErr 2))
         | _ \<Rightarrow> Inl (DriverErr 2))"

definition encryptState :: "aead \<Rightarrow> byte list \<Rightarrow> federatedState \<Rightarrow> ('db, string) eio" where
  "encryptState g key st = Encrypt g key (state_Marshal st)"

definition decryptState :: "aead \<Rightarrow> byte list \<Rightarrow> string \<Rightarrow> goerr + federatedState" where
  "decryptState g key encoded =
     (case Decrypt g key encoded of
        Inl err \<Rightarrow> Inl err
      | Inr plaintext \<Rightarrow>
          (case state_Unmarshal plaintext of
             Inl err \<Rightarrow> Inl (errorf ''unmarshal state: '' err)
           | Inr st \<Rightarrow> Inr st))"

section \<open>Devices\<close>

definition parseOS :: "string \<Rightarrow> string" where
  "parseOS ua =
     (if strings_Contains ua ''iPhone'' then ''iPhone''
      else if strings_Contains ua ''iPad'' then ''iPad''
      else if strings_Contains ua ''Android'' then ''Android''
      else if strings_Contains ua ''Windows'' then ''Windows''
      else if strings_Contains ua ''Macintosh'' \<or> strings_Contains ua ''Mac OS X'' then ''macOS''
      else if strings_Contains ua ''Linux'' then ''Linux''
      else [])"

definition parseBrowser :: "string \<Rightarrow> string" where
  "parseBrowser ua =
     (if strings_Contains ua ''Edg/'' then ''Edge''
      else if strings_Contains ua ''OPR/'' \<or> strings_Contains ua ''Opera'' then ''Opera''
      else if strings_Contains ua ''Chrome'' then ''Chrome''
      else if strings_Contains ua ''Firefox'' then ''Firefox''
      else if strings_Contains ua ''Safari'' \<and> \<not> strings_Contains ua ''Chrome'' then ''Safari''
      else [])"

definition parseDeviceName :: "string \<Rightarrow> string" where
  "parseDeviceName ua =
     (let os = parseOS ua; browser = parseBrowser ua
      in if browser = [] \<and> os = [] then ''Unknown device''
         else if browser = [] then os
         else if os = [] then browser
         else browser @ '' on '' @ os)"

definition authn_clientIP :: "http_request \<Rightarrow> string" where
  "authn_clientIP r =
     (if rqHeader r ''CF-Connecting-IP'' \<noteq> [] then rqHeader r ''CF-Connecting-IP''
      else case SplitHostPort (rqRemoteAddr r) of
        None \<Rightarrow> rqRemoteAddr r
      | Some (host, _) \<Rightarrow> host)"

section \<open>Providers\<close>

record oauth2_config =
  ocClientID :: string
  ocClientSecret :: string
  ocRedirectURL :: string
  ocEndpoint :: string
  ocScopes :: "string list"

text \<open>A token of the OAuth2 library, with the \<open>id_token\<close> of its extra fields when that is a string.\<close>

record oauth2_token =
  otAccessToken :: string
  otIDToken :: "string option"

text \<open>
  The libraries and services a login calls: building the authorization URL, exchanging a code,
  discovering Google's keys, verifying an ID token (its subject and claims), and a GET with the
  token's credentials (status and body).
\<close>

record 'db upstream =
  up_AuthCodeURL :: "oauth2_config \<Rightarrow> string \<Rightarrow> string"
  up_Exchange :: "oauth2_config \<Rightarrow> string \<Rightarrow> ('db, oauth2_token) eio"
  up_discover :: "('db, unit) eio"
  up_Verify :: "string \<Rightarrow> string \<Rightarrow> ('db, string \<times> string) eio"
  up_Get :: "string \<Rightarrow> oauth2_token \<Rightarrow> ('db, nat \<times> string) eio"
  up_uuid :: "('db, string) io"

record 'db Provider =
  pvName :: string
  pvDisplayName :: string
  pvOAuth2Config :: oauth2_config
  pvClaims :: "oauth2_token \<Rightarrow> ('db, FederatedClaims) eio"

definition google_claims :: "string \<Rightarrow> string \<Rightarrow> FederatedClaims option" where
  "google_claims subj body =
     (let fields = (\<lambda>kvs.
           Option.bind (into_field into_string ''email'' kvs []) (\<lambda>em.
           Option.bind (into_field into_bool ''email_verified'' kvs False) (\<lambda>ev.
           Option.bind (into_field into_string ''name'' kvs []) (\<lambda>nm.
           Option.bind (into_field into_string ''given_name'' kvs []) (\<lambda>gn.
           Option.bind (into_field into_string ''family_name'' kvs []) (\<lambda>fn.
           map_option (\<lambda>pic. \<lparr>fcSubject = subj, fcEmail = em, fcEmailVerified = ev, fcName = nm,
             fcGivenName = gn, fcFamilyName = fn, fcPicture = pic\<rparr>)
             (into_field into_string ''picture'' kvs [])))))))
      in case json_parse body of
           Some JNull \<Rightarrow> fields []
         | Some (JObj kvs) \<Rightarrow> fields kvs
         | _ \<Rightarrow> None)"

definition google_FetchClaims :: "'db upstream \<Rightarrow> string \<Rightarrow> oauth2_token \<Rightarrow> ('db, FederatedClaims) eio" where
  "google_FetchClaims up clientID token =
     (case otIDToken token of
        None \<Rightarrow> ret (Inl (ErrorString ''no id_token in token response''))
      | Some rawIDToken \<Rightarrow> do {
          r \<leftarrow> up_Verify up clientID rawIDToken;
          case r of
            Inl err \<Rightarrow> ret (Inl (errorf ''verifying id_token: '' err))
          | Inr (subj, body) \<Rightarrow>
              (case google_claims subj body of
                 None \<Rightarrow> ret (Inl (errorf ''parsing id_token claims: '' (DriverErr 3)))
               | Some claims \<Rightarrow> ret (Inr claims)) })"

definition newGoogleProvider :: "'db upstream \<Rightarrow> string \<Rightarrow> string \<Rightarrow> string \<Rightarrow> ('db, 'db Provider) eio" where
  "newGoogleProvider up clientID clientSecret callbackURL = do {
     r \<leftarrow> up_discover up;
     case r of
       Inl err \<Rightarrow> ret (Inl (errorf ''oidc discovery: '' err))
     | Inr _ \<Rightarrow> ret (Inr \<lparr>pvName = ''google'', pvDisplayName = ''Sign in with Google'',
         pvOAuth2Config = \<lparr>ocClientID = clientID, ocClientSecret = clientSecret, ocRedirectURL = callbackURL,
           ocEndpoint = ''google'', ocScopes = [''openid'', ''email'', ''profile'']\<rparr>,
         pvClaims = google_FetchClaims up clientID\<rparr>) }"

record gh_email =
  geEmail :: string
  gePrimary :: bool
  geVerified :: bool

fun decode_email :: "json \<Rightarrow> gh_email option" where
  "decode_email JNull = Some \<lparr>geEmail = [], gePrimary = False, geVerified = False\<rparr>"
| "decode_email (JObj kvs) =
     Option.bind (into_field into_string ''email'' kvs []) (\<lambda>e.
     Option.bind (into_field into_bool ''primary'' kvs False) (\<lambda>p.
     map_option (\<lambda>v. \<lparr>geEmail = e, gePrimary = p, geVerified = v\<rparr>) (into_field into_bool ''verified'' kvs False)))"
| "decode_email _ = None"

fun decode_emails :: "json list \<Rightarrow> gh_email list option" where
  "decode_emails [] = Some []"
| "decode_emails (j # js) =
     (case (decode_email j, decode_emails js) of (Some e, Some es) \<Rightarrow> Some (e # es) | _ \<Rightarrow> None)"

definition emails_body :: "string \<Rightarrow> gh_email list option" where
  "emails_body body =
     (case json_first body of
        Some (JNull, _) \<Rightarrow> Some []
      | Some (JArr js, _) \<Rightarrow> decode_emails js
      | _ \<Rightarrow> None)"

text \<open>The first address that is primary and verified.\<close>

definition primary_email :: "gh_email list \<Rightarrow> string" where
  "primary_email emails =
     (case find (\<lambda>e. gePrimary e \<and> geVerified e) emails of Some e \<Rightarrow> geEmail e | None \<Rightarrow> [])"

definition github_fetchPrimaryEmail :: "'db upstream \<Rightarrow> oauth2_token \<Rightarrow> ('db, string) eio" where
  "github_fetchPrimaryEmail up token = do {
     r \<leftarrow> up_Get up ''https://api.github.com/user/emails'' token;
     case r of
       Inl err \<Rightarrow> ret (Inl err)
     | Inr (code, body) \<Rightarrow>
         if code \<noteq> 200 then ret (Inl (ErrorString (''github emails API returned '' @ strconv_Itoa (int code))))
         else (case emails_body body of
            None \<Rightarrow> ret (Inl (DriverErr 4))
          | Some emails \<Rightarrow> ret (Inr (primary_email emails))) }"

record gh_user =
  ghID :: int
  ghEmail :: string
  ghName :: string
  ghAvatarURL :: string

definition user_body :: "string \<Rightarrow> gh_user option" where
  "user_body body =
     (let fields = (\<lambda>kvs.
           Option.bind (into_field into_int64 ''id'' kvs 0) (\<lambda>i.
           Option.bind (into_field into_string ''email'' kvs []) (\<lambda>e.
           Option.bind (into_field into_string ''name'' kvs []) (\<lambda>n.
           map_option (\<lambda>a. \<lparr>ghID = i, ghEmail = e, ghName = n, ghAvatarURL = a\<rparr>)
             (into_field into_string ''avatar_url'' kvs [])))))
      in case json_first body of
           Some (JNull, _) \<Rightarrow> fields []
         | Some (JObj kvs, _) \<Rightarrow> fields kvs
         | _ \<Rightarrow> None)"

definition github_FetchClaims :: "'db upstream \<Rightarrow> oauth2_token \<Rightarrow> ('db, FederatedClaims) eio" where
  "github_FetchClaims up token = do {
     r \<leftarrow> up_Get up ''https://api.github.com/user'' token;
     case r of
       Inl err \<Rightarrow> ret (Inl (errorf ''github user API: '' err))
     | Inr (code, body) \<Rightarrow>
         if code \<noteq> 200
         then ret (Inl (ErrorString (''github user API returned '' @ strconv_Itoa (int code) @ '': '' @ body)))
         else (case user_body body of
            None \<Rightarrow> ret (Inl (errorf ''decoding github user: '' (DriverErr 5)))
          | Some ghUser \<Rightarrow> do {
              (email, emailVerified) \<leftarrow>
                (if ghEmail ghUser = [] then do {
                   f \<leftarrow> github_fetchPrimaryEmail up token;
                   case f of
                     Inl _ \<Rightarrow> ret (ghEmail ghUser, False)
                   | Inr fetched \<Rightarrow> ret (if fetched \<noteq> [] then (fetched, True) else (ghEmail ghUser, False)) }
                 else ret (ghEmail ghUser, False));
              ret (Inr \<lparr>fcSubject = strconv_Itoa (ghID ghUser), fcEmail = email, fcEmailVerified = emailVerified,
                fcName = ghName ghUser, fcGivenName = [], fcFamilyName = [], fcPicture = ghAvatarURL ghUser\<rparr>) }) }"

definition newGitHubProvider :: "'db upstream \<Rightarrow> string \<Rightarrow> string \<Rightarrow> string \<Rightarrow> 'db Provider" where
  "newGitHubProvider up clientID clientSecret callbackURL =
     \<lparr>pvName = ''github'', pvDisplayName = ''Sign in with GitHub'',
      pvOAuth2Config = \<lparr>ocClientID = clientID, ocClientSecret = clientSecret, ocRedirectURL = callbackURL,
        ocEndpoint = ''github'', ocScopes = [''read:user'', ''user:email'']\<rparr>,
      pvClaims = github_FetchClaims up\<rparr>"

record authn_Config =
  anIssuerURL :: string
  anGoogleClientID :: string
  anGoogleClientSecret :: string
  anGitHubClientID :: string
  anGitHubClientSecret :: string

definition NewProviders :: "'db upstream \<Rightarrow> authn_Config \<Rightarrow> ('db, 'db Provider list) eio" where
  "NewProviders up cfg = (let callbackURL = anIssuerURL cfg @ ''/login/callback'' in do {
     g \<leftarrow> (if anGoogleClientID cfg \<noteq> [] then do {
            p \<leftarrow> newGoogleProvider up (anGoogleClientID cfg) (anGoogleClientSecret cfg) callbackURL;
            case p of
              Inl err \<Rightarrow> ret (Inl (errorf ''google provider: '' err))
            | Inr q \<Rightarrow> ret (Inr [q]) }
          else ret (Inr []));
     case g of
       Inl err \<Rightarrow> ret (Inl err)
     | Inr providers \<Rightarrow>
         if anGitHubClientID cfg \<noteq> []
         then ret (Inr (providers @ [newGitHubProvider up (anGitHubClientID cfg) (anGitHubClientSecret cfg) callbackURL]))
         else ret (Inr providers) })"

section \<open>Completing a login\<close>

definition FindOrCreateUser :: "'db go_world Repository \<Rightarrow> string \<Rightarrow> FederatedClaims \<Rightarrow> ('db, User) eio" where
  "FindOrCreateUser repo provider claims = do {
     r \<leftarrow> identityService_FindOrCreateByFederatedLogin repo provider claims;
     case r of
       Inl err \<Rightarrow> ret (Inl (errorf ''federated login: '' err))
     | Inr user \<Rightarrow> ret (Inr user) }"

definition CompleteLogin :: "'db authRequestService \<Rightarrow> string \<Rightarrow> string \<Rightarrow> string \<Rightarrow> ('db, unit) eio" where
  "CompleteLogin loginComp authRequestID userID deviceSessionID = do {
     authTime \<leftarrow> time_Now;
     r \<leftarrow> authRequestService_CompleteLogin loginComp authRequestID userID authTime [''fed''] deviceSessionID;
     case r of
       Inl err \<Rightarrow> ret (Inl (errorf ''complete login: '' err))
     | Inr _ \<Rightarrow> ret (Inr ()) }"

section \<open>Handlers\<close>

definition deviceCookieName :: string where "deviceCookieName = ''dsid''"
definition deviceCookieMaxAge :: int where "deviceCookieMaxAge = 63072000"

definition device_cookie :: "string \<Rightarrow> cookie" where
  "device_cookie v = \<lparr>ckName = deviceCookieName, ckValue = v, ckMaxAge = deviceCookieMaxAge, ckHttpOnly = True,
     ckSecure = True, ckSameSite = SameSiteLax, ckPath = ''/''\<rparr>"

text \<open>The page is rendered by \<open>html/template\<close> from the request identifier and the providers.\<close>

record 'db login_handler =
  lh_providers :: "'db Provider list"
  lh_providerMap :: "string \<Rightarrow> 'db Provider option"
  lh_identity :: "'db go_world Repository"
  lh_loginComp :: "'db authRequestService"
  lh_devices :: "'db deviceSessionService"
  lh_aead :: aead
  lh_key :: "byte list"
  lh_callbackURL :: "string \<Rightarrow> string"
  lh_template :: "string \<Rightarrow> (string \<times> string) list \<Rightarrow> string option"
  lh_up :: "'db upstream"

definition NewHandler ::
  "'db Provider list \<Rightarrow> 'db go_world Repository \<Rightarrow> 'db authRequestService \<Rightarrow> 'db deviceSessionService \<Rightarrow> aead
   \<Rightarrow> byte list \<Rightarrow> (string \<Rightarrow> string) \<Rightarrow> (string \<Rightarrow> (string \<times> string) list \<Rightarrow> string option) \<Rightarrow> 'db upstream
   \<Rightarrow> 'db login_handler" where
  "NewHandler providers identitySvc loginCompleter deviceSessions g key callbackURL tmpl up =
     \<lparr>lh_providers = providers, lh_providerMap = fold (\<lambda>p pm. pm(pvName p \<mapsto> p)) providers Map.empty,
      lh_identity = identitySvc, lh_loginComp = loginCompleter, lh_devices = deviceSessions, lh_aead = g,
      lh_key = key, lh_callbackURL = callbackURL, lh_template = tmpl, lh_up = up\<rparr>"

definition SelectProvider :: "'db login_handler \<Rightarrow> http_request \<Rightarrow> ('db, http_response) io" where
  "SelectProvider h r =
     (let authRequestID = rqQuery r ''authRequestID''
      in if authRequestID = [] then ret (http_Error [] ''missing authRequestID'' 400)
         else do {
           cookies \<leftarrow> (case rqCookie r deviceCookieName of
               None \<Rightarrow> do { v \<leftarrow> ulid_Make; ret [device_cookie v] }
             | Some _ \<Rightarrow> ret []);
           case lh_template h authRequestID (map (\<lambda>p. (pvName p, pvDisplayName p)) (lh_providers h)) of
             None \<Rightarrow> ret (http_Error cookies ''internal error'' 500)
           | Some page \<Rightarrow> ret \<lparr>rsStatus = 200, rsBody = page, rsLocation = None, rsCookies = cookies\<rparr> })"

definition FederatedRedirect :: "'db login_handler \<Rightarrow> http_request \<Rightarrow> ('db, http_response) io" where
  "FederatedRedirect h r =
     (case rqForm r of
        None \<Rightarrow> ret (http_Error [] ''invalid form'' 400)
      | Some form \<Rightarrow>
          let authRequestID = form ''authRequestID''; providerName = form ''provider''
          in if authRequestID = [] \<or> providerName = []
             then ret (http_Error [] ''missing authRequestID or provider'' 400)
             else case lh_providerMap h providerName of
               None \<Rightarrow> ret (http_Error [] ''unknown provider'' 400)
             | Some provider \<Rightarrow> do {
                 nonce \<leftarrow> up_uuid (lh_up h);
                 let state = \<lparr>fsAuthRequestID = authRequestID, fsProvider = providerName, fsNonce = nonce\<rparr>;
                 e \<leftarrow> encryptState (lh_aead h) (lh_key h) state;
                 case e of
                   Inl err \<Rightarrow> ret (http_Error [] ''internal error'' 500)
                 | Inr encryptedState \<Rightarrow>
                     ret (http_Redirect [] (up_AuthCodeURL (lh_up h) (pvOAuth2Config provider) encryptedState) 302) })"

text \<open>The callback after the claims are known: user, device session, cookie, completion.\<close>

definition FederatedCallback_finish ::
  "'db login_handler \<Rightarrow> http_request \<Rightarrow> federatedState \<Rightarrow> FederatedClaims \<Rightarrow> ('db, http_response) io" where
  "FederatedCallback_finish h r state claims = do {
     u \<leftarrow> FindOrCreateUser (lh_identity h) (fsProvider state) claims;
     case u of
       Inl err \<Rightarrow> ret (http_Error [] ''internal error'' 500)
     | Inr user \<Rightarrow> do {
         dsID \<leftarrow> (case rqCookie r deviceCookieName of
             Some v \<Rightarrow> if v = [] then ulid_Make else ret v
           | None \<Rightarrow> ulid_Make);
         d \<leftarrow> deviceSessionService_FindOrCreate (lh_devices h) dsID (uID user) (rqHeader r ''User-Agent'')
                (authn_clientIP r) (parseDeviceName (rqHeader r ''User-Agent''));
         case d of
           Inl err \<Rightarrow> ret (http_Error [] ''internal error'' 500)
         | Inr ds \<Rightarrow> do {
             let cookies = (if DeviceSession.dsID ds \<noteq> dsID then [device_cookie (DeviceSession.dsID ds)] else []);
             c \<leftarrow> CompleteLogin (lh_loginComp h) (fsAuthRequestID state) (uID user) (DeviceSession.dsID ds);
             case c of
               Inl err \<Rightarrow> ret (http_Error cookies ''internal error'' 500)
             | Inr _ \<Rightarrow> ret (http_Redirect cookies (lh_callbackURL h (fsAuthRequestID state)) 302) } } }"

definition FederatedCallback :: "'db login_handler \<Rightarrow> http_request \<Rightarrow> ('db, http_response) io" where
  "FederatedCallback h r =
     (let code = rqQuery r ''code''; stateParam = rqQuery r ''state''
      in if code = [] \<or> stateParam = [] then ret (http_Error [] ''missing code or state'' 400)
         else case decryptState (lh_aead h) (lh_key h) stateParam of
           Inl err \<Rightarrow> ret (http_Error [] ''invalid state'' 400)
         | Inr state \<Rightarrow>
             (case lh_providerMap h (fsProvider state) of
                None \<Rightarrow> ret (http_Error [] ''unknown provider in state'' 400)
              | Some provider \<Rightarrow> do {
                  t \<leftarrow> up_Exchange (lh_up h) (pvOAuth2Config provider) code;
                  case t of
                    Inl err \<Rightarrow> ret (http_Error [] ''authentication failed'' 500)
                  | Inr token \<Rightarrow> do {
                      cl \<leftarrow> pvClaims provider token;
                      case cl of
                        Inl err \<Rightarrow> ret (http_Error [] ''authentication failed'' 500)
                      | Inr claims \<Rightarrow> FederatedCallback_finish h r state claims } }))"

text \<open>The handler as \<open>main.go\<close> builds it.\<close>

definition loginHandler ::
  "libs \<Rightarrow> int \<Rightarrow> identity_db Provider list \<Rightarrow> aead \<Rightarrow> byte list \<Rightarrow> (string \<Rightarrow> string)
   \<Rightarrow> (string \<Rightarrow> (string \<times> string) list \<Rightarrow> string option) \<Rightarrow> identity_db upstream \<Rightarrow> identity_db login_handler" where
  "loginHandler L ttlMinutes providers g key callbackURL tmpl up =
     NewHandler providers (UserRepository (lib_aggLock L)) (idp_requests ttlMinutes) idp_devices g key callbackURL tmpl up"

end
