(* ===== verification/ServiceConfig.thy ===== *)
theory ServiceConfig
  imports GoHttp LoginFlow
begin

text \<open>
  The configuration of the three services, read from an environment (a map from names to values,
  the empty string for an unset one): \<open>config/config.go\<close> of each. URL parsing, PEM and X.509
  are parameters. Texts of errors omit the quoted value.
\<close>

type_synonym config_source = "string \<Rightarrow> string"

text \<open>What \<open>main\<close> comes to: an exit with a status, or a running server.\<close>

datatype 's process = Exited nat | Running 's

definition andThen :: "goerr + 'a \<Rightarrow> ('a \<Rightarrow> goerr + 'b) \<Rightarrow> goerr + 'b" where
  "andThen m f = (case m of Inl e \<Rightarrow> Inl e | Inr x \<Rightarrow> f x)"

definition require :: "bool \<Rightarrow> string \<Rightarrow> goerr + unit" where
  "require b msg = (if b then Inr () else Inl (ErrorString msg))"

lemma andThen_Inr [simp]: "andThen m f = Inr y \<longleftrightarrow> (\<exists>x. m = Inr x \<and> f x = Inr y)"
  by (auto simp: andThen_def split: sum.splits)

lemma require_Inr [simp]: "require b msg = Inr u \<longleftrightarrow> b"
  by (simp add: require_def)

definition getFrom :: "config_source \<Rightarrow> string \<Rightarrow> string \<Rightarrow> string" where
  "getFrom src key fallback = (if src key \<noteq> [] then src key else fallback)"

definition loadBoundedInt :: "config_source \<Rightarrow> string \<Rightarrow> int \<Rightarrow> int \<Rightarrow> int \<Rightarrow> goerr + int" where
  "loadBoundedInt src key defaultVal lo hi =
     (let raw = src key in
      andThen (if raw \<noteq> [] then
                 (case strconv_Atoi raw of
                    None \<Rightarrow> Inl (errorf (key @ '' must be numeric: '') (DriverErr 0))
                  | Some n \<Rightarrow> Inr n)
               else Inr defaultVal) (\<lambda>v.
      let val = (if v = 0 then defaultVal else v) in
      if val < lo \<or> val > hi
      then Inl (ErrorString (key @ '' must be 0 (default) or '' @ strconv_Itoa lo @ ''-'' @ strconv_Itoa hi
             @ '', got '' @ strconv_Itoa val))
      else Inr val))"

definition loadInt :: "config_source \<Rightarrow> string \<Rightarrow> int \<Rightarrow> goerr + int" where
  "loadInt src key defaultVal =
     (let raw = src key in
      if raw = [] then Inr defaultVal
      else case strconv_Atoi raw of
        None \<Rightarrow> Inl (errorf (key @ '' must be numeric: '') (DriverErr 0))
      | Some n \<Rightarrow> Inr n)"

section \<open>Identity service\<close>

record 'k x509_lib =
  url_Parse :: "string \<Rightarrow> (string \<times> string) option"
  pem_Decode :: "string \<Rightarrow> (string \<times> byte list) option"
  ParsePKCS1 :: "byte list \<Rightarrow> 'k option"
  ParsePKCS8 :: "byte list \<Rightarrow> 'k option option"
  BitLen :: "'k \<Rightarrow> int"

definition parseRSAPrivateKey :: "'k x509_lib \<Rightarrow> string \<Rightarrow> goerr + 'k" where
  "parseRSAPrivateKey lib pemStr =
     (case pem_Decode lib pemStr of
        None \<Rightarrow> Inl (ErrorString ''failed to decode PEM block'')
      | Some (typ, bytes) \<Rightarrow>
          andThen
            (if typ = ''RSA PRIVATE KEY'' then
               (case ParsePKCS1 lib bytes of None \<Rightarrow> Inl (DriverErr 1) | Some key \<Rightarrow> Inr key)
             else if typ = ''PRIVATE KEY'' then
               (case ParsePKCS8 lib bytes of
                  None \<Rightarrow> Inl (DriverErr 2)
                | Some None \<Rightarrow> Inl (ErrorString ''PKCS#8 key is not RSA'')
                | Some (Some key) \<Rightarrow> Inr key)
             else Inl (ErrorString (''unsupported PEM block type: '' @ typ)))
            (\<lambda>rsaKey. if BitLen lib rsaKey < 2048
               then Inl (ErrorString (''RSA signing key must be >= 2048 bits, got '' @ strconv_Itoa (BitLen lib rsaKey)))
               else Inr rsaKey))"

record 'k idp_config =
  icPort :: string
  icGRPCPort :: string
  icIssuer :: string
  icDatabaseURL :: string
  icCryptoKey :: "byte list"
  icCurrentKey :: 'k
  icPreviousKeys :: "'k list"
  icAccessTokenLifetimeMinutes :: int
  icRefreshTokenLifetimeDays :: int
  icAuthRequestTTLMinutes :: int
  icDBMaxOpenConns :: int
  icDBMaxIdleConns :: int
  icDBConnMaxLifetimeSecs :: int
  icDBConnMaxIdleTimeSecs :: int
  icRateLimitEnabled :: bool
  icRateLimitLoginRPM :: int
  icRateLimitTokenRPM :: int
  icRateLimitGlobalRPM :: int
  icGoogleClientID :: string
  icGoogleClientSecret :: string
  icGitHubClientID :: string
  icGitHubClientSecret :: string

text \<open>The loop over the previous keys.\<close>

fun previous_keys :: "'k x509_lib \<Rightarrow> string list \<Rightarrow> goerr + 'k list" where
  "previous_keys lib [] = Inr []"
| "previous_keys lib (p # ps) =
     (let trimmed = strings_TrimSpace p in
      if trimmed = [] then previous_keys lib ps
      else case parseRSAPrivateKey lib trimmed of
        Inl err \<Rightarrow> Inl (errorf ''SIGNING_KEY_PREVIOUS_PEM: '' err)
      | Inr key \<Rightarrow> andThen (previous_keys lib ps) (\<lambda>keys. Inr (key # keys)))"

definition idp_LoadFrom :: "'k x509_lib \<Rightarrow> config_source \<Rightarrow> goerr + 'k idp_config" where
  "idp_LoadFrom lib src =
     andThen (require (src ''ISSUER'' \<noteq> []) ''ISSUER is required'') (\<lambda>_.
     andThen (require (case url_Parse lib (src ''ISSUER'') of
         None \<Rightarrow> False | Some (scheme, host) \<Rightarrow> scheme \<noteq> [] \<and> host \<noteq> [])
       ''ISSUER must be a valid URL with scheme and host'') (\<lambda>_.
     andThen (require (src ''DATABASE_URL'' \<noteq> []) ''DATABASE_URL is required'') (\<lambda>_.
     andThen (require (src ''CRYPTO_KEY'' \<noteq> []) ''CRYPTO_KEY is required'') (\<lambda>_.
     andThen (case hex_Decode (src ''CRYPTO_KEY'') of
         None \<Rightarrow> Inl (errorf ''CRYPTO_KEY must be hex-encoded: '' (DriverErr 3)) | Some bs \<Rightarrow> Inr bs) (\<lambda>keyBytes.
     andThen (require (length keyBytes = 32) ''CRYPTO_KEY must be exactly 32 bytes (64 hex chars)'') (\<lambda>_.
     andThen (require (src ''SIGNING_KEY_PEM'' \<noteq> []) ''SIGNING_KEY_PEM is required'') (\<lambda>_.
     andThen (case parseRSAPrivateKey lib (src ''SIGNING_KEY_PEM'') of
         Inl err \<Rightarrow> Inl (errorf ''SIGNING_KEY_PEM: '' err) | Inr key \<Rightarrow> Inr key) (\<lambda>current.
     andThen (if src ''SIGNING_KEY_PREVIOUS_PEM'' \<noteq> []
         then previous_keys lib (strings_Split [] (src ''SIGNING_KEY_PREVIOUS_PEM'') ''---NEXT---'')
         else Inr []) (\<lambda>previous.
     andThen (require (\<not> (src ''GOOGLE_CLIENT_ID'' = [] \<and> src ''GITHUB_CLIENT_ID'' = []))
       ''at least one upstream IdP must be configured (GOOGLE_CLIENT_ID or GITHUB_CLIENT_ID)'') (\<lambda>_.
     andThen (loadBoundedInt src ''ACCESS_TOKEN_LIFETIME_MINUTES'' 15 1 60) (\<lambda>access.
     andThen (loadBoundedInt src ''REFRESH_TOKEN_LIFETIME_DAYS'' 7 1 90) (\<lambda>refresh.
     andThen (loadBoundedInt src ''AUTH_REQUEST_TTL_MINUTES'' 30 1 60) (\<lambda>ttl.
     andThen (loadBoundedInt src ''DB_MAX_OPEN_CONNS'' 25 1 500) (\<lambda>openConns.
     andThen (loadBoundedInt src ''DB_MAX_IDLE_CONNS'' 10 1 200) (\<lambda>idleConns.
     andThen (loadBoundedInt src ''DB_CONN_MAX_LIFETIME_SECONDS'' 300 10 3600) (\<lambda>lifetime.
     andThen (loadBoundedInt src ''DB_CONN_MAX_IDLE_TIME_SECONDS'' 180 10 1800) (\<lambda>idleTime.
     andThen (loadBoundedInt src ''RATE_LIMIT_LOGIN_RPM'' 20 1 600) (\<lambda>loginRPM.
     andThen (loadBoundedInt src ''RATE_LIMIT_TOKEN_RPM'' 60 1 6000) (\<lambda>tokenRPM.
     andThen (loadBoundedInt src ''RATE_LIMIT_GLOBAL_RPM'' 120 1 6000) (\<lambda>globalRPM.
     Inr \<lparr>icPort = getFrom src ''PORT'' ''8080'', icGRPCPort = getFrom src ''GRPC_PORT'' ''50051'',
       icIssuer = src ''ISSUER'', icDatabaseURL = src ''DATABASE_URL'', icCryptoKey = keyBytes,
       icCurrentKey = current, icPreviousKeys = previous, icAccessTokenLifetimeMinutes = access,
       icRefreshTokenLifetimeDays = refresh, icAuthRequestTTLMinutes = ttl, icDBMaxOpenConns = openConns,
       icDBMaxIdleConns = idleConns, icDBConnMaxLifetimeSecs = lifetime, icDBConnMaxIdleTimeSecs = idleTime,
       icRateLimitEnabled = (src ''RATE_LIMIT_ENABLED'' \<noteq> ''false''), icRateLimitLoginRPM = loginRPM,
       icRateLimitTokenRPM = tokenRPM, icRateLimitGlobalRPM = globalRPM,
       icGoogleClientID = src ''GOOGLE_CLIENT_ID'', icGoogleClientSecret = src ''GOOGLE_CLIENT_SECRET'',
       icGitHubClientID = src ''GITHUB_CLIENT_ID'', icGitHubClientSecret = src ''GITHUB_CLIENT_SECRET''\<rparr>))))))))))))))))))))"

section \<open>Blob service\<close>

record blob_config =
  bcGRPCListenAddr :: string
  bcDatabaseURL :: string
  bcOIDCIssuerURL :: string
  bcR2Endpoint :: string
  bcR2Bucket :: string
  bcR2AccessKeyID :: string
  bcR2SecretAccessKey :: string
  bcPresignPutTTL :: int
  bcPresignGetMaxTTL :: int
  bcMultipartThresholdBytes :: int
  bcDBMaxOpenConns :: int
  bcDBMaxIdleConns :: int
  bcDBConnMaxLifetimeSecs :: int
  bcDBConnMaxIdleTimeSecs :: int

text \<open>The missing names come out of a Go map in any order, so the text does not list them.\<close>

definition blob_LoadFrom :: "config_source \<Rightarrow> goerr + blob_config" where
  "blob_LoadFrom src =
     andThen (require (\<forall>k \<in> set [''DATABASE_URL'', ''OIDC_ISSUER_URL'', ''R2_ENDPOINT'', ''R2_BUCKET'',
         ''R2_ACCESS_KEY_ID'', ''R2_SECRET_ACCESS_KEY'']. src k \<noteq> [])
       ''missing required environment variables'') (\<lambda>_.
     andThen (loadInt src ''PRESIGN_PUT_TTL_SECONDS'' 900) (\<lambda>putTTL.
     andThen (loadInt src ''PRESIGN_GET_TTL_MAX_SECONDS'' 3600) (\<lambda>getTTL.
     andThen (loadInt src ''MULTIPART_THRESHOLD_BYTES'' (10 * 1024 * 1024)) (\<lambda>threshold.
     andThen (loadInt src ''DB_MAX_OPEN_CONNS'' 25) (\<lambda>openConns.
     andThen (loadInt src ''DB_MAX_IDLE_CONNS'' 5) (\<lambda>idleConns.
     andThen (loadInt src ''DB_CONN_MAX_LIFETIME_SECONDS'' 300) (\<lambda>lifetime.
     andThen (loadInt src ''DB_CONN_MAX_IDLE_TIME_SECONDS'' 180) (\<lambda>idleTime.
     Inr \<lparr>bcGRPCListenAddr = getFrom src ''GRPC_LISTEN_ADDR'' '':50052'', bcDatabaseURL = src ''DATABASE_URL'',
       bcOIDCIssuerURL = src ''OIDC_ISSUER_URL'', bcR2Endpoint = src ''R2_ENDPOINT'', bcR2Bucket = src ''R2_BUCKET'',
       bcR2AccessKeyID = src ''R2_ACCESS_KEY_ID'', bcR2SecretAccessKey = src ''R2_SECRET_ACCESS_KEY'',
       bcPresignPutTTL = wrap64 (putTTL * Second), bcPresignGetMaxTTL = wrap64 (getTTL * Second),
       bcMultipartThresholdBytes = threshold, bcDBMaxOpenConns = openConns, bcDBMaxIdleConns = idleConns,
       bcDBConnMaxLifetimeSecs = lifetime, bcDBConnMaxIdleTimeSecs = idleTime\<rparr>))))))))"

section \<open>Account front end\<close>

record bff_config =
  fcPort :: string
  fcOIDCIssuer :: string
  fcClientID :: string
  fcClientSecret :: string
  fcRedirectURL :: string
  fcAccountsGRPC :: string
  fcRedisURL :: string
  fcSessionKey :: "byte list"
  fcSessionIdleTTL :: int
  fcSessionHardTTL :: int
  fcCORSOrigins :: "string list"

definition bff_LoadFrom :: "config_source \<Rightarrow> goerr + bff_config" where
  "bff_LoadFrom src =
     andThen (require (src ''OIDC_ISSUER'' \<noteq> []) ''OIDC_ISSUER is required'') (\<lambda>_.
     andThen (require (src ''CLIENT_ID'' \<noteq> []) ''CLIENT_ID is required'') (\<lambda>_.
     andThen (require (src ''CLIENT_SECRET'' \<noteq> []) ''CLIENT_SECRET is required'') (\<lambda>_.
     andThen (require (src ''REDIRECT_URL'' \<noteq> []) ''REDIRECT_URL is required'') (\<lambda>_.
     andThen (require (src ''ACCOUNTS_GRPC_ADDR'' \<noteq> []) ''ACCOUNTS_GRPC_ADDR is required'') (\<lambda>_.
     andThen (require (src ''REDIS_URL'' \<noteq> []) ''REDIS_URL is required'') (\<lambda>_.
     andThen (require (src ''SESSION_KEY'' \<noteq> []) ''SESSION_KEY is required'') (\<lambda>_.
     andThen (case hex_Decode (src ''SESSION_KEY'') of
         None \<Rightarrow> Inl (errorf ''SESSION_KEY must be hex-encoded: '' (DriverErr 3)) | Some bs \<Rightarrow> Inr bs) (\<lambda>keyBytes.
     andThen (require (length keyBytes = 32) ''SESSION_KEY must be exactly 32 bytes (64 hex chars)'') (\<lambda>_.
     andThen (loadBoundedInt src ''SESSION_IDLE_TTL_MINUTES'' 120 5 1440) (\<lambda>idleMinutes.
     andThen (loadBoundedInt src ''SESSION_HARD_TTL_DAYS'' 7 1 90) (\<lambda>hardDays.
     andThen (require (src ''CORS_ALLOWED_ORIGINS'' \<noteq> []) ''CORS_ALLOWED_ORIGINS is required'') (\<lambda>_.
     let origins = filter (\<lambda>x. x \<noteq> []) (map strings_TrimSpace (strings_Split [] (src ''CORS_ALLOWED_ORIGINS'') '',''))
     in andThen (require (origins \<noteq> []) ''CORS_ALLOWED_ORIGINS must have at least one entry'') (\<lambda>_.
     Inr \<lparr>fcPort = getFrom src ''PORT'' ''8080'', fcOIDCIssuer = src ''OIDC_ISSUER'', fcClientID = src ''CLIENT_ID'',
       fcClientSecret = src ''CLIENT_SECRET'', fcRedirectURL = src ''REDIRECT_URL'',
       fcAccountsGRPC = src ''ACCOUNTS_GRPC_ADDR'', fcRedisURL = src ''REDIS_URL'', fcSessionKey = keyBytes,
       fcSessionIdleTTL = wrap64 (idleMinutes * Minute), fcSessionHardTTL = wrap64 (hardDays * 24 * Hour),
       fcCORSOrigins = origins\<rparr>)))))))))))))"

end
