(* ===== verification/BlobMain.thy ===== *)
theory BlobMain
  imports BlobProps ServiceConfig
begin

text \<open>
  The blob service as one process: \<open>cmd/server/main.go\<close> from the environment to the server, and
  what the loaded settings mean for it.
\<close>

section \<open>Starting\<close>

text \<open>
  The libraries: discovery of the OpenID provider, which answers its verifier by audience; the
  connection to PostgreSQL; the S3 SDK; the listener.
\<close>

record blob_libs =
  bl_oidc_NewProvider :: "string \<Rightarrow> (blob_db, string \<Rightarrow> id_token_verifier) eio"
  bl_Connect :: "string \<Rightarrow> (blob_db, unit) eio"
  bl_s3_New :: "s3_Options \<Rightarrow> s3_api"
  bl_Listen :: "string \<Rightarrow> (blob_db, unit) eio"

record blob_server =
  bv_verify :: id_token_verifier
  bv_storage :: R2Client
  bv_config :: Config

definition app_Config :: "blob_config \<Rightarrow> Config" where
  "app_Config cfg = \<lparr>PresignPutTTL = bcPresignPutTTL cfg, PresignGetMaxTTL = bcPresignGetMaxTTL cfg,
     MultipartThresholdBytes = bcMultipartThresholdBytes cfg\<rparr>"

definition blob_main :: "blob_libs \<Rightarrow> config_source \<Rightarrow> (blob_db, blob_server process) io" where
  "blob_main lb env =
     (case blob_LoadFrom env of
        Inl err \<Rightarrow> ret (Exited 1)
      | Inr cfg \<Rightarrow> do {
          p \<leftarrow> bl_oidc_NewProvider lb (bcOIDCIssuerURL cfg);
          case p of
            Inl err \<Rightarrow> ret (Exited 1)
          | Inr oidcProvider \<Rightarrow> do {
              c \<leftarrow> bl_Connect lb (bcDatabaseURL cfg);
              case c of
                Inl err \<Rightarrow> ret (Exited 1)
              | Inr _ \<Rightarrow>
                  (case R2_New (bl_s3_New lb) (bcR2Endpoint cfg) (bcR2Bucket cfg) (bcR2AccessKeyID cfg)
                      (bcR2SecretAccessKey cfg) of
                     Inl err \<Rightarrow> ret (Exited 1)
                   | Inr storage \<Rightarrow> do {
                       let auth = NewAuthInterceptor oidcProvider ''blob-service'';
                       l \<leftarrow> bl_Listen lb (bcGRPCListenAddr cfg);
                       case l of
                         Inl err \<Rightarrow> ret (Exited 1)
                       | Inr _ \<Rightarrow> ret (Running
                           \<lparr>bv_verify = auth, bv_storage = storage, bv_config = app_Config cfg\<rparr>) }) } })"

definition blob_server_rpc ::
  "blob_server \<Rightarrow> grpc_metadata option \<Rightarrow> blob_request \<Rightarrow> (blob_db, blob_response) eio" where
  "blob_server_rpc s md req = blob_rpc (bv_verify s) (bv_storage s) (bv_config s) md req"

text \<open>A running service has the loaded settings, and its tokens are those of the audience
  \<open>blob-service\<close>.\<close>

lemma blob_main_running:
  assumes "run_state (blob_main lb env) w = (Running s, w')"
  obtains cfg p w1 where "blob_LoadFrom env = Inr cfg" "bv_config s = app_Config cfg" "bv_verify s = p ''blob-service''"
    "run_state (bl_oidc_NewProvider lb (bcOIDCIssuerURL cfg)) w = (Inr p, w1)"
    "r2_bucket (bv_storage s) = env ''R2_BUCKET''"
proof -
  have bucket: "blob_LoadFrom env = Inr cfg \<Longrightarrow> bcR2Bucket cfg = env ''R2_BUCKET''" for cfg
    unfolding blob_LoadFrom_def andThen_Inr by fastforce
  show thesis
    using assms that bucket
    by (auto simp: blob_main_def NewAuthInterceptor_def R2_New_def Let_def split: sum.splits prod.splits)
qed

section \<open>Settings\<close>

text \<open>
  The numbers are not checked: a lifetime of more than about 292 years in seconds wraps around to a
  negative one.
\<close>

lemma presign_ttl_wraps:
  assumes "blob_LoadFrom env = Inr cfg" "env ''PRESIGN_PUT_TTL_SECONDS'' = ''9999999999''"
  shows "bcPresignPutTTL cfg < 0"
proof -
  have "digit_val (CHR ''9'') = Some 9" by code_simp
  then have n: "strconv_Atoi ''9999999999'' = Some 9999999999" by (simp add: strconv_Atoi_def Let_def)
  have "wrap64 (9999999999 * Second) < 0" by (simp add: wrap64_def)
  moreover have "loadInt env ''PRESIGN_PUT_TTL_SECONDS'' 900 = Inr 9999999999"
    by (simp add: loadInt_def assms(2) n Let_def)
  ultimately show ?thesis
    using assms(1) unfolding blob_LoadFrom_def andThen_Inr by fastforce
qed

end
