(* ===== verification/RateLimit.thy ===== *)
theory RateLimit
  imports GoHttp
begin

text \<open>
  \<open>internal/middleware\<close> of the identity service and the token path limiter of \<open>main.go\<close>.
  An IP address is the list of its bytes, 4 or 16, an IPv4-mapped one in its 4-byte form. The
  token bucket is a parameter; a limiter's table of entries is the state its operations run on.
\<close>

section \<open>IP addresses\<close>

type_synonym ip = "nat list"

definition v4_field :: "string \<Rightarrow> nat option" where
  "v4_field s =
     (if s = [] \<or> (1 < length s \<and> hd s = CHR ''0'') then None
      else case parse_digits 0 s of
        None \<Rightarrow> None
      | Some n \<Rightarrow> if n \<le> 255 then Some n else None)"

fun all_some :: "'a option list \<Rightarrow> 'a list option" where
  "all_some [] = Some []"
| "all_some (x # xs) = (case (x, all_some xs) of (Some y, Some ys) \<Rightarrow> Some (y # ys) | _ \<Rightarrow> None)"

definition parseIPv4 :: "string \<Rightarrow> ip option" where
  "parseIPv4 s =
     (let fs = strings_Split [] s ''.'' in
      if length fs \<noteq> 4 then None else all_some (map v4_field fs))"

fun hex_number :: "nat \<Rightarrow> string \<Rightarrow> nat" where
  "hex_number acc [] = acc"
| "hex_number acc (c # s) = hex_number (acc * 16 + (case hex_val c of Some v \<Rightarrow> v | None \<Rightarrow> 0)) s"

text \<open>The groups of an IPv6 address: at most \<open>n\<close> of them, what follows the last one, the bytes
  read and where the ellipsis stands.\<close>

fun v6_groups :: "nat \<Rightarrow> string \<Rightarrow> ip \<Rightarrow> nat option \<Rightarrow> (string \<times> ip \<times> nat option) option" where
  "v6_groups 0 s ip ell = Some (s, ip, ell)"
| "v6_groups (Suc n) s ip ell =
     (let ds = takeWhile (\<lambda>c. hex_val c \<noteq> None) s; rest = dropWhile (\<lambda>c. hex_val c \<noteq> None) s in
      if ds = [] \<or> 4 < length ds then None
      else if rest \<noteq> [] \<and> hd rest = CHR ''.'' then
        (if ell = None \<and> length ip \<noteq> 12 then None
         else if 16 < length ip + 4 then None
         else case parseIPv4 s of None \<Rightarrow> None | Some v4 \<Rightarrow> Some ([], ip @ v4, ell))
      else
        (let v = hex_number 0 ds; ip' = ip @ [v div 256, v mod 256] in
         case rest of
           [] \<Rightarrow> Some ([], ip', ell)
         | c # t \<Rightarrow>
             if c \<noteq> CHR '':'' \<or> t = [] then None
             else if hd t = CHR '':'' then
               (if ell \<noteq> None then None
                else if tl t = [] then Some ([], ip', Some (length ip'))
                else v6_groups n (tl t) ip' (Some (length ip')))
             else v6_groups n t ip' ell))"

definition parseIPv6 :: "string \<Rightarrow> ip option" where
  "parseIPv6 s =
     (if CHR ''%'' \<in> set s then None
      else if s = ''::'' then Some (replicate 16 0)
      else case (if strings_HasPrefix s ''::'' then v6_groups 8 (drop 2 s) [] (Some 0) else v6_groups 8 s [] None) of
        None \<Rightarrow> None
      | Some (t, ip, ell) \<Rightarrow>
          if t \<noteq> [] then None
          else if length ip < 16 then
            (case ell of
               None \<Rightarrow> None
             | Some e \<Rightarrow> Some (take e ip @ replicate (16 - length ip) 0 @ drop e ip))
          else if ell \<noteq> None then None else Some ip)"

definition To4 :: "ip \<Rightarrow> ip" where
  "To4 ip = (if take 12 ip = replicate 10 0 @ [255, 255] then drop 12 ip else ip)"

definition net_ParseIP :: "string \<Rightarrow> ip option" where
  "net_ParseIP s =
     (case dropWhile (\<lambda>c. c \<notin> {CHR ''.'', CHR '':'', CHR ''%''}) s of
        [] \<Rightarrow> None
      | c # _ \<Rightarrow> if c = CHR ''.'' then parseIPv4 s
                 else if c = CHR '':'' then map_option To4 (parseIPv6 s)
                 else None)"

fun join :: "string \<Rightarrow> string list \<Rightarrow> string" where
  "join sep [] = []"
| "join sep [x] = x"
| "join sep (x # xs) = x @ sep @ join sep xs"

fun ip_groups :: "ip \<Rightarrow> nat list" where
  "ip_groups (a # b # ip) = (a * 256 + b) # ip_groups ip"
| "ip_groups _ = []"

definition hex_group :: "nat \<Rightarrow> string" where
  "hex_group n =
     (let ds = map (\<lambda>i. hextable ! (n div 16 ^ i mod 16)) [3, 2, 1, 0]; s = dropWhile (\<lambda>c. c = CHR ''0'') ds
      in if s = [] then ''0'' else s)"

text \<open>The first of the longest runs of at least two zero groups: where it starts and its length.\<close>

definition zero_run :: "nat list \<Rightarrow> nat \<times> nat" where
  "zero_run gs = fold (\<lambda>i (z, n). let l = length (takeWhile (\<lambda>g. g = 0) (drop i gs))
     in if 2 \<le> l \<and> n < l then (i, l) else (z, n)) [0..<length gs] (0, 0)"

definition ip_String :: "ip \<Rightarrow> string" where
  "ip_String ip =
     (if length ip = 4 then join ''.'' (map (\<lambda>b. strconv_Itoa (int b)) ip)
      else let gs = ip_groups ip; (z, n) = zero_run gs
        in if n = 0 then join '':'' (map hex_group gs)
           else join '':'' (map hex_group (take z gs)) @ ''::'' @ join '':'' (map hex_group (drop (z + n) gs)))"

definition IsLoopback :: "ip \<Rightarrow> bool" where
  "IsLoopback ip = (if length ip = 4 then hd ip = 127 else ip = replicate 15 0 @ [1])"

definition byte_bits :: "nat \<Rightarrow> bool list" where
  "byte_bits b = map (\<lambda>i. odd (b div 2 ^ (7 - i))) [0..<8]"

definition net_Contains :: "ip \<times> nat \<Rightarrow> ip \<Rightarrow> bool" where
  "net_Contains net ip = (length ip = length (fst net)
     \<and> take (snd net) (concat (map byte_bits ip)) = take (snd net) (concat (map byte_bits (fst net))))"

definition privateRanges :: "(ip \<times> nat) list" where
  "privateRanges = [([10, 0, 0, 0], 8), ([172, 16, 0, 0], 12), ([192, 168, 0, 0], 16), (252 # replicate 15 0, 7)]"

definition isPrivate :: "ip \<Rightarrow> bool" where
  "isPrivate ip = list_ex (\<lambda>r. net_Contains r ip) privateRanges"

section \<open>The client of a request\<close>

definition remote_host :: "http_request \<Rightarrow> string" where
  "remote_host r = (case SplitHostPort (rqRemoteAddr r) of None \<Rightarrow> rqRemoteAddr r | Some (host, _) \<Rightarrow> host)"

definition isInternalRequest :: "http_request \<Rightarrow> bool" where
  "isInternalRequest r =
     (case net_ParseIP (remote_host r) of
        None \<Rightarrow> False
      | Some ip \<Rightarrow> IsLoopback ip \<or> isPrivate ip)"

definition forwarded_client :: "http_request \<Rightarrow> string option" where
  "forwarded_client r =
     (let host = remote_host r; xff = rqHeader r ''X-Forwarded-For'' in
      if (host = ''127.0.0.1'' \<or> host = ''::1'') \<and> xff \<noteq> []
      then let candidate = (case strings_IndexByte xff (CHR '','') of Some i \<Rightarrow> take i xff | None \<Rightarrow> xff)
           in map_option ip_String (net_ParseIP (strings_TrimSpace candidate))
      else None)"

definition middleware_clientIP :: "http_request \<Rightarrow> string" where
  "middleware_clientIP r =
     (let cf = rqHeader r ''CF-Connecting-IP'' in
      case (if cf \<noteq> [] then net_ParseIP (strings_TrimSpace cf) else None) of
        Some ip \<Rightarrow> ip_String ip
      | None \<Rightarrow> (case forwarded_client r of Some s \<Rightarrow> s | None \<Rightarrow> remote_host r))"

section \<open>The limiter\<close>

text \<open>\<open>golang.org/x/time/rate\<close>: a new limiter from a limit and a burst, and one request at a time.\<close>

record ('f, 'l) rate_lib =
  rate_NewLimiter :: "'f \<Rightarrow> int \<Rightarrow> 'l"
  rate_Allow :: "'l \<Rightarrow> int \<Rightarrow> bool \<times> 'l"

record 'l ipEntry =
  enLimiter :: 'l
  enLastSeen :: int

record 'f IPRateLimiter =
  lmLimit :: 'f
  lmBurst :: int

type_synonym 'l entries = "string \<Rightarrow> 'l ipEntry option"

text \<open>A new limiter has the table \<open>no_entries\<close>.\<close>

definition NewIPRateLimiter :: "'f \<Rightarrow> int \<Rightarrow> 'f IPRateLimiter" where
  "NewIPRateLimiter rps burst = \<lparr>lmLimit = rps, lmBurst = burst\<rparr>"

definition no_entries :: "'l entries" where
  "no_entries = Map.empty"

definition modify_db :: "('db \<Rightarrow> 'a \<times> 'db) \<Rightarrow> ('db, 'a) io" where
  "modify_db f = State (\<lambda>w. let (x, d) = f (db w) in (x, w\<lparr>db := d\<rparr>))"

text \<open>The section under the lock answers the entry's limiter, the bucket is asked after it.\<close>

definition touch_entry :: "('f, 'l) rate_lib \<Rightarrow> 'f IPRateLimiter \<Rightarrow> string \<Rightarrow> int \<Rightarrow> 'l entries \<Rightarrow> unit \<times> 'l entries" where
  "touch_entry lib l ip now m =
     (let e = (case m ip of
           None \<Rightarrow> \<lparr>enLimiter = rate_NewLimiter lib (lmLimit l) (lmBurst l), enLastSeen = 0\<rparr> | Some e \<Rightarrow> e)
      in ((), m(ip \<mapsto> e\<lparr>enLastSeen := now\<rparr>)))"

definition ask_entry :: "('f, 'l) rate_lib \<Rightarrow> string \<Rightarrow> int \<Rightarrow> 'l entries \<Rightarrow> bool \<times> 'l entries" where
  "ask_entry lib ip now m =
     (case m ip of
        None \<Rightarrow> (False, m)
      | Some e \<Rightarrow> let (ok, b) = rate_Allow lib (enLimiter e) now in (ok, m(ip \<mapsto> e\<lparr>enLimiter := b\<rparr>)))"

definition IPRateLimiter_allow ::
  "('f, 'l) rate_lib \<Rightarrow> 'f IPRateLimiter \<Rightarrow> http_request \<Rightarrow> ('l entries, bool) io" where
  "IPRateLimiter_allow lib l r =
     (if isInternalRequest r then ret True
      else do {
        let ip = middleware_clientIP r;
        now \<leftarrow> time_Now;
        modify_db (touch_entry lib l ip now);
        now2 \<leftarrow> time_Now;
        modify_db (ask_entry lib ip now2) })"

definition sweep :: "int \<Rightarrow> int \<Rightarrow> 'l entries \<Rightarrow> unit \<times> 'l entries" where
  "sweep ttl now m = ((), \<lambda>ip. case m ip of
       Some e \<Rightarrow> if enLastSeen e < now - ttl then None else Some e
     | None \<Rightarrow> None)"

definition IPRateLimiter_Cleanup :: "int \<Rightarrow> ('l entries, unit) io" where
  "IPRateLimiter_Cleanup ttl = do {
     now \<leftarrow> time_Now;
     modify_db (sweep ttl now) }"

section \<open>Middleware\<close>

text \<open>
  The response headers a handler finds in its writer and those it leaves there. Only the ones
  that \<open>securityheaders.go\<close> sets are kept; \<open>Content-Type\<close> and the like are not.
\<close>

type_synonym headers = "(string \<times> string) list"
type_synonym 'db http_handler = "http_request \<Rightarrow> headers \<Rightarrow> ('db, headers \<times> http_response) io"

definition header_Set :: "string \<Rightarrow> string \<Rightarrow> headers \<Rightarrow> headers" where
  "header_Set k v h = (k, v) # filter (\<lambda>x. fst x \<noteq> k) h"

definition SecurityHeaders :: "'db http_handler \<Rightarrow> 'db http_handler" where
  "SecurityHeaders next_handler r h =
     (let h = header_Set ''X-Content-Type-Options'' ''nosniff'' h;
          h = header_Set ''X-Frame-Options'' ''DENY'' h;
          h = header_Set ''Referrer-Policy'' ''strict-origin-when-cross-origin'' h;
          h = header_Set ''Strict-Transport-Security'' ''max-age=63072000; includeSubDomains; preload'' h
      in next_handler r h)"

text \<open>The middleware takes the limiter by its \<open>allow\<close>.\<close>

definition IPRateLimiter_Middleware :: "(http_request \<Rightarrow> ('db, bool) io) \<Rightarrow> 'db http_handler \<Rightarrow> 'db http_handler" where
  "IPRateLimiter_Middleware allow next_handler r h = do {
     ok \<leftarrow> allow r;
     if \<not> ok then ret (h, http_Error [] ''rate limit exceeded'' 429)
     else next_handler r h }"

text \<open>\<open>main.go\<close> limits the token and introspection paths only.\<close>

definition token_paths :: "string list" where
  "token_paths = [''/oauth/v2/token'', ''/token'', ''/oauth/token'', ''/oauth/v2/introspect'', ''/introspect'']"

definition tokenPathLimiter :: "(http_request \<Rightarrow> ('db, bool) io) \<Rightarrow> 'db http_handler \<Rightarrow> 'db http_handler" where
  "tokenPathLimiter allow next_handler r h =
     (if rqPath r \<in> set token_paths then IPRateLimiter_Middleware allow next_handler r h
      else next_handler r h)"

end
