(* ===== verification/IdentityInvariants.thy ===== *)
theory IdentityInvariants
  imports IdentitySystem
begin

text \<open>
  What the operations of the identity service keep, whatever concurrent requests do: a
  spent refresh token stays spent, a revoked session stays revoked, an account keeps its
  identities and every account has one.
\<close>

section \<open>Refresh tokens\<close>

text \<open>A step that stores a refresh token with hash \<open>h\<close>, or one bound to session \<open>i\<close>.\<close>

fun stores :: "string \<Rightarrow> idp_stmt \<Rightarrow> bool" where
  "stores h (TokenStmt (TkRotate a r cur)) = (rtToken r = h)"
| "stores h _ = False"

fun binds :: "string \<Rightarrow> idp_stmt \<Rightarrow> bool" where
  "binds i (TokenStmt (TkRotate a r cur)) = (rtDeviceSessionID r = i)"
| "binds i _ = False"

definition spent :: "string \<Rightarrow> identity_db \<Rightarrow> bool" where
  "spent h d \<longleftrightarrow> db_ok d \<and> h \<notin> rr_token_hash ` set (t_refresh_tokens d)"

definition unbound :: "string \<Rightarrow> identity_db \<Rightarrow> bool" where
  "unbound i d \<longleftrightarrow> db_ok d \<and> Some i \<notin> rr_device_session_id ` set (t_refresh_tokens d)"

lemma spent_view: "spent h d \<longleftrightarrow> db_ok d \<and> refresh_view d h = None"
  by (auto simp: spent_def refresh_view_def find_key_None)

lemma unbound_view:
  assumes "i \<noteq> []"
  shows "unbound i d \<longleftrightarrow> db_ok d \<and> (\<forall>h r. refresh_view d h = Some r \<longrightarrow> rtDeviceSessionID r \<noteq> i)"
proof (cases "db_ok d")
  case True
  have "rtDeviceSessionID (scanRefreshToken q) = i \<longleftrightarrow> rr_device_session_id q = Some i" for q
    using assms by (cases "rr_device_session_id q") (simp_all add: scanRefreshToken_def)
  then have bound: "Some i \<in> rr_device_session_id ` set (t_refresh_tokens d) \<longleftrightarrow>
      (\<exists>q \<in> set (t_refresh_tokens d). rtDeviceSessionID (scanRefreshToken q) = i)"
    by (simp add: image_iff eq_commute [of "Some i"])
  have "(\<exists>h r. refresh_view d h = Some r \<and> rtDeviceSessionID r = i) \<longleftrightarrow>
      (\<exists>q \<in> set (t_refresh_tokens d). rtDeviceSessionID (scanRefreshToken q) = i)"
    unfolding refresh_view_Some [OF True] by blast
  with bound True show ?thesis unfolding unbound_def by blast
qed (simp add: unbound_def)

lemma keeps_conj: "keeps P m \<Longrightarrow> keeps Q m \<Longrightarrow> keeps (\<lambda>d. P d \<and> Q d) m"
  unfolding keeps_def by blast

text \<open>What every step but a rotation keeps of the refresh tokens.\<close>

lemma rows_kept:
  assumes "\<And>a r c. s \<noteq> TokenStmt (TkRotate a r c)"
    and "\<And>P t. Q t \<Longrightarrow> Q (sql_delete P t)"
    and "\<And>P t. Q t \<Longrightarrow> Q (sql_update P (\<lambda>k. k\<lparr>rr_device_session_id := None\<rparr>) t)"
  shows "keeps (\<lambda>d. Q (t_refresh_tokens d)) (exec_idp agg s)"
proof (cases s)
  case (UserStmt q)
  have "keeps (\<lambda>d. Q (t_refresh_tokens d)) (exec_user agg q)"
    by (rule frame_keeps [OF exec_user_frame, where Q = "\<lambda>d. Q (t_refresh_tokens d)"]) (simp add: not_users_def)
  with UserStmt show ?thesis by simp
next
  case (RequestStmt q)
  have "keeps (\<lambda>d. Q (t_refresh_tokens d)) (exec_request q)"
    by (rule frame_keeps [OF exec_request_frame, where Q = "\<lambda>d. Q (t_refresh_tokens d)"]) (simp add: not_requests_def)
  with RequestStmt show ?thesis by simp
next
  case (TokenStmt q)
  with assms show ?thesis
    by (cases q) (auto simp: TokenRepository_defs sql_insert_token_def sql_delete_tokens_def sql_delete_refresh_def
      sql_select_token_def sql_select_refresh_def sql_latest_session_def intro!: keeps
      split: sum.splits if_splits list.splits)
next
  case (DeviceStmt q)
  with assms(2,3) show ?thesis
    by (cases q) (auto simp: DeviceSessionRepository_defs DeviceSessionRepository_reuse_def
      sql_select_device_def sql_use_device_def sql_insert_device_def sql_revoke_device_def sql_list_active_def
      sql_purge_devices_def sql_delete_refresh_def Let_def intro!: keeps split: sum.splits if_splits)
qed

lemma rotation_cases:
  assumes "run_state (exec_idp agg (TokenStmt (TkRotate a r cur))) w = (x, w')" "db_ok (db w)"
  obtains (failed) "db w' = db w" "\<exists>e. x = Inl e"
  | (rotated) "x = Inr ()" "db_ok (db w')" "cur \<noteq> [] \<longrightarrow> refresh_view (db w) cur \<noteq> None"
      "refresh_view (db w') = rotate_refresh cur (r\<lparr>rtCreatedAt := clock w,
           rtDeviceSessionID := inherit_session cur (refresh_view (db w)) r\<rparr>) (refresh_view (db w))"
proof (cases x)
  case (Inl e)
  with assms show ?thesis using pg_tokens.rotate_error [of a r cur w e w'] failed by simp
next
  case (Inr u)
  with assms show ?thesis using pg_tokens.rotate_done [of a r cur w u w'] rotated by auto
qed

lemma keeps_spent: "\<not> stores h s \<Longrightarrow> keeps (spent h) (exec_idp agg s)"
proof (cases "\<exists>a r c. s = TokenStmt (TkRotate a r c)")
  case False
  then have "keeps (\<lambda>d. h \<notin> rr_token_hash ` set (t_refresh_tokens d)) (exec_idp agg s)"
    by (intro rows_kept) (auto simp: set_sql_update)
  then show ?thesis unfolding spent_def using exec_keeps_ok by (intro keeps_conj)
next
  case True
  assume new: "\<not> stores h s"
  from True obtain a r c where s: "s = TokenStmt (TkRotate a r c)" by blast
  show ?thesis
    unfolding keeps_def s
  proof (intro allI impI)
    fix w x w' assume run: "run_state (exec_idp agg (TokenStmt (TkRotate a r c))) w = (x, w')" and sp: "spent h (db w)"
    then have "db_ok (db w)" by (simp add: spent_view)
    with run show "spent h (db w')"
      using sp new by (cases rule: rotation_cases) (auto simp: spent_view rotate_refresh_def s)
  qed
qed

lemma keeps_unbound: "i \<noteq> [] \<Longrightarrow> \<not> binds i s \<Longrightarrow> keeps (unbound i) (exec_idp agg s)"
proof (cases "\<exists>a r c. s = TokenStmt (TkRotate a r c)")
  case False
  then have "keeps (\<lambda>d. Some i \<notin> rr_device_session_id ` set (t_refresh_tokens d)) (exec_idp agg s)"
    by (intro rows_kept) (auto simp: set_sql_update)
  then show ?thesis unfolding unbound_def using exec_keeps_ok by (intro keeps_conj)
next
  case True
  assume i: "i \<noteq> []" and new: "\<not> binds i s"
  from True obtain a r c where s: "s = TokenStmt (TkRotate a r c)" by blast
  show ?thesis
    unfolding keeps_def s
  proof (intro allI impI)
    fix w x w' assume run: "run_state (exec_idp agg (TokenStmt (TkRotate a r c))) w = (x, w')" and un: "unbound i (db w)"
    then have ok: "db_ok (db w)" and old: "refresh_view (db w) h = Some k \<Longrightarrow> rtDeviceSessionID k \<noteq> i" for h k
      using unbound_view [OF i] by auto
    have "inherit_session c (refresh_view (db w)) r \<noteq> i"
      using i new old by (auto simp: inherit_session_def s split: option.splits)
    with run ok show "unbound i (db w')"
      using un old by (cases rule: rotation_cases) (auto simp: unbound_view [OF i] rotate_refresh_def split: if_splits)
  qed
qed

section \<open>Device sessions\<close>

definition revoked :: "string \<Rightarrow> identity_db \<Rightarrow> bool" where
  "revoked i d \<longleftrightarrow> (\<exists>r \<in> set (t_device_sessions d). dr_id r = i \<and> dr_revoked_at r \<noteq> None)"

lemma revoked_view:
  "db_ok d \<Longrightarrow> revoked i d \<longleftrightarrow> (\<exists>s. device_view d i = Some s \<and> dsRevokedAt s \<noteq> None)"
  by (auto simp: revoked_def device_view_Some)

lemma revoked_insert: "revoked i d \<Longrightarrow> revoked i (d\<lparr>t_device_sessions := t_device_sessions d @ [r]\<rparr>)"
  by (auto simp: revoked_def)

lemma revoked_update:
  assumes "revoked i d" "\<And>r. P r \<Longrightarrow> dr_id (f r) = dr_id r"
    and "\<And>r. P r \<Longrightarrow> dr_revoked_at r \<noteq> None \<Longrightarrow> dr_revoked_at (f r) \<noteq> None"
  shows "revoked i (d\<lparr>t_device_sessions := sql_update P f (t_device_sessions d)\<rparr>)"
proof -
  obtain r where r: "r \<in> set (t_device_sessions d)" "dr_id r = i" "dr_revoked_at r \<noteq> None"
    using assms(1) unfolding revoked_def by blast
  let ?r = "if P r then f r else r"
  have "?r \<in> set (sql_update P f (t_device_sessions d))" using r(1) by (simp add: set_sql_update)
  moreover have "dr_id ?r = i" "dr_revoked_at ?r \<noteq> None" using r assms(2,3) by simp_all
  ultimately show ?thesis unfolding revoked_def by auto
qed

lemma revoked_other [simp]:
  "revoked i (d\<lparr>t_tokens := ts\<rparr>) = revoked i d" "revoked i (d\<lparr>t_refresh_tokens := rs\<rparr>) = revoked i d"
  by (simp_all add: revoked_def)

fun purges :: "idp_stmt \<Rightarrow> bool" where
  "purges (DeviceStmt (DvPurge t)) = True"
| "purges _ = False"

lemma revoked_steps:
  "revoked i d \<Longrightarrow> sql_touch_device s t d = Inr (x, d') \<Longrightarrow> revoked i d'"
  "revoked i d \<Longrightarrow> sql_use_device ua ip s t d = Inr (x, d') \<Longrightarrow> revoked i d'"
  "revoked i d \<Longrightarrow> sql_insert_device r t d = Inr (x, d') \<Longrightarrow> revoked i d'"
  "revoked i d \<Longrightarrow> sql_revoke_device s u t d = Inr (n, d') \<Longrightarrow> revoked i d'"
  by (auto simp: sql_touch_device_def sql_use_device_def sql_insert_device_def sql_revoke_device_def Let_def
      sql_insert_def intro!: revoked_update revoked_insert split: if_splits)

lemma keeps_revoked: "\<not> purges s \<Longrightarrow> keeps (revoked i) (exec_idp agg s)"
proof (cases s)
  case (UserStmt q)
  have "keeps (revoked i) (exec_user agg q)"
    by (rule frame_keeps [OF exec_user_frame, where Q = "revoked i"]) (simp add: not_users_def revoked_def)
  with UserStmt show ?thesis by simp
next
  case (RequestStmt q)
  have "keeps (revoked i) (exec_request q)"
    by (rule frame_keeps [OF exec_request_frame, where Q = "revoked i"]) (simp add: not_requests_def revoked_def)
  with RequestStmt show ?thesis by simp
next
  case (TokenStmt q)
  then show ?thesis
    by (cases q) (auto simp: TokenRepository_defs TokenRepository_retireOld_def TokenRepository_lookupOld_def
      TokenRepository_revokeOldAccess_def TokenRepository_deleteOldRefresh_def sql_insert_token_def
      sql_insert_refresh_def sql_old_refresh_def sql_delete_tokens_def sql_delete_refresh_def
      sql_select_token_def sql_select_refresh_def sql_latest_session_def Let_def
      intro!: keeps dest: revoked_steps split: sum.splits if_splits list.splits)
next
  case (DeviceStmt q)
  assume "\<not> purges s"
  with DeviceStmt show ?thesis
    by (cases q) (auto simp: DeviceSessionRepository_defs DeviceSessionRepository_reuse_def
      sql_select_device_def sql_list_active_def sql_delete_refresh_def Let_def
      intro!: keeps dest: revoked_steps split: sum.splits if_splits)
qed

section \<open>Accounts\<close>

definition has_account :: "string \<Rightarrow> identity_db \<Rightarrow> bool" where
  "has_account u d \<longleftrightarrow> u \<in> ur_id ` set (t_users d)"

definition owned :: "string \<times> string \<Rightarrow> string \<Rightarrow> identity_db \<Rightarrow> bool" where
  "owned k u d \<longleftrightarrow> (\<exists>r \<in> set (t_fids d). fr_key r = k \<and> fr_user_id r = u)"

fun unlinks :: "idp_stmt \<Rightarrow> bool" where
  "unlinks (UserStmt (UsDelete f u)) = True"
| "unlinks _ = False"

lemma owned_view: "db_ok d \<Longrightarrow> owned (p, s) u d \<longleftrightarrow> linked (fid_view d) p s = Some u"
  by (auto simp: owned_def linked_def fid_view_Some toFederatedIdentity_def)

lemma other_groups_frame:
  assumes "\<And>q. s \<noteq> UserStmt q" "\<And>d d'. t_users d = t_users d' \<Longrightarrow> t_fids d = t_fids d' \<Longrightarrow> P d = P d'"
  shows "keeps P (exec_idp agg s)"
proof (cases s)
  case (TokenStmt q)
  have "P d = P (not_tokens d)" for d by (rule assms(2)) (simp_all add: not_tokens_def)
  then have "keeps P (exec_token q)" by (rule frame_keeps [OF exec_token_frame])
  with TokenStmt show ?thesis by simp
next
  case (RequestStmt q)
  have "P d = P (not_requests d)" for d by (rule assms(2)) (simp_all add: not_requests_def)
  then have "keeps P (exec_request q)" by (rule frame_keeps [OF exec_request_frame])
  with RequestStmt show ?thesis by simp
next
  case (DeviceStmt q)
  have "P d = P (not_devices d)" for d by (rule assms(2)) (simp_all add: not_devices_def)
  then have "keeps P (exec_device q)" by (rule frame_keeps [OF exec_device_frame])
  with DeviceStmt show ?thesis by simp
qed (simp add: assms(1))

lemma keeps_account: "keeps (has_account u) (exec_idp agg s)"
proof (cases s)
  case (UserStmt q)
  then show ?thesis
    by (cases q) (auto simp: UserRepository_defs user_sql_defs has_account_def sql_insert_def Let_def
      image_sql_update intro!: keeps split: sum.splits if_splits list.splits)
qed (rule other_groups_frame; simp add: has_account_def)+

lemma owned_users [simp]: "owned k u (d\<lparr>t_users := us\<rparr>) = owned k u d"
  by (simp add: owned_def)

lemma owned_update:
  assumes "owned k u d" "\<And>r. P r \<Longrightarrow> fr_key (f r) = fr_key r" "\<And>r. P r \<Longrightarrow> fr_user_id (f r) = fr_user_id r"
  shows "owned k u (d\<lparr>t_fids := sql_update P f (t_fids d)\<rparr>)"
proof -
  obtain r where r: "r \<in> set (t_fids d)" "fr_key r = k" "fr_user_id r = u"
    using assms(1) unfolding owned_def by blast
  let ?r = "if P r then f r else r"
  have "?r \<in> set (sql_update P f (t_fids d))" using r(1) by (simp add: set_sql_update)
  moreover have "fr_key ?r = k" "fr_user_id ?r = u" using r assms(2,3) by simp_all
  ultimately show ?thesis unfolding owned_def by auto
qed

lemma owned_steps:
  "owned k u d \<Longrightarrow> sql_insert_user r t d = Inr (x, d') \<Longrightarrow> owned k u d'"
  "owned k u d \<Longrightarrow> sql_insert_fid f t d = Inr (x, d') \<Longrightarrow> owned k u d'"
  "owned k u d \<Longrightarrow> sql_update_user_claims v c ts t d = Inr (x, d') \<Longrightarrow> owned k u d'"
  "owned k u d \<Longrightarrow> sql_update_fid_claims p s c ts t d = Inr (x, d') \<Longrightarrow> owned k u d'"
  "owned k u d \<Longrightarrow> sql_update_local v b1 nm b2 pic ts t d = Inr (x, d') \<Longrightarrow> owned k u d'"
proof -
  assume k: "owned k u d"
  { assume "sql_insert_fid f t d = Inr (x, d')"
    then have "d' = d\<lparr>t_fids := t_fids d @ [f]\<rparr>"
      by (auto simp: sql_insert_fid_def sql_insert_def split: if_splits)
    with k show "owned k u d'" by (auto simp: owned_def) }
  { assume "sql_update_fid_claims p s c ts t d = Inr (x, d')"
    with k show "owned k u d'" unfolding sql_update_fid_claims_def
      by (auto simp: fr_key_def intro!: owned_update) }
qed (auto simp: sql_insert_user_def sql_update_user_claims_def sql_update_local_def split: sum.splits)

lemma keeps_owned: "\<not> unlinks s \<Longrightarrow> keeps (owned k u) (exec_idp agg s)"
proof (cases s)
  case (UserStmt q)
  assume "\<not> unlinks s"
  with UserStmt show ?thesis
    by (cases q) (auto simp: UserRepository_defs sql_select_user_def sql_select_federated_def sql_list_fids_def
      intro!: keeps dest: owned_steps split: sum.splits if_splits list.splits)
qed (rule other_groups_frame; simp add: owned_def)+

text \<open>Every account has an identity to sign in with.\<close>

definition served ::
  "(string \<Rightarrow> User option) \<Rightarrow> (string \<times> string \<Rightarrow> FederatedIdentity option) \<Rightarrow> bool" where
  "served users fids \<longleftrightarrow> (\<forall>u. users u \<noteq> None \<longrightarrow> (\<exists>k f. fids k = Some f \<and> fiUserID f = u))"

lemma served_users: "served users fids \<Longrightarrow> (\<And>u. users' u \<noteq> None \<Longrightarrow> users u \<noteq> None) \<Longrightarrow> served users' fids"
  unfolding served_def by blast

lemma served_relabel:
  assumes "served users fids" "\<And>k. map_option fiUserID (fids' k) = map_option fiUserID (fids k)"
  shows "served users fids'"
  unfolding served_def
proof (intro allI impI)
  fix u assume "users u \<noteq> None"
  then obtain k f where "fids k = Some f" "fiUserID f = u" using assms(1) unfolding served_def by blast
  with assms(2) [of k] obtain f' where "fids' k = Some f'" "fiUserID f' = u" by auto
  then show "\<exists>k f. fids' k = Some f \<and> fiUserID f = u" by blast
qed

context identity_repository
begin

lemma create_served:
  assumes "run_state (CreateWithFederatedIdentity repo (new_user c u t) (new_identity p c u i t)) w = (Inr x, w')"
    and "invar (db w)" "served (vu (db w)) (vf (db w))"
  shows "served (vu (db w')) (vf (db w'))"
proof -
  have new: "vf (db w) (p, fcSubject c) = None" "vu (db w') = (vu (db w))(u \<mapsto> new_user c u t)"
    "vf (db w') = (vf (db w))((p, fcSubject c) \<mapsto> new_identity p c u i t)"
    using create_done [OF assms(1,2)] by (simp_all add: new_user_def new_identity_def)
  show ?thesis
    unfolding served_def
  proof (intro allI impI)
    fix v assume v: "vu (db w') v \<noteq> None"
    show "\<exists>k f. vf (db w') k = Some f \<and> fiUserID f = v"
    proof (cases "v = u")
      case True
      then show ?thesis using new(3) by (intro exI [of _ "(p, fcSubject c)"]) (simp add: new_identity_def)
    next
      case False
      with v new(2) have "vu (db w) v \<noteq> None" by simp
      then obtain k f where "vf (db w) k = Some f" "fiUserID f = v" using assms(3) unfolding served_def by blast
      with new show ?thesis by (intro exI [of _ k] exI [of _ f]) auto
    qed
  qed
qed

lemma delete_served:
  assumes "run_state (DeleteFederatedIdentity repo fid uid) w = (Inr x, w')"
    and "invar (db w)" "served (vu (db w)) (vf (db w))"
  shows "served (vu (db w')) (vf (db w'))"
proof -
  obtain k f k2 f2 where new: "vu (db w') = vu (db w)" "vf (db w) k = Some f" "fiUserID f = uid"
      "vf (db w') = (vf (db w))(k := None)" "k2 \<noteq> k" "vf (db w) k2 = Some f2" "fiUserID f2 = uid"
    using delete_done [OF assms(1,2)] by blast
  show ?thesis
    unfolding served_def
  proof (intro allI impI)
    fix v assume "vu (db w') v \<noteq> None"
    with new(1) obtain k3 f3 where 3: "vf (db w) k3 = Some f3" "fiUserID f3 = v"
      using assms(3) unfolding served_def by auto
    show "\<exists>k f. vf (db w') k = Some f \<and> fiUserID f = v"
    proof (cases "v = uid")
      case True
      with new show ?thesis by (intro exI [of _ k2] exI [of _ f2]) simp
    next
      case False
      with 3 new show ?thesis by (intro exI [of _ k3] exI [of _ f3]) auto
    qed
  qed
qed

lemma keeps_served:
  fixes P defines "P \<equiv> \<lambda>d. invar d \<and> served (vu d) (vf d)"
  shows "keeps P (User_GetByID repo u)" "keeps P (FindByFederatedIdentity repo p s)"
    "keeps P (CreateWithFederatedIdentity repo (new_user c u t) (new_identity p c u i t))"
    "keeps P (UpdateUserFromClaims repo u c t)" "keeps P (UpdateFederatedIdentityClaims repo p s c t)"
    "keeps P (ListFederatedIdentities repo u)" "keeps P (DeleteFederatedIdentity repo i u)"
    "keeps P (UpdateLocalProfile repo u nm pic t)"
proof -
  show "keeps P (User_GetByID repo u)"
    unfolding P_def by (rule keeps_by_cases) (metis get_done, metis get_error)
  show "keeps P (FindByFederatedIdentity repo p s)"
    unfolding P_def by (rule keeps_by_cases) (metis find_done, metis find_error)
  show "keeps P (CreateWithFederatedIdentity repo (new_user c u t) (new_identity p c u i t))"
    unfolding P_def using keeps_invar(3) [of c u t p i]
    by (intro keeps_by_cases) (metis create_served keepsD, metis create_error)
  show "keeps P (DeleteFederatedIdentity repo i u)"
    unfolding P_def using keeps_invar(7) [of i u]
    by (intro keeps_by_cases) (metis delete_served keepsD, metis delete_error)
  show "keeps P (ListFederatedIdentities repo u)"
    unfolding P_def by (rule keeps_by_cases) (metis list_done, metis list_error)
  show "keeps P (UpdateUserFromClaims repo u c t)"
  proof (rule keeps_by_cases)
    fix w w' and x :: unit assume "run_state (UpdateUserFromClaims repo u c t) w = (Inr x, w')" "P (db w)"
    with claims_done [of u c t w x w'] show "P (db w')"
      unfolding P_def by (auto elim!: served_users split: if_splits)
  qed (metis claims_error)
  show "keeps P (UpdateLocalProfile repo u nm pic t)"
  proof (rule keeps_by_cases)
    fix w w' and x :: unit assume "run_state (UpdateLocalProfile repo u nm pic t) w = (Inr x, w')" "P (db w)"
    with profile_done [of u nm pic t w x w'] show "P (db w')"
      unfolding P_def by (auto elim!: served_users split: if_splits)
  qed (metis profile_error)
  show "keeps P (UpdateFederatedIdentityClaims repo p s c t)"
  proof (rule keeps_by_cases)
    fix w w' and x :: unit
    assume run: "run_state (UpdateFederatedIdentityClaims repo p s c t) w = (Inr x, w')" and "P (db w)"
    then have P: "invar (db w)" "served (vu (db w)) (vf (db w))" by (simp_all add: P_def)
    note f = fclaims_done [OF run P(1)]
    have "map_option fiUserID (vf (db w') k) = map_option fiUserID (vf (db w) k)" for k
    proof (cases "k = (p, s)")
      case True
      have "map_option snd (map_option (\<lambda>f. (fiID f, fiUserID f)) (vf (db w') (p, s))) =
          map_option snd (map_option (\<lambda>f. (fiID f, fiUserID f)) (vf (db w) (p, s)))" using f by metis
      with True show ?thesis by (simp add: option.map_comp comp_def)
    next
      case False
      with f show ?thesis by metis
    qed
    with served_relabel [OF P(2)] f show "P (db w')" unfolding P_def by metis
  qed (metis fclaims_error)
qed

end

definition no_orphans :: "identity_db \<Rightarrow> bool" where
  "no_orphans d \<longleftrightarrow> db_ok d \<and> served (user_view d) (fid_view d)"

lemma no_orphans_empty [simp]: "no_orphans empty_identity_db"
  by (simp add: no_orphans_def served_def user_view_def) (simp add: empty_identity_db_def)

lemma exec_keeps_served: "keeps no_orphans (exec_idp agg s)"
proof (cases s)
  case (UserStmt q)
  then show ?thesis unfolding no_orphans_def [abs_def]
    by (cases q) (auto intro: keeps pg_users.keeps_served)
next
  case (TokenStmt q)
  have "keeps (\<lambda>d. served (user_view d) (fid_view d)) (exec_idp agg s)"
    by (rule other_groups_frame) (auto simp: TokenStmt served_def user_view_def fid_view_def)
  then show ?thesis unfolding no_orphans_def [abs_def] using exec_keeps_ok by (intro keeps_conj)
next
  case (RequestStmt q)
  have "keeps (\<lambda>d. served (user_view d) (fid_view d)) (exec_idp agg s)"
    by (rule other_groups_frame) (auto simp: RequestStmt served_def user_view_def fid_view_def)
  then show ?thesis unfolding no_orphans_def [abs_def] using exec_keeps_ok by (intro keeps_conj)
next
  case (DeviceStmt q)
  have "keeps (\<lambda>d. served (user_view d) (fid_view d)) (exec_idp agg s)"
    by (rule other_groups_frame) (auto simp: DeviceStmt served_def user_view_def fid_view_def)
  then show ?thesis unfolding no_orphans_def [abs_def] using exec_keeps_ok by (intro keeps_conj)
qed

end
