(* ===== verification/AccountsServer.thy ===== *)
theory AccountsServer
  imports IdentityInvariants
begin

text \<open>
  The account management API of the identity service: the signing keys
  (\<open>internal/oidc/adapter/keys.go\<close>) and \<open>internal/grpc\<close>, its JWT interceptor, handlers and
  error mapping. RSA keys are an arbitrary type; their DER encoding, SHA-256, the parsing and
  verification of a JWS and the decoding of its payload are parameters.
\<close>

section \<open>Keys\<close>

record 'k SigningKeyWithID =
  skKey :: 'k
  skID :: string

record 'k PublicKeyWithID =
  pkKey :: 'k
  pkID :: string

record 'k PublicKeySet =
  ksCurrent :: "'k PublicKeyWithID"
  ksPrevious :: "'k PublicKeyWithID list"

definition deriveKeyID :: "(byte list \<Rightarrow> byte list) \<Rightarrow> ('k \<Rightarrow> byte list) \<Rightarrow> 'k \<Rightarrow> string" where
  "deriveKeyID sha256 der key = hex_Encode (take 8 (sha256 (der key)))"

definition NewSigningKey :: "(byte list \<Rightarrow> byte list) \<Rightarrow> ('k \<Rightarrow> byte list) \<Rightarrow> 'k \<Rightarrow> 'k SigningKeyWithID" where
  "NewSigningKey sha256 der key = \<lparr>skKey = key, skID = deriveKeyID sha256 der key\<rparr>"

definition NewPublicKey :: "(byte list \<Rightarrow> byte list) \<Rightarrow> ('k \<Rightarrow> byte list) \<Rightarrow> 'k \<Rightarrow> 'k PublicKeyWithID" where
  "NewPublicKey sha256 der key = \<lparr>pkKey = key, pkID = deriveKeyID sha256 der key\<rparr>"

definition NewPublicKeySet ::
  "(byte list \<Rightarrow> byte list) \<Rightarrow> ('k \<Rightarrow> byte list) \<Rightarrow> 'k \<Rightarrow> 'k list \<Rightarrow> 'k PublicKeySet" where
  "NewPublicKeySet sha256 der current previous =
     \<lparr>ksCurrent = NewPublicKey sha256 der current, ksPrevious = map (NewPublicKey sha256 der) previous\<rparr>"

definition PublicKeySet_All :: "'k PublicKeySet \<Rightarrow> 'k PublicKeyWithID list" where
  "PublicKeySet_All s = [ksCurrent s] @ ksPrevious s"

definition StorageAdapter_KeySet :: "'k PublicKeySet \<Rightarrow> 'k PublicKeyWithID list" where
  "StorageAdapter_KeySet publicKeys = map (\<lambda>k. k) (PublicKeySet_All publicKeys)"

definition StorageAdapter_SigningKey :: "'k SigningKeyWithID \<Rightarrow> goerr + 'k SigningKeyWithID" where
  "StorageAdapter_SigningKey signing = Inr signing"

definition StorageAdapter_SignatureAlgorithms :: "goerr + string list" where
  "StorageAdapter_SignatureAlgorithms = Inr [''RS256'']"

section \<open>The interceptor\<close>

record jwtClaims =
  jcSubject :: string
  jcExpiry :: int
  jcIssuer :: string

text \<open>
  \<open>jws_parse\<close> parses a compact token with RS256 only; a parsed token has the key identifiers
  of its signatures, and \<open>jws_verify\<close> answers the payload when the signature is the key's.
\<close>

record 'k jws_lib =
  jws_parse :: "string \<Rightarrow> string list option"
  jws_verify :: "string \<Rightarrow> 'k \<Rightarrow> byte list option"
  jws_claims :: "byte list \<Rightarrow> jwtClaims option"

definition JWT_extractBearerToken :: "grpc_metadata option \<Rightarrow> goerr + string" where
  "JWT_extractBearerToken md =
     (case md of
        None \<Rightarrow> Inl (StatusErr Unauthenticated ''missing metadata'')
      | Some m \<Rightarrow>
          (case m ''authorization'' of
             [] \<Rightarrow> Inl (StatusErr Unauthenticated ''missing authorization header'')
           | v # _ \<Rightarrow>
               if \<not> strings_HasPrefix v ''Bearer ''
               then Inl (StatusErr Unauthenticated ''authorization must use Bearer scheme'')
               else Inr (strings_TrimPrefix v ''Bearer '')))"

text \<open>The loop over the keys: it stops at the first one that verifies; a failed verification
  leaves no payload.\<close>

fun verify_loop :: "'k jws_lib \<Rightarrow> string \<Rightarrow> string \<Rightarrow> 'k PublicKeyWithID list \<Rightarrow> byte list option \<Rightarrow> byte list option" where
  "verify_loop lib raw kid [] payload = payload"
| "verify_loop lib raw kid (k # ks) payload =
     (if pkID k \<noteq> kid then verify_loop lib raw kid ks payload
      else case jws_verify lib raw (pkKey k) of
        Some p \<Rightarrow> Some p
      | None \<Rightarrow> verify_loop lib raw kid ks None)"

definition verifyJWT :: "'k jws_lib \<Rightarrow> string \<Rightarrow> 'k PublicKeySet \<Rightarrow> goerr + jwtClaims" where
  "verifyJWT lib rawToken publicKeys =
     (case jws_parse lib rawToken of
        None \<Rightarrow> Inl (DriverErr 0)
      | Some kids \<Rightarrow>
          let kid = (case kids of [] \<Rightarrow> [] | k # _ \<Rightarrow> k)
          in case verify_loop lib rawToken kid (PublicKeySet_All publicKeys) None of
               None \<Rightarrow> Inl (ErrorString (''no matching signing key for kid '' @ kid))
             | Some payload \<Rightarrow>
                 (case jws_claims lib payload of
                    None \<Rightarrow> Inl (DriverErr 1)
                  | Some claims \<Rightarrow> Inr claims))"

definition JWTAuthInterceptor ::
  "'k jws_lib \<Rightarrow> 'k PublicKeySet \<Rightarrow> string \<Rightarrow> grpc_metadata option \<Rightarrow> (string \<Rightarrow> ('db, 'a) eio) \<Rightarrow> ('db, 'a) eio" where
  "JWTAuthInterceptor lib publicKeys issuer md handler =
     (case JWT_extractBearerToken md of
        Inl err \<Rightarrow> ret (Inl err)
      | Inr rawToken \<Rightarrow>
          (case verifyJWT lib rawToken publicKeys of
             Inl err \<Rightarrow> ret (Inl (StatusErr Unauthenticated ''invalid token''))
           | Inr claims \<Rightarrow>
               if jcIssuer claims \<noteq> issuer then ret (Inl (StatusErr Unauthenticated ''invalid issuer''))
               else do {
                 now \<leftarrow> time_Now;
                 if now div Second > jcExpiry claims then ret (Inl (StatusErr Unauthenticated ''token expired''))
                 else if jcSubject claims = [] then ret (Inl (StatusErr Unauthenticated ''missing sub claim''))
                 else handler (jcSubject claims) }))"

section \<open>The handlers\<close>

definition domainStatus :: "goerr \<Rightarrow> goerr" where
  "domainStatus err =
     (if errors_Is err ErrNotFound then StatusErr NotFound ''not found''
      else if errors_Is err ErrUnauthorized then StatusErr PermissionDenied ''permission denied''
      else if errors_Is err ErrFailedPrecondition then StatusErr FailedPrecondition (error_text err)
      else StatusErr Internal ''internal error'')"

record Profile =
  pbUserId :: string
  pbEmail :: string
  pbEmailVerified :: bool
  pbName :: string
  pbGivenName :: string
  pbFamilyName :: string
  pbPicture :: string
  pbNameIsLocal :: bool
  pbPictureIsLocal :: bool
  pbCreatedAt :: "int \<times> int"
  pbUpdatedAt :: "int \<times> int"

record FederatedProviderInfo =
  pbIdentityId :: string
  pbProvider :: string
  pbProviderEmail :: string
  pbLastLoginAt :: "int \<times> int"

record Session =
  pbSessionId :: string
  pbDeviceName :: string
  pbIpAddress :: string
  pbSessionCreatedAt :: "int \<times> int"
  pbLastUsedAt :: "int \<times> int"

definition userToProto :: "User \<Rightarrow> Profile" where
  "userToProto u = \<lparr>pbUserId = uID u, pbEmail = uEmail u, pbEmailVerified = uEmailVerified u, pbName = uName u,
     pbGivenName = uGivenName u, pbFamilyName = uFamilyName u, pbPicture = uPicture u,
     pbNameIsLocal = (uLocalName u \<noteq> None \<and> the (uLocalName u) \<noteq> []),
     pbPictureIsLocal = (uLocalPicture u \<noteq> None \<and> the (uLocalPicture u) \<noteq> []),
     pbCreatedAt = timestamppb_New (uCreatedAt u), pbUpdatedAt = timestamppb_New (uUpdatedAt u)\<rparr>"

datatype accounts_request =
    GetMyProfileRequest
  | UpdateMyProfileRequest "string option" "string option"
  | ListLinkedProvidersRequest
  | UnlinkProviderRequest string
  | ListActiveSessionsRequest
  | RevokeSessionRequest string
  | RevokeAllOtherSessionsRequest string

datatype accounts_response =
    ProfileResponse Profile
  | LinkedProviders "FederatedProviderInfo list"
  | ActiveSessions "Session list"
  | EmptyResponse

record 'db accounts_handler =
  ah_identity :: "'db go_world Repository"
  ah_devices :: "'db deviceSessionService"

definition Handler_GetMyProfile :: "'db accounts_handler \<Rightarrow> string \<Rightarrow> ('db, accounts_response) eio" where
  "Handler_GetMyProfile h userID = do {
     r \<leftarrow> identityService_GetUser (ah_identity h) userID;
     case r of
       Inl err \<Rightarrow> ret (Inl (domainStatus err))
     | Inr user \<Rightarrow> ret (Inr (ProfileResponse (userToProto user))) }"

definition Handler_UpdateMyProfile ::
  "'db accounts_handler \<Rightarrow> string \<Rightarrow> string option \<Rightarrow> string option \<Rightarrow> ('db, accounts_response) eio" where
  "Handler_UpdateMyProfile h userID name picture = do {
     r \<leftarrow> identityService_UpdateProfile (ah_identity h) userID name picture;
     case r of
       Inl err \<Rightarrow> ret (Inl (domainStatus err))
     | Inr user \<Rightarrow> ret (Inr (ProfileResponse (userToProto user))) }"

definition Handler_ListLinkedProviders :: "'db accounts_handler \<Rightarrow> string \<Rightarrow> ('db, accounts_response) eio" where
  "Handler_ListLinkedProviders h userID = do {
     r \<leftarrow> identityService_ListLinkedProviders (ah_identity h) userID;
     case r of
       Inl err \<Rightarrow> ret (Inl (domainStatus err))
     | Inr fis \<Rightarrow> ret (Inr (LinkedProviders (map (\<lambda>fi. \<lparr>pbIdentityId = fiID fi, pbProvider = fiProvider fi,
         pbProviderEmail = fiProviderEmail fi, pbLastLoginAt = timestamppb_New (fiLastLoginAt fi)\<rparr>) fis))) }"

definition Handler_UnlinkProvider :: "'db accounts_handler \<Rightarrow> string \<Rightarrow> string \<Rightarrow> ('db, accounts_response) eio" where
  "Handler_UnlinkProvider h userID identityId =
     (if identityId = [] then ret (Inl (StatusErr InvalidArgument ''identity_id is required''))
      else do {
        r \<leftarrow> identityService_UnlinkProvider (ah_identity h) userID identityId;
        case r of
          Inl err \<Rightarrow> ret (Inl (domainStatus err))
        | Inr _ \<Rightarrow> ret (Inr EmptyResponse) })"

definition Handler_ListActiveSessions :: "'db accounts_handler \<Rightarrow> string \<Rightarrow> ('db, accounts_response) eio" where
  "Handler_ListActiveSessions h userID = do {
     r \<leftarrow> deviceSessionService_ListActiveByUserID (ah_devices h) userID;
     case r of
       Inl err \<Rightarrow> ret (Inl (domainStatus err))
     | Inr sessions \<Rightarrow> ret (Inr (ActiveSessions (map (\<lambda>s. \<lparr>pbSessionId = dsID s, pbDeviceName = dsDeviceName s,
         pbIpAddress = dsIPAddress s, pbSessionCreatedAt = timestamppb_New (dsCreatedAt s),
         pbLastUsedAt = timestamppb_New (dsLastUsedAt s)\<rparr>) sessions))) }"

definition Handler_RevokeSession :: "'db accounts_handler \<Rightarrow> string \<Rightarrow> string \<Rightarrow> ('db, accounts_response) eio" where
  "Handler_RevokeSession h userID sessionId =
     (if sessionId = [] then ret (Inl (StatusErr InvalidArgument ''session_id is required''))
      else do {
        r \<leftarrow> deviceSessionService_RevokeByID (ah_devices h) sessionId userID;
        case r of
          Inl err \<Rightarrow> ret (Inl (domainStatus err))
        | Inr _ \<Rightarrow> ret (Inr EmptyResponse) })"

text \<open>The loop of \<open>RevokeAllOtherSessions\<close> ignores the errors of the single revocations.\<close>

fun revoke_others :: "'db deviceSessionService \<Rightarrow> string \<Rightarrow> string \<Rightarrow> DeviceSession list \<Rightarrow> ('db, unit) io" where
  "revoke_others svc userID current [] = ret ()"
| "revoke_others svc userID current (s # ss) =
     (if dsID s = current then revoke_others svc userID current ss
      else do {
        _ \<leftarrow> deviceSessionService_RevokeByID svc (dsID s) userID;
        revoke_others svc userID current ss })"

definition Handler_RevokeAllOtherSessions ::
  "'db accounts_handler \<Rightarrow> string \<Rightarrow> string \<Rightarrow> ('db, accounts_response) eio" where
  "Handler_RevokeAllOtherSessions h userID currentSessionId = do {
     r \<leftarrow> deviceSessionService_ListActiveByUserID (ah_devices h) userID;
     case r of
       Inl err \<Rightarrow> ret (Inl (domainStatus err))
     | Inr sessions \<Rightarrow> do {
         revoke_others (ah_devices h) userID currentSessionId sessions;
         ret (Inr EmptyResponse) } }"

fun accounts_dispatch :: "'db accounts_handler \<Rightarrow> string \<Rightarrow> accounts_request \<Rightarrow> ('db, accounts_response) eio" where
  "accounts_dispatch h u GetMyProfileRequest = Handler_GetMyProfile h u"
| "accounts_dispatch h u (UpdateMyProfileRequest nm pic) = Handler_UpdateMyProfile h u nm pic"
| "accounts_dispatch h u ListLinkedProvidersRequest = Handler_ListLinkedProviders h u"
| "accounts_dispatch h u (UnlinkProviderRequest i) = Handler_UnlinkProvider h u i"
| "accounts_dispatch h u ListActiveSessionsRequest = Handler_ListActiveSessions h u"
| "accounts_dispatch h u (RevokeSessionRequest i) = Handler_RevokeSession h u i"
| "accounts_dispatch h u (RevokeAllOtherSessionsRequest c) = Handler_RevokeAllOtherSessions h u c"

lemmas Handler_defs = Handler_GetMyProfile_def Handler_UpdateMyProfile_def Handler_ListLinkedProviders_def
  Handler_UnlinkProvider_def Handler_ListActiveSessions_def Handler_RevokeSession_def
  Handler_RevokeAllOtherSessions_def

definition accountsHandler :: "bool \<Rightarrow> identity_db accounts_handler" where
  "accountsHandler agg = \<lparr>ah_identity = UserRepository agg, ah_devices = idp_devices\<rparr>"

definition accounts_rpc ::
  "bool \<Rightarrow> 'k jws_lib \<Rightarrow> 'k PublicKeySet \<Rightarrow> string \<Rightarrow> grpc_metadata option \<Rightarrow> accounts_request
   \<Rightarrow> (identity_db, accounts_response) eio" where
  "accounts_rpc agg lib keys issuer md req =
     JWTAuthInterceptor lib keys issuer md (\<lambda>u. accounts_dispatch (accountsHandler agg) u req)"

end
