(* ===== verification/IdentityServer.thy ===== *)
theory IdentityServer
  imports RateLimit ServiceConfig AccountsServer
begin

text \<open>
  The identity service as one process: \<open>runServer\<close> of \<open>identity-service/main.go\<close> and
  \<open>adapter/provider.go\<close>. The OpenID provider, which serves everything outside the login pages,
  comes from \<open>zitadel/oidc\<close> and is a parameter; so is the choice the router makes, which is given
  as a route.
\<close>

section \<open>The parts of the server\<close>

record op_Config =
  opCryptoKey :: "byte list"
  opDefaultLogoutRedirectURI :: string
  opCodeMethodS256 :: bool
  opAuthMethodPost :: bool
  opAuthMethodPrivateKeyJWT :: bool
  opGrantTypeRefreshToken :: bool
  opRequestObjectSupported :: bool
  opSupportedUILocales :: "string list"

text \<open>The provider as the server uses it: a handler, and where a completed login goes on.\<close>

record op_Provider =
  opServeHTTP :: "identity_db http_handler"
  opAuthCallbackURL :: "string \<Rightarrow> string"

definition NewProvider ::
  "(op_Config \<Rightarrow> 's \<Rightarrow> string \<Rightarrow> goerr + 'p) \<Rightarrow> string \<Rightarrow> byte list \<Rightarrow> 's \<Rightarrow> goerr + 'p" where
  "NewProvider op_NewProvider issuer cryptoKey storage =
     op_NewProvider
       \<lparr>opCryptoKey = cryptoKey, opDefaultLogoutRedirectURI = ''/logged-out'', opCodeMethodS256 = True,
        opAuthMethodPost = True, opAuthMethodPrivateKeyJWT = False, opGrantTypeRefreshToken = True,
        opRequestObjectSupported = False, opSupportedUILocales = [''en'', ''ja'']\<rparr> storage issuer"

record 'f idp_limiters =
  ilGlobal :: "'f IPRateLimiter"
  ilLogin :: "'f IPRateLimiter"
  ilToken :: "'f IPRateLimiter"

text \<open>Requests per minute as a limit per second: \<open>float64(rpm)/60.0\<close>, a parameter.\<close>

definition new_limiters :: "(int \<Rightarrow> 'f) \<Rightarrow> 'k idp_config \<Rightarrow> 'f idp_limiters option" where
  "new_limiters per_second cfg =
     (if icRateLimitEnabled cfg
      then Some \<lparr>ilGlobal = NewIPRateLimiter (per_second (icRateLimitGlobalRPM cfg)) (icRateLimitGlobalRPM cfg div 4),
             ilLogin = NewIPRateLimiter (per_second (icRateLimitLoginRPM cfg)) 5,
             ilToken = NewIPRateLimiter (per_second (icRateLimitTokenRPM cfg)) 10\<rparr>
      else None)"

text \<open>What the process takes from libraries.\<close>

record ('f, 'l, 'k) idp_libs =
  ieLibs :: libs
  ieRate :: "('f, 'l) rate_lib"
  iePerSecond :: "int \<Rightarrow> 'f"
  ieDer :: "'k \<Rightarrow> byte list"
  ieJws :: "'k jws_lib"
  ieAead :: aead
  ieUp :: "identity_db upstream"
  ieListen :: "string \<Rightarrow> (identity_db, unit) eio"
  ieTemplate :: "string \<Rightarrow> (string \<times> string) list \<Rightarrow> string option"
  ieOp :: "op_Config \<Rightarrow> identity_db StorageAdapter \<times> 'k SigningKeyWithID \<times> 'k PublicKeySet \<Rightarrow> string
             \<Rightarrow> goerr + op_Provider"

record 'f idp_server =
  srLimiters :: "'f idp_limiters option"
  srLogin :: "identity_db login_handler"
  srProvider :: op_Provider
  srPing :: "(identity_db, unit) eio"
  srRpc :: "grpc_metadata option \<Rightarrow> accounts_request \<Rightarrow> (identity_db, accounts_response) eio"

definition config_storage :: "('f, 'l, 'k) idp_libs \<Rightarrow> 'k idp_config \<Rightarrow> identity_db StorageAdapter" where
  "config_storage lb cfg = idp_storage (ieLibs lb) (icAuthRequestTTLMinutes cfg)
     (icAccessTokenLifetimeMinutes cfg) (icRefreshTokenLifetimeDays cfg)"

definition runServer :: "('f, 'l, 'k) idp_libs \<Rightarrow> 'k idp_config \<Rightarrow> (identity_db, 'f idp_server) eio" where
  "runServer lb cfg =
     (let signingKey = NewSigningKey (lib_sha256 (ieLibs lb)) (ieDer lb) (icCurrentKey cfg);
          publicKeys = NewPublicKeySet (lib_sha256 (ieLibs lb)) (ieDer lb) (icCurrentKey cfg) (icPreviousKeys cfg)
      in do {
        l \<leftarrow> ieListen lb ('':'' @ icGRPCPort cfg);
        case l of
          Inl err \<Rightarrow> ret (Inl err)
        | Inr _ \<Rightarrow>
            (case NewProvider (ieOp lb) (icIssuer cfg) (icCryptoKey cfg) (config_storage lb cfg, signingKey, publicKeys) of
               Inl err \<Rightarrow> ret (Inl err)
             | Inr provider \<Rightarrow> do {
                 ps \<leftarrow> NewProviders (ieUp lb) \<lparr>anIssuerURL = icIssuer cfg, anGoogleClientID = icGoogleClientID cfg,
                    anGoogleClientSecret = icGoogleClientSecret cfg, anGitHubClientID = icGitHubClientID cfg,
                    anGitHubClientSecret = icGitHubClientSecret cfg\<rparr>;
                 case ps of
                   Inl err \<Rightarrow> ret (Inl err)
                 | Inr upstreamProviders \<Rightarrow> ret (Inr
                     \<lparr>srLimiters = new_limiters (iePerSecond lb) cfg,
                      srLogin = loginHandler (ieLibs lb) (icAuthRequestTTLMinutes cfg) upstreamProviders (ieAead lb)
                        (icCryptoKey cfg) (opAuthCallbackURL provider) (ieTemplate lb) (ieUp lb),
                      srProvider = provider, srPing = lib_ping (ieLibs lb),
                      srRpc = accounts_rpc (lib_aggLock (ieLibs lb)) (ieJws lb) publicKeys (icIssuer cfg)\<rparr>) }) })"

text \<open>\<open>main\<close>: the command line's second word chooses between serving and one round of cleanup.\<close>

definition runCleanup :: "identity_db tokenService \<Rightarrow> (identity_db, 's process) io" where
  "runCleanup tokenSvc = do {
     r \<leftarrow> tokenCleanup_round tokenSvc;
     case r of
       Inl err \<Rightarrow> ret (Exited 1)
     | Inr _ \<Rightarrow> ret (Exited 0) }"

definition idp_main ::
  "('f, 'l, 'k) idp_libs \<Rightarrow> 'k x509_lib \<Rightarrow> (string \<Rightarrow> (identity_db, unit) eio) \<Rightarrow> string list \<Rightarrow> config_source
   \<Rightarrow> (identity_db, 'f idp_server process) io" where
  "idp_main lb x509 connect args env =
     (let subcommand = (if 1 < length args then args ! 1 else ''server'')
      in case idp_LoadFrom x509 env of
        Inl err \<Rightarrow> ret (Exited 1)
      | Inr cfg \<Rightarrow> do {
          c \<leftarrow> connect (icDatabaseURL cfg);
          case c of
            Inl err \<Rightarrow> ret (Exited 1)
          | Inr _ \<Rightarrow>
              if subcommand = ''cleanup'' then runCleanup (idp_tokens (ieLibs lb))
              else if subcommand = ''server'' then do {
                r \<leftarrow> runServer lb cfg;
                case r of
                  Inl err \<Rightarrow> ret (Exited 1)
                | Inr s \<Rightarrow> ret (Running s) }
              else ret (Exited 2) })"

section \<open>The router\<close>

text \<open>
  What the router answers itself below \<open>/login\<close>, for a path or method without a route, comes with
  the route.
\<close>

datatype idp_route =
    SelectRoute | RedirectRoute | LoginCallbackRoute | LoginUnmatched http_response
  | IdpHealthzRoute | IdpReadyzRoute | LoggedOutRoute | ProviderRoute

fun in_login :: "idp_route \<Rightarrow> bool" where
  "in_login SelectRoute = True"
| "in_login RedirectRoute = True"
| "in_login LoginCallbackRoute = True"
| "in_login (LoginUnmatched resp) = True"
| "in_login _ = False"

definition http_OK :: "string \<Rightarrow> http_response" where
  "http_OK body = \<lparr>rsStatus = 200, rsBody = body, rsLocation = None, rsCookies = []\<rparr>"

definition plain :: "(http_request \<Rightarrow> ('db, http_response) io) \<Rightarrow> 'db http_handler" where
  "plain f r h = do { resp \<leftarrow> f r; ret (h, resp) }"

definition idp_readyz :: "'f idp_server \<Rightarrow> (identity_db, http_response) io" where
  "idp_readyz s = do {
     p \<leftarrow> srPing s;
     case p of
       Inl err \<Rightarrow> ret (http_Error [] ''not ready'' 503)
     | Inr _ \<Rightarrow> ret (http_OK []) }"

text \<open>The issuer interceptor of the login routes only adds the issuer to the context.\<close>

fun idp_handler :: "'f idp_server \<Rightarrow> idp_route \<Rightarrow> identity_db http_handler" where
  "idp_handler s SelectRoute = plain (SelectProvider (srLogin s))"
| "idp_handler s RedirectRoute = plain (FederatedRedirect (srLogin s))"
| "idp_handler s LoginCallbackRoute = plain (FederatedCallback (srLogin s))"
| "idp_handler s (LoginUnmatched resp) = plain (\<lambda>_. ret resp)"
| "idp_handler s IdpHealthzRoute = plain (\<lambda>_. ret (http_OK []))"
| "idp_handler s IdpReadyzRoute = plain (\<lambda>_. idp_readyz s)"
| "idp_handler s LoggedOutRoute = plain (\<lambda>_. ret (http_OK ''You have been signed out.''))"
| "idp_handler s ProviderRoute = opServeHTTP (srProvider s)"

text \<open>The process's memory: the table of each limiter, next to the database.\<close>

record 'l idp_memory =
  imGlobal :: "'l entries"
  imLogin :: "'l entries"
  imToken :: "'l entries"
  imDb :: identity_db

definition on_global :: "('l entries, 'a) io \<Rightarrow> ('l idp_memory, 'a) io" where
  "on_global = on_part imGlobal (\<lambda>m d. d\<lparr>imGlobal := m\<rparr>)"

definition on_login :: "('l entries, 'a) io \<Rightarrow> ('l idp_memory, 'a) io" where
  "on_login = on_part imLogin (\<lambda>m d. d\<lparr>imLogin := m\<rparr>)"

definition on_token :: "('l entries, 'a) io \<Rightarrow> ('l idp_memory, 'a) io" where
  "on_token = on_part imToken (\<lambda>m d. d\<lparr>imToken := m\<rparr>)"

definition on_idb :: "(identity_db, 'a) io \<Rightarrow> ('l idp_memory, 'a) io" where
  "on_idb = on_part imDb (\<lambda>m d. d\<lparr>imDb := m\<rparr>)"

text \<open>The middleware of the route below the global one.\<close>

definition idp_group ::
  "('f, 'l) rate_lib \<Rightarrow> 'f idp_limiters option \<Rightarrow> idp_route \<Rightarrow> 'l idp_memory http_handler \<Rightarrow> 'l idp_memory http_handler" where
  "idp_group lib limiters rt inner =
     (if in_login rt then
        (case limiters of
           None \<Rightarrow> SecurityHeaders inner
         | Some ls \<Rightarrow> IPRateLimiter_Middleware (\<lambda>r. on_login (IPRateLimiter_allow lib (ilLogin ls) r)) (SecurityHeaders inner))
      else if rt = ProviderRoute then
        (case limiters of
           None \<Rightarrow> inner
         | Some ls \<Rightarrow> tokenPathLimiter (\<lambda>r. on_token (IPRateLimiter_allow lib (ilToken ls) r)) inner)
      else inner)"

definition idp_serve :: "('f, 'l) rate_lib \<Rightarrow> 'f idp_server \<Rightarrow> idp_route \<Rightarrow> 'l idp_memory http_handler" where
  "idp_serve lib s rt =
     (let inner = \<lambda>r h. on_idb (idp_handler s rt r h); group = idp_group lib (srLimiters s) rt inner
      in SecurityHeaders (case srLimiters s of
           None \<Rightarrow> group
         | Some ls \<Rightarrow> IPRateLimiter_Middleware (\<lambda>r. on_global (IPRateLimiter_allow lib (ilGlobal ls) r)) group))"

section \<open>The process\<close>

text \<open>One round of the loop that clears the tables of the limiters.\<close>

definition limiterCleanup_round :: "('l idp_memory, unit) io" where
  "limiterCleanup_round = do {
     on_global (IPRateLimiter_Cleanup (15 * Minute));
     on_login (IPRateLimiter_Cleanup (15 * Minute));
     on_token (IPRateLimiter_Cleanup (15 * Minute)) }"

text \<open>
  What happens in the process: a request to one of its two ports, or a tick of one of the loops;
  without limiters there is no loop to clear them.
\<close>

datatype idp_event =
    HttpRequest idp_route http_request | RpcRequest "grpc_metadata option" accounts_request
  | RequestTick | TokenTick | DeviceTick | LimiterTick

definition ignore :: "('db, 'a) io \<Rightarrow> ('db, unit) io" where
  "ignore m = do { m; ret () }"

fun idp_handle ::
  "('f, 'l, 'k) idp_libs \<Rightarrow> 'k idp_config \<Rightarrow> 'f idp_server \<Rightarrow> idp_event \<Rightarrow> ('l idp_memory, unit) io" where
  "idp_handle lb cfg s (HttpRequest rt r) = ignore (idp_serve (ieRate lb) s rt r [])"
| "idp_handle lb cfg s (RpcRequest md req) = ignore (on_idb (srRpc s md req))"
| "idp_handle lb cfg s RequestTick = ignore (on_idb (authRequestCleanup_round
     (idp_requests (icAuthRequestTTLMinutes cfg)) (wrap64 (icAuthRequestTTLMinutes cfg * Minute))))"
| "idp_handle lb cfg s TokenTick = ignore (on_idb (tokenCleanup_round (idp_tokens (ieLibs lb))))"
| "idp_handle lb cfg s DeviceTick = ignore (on_idb (deviceSessionCleanup_round idp_devices (30 * 24 * Hour)))"
| "idp_handle lb cfg s LimiterTick =
     (if srLimiters s = None then ret () else limiterCleanup_round)"

inductive idp_run ::
  "('f, 'l, 'k) idp_libs \<Rightarrow> 'k idp_config \<Rightarrow> 'f idp_server \<Rightarrow> 'l idp_memory \<Rightarrow> idp_event list \<Rightarrow> 'l idp_memory \<Rightarrow> bool"
  for lb cfg s where
  start: "idp_run lb cfg s d [] d"
| event: "idp_run lb cfg s d evs (db w) \<Longrightarrow> run_state (idp_handle lb cfg s ev) w = (u, w') \<Longrightarrow>
    idp_run lb cfg s d (evs @ [ev]) (db w')"

definition idp_start :: "identity_db \<Rightarrow> 'l idp_memory" where
  "idp_start d = \<lparr>imGlobal = no_entries, imLogin = no_entries, imToken = no_entries, imDb = d\<rparr>"

end
