(* ===== verification/IdentityProps.thy ===== *)
theory IdentityProps
  imports IdentityInvariants
begin

text \<open>
  The properties of the identity service, over its PostgreSQL repositories, each with an
  instance at a concrete database.
\<close>

section \<open>A sample database\<close>

definition sample_sha :: "byte list \<Rightarrow> byte list" where
  "sample_sha bs = replicate 32 (word_of_nat (length bs))"

lemma sample_sha_ok [simp]: "sha_ok sample_sha"
  by (simp add: sha_ok_def sample_sha_def)

definition sample_libs :: libs where
  "sample_libs = \<lparr>lib_sha256 = sample_sha, lib_bcrypt = \<lambda>h p. h = p, lib_FromTime = \<lambda>t. t div Second,
     lib_ping = ret (Inr ()), lib_aggLock = True\<rparr>"

definition sample_hash :: string where "sample_hash = hashRefreshToken sample_sha ''rt''"

definition sample_user :: userRow where
  "sample_user = \<lparr>ur_id = ''u1'', ur_email = ''a@x'', ur_email_verified = True, ur_name = ''Ann'',
     ur_given_name = ''Ann'', ur_family_name = [], ur_picture = ''p'', ur_created_at = 0, ur_updated_at = 0,
     ur_local_name = Some ''Annie'', ur_local_picture = None\<rparr>"

definition sample_fid :: "string \<Rightarrow> string \<Rightarrow> fiRow" where
  "sample_fid i p = \<lparr>fr_id = i, fr_user_id = ''u1'', fr_provider = p, fr_provider_subject = ''s1'',
     fr_provider_email = ''a@x'', fr_provider_email_verified = True, fr_provider_display_name = ''Ann'',
     fr_provider_given_name = ''Ann'', fr_provider_family_name = [], fr_provider_picture_url = ''p'',
     fr_last_login_at = 0, fr_created_at = 0, fr_updated_at = 0\<rparr>"

definition sample_client :: Client where
  "sample_client = \<lparr>clID = ''c1'', clSecretHash = ''secret'', clRedirectURIs = [], clPostLogoutRedirectURIs = [],
     clApplicationType = ''web'', clAuthMethod = ''client_secret_basic'', clResponseTypes = [], clGrantTypes = [],
     clAccessTokenType = ''jwt'', clAllowedScopes = [], clIDTokenLifetimeSeconds = 3600, clClockSkewSeconds = 0,
     clIDTokenUserinfoAssertion = False, clCreatedAt = 0, clUpdatedAt = 0\<rparr>"

definition sample_public :: Client where
  "sample_public = sample_client\<lparr>clID := ''c2'', clAuthMethod := ''none''\<rparr>"

definition sample_request :: auth_request_row where
  "sample_request = \<lparr>qr_id = ''q1'', qr_client_id = ''c1'', qr_redirect_uri = [], qr_state = [], qr_nonce = [],
     qr_scopes = [''openid'', ''email''], qr_response_type = ''code'', qr_response_mode = [], qr_code_challenge = [],
     qr_code_challenge_method = [], qr_prompt = [], qr_max_age = None, qr_login_hint = [], qr_user_id = Some ''u1'',
     qr_auth_time = Some 0, qr_amr = [''fed''], qr_is_done = True, qr_code = Some ''code'',
     qr_device_session_id = Some ''d1'', qr_created_at = 0\<rparr>"

definition sample_token :: token_row where
  "sample_token = \<lparr>kr_id = ''t1'', kr_client_id = ''c1'', kr_subject = ''u1'', kr_audience = [''c1''],
     kr_scopes = [''openid'', ''email''], kr_expiration = Hour, kr_refresh_token_id = Some ''r1'', kr_created_at = 0\<rparr>"

definition sample_refresh :: refresh_row where
  "sample_refresh = \<lparr>rr_id = ''r1'', rr_token_hash = sample_hash, rr_client_id = ''c1'', rr_user_id = ''u1'',
     rr_audience = [''c1''], rr_scopes = [''openid'', ''email''], rr_auth_time = 0, rr_amr = [''fed''],
     rr_access_token_id = Some ''t1'', rr_device_session_id = Some ''d1'', rr_expiration = Hour, rr_created_at = 0\<rparr>"

definition sample_device :: device_row where
  "sample_device = \<lparr>dr_id = ''d1'', dr_user_id = ''u1'', dr_user_agent = ''ua'', dr_ip_address = ''ip'',
     dr_device_name = ''dev'', dr_created_at = 0, dr_last_used_at = 0, dr_revoked_at = None\<rparr>"

definition sample_idb :: identity_db where
  "sample_idb = \<lparr>t_users = [sample_user], t_fids = [sample_fid ''f1'' ''google'', sample_fid ''f2'' ''github''],
     t_clients = [sample_client, sample_public], t_auth_requests = [sample_request], t_tokens = [sample_token],
     t_refresh_tokens = [sample_refresh], t_device_sessions = [sample_device]\<rparr>"

lemmas sample_defs = sample_idb_def sample_user_def sample_fid_def sample_client_def sample_public_def
  sample_request_def sample_token_def sample_refresh_def sample_device_def

lemma sample_idb_ok [simp]: "db_ok sample_idb"
  by (simp add: sample_defs db_ok_def fr_key_def)

definition sample_storage :: "identity_db StorageAdapter" where
  "sample_storage = idp_storage sample_libs 30 15 7"

lemma run_not_isl: "\<not> isl (fst (run_state m w)) \<Longrightarrow> \<exists>x w'. run_state m w = (Inr x, w')"
  by (cases "run_state m w"; cases "fst (run_state m w)") auto

lemma run_isl: "isl (fst (run_state m w)) \<Longrightarrow> \<exists>e w'. run_state m w = (Inl e, w')"
  by (cases "run_state m w"; cases "fst (run_state m w)") auto

section \<open>Refresh tokens\<close>

text \<open>
  The library's refresh-token grant: look the token up, then exchange it for a new pair.
\<close>

definition refresh_grant :: "'db StorageAdapter \<Rightarrow> string \<Rightarrow> ('db, string \<times> string \<times> int) eio" where
  "refresh_grant s raw = do {
     q \<leftarrow> StorageAdapter_TokenRequestByRefreshToken s raw;
     case q of
       Inl err \<Rightarrow> ret (Inl err)
     | Inr request \<Rightarrow> StorageAdapter_CreateAccessAndRefreshTokens s request raw }"

lemmas storage_eval = idp_storage_def idp_tokens_def idp_requests_def idp_clients_def idp_devices_def
  refresh_grant_def StorageAdapter_TokenRequestByRefreshToken_def StorageAdapter_CreateAccessAndRefreshTokens_def
  tokenService_defs newRefreshTokenValue_def run_rand_Read

lemmas token_repo_eval = TokenRepository_defs TokenRepository_retireOld_def TokenRepository_lookupOld_def
  TokenRepository_revokeOldAccess_def TokenRepository_deleteOldRefresh_def in_tx_def tx_Begin_def tx_Commit_def
  tx_exec_def run_db_exec sql_select_token_def sql_select_refresh_def sql_old_refresh_def sql_delete_tokens_def
  sql_delete_refresh_def sql_insert_token_def sql_insert_refresh_def sql_touch_device_def sql_first_def
  sql_count_def sql_delete_def sql_update_def sql_insert_def scanRefreshToken_def scanToken_def refresh_values_def
  NewRefreshTokenRequest_def device_exists_def

lemma sample_hash_fold: "hashRefreshToken sample_sha ''rt'' = sample_hash"
  by (simp add: sample_hash_def)

lemma sample_hash_nonempty [simp]: "sample_hash \<noteq> []"
  by (simp add: sample_hash_def)

lemma grant_cases:
  assumes "run_state (refresh_grant (idp_storage L m a d) raw) w = (r, w')" "db_ok (db w)"
  obtains (refused) e where "r = Inl e" "db w' = db w"
  | (exchanged) old q w1 exp where
      "db w1 = db w" "clock w \<le> clock w1" "quiet w \<longrightarrow> quiet w1"
      "refresh_view (db w) (hashRefreshToken (lib_sha256 L) raw) = Some old" "clock w < rtExpiration old"
      "run_state (tokenService_CreateAccessAndRefresh (idp_tokens L) (rtClientID old) (rtUserID old) (rtAudience old)
         (rtScopes old) (clock w1 + wrap64 (a * Minute)) exp (rtAuthTime old) (rtAMR old) raw []) (pass (pass w1)) = (q, w')"
      "r = (case q of Inl err \<Rightarrow> Inl (if errors_Is err ErrNotFound then Sentinel OpErrInvalidRefreshToken
              else internalErr ''create access and refresh tokens'' err)
            | Inr (i, t) \<Rightarrow> Inr (i, t, clock w1 + wrap64 (a * Minute)))"
proof (cases "run_state (TK_GetRefreshToken TokenRepository (hashRefreshToken (lib_sha256 L) raw)) w")
  case (Pair g w1)
  have clk: "clock w \<le> clock w1" "quiet w \<longrightarrow> quiet w1"
    using Pair by (auto simp: TokenRepository_defs split: prod.splits sum.splits if_splits elim!: db_exec_cases)
  show ?thesis
  proof (cases g)
    case (Inl e)
    with Pair assms(1) have r: "\<exists>e. r = Inl e" and "w' = w1"
      by (auto simp: refresh_grant_def idp_storage_def idp_tokens_def tokenService_GetRefreshToken_def
        StorageAdapter_TokenRequestByRefreshToken_def split: if_splits)
    moreover have "db w1 = db w" by (rule pg_tokens.getr_error [OF Pair [unfolded Inl]])
    ultimately show ?thesis using refused by blast
  next
    case (Inr old)
    note g = pg_tokens.getr_done [OF Pair [unfolded Inr] assms(2)]
    let ?call = "tokenService_CreateAccessAndRefresh (idp_tokens L) (rtClientID old) (rtUserID old) (rtAudience old)
       (rtScopes old) (clock w1 + wrap64 (a * Minute)) (clock (pass w1) + wrap64 (d * 24 * Hour))
       (rtAuthTime old) (rtAMR old) raw []"
    obtain q w2 where q: "run_state ?call (pass (pass w1)) = (q, w2)" by fastforce
    have "(r, w') = (case q of Inl err \<Rightarrow> Inl (if errors_Is err ErrNotFound then Sentinel OpErrInvalidRefreshToken
              else internalErr ''create access and refresh tokens'' err)
            | Inr (i, t) \<Rightarrow> Inr (i, t, clock w1 + wrap64 (a * Minute)), w2)"
      using Pair Inr assms(1) q
      by (cases q) (auto simp: refresh_grant_def idp_storage_def idp_tokens_def tokenService_GetRefreshToken_def
        StorageAdapter_TokenRequestByRefreshToken_def StorageAdapter_CreateAccessAndRefreshTokens_def
        NewRefreshTokenRequest_def Let_def split: prod.splits if_splits)
    with q g clk show ?thesis by (intro exchanged [of w1 old _ q]) auto
  qed
qed

lemma grant_rotates:
  assumes "run_state (refresh_grant (idp_storage L m a d) raw) w = (Inr (i, raw', exp), w')"
    and "db_ok (db w)" "sha_ok (lib_sha256 L)" "raw \<noteq> []"
  defines "h \<equiv> hashRefreshToken (lib_sha256 L) raw" and "h' \<equiv> hashRefreshToken (lib_sha256 L) raw'"
  shows "db_ok (db w') \<and> (\<exists>old acc ref. refresh_view (db w) h = Some old \<and> clock w < rtExpiration old
    \<and> refresh_view (db w') = (refresh_view (db w))(h := None, h' \<mapsto> ref)
    \<and> access_view (db w') = (if rtAccessTokenID old = [] then access_view (db w)
         else (access_view (db w))(rtAccessTokenID old := None))(i \<mapsto> acc)
    \<and> rtUserID ref = rtUserID old \<and> rtClientID ref = rtClientID old \<and> rtAudience ref = rtAudience old
    \<and> rtScopes ref = rtScopes old \<and> rtAMR ref = rtAMR old \<and> rtAuthTime ref = rtAuthTime old
    \<and> rtDeviceSessionID ref = rtDeviceSessionID old \<and> rtAccessTokenID ref = i
    \<and> tkSubject acc = rtUserID old \<and> tkClientID acc = rtClientID old \<and> tkScopes acc = rtScopes old
    \<and> tkAudience acc = rtAudience old \<and> tkExpiration acc = exp)"
  using assms(1,2)
proof (cases rule: grant_cases)
  case (exchanged old q w1 e)
  then have q: "q = Inr (i, raw')" and exp: "exp = clock w1 + wrap64 (a * Minute)"
    by (cases q; auto)+
  note run = exchanged(6) [unfolded q idp_tokens_def]
  have ok: "db_ok (db (pass (pass w1)))" using exchanged(1) assms(2) by simp
  note r = pg_tokens.service_rotate_done [OF run ok assms(3)]
  show ?thesis
    using r exchanged(1,4,5) assms(4) hash_nonempty [OF assms(3), of raw] exp
    apply (elim exE)
    subgoal for acc ref
      by (rule conjI, simp, rule exI [of _ old], rule exI [of _ acc], rule exI [of _ ref])
        (simp add: rotate_refresh_def rotate_access_def h_def h'_def)
    done
qed simp

text \<open>C14: A refresh-token grant that succeeds was given a live token. It takes that token and its
  access token out of the database and puts in one new pair for the same user, client, audience,
  scopes, authentication and device session, the access token expiring when the answer says;
  no other token changes.\<close>
theorem refresh_grant_rotates:
  assumes "run_state (refresh_grant (idp_storage L m a d) raw) w = (Inr (i, raw', exp), w')"
    and "db_ok (db w)" "sha_ok (lib_sha256 L)" "raw \<noteq> []"
  defines "h \<equiv> hashRefreshToken (lib_sha256 L) raw" and "h' \<equiv> hashRefreshToken (lib_sha256 L) raw'"
  shows "db_ok (db w') \<and> (\<exists>old acc ref. refresh_view (db w) h = Some old \<and> clock w < rtExpiration old
    \<and> refresh_view (db w') = (refresh_view (db w))(h := None, h' \<mapsto> ref)
    \<and> access_view (db w') = (if rtAccessTokenID old = [] then access_view (db w)
         else (access_view (db w))(rtAccessTokenID old := None))(i \<mapsto> acc)
    \<and> rtUserID ref = rtUserID old \<and> rtClientID ref = rtClientID old \<and> rtAudience ref = rtAudience old
    \<and> rtScopes ref = rtScopes old \<and> rtAMR ref = rtAMR old \<and> rtAuthTime ref = rtAuthTime old
    \<and> rtDeviceSessionID ref = rtDeviceSessionID old \<and> rtAccessTokenID ref = i
    \<and> tkSubject acc = rtUserID old \<and> tkClientID acc = rtClientID old \<and> tkScopes acc = rtScopes old
    \<and> tkAudience acc = rtAudience old \<and> tkExpiration acc = exp)"
  unfolding h_def h'_def by (rule grant_rotates [OF assms(1-4)])

theorem refresh_grant_rotates_witness:
  "\<exists>i raw' exp w' ref.
     run_state (refresh_grant sample_storage ''rt'') (idle_world sample_idb) = (Inr (i, raw', exp), w')
     \<and> refresh_view (db w') (hashRefreshToken sample_sha raw') = Some ref \<and> rtUserID ref = ''u1''
     \<and> rtDeviceSessionID ref = ''d1''"
proof -
  obtain r w' where run: "run_state (refresh_grant sample_storage ''rt'') (idle_world sample_idb) = (r, w')"
    by fastforce
  moreover have "\<not> isl (fst (run_state (refresh_grant sample_storage ''rt'') (idle_world sample_idb)))"
    by (simp add: sample_storage_def storage_eval token_repo_eval sample_defs sample_libs_def sample_hash_fold
      Let_def wrap64_id)
  ultimately obtain i raw' exp where run: "run_state (refresh_grant sample_storage ''rt'') (idle_world sample_idb)
      = (Inr (i, raw', exp), w')" by (cases r) auto
  have "refresh_view sample_idb sample_hash = Some (scanRefreshToken sample_refresh)"
    by (simp add: refresh_view_def sample_defs)
  moreover have "rtUserID (scanRefreshToken sample_refresh) = ''u1''"
    "rtDeviceSessionID (scanRefreshToken sample_refresh) = ''d1''"
    by (simp_all add: scanRefreshToken_def sample_refresh_def)
  moreover note refresh_grant_rotates [OF run [unfolded sample_storage_def]]
  ultimately show ?thesis using run by (auto simp: sample_libs_def sample_hash_fold)
qed


text \<open>C35: A refresh-token grant that answers with an error has left the database as it was, wherever
  it failed.\<close>
theorem refresh_grant_atomic:
  assumes "run_state (refresh_grant (idp_storage L m a d) raw) w = (Inl e, w')" and "db_ok (db w)"
  shows "db w' = db w"
  using assms
proof (cases rule: grant_cases)
  case (exchanged old q w1 exp)
  then obtain e' where q: "q = Inl e'" by (cases q) auto
  have "db_ok (db (pass (pass w1)))" using exchanged(1) assms(2) by simp
  from pg_tokens.service_rotate_error [OF exchanged(6) [unfolded q idp_tokens_def] this] exchanged(1)
  show ?thesis by simp
qed simp

theorem refresh_grant_atomic_witness:
  "\<exists>e w'. run_state (refresh_grant sample_storage ''zz'') (idle_world (sample_idb\<lparr>t_refresh_tokens := []\<rparr>)) = (Inl e, w')
     \<and> db w' = sample_idb\<lparr>t_refresh_tokens := []\<rparr>"
proof -
  let ?d = "sample_idb\<lparr>t_refresh_tokens := []\<rparr>"
  have ok: "db_ok ?d" by (intro db_ok_refresh_tokens) simp_all
  have "isl (fst (run_state (refresh_grant sample_storage ''zz'') (idle_world ?d)))"
    by (simp add: sample_storage_def storage_eval token_repo_eval sample_libs_def)
  then obtain e w' where run: "run_state (refresh_grant sample_storage ''zz'') (idle_world ?d) = (Inl e, w')"
    by (cases "run_state (refresh_grant sample_storage ''zz'') (idle_world ?d)") (auto simp: isl_def)
  with refresh_grant_atomic [OF run [unfolded sample_storage_def]] ok show ?thesis by auto
qed

lemma grant_of_spent:
  assumes "refresh_view (db w) (hashRefreshToken (lib_sha256 L) raw) = None" "db_ok (db w)" "quiet w"
  shows "fst (run_state (refresh_grant (idp_storage L m a d) raw) w) = Inl (Sentinel OpErrInvalidRefreshToken)"
proof (cases "run_state (TK_GetRefreshToken TokenRepository (hashRefreshToken (lib_sha256 L) raw)) w")
  case (Pair g w1)
  from pg_tokens.getr_live [OF Pair assms(2,3)] assms(1) obtain e where "g = Inl e" "errors_Is e ErrNotFound" by auto
  with Pair show ?thesis
    by (simp add: refresh_grant_def idp_storage_def idp_tokens_def tokenService_GetRefreshToken_def
      StorageAdapter_TokenRequestByRefreshToken_def)
qed

text \<open>C10: A refresh token works once. After a grant that succeeded, and whatever other requests have
  done since (unless one stored a token with the very same hash), presenting the old token again
  is answered \<open>invalid_refresh_token\<close> as soon as the database answers at all.\<close>
theorem refresh_replay_refused:
  assumes "run_state (refresh_grant (idp_storage L m a d) raw) w = (Inr (i, raw', exp), w1)"
    and "db_ok (db w)" "sha_ok (lib_sha256 L)" "raw \<noteq> []"
    and "hashRefreshToken (lib_sha256 L) raw' \<noteq> hashRefreshToken (lib_sha256 L) raw"
    and "idp_schedule agg (db w1) log (db w2)"
    and "\<forall>s \<in> fst ` set log. \<not> stores (hashRefreshToken (lib_sha256 L) raw) s" and "quiet w2"
  shows "fst (run_state (refresh_grant (idp_storage L m a d) raw) w2) = Inl (Sentinel OpErrInvalidRefreshToken)"
proof -
  let ?h = "hashRefreshToken (lib_sha256 L) raw"
  obtain old acc ref where "refresh_view (db w1) = (refresh_view (db w))(?h := None,
        hashRefreshToken (lib_sha256 L) raw' \<mapsto> ref)" and ok: "db_ok (db w1)"
    using grant_rotates [OF assms(1-4)] by blast
  with assms(5) have "spent ?h (db w1)" by (simp add: spent_view)
  then have "spent ?h (db w2)" by (rule schedule_keeps [OF assms(6)]) (use assms(7) keeps_spent in blast)
  then show ?thesis using grant_of_spent assms(8) by (simp add: spent_view)
qed

lemma sample_grant:
  "\<exists>i exp w'. run_state (refresh_grant sample_storage ''rt'') (idle_world sample_idb) =
     (Inr (i, b64_Encode False (map (\<lambda>i. word_of_nat (6 + i)) [0..<32]), exp), w')"
proof -
  have "\<exists>i exp. fst (run_state (refresh_grant sample_storage ''rt'') (idle_world sample_idb)) =
     Inr (i, b64_Encode False (map (\<lambda>i. word_of_nat (6 + i)) [0..<32]), exp)"
    by (simp add: sample_storage_def storage_eval token_repo_eval sample_defs sample_libs_def sample_hash_fold
      Let_def wrap64_id del: upt_rec_numeral)
  then show ?thesis by (metis prod.collapse)
qed

theorem refresh_replay_refused_witness:
  "\<exists>i raw' exp w1.
     run_state (refresh_grant sample_storage ''rt'') (idle_world sample_idb) = (Inr (i, raw', exp), w1)
     \<and> fst (run_state (refresh_grant sample_storage ''rt'') (idle_world (db w1))) = Inl (Sentinel OpErrInvalidRefreshToken)"
proof -
  let ?raw = "b64_Encode False (map (\<lambda>i. word_of_nat (6 + i)) [0..<32])"
  obtain i exp w1 where run: "run_state (refresh_grant sample_storage ''rt'') (idle_world sample_idb)
      = (Inr (i, ?raw, exp), w1)" using sample_grant by blast
  have "length ?raw = 43" by (simp only: length_b64_Encode length_map length_upt)
  then have "hashRefreshToken sample_sha ?raw \<noteq> hashRefreshToken sample_sha ''rt''"
    by (simp only: hashRefreshToken_def sample_sha_def bytes_of_def length_map) simp?
  then have "fst (run_state (refresh_grant sample_storage ''rt'') (idle_world (db w1))) = Inl (Sentinel OpErrInvalidRefreshToken)"
    using refresh_replay_refused [OF run [unfolded sample_storage_def], of True "[]" "idle_world (db w1)"]
    by (simp add: idp_schedule.start sample_libs_def sample_storage_def)
  with run show ?thesis by blast
qed

section \<open>Rotation and revocation under concurrent requests\<close>

text \<open>The successful rotations of the token with hash \<open>h\<close> in a log.\<close>

definition rotations :: "string \<Rightarrow> (idp_stmt \<times> (goerr + unit)) list \<Rightarrow> nat" where
  "rotations h log = length (filter (\<lambda>(s, r). \<not> isl r \<and> (case s of TokenStmt (TkRotate a t c) \<Rightarrow> c = h | _ \<Rightarrow> False)) log)"

lemma rotations_snoc: "rotations h (log @ [(s, r)]) = rotations h log +
    (if \<not> isl r \<and> (\<exists>a t. s = TokenStmt (TkRotate a t h)) then 1 else 0)"
  by (auto simp: rotations_def split: idp_stmt.splits token_stmt.splits)

lemma rotation_spends:
  assumes "run_state (exec_idp agg (TokenStmt (TkRotate a t h))) w = (Inr (), w')" "db_ok (db w)" "h \<noteq> []" "rtToken t \<noteq> h"
  shows "\<not> spent h (db w) \<and> spent h (db w')"
  using assms(1,2)
proof (cases rule: rotation_cases)
  case rotated
  then show ?thesis using assms(3,4) by (auto simp: spent_view rotate_refresh_def)
qed simp

text \<open>C1: Among any operations of concurrent requests, in any order and with any failures, at most one
  rotation of a given refresh token succeeds (as long as nobody stores a token with its hash again),
  and after it the token is gone from the database.\<close>
theorem rotation_at_most_once:
  assumes "idp_schedule agg d log d'" and "db_ok d" and "h \<noteq> []" and "\<forall>s \<in> fst ` set log. \<not> stores h s"
  shows "rotations h log \<le> 1 \<and> (rotations h log = 1 \<longrightarrow> refresh_view d' h = None)"
proof -
  have "db_ok d' \<and> (rotations h log = 0 \<or> rotations h log = 1 \<and> spent h d')"
    using assms
  proof (induction rule: idp_schedule.induct)
    case (start d)
    then show ?case by (simp add: rotations_def)
  next
    case (exec d log w s r w')
    then have IH: "db_ok (db w)" "rotations h log = 0 \<or> rotations h log = 1 \<and> spent h (db w)" and new: "\<not> stores h s"
      by auto
    have ok: "db_ok (db w')" by (rule keepsD [OF exec_keeps_ok exec.hyps(2) IH(1)])
    have sp: "spent h (db w) \<Longrightarrow> spent h (db w')" by (rule keepsD [OF keeps_spent [OF new] exec.hyps(2)])
    show ?case
    proof (cases "\<not> isl r \<and> (\<exists>a t. s = TokenStmt (TkRotate a t h))")
      case True
      then obtain a t where s: "s = TokenStmt (TkRotate a t h)" and r: "r = Inr ()" by (cases r) auto
      have "\<not> spent h (db w) \<and> spent h (db w')"
        using rotation_spends [OF exec.hyps(2) [unfolded s r] IH(1) assms(3)] new s by simp
      with IH(2) ok True show ?thesis by (auto simp: rotations_snoc)
    next
      case False
      with IH(2) ok sp show ?thesis by (auto simp: rotations_snoc)
    qed
  qed
  then show ?thesis by (auto simp: spent_view)
qed

definition sample_new :: "string \<Rightarrow> Token \<times> RefreshToken" where
  "sample_new h = (\<lparr>tkID = ''t2'', tkClientID = ''c1'', tkSubject = ''u1'', tkAudience = [], tkScopes = [],
       tkExpiration = Hour, tkRefreshTokenID = ''r2'', tkCreatedAt = 0\<rparr>,
     \<lparr>rtID = ''r2'', rtToken = h, rtClientID = ''c1'', rtUserID = ''u1'', rtAudience = [], rtScopes = [],
       rtAuthTime = 0, rtAMR = [], rtAccessTokenID = ''t2'', rtExpiration = Hour, rtCreatedAt = 0,
       rtDeviceSessionID = []\<rparr>)"

lemma sample_rotation:
  "\<exists>w'. run_state (exec_idp True (TokenStmt (TkRotate (fst (sample_new ''h2'')) (snd (sample_new ''h2'')) sample_hash)))
     (idle_world sample_idb) = (Inr (), w')"
proof -
  have "fst (run_state (exec_idp True (TokenStmt (TkRotate (fst (sample_new ''h2'')) (snd (sample_new ''h2'')) sample_hash)))
     (idle_world sample_idb)) = Inr ()"
    by (simp add: sample_new_def token_repo_eval sample_defs Let_def)
  then show ?thesis by (metis prod.collapse)
qed

lemma sample_hash_neq [simp]: "sample_hash \<noteq> ''h2''" "''h2'' \<noteq> sample_hash"
proof -
  have "length sample_hash \<noteq> length ''h2''" by (simp add: sample_hash_def hashRefreshToken_def sample_sha_def)
  then show "sample_hash \<noteq> ''h2''" "''h2'' \<noteq> sample_hash" by metis+
qed

theorem rotation_at_most_once_witness:
  "\<exists>log d'. idp_schedule True sample_idb log d' \<and> rotations sample_hash log = 1 \<and> refresh_view d' sample_hash = None"
proof -
  let ?s = "TokenStmt (TkRotate (fst (sample_new ''h2'')) (snd (sample_new ''h2'')) sample_hash)"
  obtain w' where run: "run_state (exec_idp True ?s) (idle_world sample_idb) = (Inr (), w')" using sample_rotation by blast
  have sch: "idp_schedule True sample_idb ([] @ [(?s, Inr ())]) (db w')"
    by (rule idp_schedule.exec [OF _ run]) (simp add: idp_schedule.start)
  have "rotations sample_hash [(?s, Inr ())] = 1" by (simp add: rotations_def)
  moreover have "\<not> stores sample_hash ?s" using sample_hash_neq by (auto simp: sample_new_def)
  ultimately show ?thesis using rotation_at_most_once [OF sch, of sample_hash] sch by (intro exI) auto
qed

text \<open>C6: Signing a device session out is final. After \<open>RevokeByID\<close> has succeeded, no refresh token is
  bound to the session, whatever concurrent requests do, except one a code exchange stores for it
  directly (\<open>binds\<close>): rotation cannot bring it back. Unless the row is purged, the session stays
  revoked, and no login is given it again.\<close>
theorem revocation_final:
  assumes "run_state (DeviceSessionRepository_RevokeByID i u) w = (Inr (), w1)" and "db_ok (db w)" and "i \<noteq> []"
    and "idp_schedule agg (db w1) log (db w2)" and "\<forall>s \<in> fst ` set log. \<not> binds i s"
  shows "(\<forall>h r. refresh_view (db w2) h = Some r \<longrightarrow> rtDeviceSessionID r \<noteq> i)
    \<and> ((\<forall>s \<in> fst ` set log. \<not> purges s) \<longrightarrow>
         (\<exists>s t. device_view (db w2) i = Some s \<and> dsRevokedAt s = Some t)
         \<and> (\<forall>j v ua ip nm s w3. run_state (DeviceSessionRepository_FindOrCreate j v ua ip nm) w2 = (Inr s, w3)
              \<longrightarrow> dsID s \<noteq> i))"
proof -
  note rv = pg_devices.revoke_done [unfolded DeviceSessionRepository_def, simplified, OF assms(1,2)]
  have ok1: "db_ok (db w1)" using rv by blast
  have "refresh_view (db w1) h = Some r \<Longrightarrow> rtDeviceSessionID r \<noteq> i" for h r
    using rv assms(3) by (auto split: option.splits if_splits)
  then have "unbound i (db w1)" using ok1 by (simp add: unbound_view [OF assms(3)])
  then have un: "unbound i (db w2)"
    by (rule schedule_keeps [OF assms(4)]) (use assms(3,5) keeps_unbound in blast)
  then have ok2: "db_ok (db w2)" by (simp add: unbound_def)
  have rev: "\<exists>s t. device_view (db w2) i = Some s \<and> dsRevokedAt s = Some t" if "\<forall>s \<in> fst ` set log. \<not> purges s"
  proof -
    have "revoked i (db w1)" using rv by (auto simp: revoked_view [OF ok1])
    then have "revoked i (db w2)" by (rule schedule_keeps [OF assms(4)]) (use that keeps_revoked in blast)
    then show ?thesis by (auto simp: revoked_view [OF ok2])
  qed
  have "dsID s \<noteq> i" if np: "\<forall>s \<in> fst ` set log. \<not> purges s"
    and run: "run_state (DeviceSessionRepository_FindOrCreate j v ua ip nm) w2 = (Inr s, w3)" for j v ua ip nm s w3
  proof
    assume id: "dsID s = i"
    obtain s2 t where s2: "device_view (db w2) i = Some s2" "dsRevokedAt s2 = Some t" using rev [OF np] by blast
    note fd = pg_devices.find_done [unfolded DeviceSessionRepository_def, simplified, OF run ok2]
    show False
    proof (cases "device_view (db w2) j")
      case None
      with fd id s2 show False by auto
    next
      case (Some old)
      with fd id s2 show False by (auto split: if_splits)
    qed
  qed
  with un rev show ?thesis by (simp add: unbound_view [OF assms(3)])
qed

lemmas device_repo_eval = DeviceSessionRepository_defs DeviceSessionRepository_reuse_def in_tx_def tx_Begin_def
  tx_Commit_def tx_exec_def run_db_exec sql_select_device_def sql_use_device_def sql_insert_device_def
  sql_revoke_device_def sql_list_active_def sql_purge_devices_def sql_delete_refresh_def sql_first_def sql_count_def
  sql_delete_def sql_update_def sql_insert_def purgeable_def scanDeviceSession_def

lemma sample_revoke:
  "\<exists>w1. run_state (DeviceSessionRepository_RevokeByID ''d1'' ''u1'') (idle_world sample_idb) = (Inr (), w1)"
proof -
  have "fst (run_state (DeviceSessionRepository_RevokeByID ''d1'' ''u1'') (idle_world sample_idb)) = Inr ()"
    by (simp add: device_repo_eval sample_defs Let_def)
  then show ?thesis by (metis prod.collapse)
qed

theorem revocation_final_witness:
  "\<exists>w1. run_state (DeviceSessionRepository_RevokeByID ''d1'' ''u1'') (idle_world sample_idb) = (Inr (), w1)
     \<and> refresh_view sample_idb sample_hash \<noteq> None \<and> refresh_view (db w1) sample_hash = None
     \<and> (\<exists>s t. device_view (db w1) ''d1'' = Some s \<and> dsRevokedAt s = Some t)"
proof -
  obtain w1 where run: "run_state (DeviceSessionRepository_RevokeByID ''d1'' ''u1'') (idle_world sample_idb) = (Inr (), w1)"
    using sample_revoke by blast
  note rf = revocation_final [OF run, of True "[]" w1, simplified]
  have "refresh_view sample_idb sample_hash \<noteq> None" by (simp add: refresh_view_def sample_defs)
  moreover have "refresh_view (db w1) sample_hash = None"
  proof -
    have rest: "h \<noteq> sample_hash \<Longrightarrow> refresh_view sample_idb h = None" for h
      by (simp add: refresh_view_def sample_defs)
    have "t_refresh_tokens (db (snd (run_state (DeviceSessionRepository_RevokeByID ''d1'' ''u1'') (idle_world sample_idb)))) = []"
      by (simp add: device_repo_eval sample_defs Let_def)
    with run show ?thesis by (simp add: refresh_view_def)
  qed
  ultimately show ?thesis using rf run by (simp add: idp_schedule.start)
qed

section \<open>Accounts\<close>

text \<open>C12: The tables satisfy their constraints, every account keeps an identity to sign in with, no
  account disappears and, as long as nothing is unlinked, a provider's subject stays with its account,
  through any operations of concurrent requests.\<close>
theorem accounts_preserved:
  assumes "idp_schedule agg d log d'" and "no_orphans d"
  shows "db_ok d' \<and> (\<forall>u. user_view d' u \<noteq> None \<longrightarrow> (\<exists>k f. fid_view d' k = Some f \<and> fiUserID f = u))
    \<and> (\<forall>u. user_view d u \<noteq> None \<longrightarrow> user_view d' u \<noteq> None)
    \<and> ((\<forall>s \<in> fst ` set log. \<not> unlinks s) \<longrightarrow>
         (\<forall>p s u. linked (fid_view d) p s = Some u \<longrightarrow> linked (fid_view d') p s = Some u))"
proof -
  have ok: "db_ok d" using assms(2) by (simp add: no_orphans_def)
  have no: "no_orphans d'" by (rule schedule_keeps [where P = no_orphans, OF assms]) (rule exec_keeps_served)
  then have ok': "db_ok d'" by (simp add: no_orphans_def)
  have "user_view d' u \<noteq> None" if "user_view d u \<noteq> None" for u
  proof -
    have "has_account u d" using that by (auto simp: has_account_def user_view_None)
    then have "has_account u d'" by (rule schedule_keeps [OF assms(1)]) (rule keeps_account)
    then show ?thesis by (auto simp: has_account_def user_view_None)
  qed
  moreover have "linked (fid_view d') p s = Some u"
    if nu: "\<forall>s \<in> fst ` set log. \<not> unlinks s" and l: "linked (fid_view d) p s = Some u" for p s u
  proof -
    have "owned (p, s) u d" using l by (simp add: owned_view [OF ok])
    then have "owned (p, s) u d'" by (rule schedule_keeps [OF assms(1)]) (use nu keeps_owned in blast)
    then show ?thesis by (simp add: owned_view [OF ok'])
  qed
  ultimately show ?thesis using no ok' unfolding no_orphans_def served_def by blast
qed

lemma sample_served: "no_orphans sample_idb"
proof -
  have "fid_view sample_idb (''google'', ''s1'') = Some (toFederatedIdentity (sample_fid ''f1'' ''google''))"
    by (simp add: fid_view_def sample_defs fr_key_def)
  moreover have "fiUserID (toFederatedIdentity (sample_fid ''f1'' ''google'')) = ''u1''"
    by (simp add: toFederatedIdentity_def sample_fid_def)
  moreover have "user_view sample_idb u \<noteq> None \<Longrightarrow> u = ''u1''" for u
    by (auto simp: user_view_def sample_defs split: if_splits)
  ultimately show ?thesis unfolding no_orphans_def served_def by (metis sample_idb_ok)
qed

theorem accounts_preserved_witness:
  "\<exists>log d'. idp_schedule True sample_idb log d' \<and> log \<noteq> [] \<and> linked (fid_view d') ''google'' ''s1'' = Some ''u1''"
proof -
  let ?s = "TokenStmt (TkRotate (fst (sample_new ''h2'')) (snd (sample_new ''h2'')) sample_hash)"
  obtain w' where run: "run_state (exec_idp True ?s) (idle_world sample_idb) = (Inr (), w')" using sample_rotation by blast
  have sch: "idp_schedule True sample_idb ([] @ [(?s, Inr ())]) (db w')"
    by (rule idp_schedule.exec [OF _ run]) (simp add: idp_schedule.start)
  have "linked (fid_view sample_idb) ''google'' ''s1'' = Some ''u1''"
    by (simp add: linked_def fid_view_def sample_defs fr_key_def toFederatedIdentity_def)
  with accounts_preserved [OF sch sample_served] sch show ?thesis
    by (intro exI [of _ "[] @ [(?s, Inr ())]"] exI [of _ "db w'"]) simp
qed

text \<open>C36: A federated login of a subject nobody has linked makes a new account with the provider's
  claims; later, whatever other requests do short of unlinking, a login of the same subject returns the
  same account and makes no other. A login that fails for an unlinked subject has changed nothing.\<close>
theorem federated_login_stable:
  fixes agg defines "repo \<equiv> UserRepository agg"
  assumes "run_state (identityService_FindOrCreateByFederatedLogin repo p c) w = (r, w1)" and "db_ok (db w)"
    and "linked (fid_view (db w)) p (fcSubject c) = None"
  shows "case r of
      Inl e \<Rightarrow> db w1 = db w
    | Inr u \<Rightarrow> user_view (db w) (uID u) = None \<and> user_view (db w1) = (user_view (db w))(uID u \<mapsto> u)
        \<and> uEmail u = fcEmail c \<and> uName u = fcName c
        \<and> linked (fid_view (db w1)) p (fcSubject c) = Some (uID u)
        \<and> (\<forall>log w2 c' v w3. idp_schedule agg (db w1) log (db w2) \<and> (\<forall>s \<in> fst ` set log. \<not> unlinks s)
             \<and> fcSubject c' = fcSubject c
             \<and> run_state (identityService_FindOrCreateByFederatedLogin repo p c') w2 = (Inr v, w3)
             \<longrightarrow> uID v = uID u \<and> (\<forall>x. x \<noteq> uID u \<longrightarrow> user_view (db w3) x = user_view (db w2) x))"
proof (cases r)
  case (Inl e)
  with assms pg_users.login_error [of agg p c w e w1] show ?thesis by simp
next
  case (Inr u)
  note ld = pg_users.login_done [OF assms(2) [unfolded Inr repo_def] assms(3)]
  have new: "user_view (db w) (uID u) = None" using ld assms(4) by (auto split: if_splits)
  have views: "user_view (db w1) = (user_view (db w))(uID u \<mapsto> u)"
  proof
    show "user_view (db w1) x = ((user_view (db w))(uID u \<mapsto> u)) x" for x
      using ld new by (cases "x = uID u") auto
  qed
  have claims: "uEmail u = fcEmail c" "uName u = fcName c"
    using assms(2) by (auto simp: Inr identityService_FindOrCreateByFederatedLogin_def Let_def
      split: prod.splits sum.splits option.splits)
  have ok1: "db_ok (db w1)" and here: "linked (fid_view (db w1)) p (fcSubject c) = Some (uID u)" using ld by auto
  have later: "\<forall>log w2 c' v w3. idp_schedule agg (db w1) log (db w2) \<and> (\<forall>s \<in> fst ` set log. \<not> unlinks s)
             \<and> fcSubject c' = fcSubject c
             \<and> run_state (identityService_FindOrCreateByFederatedLogin repo p c') w2 = (Inr v, w3)
             \<longrightarrow> uID v = uID u \<and> (\<forall>x. x \<noteq> uID u \<longrightarrow> user_view (db w3) x = user_view (db w2) x)"
  proof (intro allI impI, elim conjE)
    fix log w2 c' v w3
    assume sch: "idp_schedule agg (db w1) log (db w2)" and nu: "\<forall>s \<in> fst ` set log. \<not> unlinks s"
      and sub: "fcSubject c' = fcSubject c"
      and run: "run_state (identityService_FindOrCreateByFederatedLogin repo p c') w2 = (Inr v, w3)"
    have ok2: "db_ok (db w2)" by (rule schedule_keeps [where P = db_ok, OF sch ok1]) (rule exec_keeps_ok)
    have "owned (p, fcSubject c) (uID u) (db w1)" using here by (simp add: owned_view [OF ok1])
    then have "owned (p, fcSubject c) (uID u) (db w2)" by (rule schedule_keeps [OF sch]) (use nu keeps_owned in blast)
    then have lk: "linked (fid_view (db w2)) p (fcSubject c') = Some (uID u)" by (simp add: owned_view [OF ok2] sub)
    note l2 = pg_users.login_done [OF run [unfolded repo_def] ok2]
    have "uID v = uID u" using l2 lk by (simp split: if_splits)
    with l2 show "uID v = uID u \<and> (\<forall>x. x \<noteq> uID u \<longrightarrow> user_view (db w3) x = user_view (db w2) x)" by simp
  qed
  show ?thesis
    unfolding Inr sum.case using new views claims here later by (intro conjI)
qed

lemmas user_repo_eval = UserRepository_defs user_sql_defs in_tx_def tx_Begin_def tx_Commit_def tx_Rollback_def
  tx_exec_def run_db_exec sql_first_def sql_count_def sql_delete_def sql_update_def sql_insert_def sql_order_asc_def
  toUser_def

definition sample_claims :: "string \<Rightarrow> FederatedClaims" where
  "sample_claims s = \<lparr>fcSubject = s, fcEmail = ''b@x'', fcEmailVerified = True, fcName = ''Bob'', fcGivenName = ''Bob'',
     fcFamilyName = [], fcPicture = ''q''\<rparr>"

theorem federated_login_stable_witness:
  "\<exists>u w1 v w3. run_state (identityService_FindOrCreateByFederatedLogin (UserRepository True) ''google'' (sample_claims ''s2''))
      (idle_world sample_idb) = (Inr u, w1)
    \<and> run_state (identityService_FindOrCreateByFederatedLogin (UserRepository True) ''google'' (sample_claims ''s2''))
      (idle_world (db w1)) = (Inr v, w3)
    \<and> user_view (db w1) (uID u) = Some u \<and> uID v = uID u"
proof -
  let ?m = "identityService_FindOrCreateByFederatedLogin (UserRepository True) ''google'' (sample_claims ''s2'')"
  have unlinked: "linked (fid_view (db (idle_world sample_idb))) ''google'' (fcSubject (sample_claims ''s2'')) = None"
    by (simp add: linked_def fid_view_def sample_defs fr_key_def sample_claims_def)
  obtain r w1 where run: "run_state ?m (idle_world sample_idb) = (r, w1)" by fastforce
  obtain r3 w3 where run3: "run_state ?m (idle_world (db w1)) = (r3, w3)" by fastforce
  have "\<not> isl (fst (run_state ?m (idle_world sample_idb)))"
    by (simp add: identityService_FindOrCreateByFederatedLogin_def user_repo_eval sample_defs sample_claims_def
      fr_key_def Let_def ulid_unary_def)
  moreover have "\<not> isl (fst (run_state ?m (idle_world (db (snd (run_state ?m (idle_world sample_idb)))))))"
    by (simp add: identityService_FindOrCreateByFederatedLogin_def user_repo_eval sample_defs sample_claims_def
      fr_key_def Let_def ulid_unary_def)
  ultimately obtain u v where uv: "r = Inr u" "r3 = Inr v" using run run3 by (cases r; cases r3) auto
  have "idp_schedule True (db w1) [] (db (idle_world (db w1)))" by (simp add: idp_schedule.start)
  moreover have ok: "db_ok (db (idle_world sample_idb))" by simp
  note st = federated_login_stable [OF run ok unlinked, unfolded uv sum.case]
  ultimately have "user_view (db w1) (uID u) = Some u \<and> uID v = uID u"
    using run3 [unfolded uv] st by (metis (no_types, lifting) empty_iff fun_upd_same image_empty list.set(1))
  with run run3 uv show ?thesis by blast
qed

text \<open>C37: Unlinking removes exactly the named identity, which belongs to the caller, and only when the
  caller keeps another; otherwise nothing changes. A PostgreSQL server that, as documented, refuses
  \<open>FOR UPDATE\<close> with an aggregate makes every call fail.\<close>
theorem unlink_keeps_another:
  assumes "run_state (identityService_UnlinkProvider (UserRepository agg) uid fid) w = (r, w')" and "db_ok (db w)"
  shows "(case r of
      Inl e \<Rightarrow> db w' = db w
    | Inr _ \<Rightarrow> agg \<and> (\<exists>k f. fid_view (db w) k = Some f \<and> fiID f = fid \<and> fiUserID f = uid
        \<and> fid_view (db w') = (fid_view (db w))(k := None)) \<and> (\<exists>k f. fid_view (db w') k = Some f \<and> fiUserID f = uid)
        \<and> user_view (db w') = user_view (db w))"
proof (cases r)
  case (Inl e)
  then have "\<exists>e. run_state (DeleteFederatedIdentity (UserRepository agg) fid uid) w = (Inl e, w')"
    using assms(1) by (auto simp: identityService_UnlinkProvider_def split: prod.splits sum.splits)
  then have "db w' = db w" using pg_users.delete_error by blast
  with Inl show ?thesis by simp
next
  case (Inr u)
  have "agg"
    using assms(1) unfolding Inr
    by (rule_tac ccontr) (auto simp: identityService_UnlinkProvider_def UserRepository_defs in_tx_def tx_exec_def
      sql_count_fids_for_update_def tx_Begin_def run_db_exec split: prod.splits sum.splits option.splits)
  with Inr pg_users.unlink_done [OF assms(1) [unfolded Inr] assms(2)] show ?thesis by simp
qed

theorem unlink_keeps_another_witness:
  "\<exists>w'. run_state (identityService_UnlinkProvider (UserRepository True) ''u1'' ''f1'') (idle_world sample_idb) = (Inr (), w')
     \<and> (\<exists>k f. fid_view (db w') k = Some f \<and> fiUserID f = ''u1'')"
proof -
  let ?m = "identityService_UnlinkProvider (UserRepository True) ''u1'' ''f1''"
  have "fst (run_state ?m (idle_world sample_idb)) = Inr ()"
    by (simp add: identityService_UnlinkProvider_def user_repo_eval sample_defs Let_def)
  then obtain w' where run: "run_state ?m (idle_world sample_idb) = (Inr (), w')" by (metis prod.collapse)
  with unlink_keeps_another [OF run] show ?thesis by auto
qed

text \<open>A name set in the profile is the one shown from then on: the update answers with it, and a
  later federated login of the same account, whatever name the provider sends, leaves it shown.\<close>
theorem local_name_survives_login:
  assumes "run_state (identityService_UpdateProfile (UserRepository agg) uid (Some n) pic) w = (Inr u, w1)"
    and "db_ok (db w)" and "n \<noteq> []"
    and "run_state (identityService_FindOrCreateByFederatedLogin (UserRepository agg) p c) w1 = (Inr v, w2)"
    and "uID v = uid"
    and "run_state (identityService_GetUser (UserRepository agg) uid) w2 = (Inr shown, w3)"
  shows "uName u = n \<and> uName shown = n \<and> uEmail shown = fcEmail c"
proof -
  obtain x where x: "user_view (db w) uid = Some x"
    "user_view (db w1) = (user_view (db w))(uid \<mapsto> x\<lparr>uLocalName := set_local (Some n) (uLocalName x),
       uLocalPicture := set_local pic (uLocalPicture x), uUpdatedAt := clock w\<rparr>)"
    "u = applyLocalOverrides (the (user_view (db w1) uid))" and ok1: "db_ok (db w1)"
    using pg_users.profile_update_done [OF assms(1,2)] by blast
  have here: "user_view (db w1) uid = Some (x\<lparr>uLocalName := Some n,
       uLocalPicture := set_local pic (uLocalPicture x), uUpdatedAt := clock w\<rparr>)"
    using x(2) assms(3) by (simp add: set_local_def)
  note ld = pg_users.login_done [OF assms(4) ok1]
  have "user_view (db w2) uid = Some (apply_claims c (uUpdatedAt v) (x\<lparr>uLocalName := Some n,
       uLocalPicture := set_local pic (uLocalPicture x), uUpdatedAt := clock w\<rparr>))"
    using ld here assms(5) by simp
  moreover have "db_ok (db w2)" using ld by blast
  note gd = pg_users.getUser_done [OF assms(6) this]
  ultimately show ?thesis using gd x(3) here assms(3)
    by (auto simp: applyLocalOverrides_sel apply_claims_def)
qed

theorem local_name_survives_login_witness:
  "\<exists>u w1 v w2 shown w3.
     run_state (identityService_UpdateProfile (UserRepository True) ''u1'' (Some ''Zed'') None) (idle_world sample_idb) = (Inr u, w1)
     \<and> run_state (identityService_FindOrCreateByFederatedLogin (UserRepository True) ''google'' (sample_claims ''s1'')) w1 = (Inr v, w2)
     \<and> run_state (identityService_GetUser (UserRepository True) ''u1'') w2 = (Inr shown, w3)
     \<and> uName shown = ''Zed'' \<and> uEmail shown = ''b@x''"
proof -
  let ?a = "run_state (identityService_UpdateProfile (UserRepository True) ''u1'' (Some ''Zed'') None) (idle_world sample_idb)"
  let ?b = "run_state (identityService_FindOrCreateByFederatedLogin (UserRepository True) ''google'' (sample_claims ''s1'')) (snd ?a)"
  let ?c = "run_state (identityService_GetUser (UserRepository True) ''u1'') (snd ?b)"
  have a: "\<not> isl (fst ?a)"
    by (simp add: identityService_UpdateProfile_def identityService_GetUser_def user_repo_eval sample_defs)
  have b: "\<exists>v. fst ?b = Inr v \<and> uID v = ''u1''" and c: "\<not> isl (fst ?c)"
    by (simp_all add: identityService_UpdateProfile_def identityService_GetUser_def user_repo_eval sample_defs
      identityService_FindOrCreateByFederatedLogin_def sample_claims_def nullableString_def)
  obtain u where u: "?a = (Inr u, snd ?a)" using a by (cases "fst ?a") (auto simp: prod_eq_iff)
  obtain v where v: "?b = (Inr v, snd ?b)" "uID v = ''u1''" using b by (auto simp: prod_eq_iff)
  obtain x where x: "?c = (Inr x, snd ?c)" using c by (cases "fst ?c") (auto simp: prod_eq_iff)
  from local_name_survives_login [OF u _ _ v x] have "uName x = ''Zed'' \<and> uEmail x = ''b@x''"
    by (simp add: sample_claims_def)
  with u v(1) x show ?thesis by blast
qed

end
