(* ===== verification/LoginProps.thy ===== *)
theory LoginProps
  imports LoginFlow IdentityProps
begin

text \<open>
  The properties of the federated login: the state that travels through the browser, what a
  callback that succeeds has done, and when an e-mail address counts as verified.
\<close>

section \<open>The state\<close>

lemma byte_char [simp]: "char_of (unat (of_char c :: byte)) = c"
proof -
  have "of_char c = (word_of_nat (of_char c) :: byte)" by (rule of_nat_of_char [symmetric])
  moreover have "(of_char c :: nat) < 2 ^ 8" using nat_of_char_less_256 [of c] by simp
  ultimately have "unat (of_char c :: byte) = of_char c" by (simp add: unsigned_of_nat take_bit_eq_mod)
  then show ?thesis by simp
qed

lemma string_of_bytes_of [simp]: "string_of (bytes_of s) = s"
  by (simp add: string_of_def bytes_of_def comp_def)

lemma state_Unmarshal_Marshal:
  assumes "valid_utf8 (fsAuthRequestID st)" "valid_utf8 (fsProvider st)" "valid_utf8 (fsNonce st)"
  shows "state_Unmarshal (state_Marshal st) = Inr st"
proof -
  have one: "valid_utf8 [c]" if "is_ascii c" for c using that
    by (subst valid_utf8.simps) (simp add: valid_utf8.simps)
  have "valid_utf8 ''a''" "valid_utf8 ''p''" "valid_utf8 ''n''" by (rule one; simp add: is_ascii_def)+
  then have "json_parse (json_print [(''a'', fsAuthRequestID st), (''p'', fsProvider st), (''n'', fsNonce st)]) =
      Some (JObj [(''a'', JStr (fsAuthRequestID st)), (''p'', JStr (fsProvider st)), (''n'', JStr (fsNonce st))])"
    using json_parse_print [of "[(''a'', fsAuthRequestID st), (''p'', fsProvider st), (''n'', fsNonce st)]"] assms
    by simp
  moreover have "same_field ''a'' ''a''" "\<not> same_field ''a'' ''p''" "\<not> same_field ''a'' ''n''" "\<not> same_field ''p'' ''a''"
    "same_field ''p'' ''p''" "\<not> same_field ''p'' ''n''" "\<not> same_field ''n'' ''a''" "\<not> same_field ''n'' ''p''"
    "same_field ''n'' ''n''"
    by code_simp+
  ultimately show ?thesis by (simp add: state_Unmarshal_def state_Marshal_def)
qed

lemma Encrypt_Inr:
  assumes "run_state (Encrypt g key pt) w = (Inr enc, w')"
  obtains nonce where "length nonce = 12" "enc = URLEncoding_EncodeToString (nonce @ gcm_Seal g key nonce pt)"
    "length key \<in> {16, 24, 32}"
proof -
  from assms obtain f where k: "length key \<in> {16, 24, 32}"
    and e: "enc = URLEncoding_EncodeToString (map f [0..<12] @ gcm_Seal g key (map f [0..<12]) pt)"
    by (auto simp: Encrypt_def aes_NewCipher_def run_rand_Read Let_def split: if_splits option.splits)
  show thesis by (rule that [OF _ e k]) simp
qed

text \<open>
  C15: The login's state survives the round trip through the browser, and nothing else is taken
  for one: what is decrypted was sealed, under the service's key, in the text the browser brought.
  The hypothesis is what authenticated encryption documents.
\<close>

theorem federated_state_roundtrip:
  assumes "aead_ok g"
  shows "(run_state (encryptState g key st) w = (Inr enc, w')
       \<and> valid_utf8 (fsAuthRequestID st) \<and> valid_utf8 (fsProvider st) \<and> valid_utf8 (fsNonce st)
       \<longrightarrow> decryptState g key enc = Inr st)
    \<and> (decryptState g key x = Inr st' \<longrightarrow> (\<exists>nonce pt. length nonce = 12
       \<and> URLEncoding_DecodeString x = Some (nonce @ gcm_Seal g key nonce pt) \<and> state_Unmarshal pt = Inr st'))"
proof (intro conjI impI)
  assume A: "run_state (encryptState g key st) w = (Inr enc, w')
       \<and> valid_utf8 (fsAuthRequestID st) \<and> valid_utf8 (fsProvider st) \<and> valid_utf8 (fsNonce st)"
  then obtain nonce where n: "length nonce = 12" "length key \<in> {16, 24, 32}"
    "enc = URLEncoding_EncodeToString (nonce @ gcm_Seal g key nonce (state_Marshal st))"
    unfolding encryptState_def using Encrypt_Inr by metis
  have "gcm_Open g key nonce (gcm_Seal g key nonce (state_Marshal st)) = Some (state_Marshal st)"
    using assms by (simp add: aead_ok_def)
  with n A show "decryptState g key enc = Inr st"
    by (simp add: decryptState_def Decrypt_def aes_NewCipher_def b64_Decode_Encode state_Unmarshal_Marshal)
next
  assume "decryptState g key x = Inr st'"
  then obtain c pt where c: "URLEncoding_DecodeString x = Some c" "\<not> length c < 12"
    "gcm_Open g key (take 12 c) (drop 12 c) = Some pt" "state_Unmarshal pt = Inr st'"
    by (auto simp: decryptState_def Decrypt_def split: sum.splits option.splits if_splits)
  then have "drop 12 c = gcm_Seal g key (take 12 c) pt" using assms by (simp add: aead_ok_def)
  then have "c = take 12 c @ gcm_Seal g key (take 12 c) pt" by (metis append_take_drop_id)
  with c show "\<exists>nonce pt. length nonce = 12
       \<and> URLEncoding_DecodeString x = Some (nonce @ gcm_Seal g key nonce pt) \<and> state_Unmarshal pt = Inr st'"
    by (intro exI [of _ "take 12 c"] exI [of _ pt]) simp
qed

definition sample_aead :: aead where
  "sample_aead = \<lparr>gcm_Seal = \<lambda>k n p. k @ n @ p,
     gcm_Open = \<lambda>k n c. if take (length (k @ n)) c = k @ n then Some (drop (length (k @ n)) c) else None\<rparr>"

lemma sample_aead_ok [simp]: "aead_ok sample_aead"
  unfolding aead_ok_def
proof (intro allI)
  fix k n c p :: "byte list"
  have "take (length (k @ n)) c = k @ n \<and> drop (length (k @ n)) c = p \<longleftrightarrow> c = (k @ n) @ p"
    by (metis append_eq_conv_conj)
  then show "gcm_Open sample_aead k n c = Some p \<longleftrightarrow> c = gcm_Seal sample_aead k n p"
    by (auto simp: sample_aead_def)
qed

definition sample_state :: federatedState where
  "sample_state = \<lparr>fsAuthRequestID = ''q1'', fsProvider = ''github'', fsNonce = ''u''\<rparr>"

definition sample_key :: "byte list" where "sample_key = replicate 32 7"

lemma sample_state_utf8:
  "valid_utf8 (fsAuthRequestID sample_state) \<and> valid_utf8 (fsProvider sample_state) \<and> valid_utf8 (fsNonce sample_state)"
proof -
  have "valid_utf8 ''q1'' \<and> valid_utf8 ''github'' \<and> valid_utf8 ''u''" by code_simp
  then show ?thesis by (simp add: sample_state_def)
qed

definition sample_enc :: string where
  "sample_enc = (case fst (run_state (encryptState sample_aead sample_key sample_state) (idle_world sample_idb)) of
     Inr e \<Rightarrow> e | Inl _ \<Rightarrow> [])"

lemma sample_enc_run:
  "\<exists>w'. run_state (encryptState sample_aead sample_key sample_state) (idle_world sample_idb) = (Inr sample_enc, w')"
  by (simp add: sample_enc_def encryptState_def Encrypt_def aes_NewCipher_def sample_key_def run_rand_Read Let_def)

lemma sample_decrypt: "decryptState sample_aead sample_key sample_enc = Inr sample_state"
proof -
  obtain w' where "run_state (Encrypt sample_aead sample_key (state_Marshal sample_state)) (idle_world sample_idb) = (Inr sample_enc, w')"
    using sample_enc_run by (auto simp: encryptState_def)
  then obtain nonce where n: "length nonce = 12" "length sample_key \<in> {16, 24, 32}"
    "sample_enc = URLEncoding_EncodeToString (nonce @ gcm_Seal sample_aead sample_key nonce (state_Marshal sample_state))"
    by (rule Encrypt_Inr)
  have "gcm_Open sample_aead sample_key nonce (gcm_Seal sample_aead sample_key nonce (state_Marshal sample_state)) =
      Some (state_Marshal sample_state)"
    using sample_aead_ok by (simp add: aead_ok_def del: sample_aead_ok)
  moreover have "state_Unmarshal (state_Marshal sample_state) = Inr sample_state"
    using sample_state_utf8 by (intro state_Unmarshal_Marshal) auto
  ultimately show ?thesis
    unfolding n(3) decryptState_def Decrypt_def b64_Decode_Encode using n(1,2) by (simp add: aes_NewCipher_def)
qed

theorem federated_state_roundtrip_witness:
  "decryptState sample_aead sample_key sample_enc = Inr sample_state"
  using federated_state_roundtrip [OF sample_aead_ok, of sample_key sample_state "idle_world sample_idb" sample_enc]
    sample_enc_run sample_state_utf8 by blast

section \<open>Verified addresses\<close>

text \<open>
  A GitHub address counts as verified only when GitHub's list of the account's addresses,
  fetched with the same token, has it as primary and verified.
\<close>

theorem github_email_verified:
  assumes "run_state (github_FetchClaims up token) w = (Inr c, w')" "fcEmailVerified c"
  shows "fcEmail c \<noteq> [] \<and> (\<exists>w1 w2 body emails e. emails_body body = Some emails \<and> e \<in> set emails
    \<and> run_state (up_Get up ''https://api.github.com/user/emails'' token) w1 = (Inr (200, body), w2)
    \<and> geEmail e = fcEmail c \<and> gePrimary e \<and> geVerified e)"
proof -
  have ne: "fcEmail c \<noteq> [] \<and> (\<exists>w1 w2. run_state (github_fetchPrimaryEmail up token) w1 = (Inr (fcEmail c), w2))"
    using assms by (auto simp: github_FetchClaims_def split: prod.splits sum.splits if_splits option.splits) blast
  then obtain w1 wf where f: "run_state (github_fetchPrimaryEmail up token) w1 = (Inr (fcEmail c), wf)" by blast
  obtain w2 body emails where g: "run_state (up_Get up ''https://api.github.com/user/emails'' token) w1 = (Inr (200, body), w2)"
    "emails_body body = Some emails" "primary_email emails = fcEmail c"
    using f by (auto simp: github_fetchPrimaryEmail_def split: prod.splits sum.splits if_splits option.splits)
  then obtain e where "find (\<lambda>e. gePrimary e \<and> geVerified e) emails = Some e" "geEmail e = fcEmail c"
    using conjunct1 [OF ne] by (auto simp: primary_email_def split: option.splits)
  then have "e \<in> set emails" "gePrimary e" "geVerified e" using find_SomeD by fastforce+
  with g ne \<open>geEmail e = fcEmail c\<close> show ?thesis by blast
qed


definition sample_user_body :: string where
  "sample_user_body = ''{'' @ json_quote ''id'' @ '':42}''"

definition sample_emails_body :: string where
  "sample_emails_body = ''[{'' @ json_quote ''email'' @ '':'' @ json_quote ''a@x'' @ '','' @ json_quote ''primary''
     @ '':true,'' @ json_quote ''verified'' @ '':true}]''"

definition sample_up :: "identity_db upstream" where
  "sample_up = \<lparr>up_AuthCodeURL = \<lambda>_ st. st, up_Exchange = \<lambda>_ _. ret (Inr \<lparr>otAccessToken = ''t'', otIDToken = None\<rparr>),
     up_discover = ret (Inr ()), up_Verify = \<lambda>_ _. ret (Inl (DriverErr 0)),
     up_Get = \<lambda>url _. ret (Inr (200, if url = ''https://api.github.com/user'' then sample_user_body else sample_emails_body)),
     up_uuid = ret ''u''\<rparr>"

definition sample_gh_claims :: FederatedClaims where
  "sample_gh_claims = \<lparr>fcSubject = ''42'', fcEmail = ''a@x'', fcEmailVerified = True, fcName = [], fcGivenName = [],
     fcFamilyName = [], fcPicture = []\<rparr>"

lemma sample_bodies:
  "user_body sample_user_body = Some \<lparr>ghID = 42, ghEmail = [], ghName = [], ghAvatarURL = []\<rparr>"
  "emails_body sample_emails_body = Some [\<lparr>geEmail = ''a@x'', gePrimary = True, geVerified = True\<rparr>]"
  "strconv_Itoa 42 = ''42''"
  by code_simp+

lemma sample_fetch: "run_state (github_FetchClaims sample_up token) w = (Inr sample_gh_claims, w)"
  by (simp add: github_FetchClaims_def github_fetchPrimaryEmail_def sample_up_def sample_bodies primary_email_def
      sample_gh_claims_def)

theorem github_email_verified_witness:
  "\<exists>emails e. emails_body sample_emails_body = Some emails \<and> e \<in> set emails \<and> gePrimary e \<and> geVerified e
     \<and> geEmail e = fcEmail sample_gh_claims"
  using github_email_verified [OF sample_fetch [of "\<lparr>otAccessToken = ''t'', otIDToken = None\<rparr>" "idle_world sample_idb"]]
  by (auto simp: sample_gh_claims_def sample_up_def)

section \<open>The callback\<close>

text \<open>What the libraries and the providers do leaves the service's database alone.\<close>

definition upstream_frame :: "'db upstream \<Rightarrow> bool" where
  "upstream_frame up \<longleftrightarrow> (\<forall>P. (\<forall>c x. keeps P (up_Exchange up c x)) \<and> (\<forall>c x. keeps P (up_Verify up c x))
     \<and> (\<forall>u t. keeps P (up_Get up u t)))"

lemma claims_frame:
  assumes "upstream_frame up"
  shows "keeps P (google_FetchClaims up c t)" "keeps P (github_FetchClaims up t)"
proof -
  have k: "keeps P (up_Verify up c x)" "keeps P (up_Get up u t)" for c x u t
    using assms by (auto simp: upstream_frame_def)
  show "keeps P (google_FetchClaims up c t)" unfolding google_FetchClaims_def by (intro keeps k)
  have g: "keeps P (github_fetchPrimaryEmail up t)" unfolding github_fetchPrimaryEmail_def by (intro keeps k)
  show "keeps P (github_FetchClaims up t)" unfolding github_FetchClaims_def by (intro keeps k g)
qed

lemma NewProviders_cases:
  assumes "run_state (NewProviders up cfg) w = (Inr ps, w')"
  shows "distinct (map pvName ps)
    \<and> (\<forall>p \<in> set ps. pvClaims p = github_FetchClaims up \<or> (\<exists>c. pvClaims p = google_FetchClaims up c))"
  using assms by (auto simp: NewProviders_def newGoogleProvider_def newGitHubProvider_def Let_def
      split: prod.splits sum.splits if_splits) blast

lemma providerMap_Some:
  "lh_providerMap (NewHandler ps i l d g k cb t up) n = Some p \<Longrightarrow> p \<in> set ps \<and> pvName p = n"
proof -
  have "fold (\<lambda>p pm. pm(pvName p \<mapsto> p)) ps m n = Some p \<Longrightarrow> m n = Some p \<or> p \<in> set ps \<and> pvName p = n" for m
    by (induction ps arbitrary: m) (fastforce split: if_splits)+
  then show "lh_providerMap (NewHandler ps i l d g k cb t up) n = Some p \<Longrightarrow> ?thesis"
    by (fastforce simp: NewHandler_def)
qed

text \<open>A login leaves the authorization requests alone, opening a device session the identities, too.\<close>

lemma login_keeps_requests:
  "keeps (\<lambda>d. t_auth_requests d = q) (identityService_FindOrCreateByFederatedLogin (UserRepository agg) p c)"
  by (auto simp: identityService_FindOrCreateByFederatedLogin_def Let_def UserRepository_defs user_sql_defs
      intro!: keeps split: sum.splits if_splits list.splits)

lemma session_keeps:
  "keeps (\<lambda>d. t_auth_requests d = q \<and> t_fids d = f) (DS_FindOrCreate DeviceSessionRepository i u ua ip nm)"
  by (auto simp: DeviceSessionRepository_defs DeviceSessionRepository_reuse_def sql_select_device_def
      sql_use_device_def sql_insert_device_def intro!: keeps split: sum.splits if_splits)

lemma complete_keeps:
  "keeps (\<lambda>d. t_device_sessions d = q \<and> t_fids d = f) (AR_CompleteLogin AuthRequestRepository i u t amr s)"
  by (auto simp: AuthRequestRepository_defs sql_complete_login_def intro!: keeps split: sum.splits if_splits)

lemma request_view_cong: "t_auth_requests d = t_auth_requests d' \<Longrightarrow> request_view d = request_view d'"
  by (simp add: request_view_def fun_eq_iff)


text \<open>What a finished login has done: the provider's subject is linked to a user, who has an active
  device session, and the authorization request, if there still is one, is completed for both.\<close>

definition login_completed ::
  "identity_db \<Rightarrow> identity_db \<Rightarrow> federatedState \<Rightarrow> FederatedClaims \<Rightarrow> string \<Rightarrow> bool" where
  "login_completed d d' st claims s \<longleftrightarrow> (\<exists>u ds t.
     linked (fid_view d') (fsProvider st) (fcSubject claims) = Some u
     \<and> device_view d' s = Some ds \<and> dsUserID ds = u \<and> dsRevokedAt ds = None
     \<and> request_view d' = (request_view d)(fsAuthRequestID st :=
         map_option (\<lambda>ar. ar\<lparr>arUserID := u, arAuthTime := t, arAMR := [''fed''], arIsDone := True, arDeviceSessionID := s\<rparr>)
           (request_view d (fsAuthRequestID st))))"

lemma finish_cases:
  assumes "run_state (FederatedCallback_finish (loginHandler L m ps g key cb tmpl up) r st claims) w = (resp, w')"
    and "db_ok (db w)"
  obtains (failed) "rsStatus resp = 500" "request_view (db w') = request_view (db w)"
  | (finished) s where "rsStatus resp = 302" "rsLocation resp = Some (cb (fsAuthRequestID st))"
      "set (rsCookies resp) \<subseteq> {device_cookie s}" "login_completed (db w) (db w') st claims s"
proof -
  let ?h = "loginHandler L m ps g key cb tmpl up" let ?repo = "UserRepository (lib_aggLock L)"
  have h: "lh_identity ?h = ?repo" "lh_devices ?h = idp_devices" "lh_loginComp ?h = idp_requests m" "lh_callbackURL ?h = cb"
    by (simp_all add: loginHandler_def NewHandler_def)
  obtain x w1 where login: "run_state (identityService_FindOrCreateByFederatedLogin ?repo (fsProvider st) claims) w = (x, w1)"
    by fastforce
  have rq1: "request_view (db w1) = request_view (db w)"
    using keepsD [OF login_keeps_requests login] by (intro request_view_cong) blast
  show thesis
  proof (cases x)
    case (Inl e)
    with assms(1) login show thesis
      using rq1 by (intro failed) (auto simp: FederatedCallback_finish_def FindOrCreateUser_def h)
  next
    case (Inr user)
    note ld = pg_users.login_done [OF login [unfolded Inr] assms(2)]
    obtain i w2 where i: "run_state (case rqCookie r deviceCookieName of
             Some v \<Rightarrow> if v = [] then ulid_Make else ret v | None \<Rightarrow> ulid_Make) w1 = (i, w2)" by fastforce
    then have db2: "db w2 = db w1" by (auto split: option.splits if_splits)
    obtain y w3 where dev: "run_state (DS_FindOrCreate DeviceSessionRepository i (uID user) (rqHeader r ''User-Agent'')
        (authn_clientIP r) (parseDeviceName (rqHeader r ''User-Agent''))) w2 = (y, w3)" by fastforce
    have t3: "t_auth_requests (db w3) = t_auth_requests (db w1)" "t_fids (db w3) = t_fids (db w1)"
      using keepsD [OF session_keeps dev, of "t_auth_requests (db w1)" "t_fids (db w1)"] db2 by simp_all
    then have rq3: "request_view (db w3) = request_view (db w)" using request_view_cong rq1 by metis
    have run: "run_state (case y of Inl err \<Rightarrow> ret (http_Error [] ''internal error'' 500)
         | Inr ds \<Rightarrow> do {
             let cookies = (if dsID ds \<noteq> i then [device_cookie (dsID ds)] else []);
             c \<leftarrow> CompleteLogin (idp_requests m) (fsAuthRequestID st) (uID user) (dsID ds);
             case c of
               Inl err \<Rightarrow> ret (http_Error cookies ''internal error'' 500)
             | Inr _ \<Rightarrow> ret (http_Redirect cookies (cb (fsAuthRequestID st)) 302) }) w3 = (resp, w')"
      using assms(1) login dev i Inr
      by (simp add: FederatedCallback_finish_def FindOrCreateUser_def h idp_devices_def deviceSessionService_FindOrCreate_def)
    show thesis
    proof (cases y)
      case (Inl e)
      with run rq3 show thesis by (intro failed) auto
    next
      case dsok: (Inr ds)
      note dd = pg_devices.find_done [OF dev [unfolded dsok], unfolded db2, OF conjunct1 [OF ld]]
      let ?cs = "if dsID ds \<noteq> i then [device_cookie (dsID ds)] else []"
      obtain c w4 where comp: "run_state (AR_CompleteLogin AuthRequestRepository (fsAuthRequestID st) (uID user) (clock w3)
          [''fed''] (dsID ds)) (pass w3) = (c, w4)" by fastforce
      have run4: "(resp, w') = (case c of Inl _ \<Rightarrow> (http_Error ?cs ''internal error'' 500, w4)
          | Inr _ \<Rightarrow> (http_Redirect ?cs (cb (fsAuthRequestID st)) 302, w4))"
        using run comp dsok
        by (cases c) (simp_all add: CompleteLogin_def idp_requests_def authRequestService_CompleteLogin_def Let_def)
      show thesis
      proof (cases c)
        case (Inl e)
        then have "db w4 = db w3" using pg_requests.login_error [OF comp [unfolded Inl]] by simp
        with run4 Inl rq3 show thesis by (intro failed) auto
      next
        case done4: (Inr u)
        have ok3: "db_ok (db w3)" using dd by blast
        note cd = pg_requests.login_done [OF comp [unfolded done4], unfolded pass_sel, OF ok3]
        have fr: "t_device_sessions (db w4) = t_device_sessions (db w3)" "t_fids (db w4) = t_fids (db w3)"
          using keepsD [OF complete_keeps comp, of "t_device_sessions (db w3)" "t_fids (db w3)"] by simp_all
        then have "fid_view (db w4) = fid_view (db w1)" "device_view (db w4) = device_view (db w3)"
          using t3(2) by (simp_all add: fid_view_def device_view_def fun_eq_iff)
        then have "login_completed (db w) (db w4) st claims (dsID ds)"
          unfolding login_completed_def using ld dd cd rq3 by auto
        with run4 done4 show thesis by (intro finished [of "dsID ds"]) auto
      qed
    qed
  qed
qed


lemma exchange_db:
  assumes "upstream_frame up" "run_state (up_Exchange up c x) w = (t, w')"
  shows "db w' = db w"
proof -
  have "keeps (\<lambda>d. d = db w) (up_Exchange up c x)" using assms(1) by (simp add: upstream_frame_def)
  from keepsD [OF this assms(2)] show ?thesis by simp
qed

lemma claims_db:
  assumes "run_state (NewProviders up cfg) w0 = (Inr ps, w1)" "upstream_frame up" "p \<in> set ps"
    and "run_state (pvClaims p token) w = (c, w')"
  shows "db w' = db w"
proof -
  have "keeps (\<lambda>d. d = db w) (pvClaims p token)"
    using NewProviders_cases [OF assms(1)] assms(3) claims_frame [OF assms(2)] by metis
  from keepsD [OF this assms(4)] show ?thesis by simp
qed

lemma callback_outcome:
  assumes "run_state (NewProviders up cfg) w0 = (Inr ps, w1)" "upstream_frame up" "db_ok (db w)"
    and "run_state (FederatedCallback (loginHandler L m ps g key cb tmpl up) r) w = (resp, w')"
  shows "(rsStatus resp \<in> {400, 500} \<and> request_view (db w') = request_view (db w))
    \<or> (rsStatus resp = 302 \<and> (\<exists>st p token claims w2 w3 s. decryptState g key (rqQuery r ''state'') = Inr st
         \<and> p \<in> set ps \<and> pvName p = fsProvider st
         \<and> run_state (up_Exchange up (pvOAuth2Config p) (rqQuery r ''code'')) w = (Inr token, w2)
         \<and> run_state (pvClaims p token) w2 = (Inr claims, w3)
         \<and> rsLocation resp = Some (cb (fsAuthRequestID st)) \<and> set (rsCookies resp) \<subseteq> {device_cookie s}
         \<and> login_completed (db w) (db w') st claims s))"
proof -
  let ?h = "loginHandler L m ps g key cb tmpl up"
  have h: "lh_aead ?h = g" "lh_key ?h = key" "lh_up ?h = up"
    by (simp_all add: loginHandler_def NewHandler_def)
  note run = assms(4) [unfolded FederatedCallback_def Let_def h]
  show ?thesis
  proof (cases "rqQuery r ''code'' = [] \<or> rqQuery r ''state'' = []")
    case True
    with run show ?thesis by auto
  next
    case q: False
    show ?thesis
    proof (cases "decryptState g key (rqQuery r ''state'')")
      case (Inl e)
      with run q show ?thesis by auto
    next
      case (Inr st)
      show ?thesis
      proof (cases "lh_providerMap ?h (fsProvider st)")
        case None
        with run q Inr show ?thesis by auto
      next
        case (Some p)
        then have p: "p \<in> set ps" "pvName p = fsProvider st"
          using providerMap_Some unfolding loginHandler_def by blast+
        obtain t w2 where t: "run_state (up_Exchange up (pvOAuth2Config p) (rqQuery r ''code'')) w = (t, w2)" by fastforce
        have db2: "db w2 = db w" by (rule exchange_db [OF assms(2) t])
        show ?thesis
        proof (cases t)
          case tl: (Inl e)
          with run q Inr Some t db2 show ?thesis by auto
        next
          case tr: (Inr token)
          obtain c w3 where c: "run_state (pvClaims p token) w2 = (c, w3)" by fastforce
          have db3: "db w3 = db w" using claims_db [OF assms(1,2) p(1) c] db2 by simp
          show ?thesis
          proof (cases c)
            case (Inl e)
            with run q \<open>decryptState _ _ _ = _\<close> Some t tr c db3 show ?thesis by auto
          next
            case cr: (Inr claims)
            have fin: "run_state (FederatedCallback_finish ?h r st claims) w3 = (resp, w')"
              using run q Inr Some t tr c cr by simp
            have ok3: "db_ok (db w3)" using db3 assms(3) by simp
            show ?thesis
            proof (rule finish_cases [OF fin ok3])
              assume "rsStatus resp = 500" "request_view (db w') = request_view (db w3)"
              with db3 show ?thesis by simp
            next
              fix s assume f: "rsStatus resp = 302" "rsLocation resp = Some (cb (fsAuthRequestID st))"
                "set (rsCookies resp) \<subseteq> {device_cookie s}" "login_completed (db w3) (db w') st claims s"
              have "login_completed (db w) (db w') st claims s" using f(4) db3 by simp
              with f(1-3) Inr p t [unfolded tr] c [unfolded cr] show ?thesis by blast
            qed
          qed
        qed
      qed
    qed
  qed
qed

text \<open>
  C3: The callback of a federated login. Either it answers 400 or 500 and no authorization request
  has changed, or it redirects to the request's callback, and then: the state was decrypted under
  the service's key and names a configured provider, the code was exchanged with that provider and
  the token yielded the claims, the claims' subject is linked to a user with an active device
  session, and the authorization request of the state, and no other, is completed for that user
  and session. The only cookie it may set holds that session. The hypothesis on the upstream says
  that the providers do not write to the service's database.
\<close>

theorem federated_callback:
  assumes "run_state (NewProviders up cfg) w0 = (Inr ps, w1)" "upstream_frame up" "db_ok (db w)"
    and "run_state (FederatedCallback (loginHandler L m ps g key cb tmpl up) r) w = (resp, w')"
  shows "(rsStatus resp \<in> {400, 500} \<and> request_view (db w') = request_view (db w))
    \<or> (rsStatus resp = 302 \<and> (\<exists>st p token claims w2 w3 s. decryptState g key (rqQuery r ''state'') = Inr st
         \<and> p \<in> set ps \<and> pvName p = fsProvider st
         \<and> run_state (up_Exchange up (pvOAuth2Config p) (rqQuery r ''code'')) w = (Inr token, w2)
         \<and> run_state (pvClaims p token) w2 = (Inr claims, w3)
         \<and> rsLocation resp = Some (cb (fsAuthRequestID st)) \<and> set (rsCookies resp) \<subseteq> {device_cookie s}
         \<and> login_completed (db w) (db w') st claims s))"
  by (rule callback_outcome [OF assms])

definition sample_cfg :: authn_Config where
  "sample_cfg = \<lparr>anIssuerURL = ''https://i'', anGoogleClientID = [], anGoogleClientSecret = [],
     anGitHubClientID = ''gh'', anGitHubClientSecret = ''s''\<rparr>"

definition sample_login :: "identity_db login_handler" where
  "sample_login = loginHandler sample_libs 30 [newGitHubProvider sample_up ''gh'' ''s'' ''https://i/login/callback'']
     sample_aead sample_key (\<lambda>i. ''/cb?id='' @ i) (\<lambda>_ _. None) sample_up"

definition sample_callback :: http_request where
  "sample_callback = \<lparr>rqMethod = ''GET'', rqPath = ''/login/callback'', rqHeader = \<lambda>_. [],
     rqQuery = \<lambda>k. if k = ''code'' then ''c'' else if k = ''state'' then sample_enc else [],
     rqForm = None, rqCookie = \<lambda>_. Some ''d7'', rqRemoteAddr = ''1.2.3.4:5''\<rparr>"

lemma sample_up_frame: "upstream_frame sample_up"
  by (simp add: upstream_frame_def sample_up_def keeps_ret)

lemma sample_providers:
  "run_state (NewProviders sample_up sample_cfg) w = (Inr [newGitHubProvider sample_up ''gh'' ''s'' ''https://i/login/callback''], w)"
  by (simp add: NewProviders_def sample_cfg_def)

lemma sample_enc_nonempty: "sample_enc \<noteq> []"
  using sample_decrypt by (auto simp: decryptState_def Decrypt_def b64_Decode_def aes_NewCipher_def split: if_splits)

lemma sample_exchange:
  "run_state (up_Exchange sample_up c x) w = (Inr \<lparr>otAccessToken = ''t'', otIDToken = None\<rparr>, (w :: identity_db go_world))"
  by (simp add: sample_up_def)

lemmas callback_eval = FederatedCallback_def sample_callback_def sample_login_def loginHandler_def NewHandler_def
  sample_decrypt newGitHubProvider_def sample_state_def sample_exchange sample_fetch
  FederatedCallback_finish_def FindOrCreateUser_def sample_libs_def
  identityService_FindOrCreateByFederatedLogin_def UserRepository_defs sql_select_federated_def sample_gh_claims_def
  run_db_exec sample_defs in_tx_def tx_Begin_def tx_Commit_def tx_exec_def sql_insert_user_def sql_insert_fid_def
  sql_insert_def fr_key_def ulid_unary_def deviceSessionService_FindOrCreate_def idp_devices_def
  DeviceSessionRepository_defs sql_select_device_def sql_first_def sql_insert_device_def
  CompleteLogin_def idp_requests_def authRequestService_CompleteLogin_def AuthRequestRepository_defs
  sql_complete_login_def sql_count_def sql_update_def nilIfEmptyStr_def device_exists_def Let_def

lemma sample_callback_redirects:
  "rsStatus (fst (run_state (FederatedCallback sample_login sample_callback) (idle_world sample_idb))) = 302"
  using sample_enc_nonempty by (simp add: callback_eval)

theorem federated_callback_witness:
  "\<exists>resp w'. run_state (FederatedCallback sample_login sample_callback) (idle_world sample_idb) = (resp, w')
     \<and> rsStatus resp = 302 \<and> (\<exists>s. login_completed sample_idb (db w') sample_state sample_gh_claims s)"
proof -
  let ?run = "run_state (FederatedCallback sample_login sample_callback) (idle_world sample_idb)"
  obtain resp w' where run: "?run = (resp, w')" by fastforce
  from federated_callback [OF sample_providers sample_up_frame _ run [unfolded sample_login_def]]
    sample_callback_redirects run
  show ?thesis by (auto simp: sample_callback_def sample_decrypt newGitHubProvider_def sample_exchange sample_fetch)
qed

end
