(* ===== verification/ServerInvariants.thy ===== *)
theory ServerInvariants
  imports IdentityServer LoginProps
begin

text \<open>
  Whatever the identity service serves, its database keeps the constraints of the schema: every
  operation of its services, of the storage the OpenID provider works on, of the login pages, of
  the account API and of the cleanup loops does.
\<close>

section \<open>Services\<close>

lemma keeps_rand [keeps]: "keeps P (rand_Read n)"
  by (auto simp: keeps_def run_rand_Read split: option.splits)

context identity_repository
begin

lemma keeps_create:
  assumes "fiUserID f = uID u" "uLocalName u = None" "uLocalPicture u = None"
  shows "keeps invar (CreateWithFederatedIdentity repo u f)"
proof (rule keeps_by_cases)
  fix w w' and x :: unit
  assume "run_state (CreateWithFederatedIdentity repo u f) w = (Inr x, w')" "invar (db w)"
  from create_done [OF this assms] show "invar (db w')" by blast
qed (metis create_error)

end

lemma identity_service_ok:
  "keeps db_ok (identityService_GetUser (UserRepository agg) u)"
  "keeps db_ok (identityService_FindOrCreateByFederatedLogin (UserRepository agg) p c)"
  "keeps db_ok (identityService_UpdateProfile (UserRepository agg) u nm pic)"
  "keeps db_ok (identityService_ListLinkedProviders (UserRepository agg) u)"
  "keeps db_ok (identityService_UnlinkProvider (UserRepository agg) u i)"
proof -
  show "keeps db_ok (identityService_FindOrCreateByFederatedLogin (UserRepository agg) p c)"
    unfolding identityService_FindOrCreateByFederatedLogin_def Let_def
    by (intro keeps pg_users.keeps_invar pg_users.keeps_create) simp_all
  show get: "keeps db_ok (identityService_GetUser (UserRepository agg) u)" for u
    unfolding identityService_GetUser_def by (intro keeps pg_users.keeps_invar)
  show "keeps db_ok (identityService_UpdateProfile (UserRepository agg) u nm pic)"
    unfolding identityService_UpdateProfile_def by (intro keeps pg_users.keeps_invar get)
  show "keeps db_ok (identityService_ListLinkedProviders (UserRepository agg) u)"
    unfolding identityService_ListLinkedProviders_def by (intro keeps pg_users.keeps_invar)
  show "keeps db_ok (identityService_UnlinkProvider (UserRepository agg) u i)"
    unfolding identityService_UnlinkProvider_def by (intro keeps pg_users.keeps_invar)
qed

lemmas repository_ok = pg_users.keeps_invar pg_tokens.keeps_invar pg_requests.keeps_invar pg_clients.keeps_invar
  pg_devices.keeps_invar

lemmas service_defs = tokenService_CreateAccess_def tokenService_CreateAccessAndRefresh_def tokenService_GetByID_def
  tokenService_GetRefreshToken_def tokenService_GetRefreshInfo_def tokenService_DeleteByUserAndClient_def
  tokenService_Revoke_def tokenService_RevokeRefreshToken_def tokenService_DeleteExpired_def
  tokenService_GetLatestDeviceSessionID_def check_request_age_def authRequestService_Create_def
  authRequestService_GetByID_def authRequestService_GetByCode_def authRequestService_SaveCode_def
  authRequestService_CompleteLogin_def authRequestService_Delete_def authRequestService_DeleteExpiredBefore_def
  clientService_GetByID_def clientService_ClientCredentials_def clientService_AuthorizeSecret_def
  deviceSessionService_FindOrCreate_def deviceSessionService_RevokeByID_def
  deviceSessionService_ListActiveByUserID_def deviceSessionService_DeleteRevokedBefore_def newRefreshTokenValue_def

lemma token_service_ok:
  "keeps db_ok (tokenService_CreateAccess (idp_tokens L) c u au sc t)"
  "keeps db_ok (tokenService_CreateAccessAndRefresh (idp_tokens L) c u au sc t t' at amr cur dsid)"
  "keeps db_ok (tokenService_GetByID (idp_tokens L) i)" "keeps db_ok (tokenService_GetRefreshToken (idp_tokens L) h)"
  "keeps db_ok (tokenService_GetRefreshInfo (idp_tokens L) h)"
  "keeps db_ok (tokenService_DeleteByUserAndClient (idp_tokens L) u c)" "keeps db_ok (tokenService_Revoke (idp_tokens L) i c)"
  "keeps db_ok (tokenService_RevokeRefreshToken (idp_tokens L) h c)" "keeps db_ok (tokenService_DeleteExpired (idp_tokens L) t)"
  "keeps db_ok (tokenService_GetLatestDeviceSessionID (idp_tokens L) u c)"
  unfolding service_defs Let_def idp_tokens_def tokenService.simps by (intro keeps repository_ok)+

lemma request_service_ok:
  "keeps db_ok (authRequestService_Create (idp_requests m) ar)" "keeps db_ok (authRequestService_GetByID (idp_requests m) i)"
  "keeps db_ok (authRequestService_GetByCode (idp_requests m) i)" "keeps db_ok (authRequestService_SaveCode (idp_requests m) i c)"
  "keeps db_ok (authRequestService_CompleteLogin (idp_requests m) i u t amr s)"
  "keeps db_ok (authRequestService_Delete (idp_requests m) i)"
  "keeps db_ok (authRequestService_DeleteExpiredBefore (idp_requests m) t)"
  unfolding service_defs Let_def idp_requests_def authRequestService.simps by (intro keeps repository_ok)+

lemma client_service_ok:
  "keeps db_ok (clientService_GetByID (idp_clients L) i)" "keeps db_ok (clientService_ClientCredentials (idp_clients L) i x)"
  "keeps db_ok (clientService_AuthorizeSecret (idp_clients L) i x)"
  unfolding service_defs Let_def idp_clients_def clientService.simps by (intro keeps repository_ok)+

lemma device_service_ok:
  "keeps db_ok (deviceSessionService_FindOrCreate idp_devices i u ua ip nm)"
  "keeps db_ok (deviceSessionService_RevokeByID idp_devices i u)"
  "keeps db_ok (deviceSessionService_ListActiveByUserID idp_devices u)"
  "keeps db_ok (deviceSessionService_DeleteRevokedBefore idp_devices t)"
  unfolding service_defs Let_def idp_devices_def deviceSessionService.simps by (intro keeps repository_ok)+

lemmas services_ok = identity_service_ok token_service_ok request_service_ok client_service_ok device_service_ok

section \<open>The storage of the OpenID provider\<close>

text \<open>
  An action that reaches the database through the storage's operations only; the provider also
  reads the clock and its environment.
\<close>

inductive via_storage :: "identity_db StorageAdapter \<Rightarrow> (identity_db, 'a) io \<Rightarrow> bool" for s where
  "via_storage s (ret x)"
| "(\<And>x. via_storage s (k x)) \<Longrightarrow> via_storage s (time_Now \<bind> k)"
| "(\<And>x. via_storage s (k x)) \<Longrightarrow> via_storage s (rand_Read n \<bind> k)"
| "(\<And>x. via_storage s (k x)) \<Longrightarrow> via_storage s (StorageAdapter_CreateAuthRequest s q u \<bind> k)"
| "(\<And>x. via_storage s (k x)) \<Longrightarrow> via_storage s (StorageAdapter_AuthRequestByID s i \<bind> k)"
| "(\<And>x. via_storage s (k x)) \<Longrightarrow> via_storage s (StorageAdapter_AuthRequestByCode s i \<bind> k)"
| "(\<And>x. via_storage s (k x)) \<Longrightarrow> via_storage s (StorageAdapter_SaveAuthCode s i c \<bind> k)"
| "(\<And>x. via_storage s (k x)) \<Longrightarrow> via_storage s (StorageAdapter_DeleteAuthRequest s i \<bind> k)"
| "(\<And>x. via_storage s (k x)) \<Longrightarrow> via_storage s (StorageAdapter_CreateAccessToken s req \<bind> k)"
| "(\<And>x. via_storage s (k x)) \<Longrightarrow> via_storage s (StorageAdapter_CreateAccessAndRefreshTokens s req i \<bind> k)"
| "(\<And>x. via_storage s (k x)) \<Longrightarrow> via_storage s (StorageAdapter_TokenRequestByRefreshToken s i \<bind> k)"
| "(\<And>x. via_storage s (k x)) \<Longrightarrow> via_storage s (StorageAdapter_TerminateSession s u c \<bind> k)"
| "(\<And>x. via_storage s (k x)) \<Longrightarrow> via_storage s (StorageAdapter_RevokeToken s i u c \<bind> k)"
| "(\<And>x. via_storage s (k x)) \<Longrightarrow> via_storage s (StorageAdapter_GetRefreshTokenInfo s c i \<bind> k)"
| "(\<And>x. via_storage s (k x)) \<Longrightarrow> via_storage s (StorageAdapter_GetClientByClientID s c \<bind> k)"
| "(\<And>x. via_storage s (k x)) \<Longrightarrow> via_storage s (StorageAdapter_AuthorizeClientIDSecret s c i \<bind> k)"
| "(\<And>x. via_storage s (k x)) \<Longrightarrow> via_storage s (StorageAdapter_ClientCredentials s c i \<bind> k)"
| "(\<And>x. via_storage s (k x)) \<Longrightarrow> via_storage s (StorageAdapter_SetUserinfoFromScopes s ui u scs \<bind> k)"
| "(\<And>x. via_storage s (k x)) \<Longrightarrow> via_storage s (StorageAdapter_SetUserinfoFromRequest s ui req scs \<bind> k)"
| "(\<And>x. via_storage s (k x)) \<Longrightarrow> via_storage s (StorageAdapter_SetUserinfoFromToken s ui i \<bind> k)"
| "(\<And>x. via_storage s (k x)) \<Longrightarrow> via_storage s (StorageAdapter_SetIntrospectionFromToken s ir i \<bind> k)"
| "(\<And>x. via_storage s (k x)) \<Longrightarrow> via_storage s (StorageAdapter_GetPrivateClaimsFromScopes s u c \<bind> k)"
| "(\<And>x. via_storage s (k x)) \<Longrightarrow> via_storage s (StorageAdapter_Health s \<bind> k)"

lemmas adapter_defs = StorageAdapter_CreateAuthRequest_def StorageAdapter_AuthRequestByID_def
  StorageAdapter_AuthRequestByCode_def StorageAdapter_SaveAuthCode_def StorageAdapter_DeleteAuthRequest_def
  StorageAdapter_CreateAccessToken_def StorageAdapter_CreateAccessAndRefreshTokens_def
  StorageAdapter_TokenRequestByRefreshToken_def StorageAdapter_TerminateSession_def StorageAdapter_RevokeToken_def
  StorageAdapter_GetRefreshTokenInfo_def StorageAdapter_GetClientByClientID_def
  StorageAdapter_AuthorizeClientIDSecret_def StorageAdapter_ClientCredentials_def
  StorageAdapter_SetUserinfoFromScopes_def StorageAdapter_SetUserinfoFromRequest_def
  StorageAdapter_SetUserinfoFromToken_def StorageAdapter_SetIntrospectionFromToken_def
  StorageAdapter_GetPrivateClaimsFromScopes_def StorageAdapter_setUserinfo_def StorageAdapter_Health_def

lemma keeps_done_iff [simp]: "keeps P (done_with m) \<longleftrightarrow> keeps P m"
proof
  assume k: "keeps P (done_with m)"
  show "keeps P m"
    unfolding keeps_def
  proof (intro allI impI)
    fix w r w' assume m: "run_state m w = (r, w')" and P: "P (db w)"
    from m have "run_state (done_with m) w = (map_sum id (\<lambda>_. ()) r, w')" by (simp add: done_with_def)
    from keepsD [OF k this P] show "P (db w')" .
  qed
qed (rule keeps_done)

fun signs_in :: "request_stmt \<Rightarrow> bool" where
  "signs_in (RqLogin i u t amr s) = True"
| "signs_in _ = False"

text \<open>
  What the operations of the token and request tables keep, the completion of a login apart, the whole
  storage keeps, and with it every provider that works through it.
\<close>

locale storage_invariant =
  fixes P :: "identity_db \<Rightarrow> bool"
  assumes token: "keeps P (exec_token q)"
    and request: "\<not> signs_in q' \<Longrightarrow> keeps P (exec_request q')"
    and user: "keeps P (User_GetByID (UserRepository agg) u)"
begin

lemma operations:
  "keeps P (TK_CreateAccess TokenRepository a)" "keeps P (TK_CreateAccessAndRefresh TokenRepository a r cur)"
  "keeps P (TK_GetByID TokenRepository i)" "keeps P (TK_GetRefreshToken TokenRepository h)"
  "keeps P (TK_GetRefreshInfo TokenRepository h)" "keeps P (TK_DeleteByUserAndClient TokenRepository u c)"
  "keeps P (TK_Revoke TokenRepository i c)" "keeps P (TK_RevokeRefreshToken TokenRepository h c)"
  "keeps P (TK_GetLatestDeviceSessionID TokenRepository u c)"
  "keeps P (AR_Create AuthRequestRepository ar)" "keeps P (AR_GetByID AuthRequestRepository i)"
  "keeps P (AR_GetByCode AuthRequestRepository c)" "keeps P (AR_SaveCode AuthRequestRepository i c)"
  "keeps P (AR_Delete AuthRequestRepository i)" "keeps P (CL_GetByID ClientRepository i)"
  using token [of "TkCreate a"] token [of "TkRotate a r cur"] token [of "TkGet i"] token [of "TkGetRefresh h"]
    token [of "TkInfo h"] token [of "TkDeleteUser u c"] token [of "TkRevoke i c"] token [of "TkRevokeRefresh h c"]
    token [of "TkLatest u c"] request [of "RqCreate ar"] request [of "RqGet i"] request [of "RqCode c"]
    request [of "RqSave i c"] request [of "RqDelete i"] request [of "RqClient i"]
  by simp_all

lemma adapter:
  fixes L m a d defines "s \<equiv> idp_storage L m a d"
  assumes "keeps P (lib_ping L)"
  shows "keeps P (StorageAdapter_CreateAuthRequest s q u)" "keeps P (StorageAdapter_AuthRequestByID s i)"
    "keeps P (StorageAdapter_AuthRequestByCode s i)" "keeps P (StorageAdapter_SaveAuthCode s i c)"
    "keeps P (StorageAdapter_DeleteAuthRequest s i)" "keeps P (StorageAdapter_CreateAccessToken s req)"
    "keeps P (StorageAdapter_CreateAccessAndRefreshTokens s req i)"
    "keeps P (StorageAdapter_TokenRequestByRefreshToken s i)" "keeps P (StorageAdapter_TerminateSession s u c)"
    "keeps P (StorageAdapter_RevokeToken s i u c)" "keeps P (StorageAdapter_GetRefreshTokenInfo s c i)"
    "keeps P (StorageAdapter_GetClientByClientID s c)" "keeps P (StorageAdapter_AuthorizeClientIDSecret s c i)"
    "keeps P (StorageAdapter_ClientCredentials s c i)" "keeps P (StorageAdapter_SetUserinfoFromScopes s ui u scs)"
    "keeps P (StorageAdapter_SetUserinfoFromRequest s ui req scs)"
    "keeps P (StorageAdapter_SetUserinfoFromToken s ui i)"
    "keeps P (StorageAdapter_SetIntrospectionFromToken s ir i)"
    "keeps P (StorageAdapter_GetPrivateClaimsFromScopes s u c)" "keeps P (StorageAdapter_Health s)"
  unfolding s_def adapter_defs Let_def idp_storage_def StorageAdapter.simps userClaimsBridge_UserClaims_def
    identityService_GetUser_def service_defs idp_tokens_def tokenService.simps idp_requests_def
    authRequestService.simps idp_clients_def clientService.simps
  by (intro keeps operations user assms(2))+

lemma via_storage:
  assumes "via_storage (idp_storage L m a d) act" "keeps P (lib_ping L)"
  shows "keeps P act"
  using assms(1)
  by (induction rule: via_storage.induct) (blast intro: keeps_ret keeps_bind keeps_now keeps_rand adapter [OF assms(2)])+

end

lemma exec_groups_ok:
  "keeps db_ok (exec_token q)" "keeps db_ok (exec_request q')"
  using exec_keeps_ok [of _ "TokenStmt q"] exec_keeps_ok [of _ "RequestStmt q'"] by simp_all

interpretation constraints: storage_invariant db_ok
  by unfold_locales (rule exec_groups_ok repository_ok)+

section \<open>Logins, calls and cleanup\<close>

lemma FindOrCreateUser_ok: "keeps db_ok (FindOrCreateUser (UserRepository agg) p c)"
  unfolding FindOrCreateUser_def by (intro keeps services_ok)

lemma login_handler_sel:
  "lh_identity (loginHandler L m ps g key cb tmpl up) = UserRepository (lib_aggLock L)"
  "lh_devices (loginHandler L m ps g key cb tmpl up) = idp_devices"
  "lh_loginComp (loginHandler L m ps g key cb tmpl up) = idp_requests m" "lh_up (loginHandler L m ps g key cb tmpl up) = up"
  by (simp_all add: loginHandler_def NewHandler_def)

lemma callback_ok:
  assumes "upstream_frame up"
    and "\<forall>p \<in> set ps. pvClaims p = github_FetchClaims up \<or> (\<exists>c. pvClaims p = google_FetchClaims up c)"
  shows "keeps db_ok (FederatedCallback (loginHandler L m ps g key cb tmpl up) r)"
proof -
  let ?h = "loginHandler L m ps g key cb tmpl up"
  have fin: "keeps db_ok (FederatedCallback_finish ?h r st claims)" for st claims
    unfolding FederatedCallback_finish_def CompleteLogin_def Let_def login_handler_sel
    by (intro keeps services_ok FindOrCreateUser_ok)
  have cl: "keeps db_ok (pvClaims p t)" if "lh_providerMap ?h n = Some p" for n p t
    using providerMap_Some that assms claims_frame unfolding loginHandler_def by metis
  have ex: "keeps db_ok (up_Exchange up c x)" for c x using assms(1) by (simp add: upstream_frame_def)
  show "keeps db_ok (FederatedCallback ?h r)"
    unfolding FederatedCallback_def Let_def login_handler_sel
    by (auto split: option.splits sum.splits simp: cl intro!: keeps ex fin)
qed

lemma login_handlers_ok:
  assumes "upstream_frame up" "keeps db_ok (up_uuid up)"
    and "\<forall>p \<in> set ps. pvClaims p = github_FetchClaims up \<or> (\<exists>c. pvClaims p = google_FetchClaims up c)"
  shows "keeps db_ok (SelectProvider (loginHandler L m ps g key cb tmpl up) r)"
    "keeps db_ok (FederatedRedirect (loginHandler L m ps g key cb tmpl up) r)"
    "keeps db_ok (FederatedCallback (loginHandler L m ps g key cb tmpl up) r)"
proof -
  let ?h = "loginHandler L m ps g key cb tmpl up"
  show "keeps db_ok (SelectProvider ?h r)"
    unfolding SelectProvider_def Let_def by (intro keeps)
  show "keeps db_ok (FederatedRedirect ?h r)"
    unfolding FederatedRedirect_def Let_def encryptState_def Encrypt_def login_handler_sel by (intro keeps assms(2))
  show "keeps db_ok (FederatedCallback ?h r)" by (rule callback_ok [OF assms(1,3)])
qed

lemma accounts_rpc_ok: "keeps db_ok (accounts_rpc agg lib keys issuer md req)"
proof -
  have others: "keeps db_ok (revoke_others idp_devices u c ss)" for u c ss
    by (induction ss) (auto intro!: keeps services_ok)
  have "keeps db_ok (accounts_dispatch (accountsHandler agg) u req)" for u
    by (cases req) (auto simp: Handler_defs accountsHandler_def Let_def split: sum.splits if_splits intro!: keeps services_ok others)
  then show ?thesis
    unfolding accounts_rpc_def JWTAuthInterceptor_def Let_def
    by (auto split: sum.splits option.splits intro!: keeps)
qed

lemma cleanup_ok:
  "keeps db_ok (authRequestCleanup_round (idp_requests m) ttl)" "keeps db_ok (tokenCleanup_round (idp_tokens L))"
  "keeps db_ok (deviceSessionCleanup_round idp_devices age)"
  unfolding authRequestCleanup_round_def tokenCleanup_round_def deviceSessionCleanup_round_def
  by (intro keeps services_ok)+

end
