(* ===== verification/OidcProps.thy ===== *)
theory OidcProps
  imports IdentityProps
begin

text \<open>
  The properties of the OpenID Connect storage adapter: authorization requests, clients,
  user info, introspection, revocation and the cleanup loops.
\<close>

section \<open>Authorization requests\<close>

text \<open>C25: With a lifetime in the configured range, the adapter returns an authorization request by
  its identifier or its code only while it is at most that old, as it is stored; an older or unknown
  one is answered \<open>invalid_request\<close>.\<close>
theorem auth_request_lifetime:
  assumes "1 \<le> m" "m \<le> 60" and "db_ok (db w)"
    and "run_state (StorageAdapter_AuthRequestByID (idp_storage L m a d) i) w = (r, w')"
    and "run_state (StorageAdapter_AuthRequestByCode (idp_storage L m a d) c) w = (rc, wc)"
  shows "(\<forall>ar. r = Inr ar \<longrightarrow> db w' = db w \<and> request_view (db w) i = Some ar \<and> clock w \<le> arCreatedAt ar + m * Minute)
    \<and> (\<forall>ar. rc = Inr ar \<longrightarrow> db wc = db w \<and> request_view (db w) (arID ar) = Some ar \<and> arCode ar = c
         \<and> clock w \<le> arCreatedAt ar + m * Minute)
    \<and> (quiet w \<and> (\<forall>ar. request_view (db w) i = Some ar \<longrightarrow> arCreatedAt ar + m * Minute < clock w) \<longrightarrow>
         r = Inl (OidcErr InvalidRequest ''auth request not found''))"
proof (intro conjI allI impI)
  have ttl: "wrap64 (m * Minute) = m * Minute" using assms(1,2) by (intro wrap64_id) auto
  let ?svc = "\<lparr>ars_repo = AuthRequestRepository, ars_authRequestTTL = m * Minute\<rparr>"
  have svc: "sa_authReqs (idp_storage L m a d) = ?svc" by (simp add: idp_storage_def idp_requests_def ttl)
  { fix ar assume "r = Inr ar"
    then have "run_state (authRequestService_GetByID ?svc i) w = (Inr ar, w')"
      using assms(4) by (auto simp: StorageAdapter_AuthRequestByID_def svc split: prod.splits sum.splits if_splits)
    from pg_requests.service_get_done [OF this assms(3)]
    show "db w' = db w" "request_view (db w) i = Some ar" "clock w \<le> arCreatedAt ar + m * Minute" by auto }
  { fix ar assume "rc = Inr ar"
    then have "run_state (authRequestService_GetByCode ?svc c) w = (Inr ar, wc)"
      using assms(5) by (auto simp: StorageAdapter_AuthRequestByCode_def svc split: prod.splits sum.splits if_splits)
    from pg_requests.service_code_done [OF this assms(3)]
    show "db wc = db w" "request_view (db w) (arID ar) = Some ar" "arCode ar = c"
      "clock w \<le> arCreatedAt ar + m * Minute" by auto }
  { assume q: "quiet w \<and> (\<forall>ar. request_view (db w) i = Some ar \<longrightarrow> arCreatedAt ar + m * Minute < clock w)"
    obtain g w1 where g: "run_state (AR_GetByID AuthRequestRepository i) w = (g, w1)" by fastforce
    note live = pg_requests.get_live [OF g assms(3)] and clk = pg_requests.get_clock [OF g]
    have "\<exists>e. fst (run_state (authRequestService_GetByID ?svc i) w) = Inl e \<and> errors_Is e ErrNotFound"
      using live q clk
      by (auto simp: authRequestService_GetByID_def check_request_age_def g split: option.splits)
    then show "r = Inl (OidcErr InvalidRequest ''auth request not found'')"
      using assms(4) by (auto simp: StorageAdapter_AuthRequestByID_def svc split: prod.splits sum.splits if_splits) }
qed

theorem auth_request_lifetime_witness:
  "\<exists>w' ar. run_state (StorageAdapter_AuthRequestByID sample_storage ''q1'') (idle_world sample_idb) = (Inr ar, w')
     \<and> request_view sample_idb ''q1'' = Some ar"
proof -
  have "\<not> isl (fst (run_state (StorageAdapter_AuthRequestByID sample_storage ''q1'') (idle_world sample_idb)))"
    by (simp add: sample_storage_def idp_storage_def idp_requests_def StorageAdapter_AuthRequestByID_def
      authRequestService_GetByID_def AuthRequestRepository_defs run_db_exec sql_select_auth_request_def sql_first_def
      sample_defs check_request_age_def scanAuthRequest_def wrap64_id)
  from run_not_isl [OF this] obtain ar w' where run: "run_state (StorageAdapter_AuthRequestByID sample_storage ''q1'') (idle_world sample_idb) = (Inr ar, w')" by blast
  obtain rc wc where rc: "run_state (StorageAdapter_AuthRequestByCode sample_storage ''code'') (idle_world sample_idb) = (rc, wc)"
    by fastforce
  from auth_request_lifetime [OF _ _ _ run [unfolded sample_storage_def] rc [unfolded sample_storage_def]] run
  show ?thesis by auto
qed

section \<open>Signing in\<close>

text \<open>What the login handler and the library do in turn for one authorization request: complete the
  login, save the code, look the request up by the code.\<close>

definition code_flow ::
  "'db StorageAdapter \<Rightarrow> string \<Rightarrow> string \<Rightarrow> int \<Rightarrow> string list \<Rightarrow> string \<Rightarrow> string \<Rightarrow> ('db, AuthRequest) eio" where
  "code_flow s i uid t amr dsid code = do {
     x \<leftarrow> authRequestService_CompleteLogin (sa_authReqs s) i uid t amr dsid;
     case x of
       Inl err \<Rightarrow> ret (Inl err)
     | Inr _ \<Rightarrow> do {
         y \<leftarrow> StorageAdapter_SaveAuthCode s i code;
         case y of
           Inl err \<Rightarrow> ret (Inl err)
         | Inr _ \<Rightarrow> StorageAdapter_AuthRequestByCode s code } }"

text \<open>The request that the code of a completed login leads to is the one the user signed in for:
  it carries that user, that device session and the client and scopes it was created with.\<close>
theorem code_leads_to_login:
  assumes "run_state (code_flow (idp_storage L m a d) i uid t amr dsid code) w = (Inr ar, w')" and "db_ok (db w)"
    and "\<forall>j x. request_view (db w) j = Some x \<longrightarrow> arCode x \<noteq> code"
  shows "arID ar = i \<and> arUserID ar = uid \<and> arDeviceSessionID ar = dsid \<and> arIsDone ar \<and> arAuthTime ar = t
    \<and> (\<exists>x. request_view (db w) i = Some x \<and> arClientID ar = arClientID x \<and> arScopes ar = arScopes x
         \<and> arCodeChallenge ar = arCodeChallenge x \<and> arNonce ar = arNonce x)"
proof -
  have svc: "sa_authReqs (idp_storage L m a d) =
      \<lparr>ars_repo = AuthRequestRepository, ars_authRequestTTL = wrap64 (m * Minute)\<rparr>"
    by (simp add: idp_storage_def idp_requests_def)
  have "\<exists>x w1 y w2. run_state (AR_CompleteLogin AuthRequestRepository i uid t amr dsid) w = (Inr x, w1)
    \<and> run_state (AR_SaveCode AuthRequestRepository i code) w1 = (Inr y, w2)
    \<and> run_state (StorageAdapter_AuthRequestByCode (idp_storage L m a d) code) w2 = (Inr ar, w')"
  proof -
    obtain x w1 where l: "run_state (AR_CompleteLogin AuthRequestRepository i uid t amr dsid) w = (x, w1)" by fastforce
    obtain y w2 where s: "run_state (AR_SaveCode AuthRequestRepository i code) w1 = (y, w2)" by fastforce
    show ?thesis
      using assms(1) l s
      by (cases x; cases y) (simp_all add: code_flow_def authRequestService_CompleteLogin_def svc
        StorageAdapter_SaveAuthCode_def authRequestService_SaveCode_def)
  qed
  then obtain x w1 y w2 where l: "run_state (AR_CompleteLogin AuthRequestRepository i uid t amr dsid) w = (Inr x, w1)"
    and s: "run_state (AR_SaveCode AuthRequestRepository i code) w1 = (Inr y, w2)"
    and g: "run_state (StorageAdapter_AuthRequestByCode (idp_storage L m a d) code) w2 = (Inr ar, w')" by blast
  note ld = pg_requests.login_done [OF l assms(2)]
  note sd = pg_requests.save_done [OF s conjunct1 [OF ld]]
  have "run_state (authRequestService_GetByCode \<lparr>ars_repo = AuthRequestRepository, ars_authRequestTTL = wrap64 (m * Minute)\<rparr> code) w2 = (Inr ar, w')"
    using g by (auto simp: StorageAdapter_AuthRequestByCode_def svc split: prod.splits sum.splits if_splits)
  note cd = pg_requests.service_code_done [OF this conjunct1 [OF sd]]
  have id: "arID ar = i"
  proof (rule ccontr)
    assume "arID ar \<noteq> i"
    with cd sd ld have "request_view (db w) (arID ar) = Some ar" by simp
    with assms(3) cd show False by blast
  qed
  with cd sd ld obtain x where x: "request_view (db w) i = Some x"
    "ar = x\<lparr>arUserID := uid, arAuthTime := t, arAMR := amr, arIsDone := True, arDeviceSessionID := dsid, arCode := code\<rparr>"
    by auto
  show ?thesis using id x(1) by (simp add: x(2))
qed

theorem code_leads_to_login_witness:
  "\<exists>ar w'. run_state (code_flow sample_storage ''q1'' ''u1'' 5 [''fed''] ''d1'' ''fresh'') (idle_world sample_idb) = (Inr ar, w')
     \<and> arUserID ar = ''u1'' \<and> arDeviceSessionID ar = ''d1''"
proof -
  let ?m = "code_flow sample_storage ''q1'' ''u1'' 5 [''fed''] ''d1'' ''fresh''"
  have "\<not> isl (fst (run_state ?m (idle_world sample_idb)))"
    by (simp add: sample_storage_def idp_storage_def idp_requests_def code_flow_def authRequestService_CompleteLogin_def
      StorageAdapter_SaveAuthCode_def authRequestService_SaveCode_def StorageAdapter_AuthRequestByCode_def
      authRequestService_GetByCode_def AuthRequestRepository_defs run_db_exec sql_select_auth_request_def sql_first_def
      sql_complete_login_def sql_save_code_def sql_update_def sql_count_def nilIfEmptyStr_def device_exists_def
      sample_defs check_request_age_def scanAuthRequest_def wrap64_id)
  from run_not_isl [OF this] obtain ar w' where run: "run_state ?m (idle_world sample_idb) = (Inr ar, w')" by blast
  have "request_view sample_idb j = Some x \<Longrightarrow> arCode x \<noteq> ''fresh''" for j x
    by (auto simp: request_view_def sample_defs scanAuthRequest_def split: if_splits)
  with code_leads_to_login [OF run [unfolded sample_storage_def]] run show ?thesis by auto
qed

section \<open>Clients\<close>

lemma live_user:
  assumes "quiet w" "db_ok (db w)"
  shows "run_state (User_GetByID (UserRepository agg) u) w =
    (case user_view (db w) u of None \<Rightarrow> Inl (Sentinel ErrNotFound) | Some x \<Rightarrow> Inr x, pass w)"
  using assms(1) by (simp add: UserRepository_defs run_db_exec_quiet sql_select_user_def sql_first_def user_view_def
      split: option.splits)

lemma live_client:
  assumes "quiet w"
  shows "\<exists>r. run_state (CL_GetByID ClientRepository i) w = (r, pass w) \<and>
    (case client_view (db w) i of None \<Rightarrow> \<exists>e. r = Inl e \<and> errors_Is e ErrNotFound | Some c \<Rightarrow> r = Inr c)"
  using assms by (simp add: ClientRepository_def ClientRepository_GetByID_def run_db_exec_quiet sql_select_client_def
      sql_first_def client_view_def split: option.splits)

lemma client_lookup_clock:
  "run_state (CL_GetByID ClientRepository i) w = (r, w') \<Longrightarrow> clock w \<le> clock w'"
  by (auto simp: ClientRepository_def ClientRepository_GetByID_def run_db_exec
      split: option.splits sum.splits prod.splits if_splits)

lemma stored_max_age:
  assumes "run_state (AR_Create AuthRequestRepository ar) w = (Inr x, w')" and "arMaxAge ar = Some n"
  shows "n < 2 ^ 31"
  using assms by (auto simp: AuthRequestRepository_defs run_db_exec sql_insert_auth_request_def
      split: option.splits sum.splits prod.splits if_splits)

text \<open>C24: Every authorization request the adapter accepts is stored under a fresh identifier, and
  every field of it is pinned: client, redirect URI, state, nonce, scopes, response type and mode, code
  challenge and its method, prompts, maximal age and login hint are those the client sent; it is not
  signed in, has no user, authentication time, methods, code or device session, and carries the time of
  its insertion. The library gets the same request back with the user it named. A request that is
  refused leaves no trace, and while the database answers a public client gets none without a code
  challenge.\<close>
theorem authorization_request_accepted:
  assumes "run_state (StorageAdapter_CreateAuthRequest (idp_storage L m a d) req uid) w = (r, w')" and "db_ok (db w)"
  shows "case r of
      Inl e \<Rightarrow> db w' = db w
    | Inr ar \<Rightarrow> request_view (db w) (arID ar) = None
        \<and> (\<exists>t x. clock w \<le> t \<and> request_view (db w') = (request_view (db w))(arID ar \<mapsto> x)
             \<and> x = \<lparr>arID = arID ar, arClientID = orClientID req, arRedirectURI = orRedirectURI req,
                 arState = orState req, arNonce = orNonce req, arScopes = orScopes req,
                 arResponseType = orResponseType req, arResponseMode = orResponseMode req,
                 arCodeChallenge = orCodeChallenge req, arCodeChallengeMethod = orCodeChallengeMethod req,
                 arPrompt = orPrompt req, arMaxAge = orMaxAge req, arLoginHint = orLoginHint req,
                 arUserID = [], arAuthTime = zeroTime, arAMR = [], arIsDone = False, arCode = [],
                 arCreatedAt = t, arDeviceSessionID = []\<rparr>
             \<and> ar = x\<lparr>arUserID := uid, arCreatedAt := zeroTime\<rparr>)
        \<and> (quiet w \<longrightarrow> (\<forall>c. client_view (db w) (orClientID req) = Some c \<and> clAuthMethod c = ''none'' \<longrightarrow> orCodeChallenge req \<noteq> []))"
proof -
  let ?ar = "\<lparr>arID = ulid w (step w), arClientID = orClientID req, arRedirectURI = orRedirectURI req,
       arState = orState req, arNonce = orNonce req, arScopes = orScopes req,
       arResponseType = orResponseType req, arResponseMode = orResponseMode req,
       arCodeChallenge = orCodeChallenge req, arCodeChallengeMethod = orCodeChallengeMethod req,
       arPrompt = orPrompt req, arMaxAge = map_option (\<lambda>m. min m (2 ^ 63 - 1)) (orMaxAge req),
       arLoginHint = orLoginHint req, arUserID = uid, arAuthTime = zeroTime, arAMR = [],
       arIsDone = False, arCode = [], arCreatedAt = zeroTime, arDeviceSessionID = []\<rparr>"
  obtain c w1 where c: "run_state (CL_GetByID ClientRepository (orClientID req)) (pass w) = (c, w1)" by fastforce
  have same: "db w1 = db w"
    using pg_clients.get_done [of _ "pass w" _ w1] pg_clients.get_error [of _ "pass w" _ w1] c assms(2)
    by (cases c) fastforce+
  have clk: "clock w \<le> clock w1" using client_lookup_clock [OF c] by simp
  let ?refused = "case c of Inl _ \<Rightarrow> False | Inr client \<Rightarrow> isPublicClient (clAuthMethod client) \<and> orCodeChallenge req = []"
  obtain x w2 where x: "run_state (AR_Create AuthRequestRepository ?ar) w1 = (x, w2)" by fastforce
  have run: "(r, w') = (if ?refused then (Inl (OidcErr InvalidRequest ''code_challenge is required for public clients (PKCE S256)''), w1)
      else (case x of Inl err \<Rightarrow> Inl (internalErr ''create auth request'' err) | Inr _ \<Rightarrow> Inr ?ar, w2))"
    using assms(1) c x
    by (cases c; cases x) (auto simp: StorageAdapter_CreateAuthRequest_def idp_storage_def idp_requests_def idp_clients_def
      clientService_GetByID_def authRequestService_Create_def Let_def split: if_splits)
  have pkce: "\<not> ?refused \<Longrightarrow> quiet w \<Longrightarrow> client_view (db w) (orClientID req) = Some k \<Longrightarrow> clAuthMethod k = ''none''
      \<Longrightarrow> orCodeChallenge req \<noteq> []" for k
    using live_client [of "pass w" "orClientID req"] c by (auto simp: isPublicClient_def)
  show ?thesis
  proof (cases "?refused \<or> isl x")
    case True
    have "isl x \<Longrightarrow> db w2 = db w1" using x pg_requests.create_error [of ?ar w1 _ w2] by (cases x) auto
    then have "\<exists>e. r = Inl e" "db w' = db w" using run True same by (cases x; auto split: if_splits)+
    then show ?thesis by auto
  next
    case False
    then obtain u where u: "x = Inr u" by (cases x) auto
    then have r: "r = Inr ?ar" "w' = w2" using run False by auto
    have ok: "db_ok (db w1)" using same assms(2) by simp
    note cd = pg_requests.create_done [OF x [unfolded u] ok]
    have age: "map_option (\<lambda>m. min m (2 ^ 63 - 1)) (orMaxAge req) = orMaxAge req"
      using stored_max_age [OF x [unfolded u]] by (cases "orMaxAge req") (auto simp: min_def split: if_splits)
    show ?thesis
      unfolding r sum.case using cd same pkce False clk age
      by (intro conjI exI [of _ "clock w1"] exI [of _ "stored_request ?ar (clock w1)"]) (simp_all add: stored_request_def)
  qed
qed

definition sample_oidc_request :: "string \<Rightarrow> string \<Rightarrow> oidc_auth_request" where
  "sample_oidc_request c ch = \<lparr>orScopes = [''openid''], orResponseType = ''code'', orClientID = c, orRedirectURI = ''uri'',
     orState = ''st'', orNonce = ''n'', orResponseMode = [], orPrompt = [], orMaxAge = Some 60, orLoginHint = [],
     orCodeChallenge = ch, orCodeChallengeMethod = ''S256''\<rparr>"

lemmas create_request_eval = sample_storage_def idp_storage_def idp_requests_def idp_clients_def
  StorageAdapter_CreateAuthRequest_def authRequestService_Create_def clientService_GetByID_def
  ClientRepository_def ClientRepository_GetByID_def sql_select_client_def AuthRequestRepository_defs run_db_exec
  sql_insert_auth_request_def sql_insert_def sql_first_def auth_request_values_def isPublicClient_def Let_def
  sample_defs sample_oidc_request_def ulid_unary_def

theorem authorization_request_accepted_witness:
  "\<exists>ar w'. run_state (StorageAdapter_CreateAuthRequest sample_storage (sample_oidc_request ''c2'' ''chal'') [])
      (idle_world sample_idb) = (Inr ar, w') \<and> request_view sample_idb (arID ar) = None
     \<and> (\<exists>x. request_view (db w') (arID ar) = Some x \<and> arState x = ''st'' \<and> arCodeChallengeMethod x = ''S256''
          \<and> arMaxAge x = Some 60 \<and> \<not> arIsDone x)"
proof -
  have "\<not> isl (fst (run_state (StorageAdapter_CreateAuthRequest sample_storage (sample_oidc_request ''c2'' ''chal'') [])
      (idle_world sample_idb)))"
    by (simp add: create_request_eval)
  from run_not_isl [OF this] obtain ar w' where run: "run_state (StorageAdapter_CreateAuthRequest sample_storage
      (sample_oidc_request ''c2'' ''chal'') []) (idle_world sample_idb) = (Inr ar, w')" by blast
  with authorization_request_accepted [OF run [unfolded sample_storage_def]] show ?thesis by (auto simp: sample_oidc_request_def)
qed

text \<open>The challenge is not enforced when the lookup of the client fails: there is a run in which a
  public client without a challenge gets its request stored although the query for the client failed.\<close>
theorem pkce_check_fails_open:
  "\<exists>w r w'. db w = sample_idb \<and> client_view sample_idb ''c2'' = Some sample_public \<and> clAuthMethod sample_public = ''none''
     \<and> run_state (StorageAdapter_CreateAuthRequest sample_storage (sample_oidc_request ''c2'' []) []) w = (Inr r, w')"
proof -
  let ?w = "(idle_world sample_idb)\<lparr>fault := \<lambda>k. if k = 1 then Some 7 else None\<rparr>"
  have "\<not> isl (fst (run_state (StorageAdapter_CreateAuthRequest sample_storage (sample_oidc_request ''c2'' []) []) ?w))"
    by (simp add: create_request_eval)
  from run_not_isl [OF this] obtain r w' where
    "run_state (StorageAdapter_CreateAuthRequest sample_storage (sample_oidc_request ''c2'' []) []) ?w = (Inr r, w')" by blast
  moreover have "client_view sample_idb ''c2'' = Some sample_public" "clAuthMethod sample_public = ''none''"
    by (simp_all add: client_view_def sample_defs)
  ultimately show ?thesis by (intro exI [of _ ?w]) auto
qed

text \<open>Client authentication answers, while the database answers: an unknown client and a wrong
  secret are \<open>invalid_client\<close>, each with its own description, and success means bcrypt accepted the
  secret for the stored hash. No answer changes the database.\<close>
theorem client_secret_checked:
  assumes "run_state (StorageAdapter_AuthorizeClientIDSecret (idp_storage L m a d) i secret) w = (r, w')" and "quiet w"
  shows "db w' = db w \<and> r = (case client_view (db w) i of
      None \<Rightarrow> Inl (OidcErr InvalidClient ''client not found'')
    | Some c \<Rightarrow> if lib_bcrypt L (clSecretHash c) secret then Inr ()
               else Inl (OidcErr InvalidClient ''invalid client secret''))"
proof -
  obtain x where x: "run_state (CL_GetByID ClientRepository i) w = (x, pass w)"
    "case client_view (db w) i of None \<Rightarrow> \<exists>e. x = Inl e \<and> errors_Is e ErrNotFound | Some c \<Rightarrow> x = Inr c"
    using live_client [OF assms(2)] by blast
  show ?thesis
    using assms(1) x
    by (auto simp: StorageAdapter_AuthorizeClientIDSecret_def clientService_AuthorizeSecret_def idp_storage_def
      clientService_ClientCredentials_def idp_clients_def split: option.splits)
qed

theorem client_secret_checked_witness:
  "fst (run_state (StorageAdapter_AuthorizeClientIDSecret sample_storage ''c1'' ''secret'') (idle_world sample_idb)) = Inr ()"
proof -
  obtain r w' where run: "run_state (StorageAdapter_AuthorizeClientIDSecret sample_storage ''c1'' ''secret'')
      (idle_world sample_idb) = (r, w')" by fastforce
  with client_secret_checked [OF run [unfolded sample_storage_def] quiet_idle] show ?thesis
    by (simp add: client_view_def sample_defs sample_libs_def)
qed

text \<open>Restricting scopes keeps, in order, exactly the requested scopes the client is allowed, for a
  client with an allow list. Without one the two readings differ: \<open>filterScopes\<close> keeps every scope and
  \<open>IsScopeAllowed\<close> refuses every scope.\<close>
theorem scope_restriction:
  "ClientAdapter_filterScopes c scopes =
     (if clAllowedScopes c = [] then scopes else filter (ClientAdapter_IsScopeAllowed c) scopes)
   \<and> (ClientAdapter_IsScopeAllowed c s \<longleftrightarrow> s \<in> set (clAllowedScopes c))"
  by (auto simp: ClientAdapter_filterScopes_def ClientAdapter_IsScopeAllowed_def filter_loop_eq scope_loop_iff
      intro!: filter_cong)

section \<open>User info and introspection\<close>

lemma apply_scopes_eq:
  "apply_scopes ft u scopes ui = ui\<lparr>
     uiSubject := (if ''openid'' \<in> set scopes then ucSubject u else uiSubject ui),
     uiName := (if ''profile'' \<in> set scopes then ucName u else uiName ui),
     uiGivenName := (if ''profile'' \<in> set scopes then ucGivenName u else uiGivenName ui),
     uiFamilyName := (if ''profile'' \<in> set scopes then ucFamilyName u else uiFamilyName ui),
     uiPicture := (if ''profile'' \<in> set scopes then ucPicture u else uiPicture ui),
     uiUpdatedAt := (if ''profile'' \<in> set scopes then ft (ucUpdatedAt u) else uiUpdatedAt ui),
     uiEmail := (if ''email'' \<in> set scopes then ucEmail u else uiEmail ui),
     uiEmailVerified := (if ''email'' \<in> set scopes then ucEmailVerified u else uiEmailVerified ui)\<rparr>"
  by (induction scopes arbitrary: ui) auto

lemma claims_done:
  assumes "run_state (sa_users (idp_storage L m a d) u) w = (Inr x, w')" "db_ok (db w)"
  shows "db w' = db w \<and> (\<exists>v. user_view (db w) u = Some v \<and> ucSubject x = uID v \<and> ucEmail x = uEmail v
    \<and> ucEmailVerified x = uEmailVerified v \<and> ucName x = uName (applyLocalOverrides v)
    \<and> ucPicture x = uPicture (applyLocalOverrides v))"
proof -
  obtain y where y: "run_state (identityService_GetUser (UserRepository (lib_aggLock L)) u) w = (Inr y, w')"
    "x = \<lparr>ucSubject = uID y, ucEmail = uEmail y, ucEmailVerified = uEmailVerified y,
         ucName = uName y, ucGivenName = uGivenName y, ucFamilyName = uFamilyName y,
         ucPicture = uPicture y, ucUpdatedAt = uUpdatedAt y\<rparr>"
    using assms(1) by (auto simp: idp_storage_def userClaimsBridge_UserClaims_def split: prod.splits sum.splits)
  obtain v where v: "user_view (db w) u = Some v" "y = applyLocalOverrides v" and same: "db w' = db w"
    using pg_users.getUser_done [OF y(1) assms(2)] by blast
  have "uEmailVerified (applyLocalOverrides v) = uEmailVerified v"
    by (simp add: applyLocalOverrides_def Let_def split: option.splits)
  with v same show ?thesis by (intro conjI exI [of _ v]) (simp_all add: y(2) applyLocalOverrides_sel(1,2))
qed

text \<open>The user info of an access token is given only for a live token of an existing user, and holds
  exactly the claims its scopes name: the subject with \<open>openid\<close>, the displayed name and picture with
  \<open>profile\<close>, the address with \<open>email\<close>; the order and repetition of scopes do not matter.\<close>
theorem userinfo_by_scope:
  assumes "run_state (StorageAdapter_SetUserinfoFromToken (idp_storage L m a d) ui i) w = (Inr info, w')" and "db_ok (db w)"
  shows "db w' = db w \<and> (\<exists>t v. access_view (db w) i = Some t \<and> clock w < tkExpiration t
    \<and> user_view (db w) (tkSubject t) = Some v
    \<and> uiSubject info = (if ''openid'' \<in> set (tkScopes t) then uID v else uiSubject ui)
    \<and> uiName info = (if ''profile'' \<in> set (tkScopes t) then uName (applyLocalOverrides v) else uiName ui)
    \<and> uiPicture info = (if ''profile'' \<in> set (tkScopes t) then uPicture (applyLocalOverrides v) else uiPicture ui)
    \<and> uiEmail info = (if ''email'' \<in> set (tkScopes t) then uEmail v else uiEmail ui)
    \<and> uiEmailVerified info = (if ''email'' \<in> set (tkScopes t) then uEmailVerified v else uiEmailVerified ui))"
proof -
  have svc: "ts_repo (sa_tokens (idp_storage L m a d)) = TokenRepository" by (simp add: idp_storage_def idp_tokens_def)
  obtain g w1 where g: "run_state (TK_GetByID TokenRepository i) w = (g, w1)" by fastforce
  then obtain t where t: "g = Inr t"
    and rest: "run_state (StorageAdapter_setUserinfo (idp_storage L m a d) ui (tkSubject t) (tkScopes t)) w1 = (Inr info, w')"
    using assms(1) by (cases g) (auto simp: StorageAdapter_SetUserinfoFromToken_def tokenService_GetByID_def svc split: if_splits)
  note gd = pg_tokens.get_done [OF g [unfolded t] assms(2)]
  obtain u w2 where u: "run_state (sa_users (idp_storage L m a d) (tkSubject t)) w1 = (u, w2)" by fastforce
  then obtain x where x: "u = Inr x" "w2 = w'" "info = apply_scopes (sa_FromTime (idp_storage L m a d)) x (tkScopes t) ui"
    using rest by (cases u) (auto simp: StorageAdapter_setUserinfo_def split: if_splits)
  have ok: "db_ok (db w1)" using gd assms(2) by simp
  obtain v where v: "user_view (db w1) (tkSubject t) = Some v" "ucSubject x = uID v" "ucEmail x = uEmail v"
    "ucEmailVerified x = uEmailVerified v" "ucName x = uName (applyLocalOverrides v)"
    "ucPicture x = uPicture (applyLocalOverrides v)" and same: "db w' = db w1"
    using claims_done [OF u [unfolded x(1,2)] ok] by blast
  show ?thesis
    using gd v same by (intro conjI exI [of _ t] exI [of _ v]) (simp_all add: x(3) apply_scopes_eq)
qed

definition blank_info :: UserInfo where
  "blank_info = \<lparr>uiSubject = [], uiName = [], uiGivenName = [], uiFamilyName = [], uiPicture = [], uiUpdatedAt = 0,
     uiEmail = [], uiEmailVerified = False\<rparr>"

lemmas info_eval = sample_storage_def idp_storage_def idp_tokens_def StorageAdapter_SetUserinfoFromToken_def
  StorageAdapter_SetIntrospectionFromToken_def tokenService_GetByID_def TokenRepository_defs run_db_exec
  sql_select_token_def sql_first_def scanToken_def StorageAdapter_setUserinfo_def userClaimsBridge_UserClaims_def
  identityService_GetUser_def UserRepository_defs sql_select_user_def toUser_def sample_defs sample_libs_def

theorem userinfo_by_scope_witness:
  "\<exists>info w'. run_state (StorageAdapter_SetUserinfoFromToken sample_storage blank_info ''t1'') (idle_world sample_idb) = (Inr info, w')
     \<and> uiSubject info = ''u1'' \<and> uiEmail info = ''a@x'' \<and> uiName info = []"
proof -
  have "\<not> isl (fst (run_state (StorageAdapter_SetUserinfoFromToken sample_storage blank_info ''t1'') (idle_world sample_idb)))"
    by (simp add: info_eval)
  from run_not_isl [OF this] obtain info w' where run:
    "run_state (StorageAdapter_SetUserinfoFromToken sample_storage blank_info ''t1'') (idle_world sample_idb) = (Inr info, w')" by blast
  have "access_view sample_idb ''t1'' = Some (scanToken sample_token)" by (simp add: access_view_def sample_defs)
  moreover have "user_view sample_idb ''u1'' = Some (toUser sample_user)" by (simp add: user_view_def sample_defs)
  moreover have "tkSubject (scanToken sample_token) = ''u1''" "tkScopes (scanToken sample_token) = [''openid'', ''email'']"
    "uID (toUser sample_user) = ''u1''" "uEmail (toUser sample_user) = ''a@x''"
    by (simp_all add: scanToken_def sample_token_def toUser_def sample_user_def)
  ultimately show ?thesis
    using userinfo_by_scope [OF run [unfolded sample_storage_def]] run by (auto simp: blank_info_def)
qed

text \<open>C38: Introspection reports a token active exactly while it is stored and not expired, with its own
  client, scopes, subject and expiry; for any other token it reports inactive and no error.\<close>
theorem introspection_active_iff_live:
  assumes "run_state (StorageAdapter_SetIntrospectionFromToken (idp_storage L m a d) ir i) w = (r, w')"
    and "db_ok (db w)" and "quiet w"
  shows "\<exists>resp. r = Inr resp \<and> db w' = db w
    \<and> (irActive resp \<longleftrightarrow> (\<exists>t. access_view (db w) i = Some t \<and> clock w < tkExpiration t))
    \<and> (\<forall>t. access_view (db w) i = Some t \<and> clock w < tkExpiration t \<longrightarrow>
         irClientID resp = tkClientID t \<and> irScope resp = tkScopes t \<and> irExpiration resp = lib_FromTime L (tkExpiration t)
         \<and> irTokenType resp = ''Bearer'' \<and> (user_view (db w) (tkSubject t) = None \<longrightarrow> uiSubject (irUser resp) = tkSubject t))"
proof -
  have svc: "ts_repo (sa_tokens (idp_storage L m a d)) = TokenRepository" "sa_FromTime (idp_storage L m a d) = lib_FromTime L"
    "sa_users (idp_storage L m a d) = userClaimsBridge_UserClaims (UserRepository (lib_aggLock L))"
    by (simp_all add: idp_storage_def idp_tokens_def)
  obtain g w1 where g: "run_state (TK_GetByID TokenRepository i) w = (g, w1)" by fastforce
  note live = pg_tokens.get_live [OF g assms(2,3)]
  show ?thesis
  proof (cases "\<exists>t. access_view (db w) i = Some t \<and> clock w < tkExpiration t")
    case False
    with live obtain e where e: "g = Inl e" "errors_Is e ErrNotFound" by auto
    moreover have "db w1 = db w" using pg_tokens.get_error [OF g [unfolded e(1)] assms(2)] by blast
    ultimately show ?thesis
      using assms(1) g False by (auto simp: StorageAdapter_SetIntrospectionFromToken_def tokenService_GetByID_def svc)
  next
    case True
    then obtain t where t: "access_view (db w) i = Some t" "clock w < tkExpiration t" by blast
    with live have gt: "g = Inr t" and q1: "quiet w1" by auto
    have same: "db w1 = db w" using pg_tokens.get_done [OF g [unfolded gt] assms(2)] by blast
    then have ok1: "db_ok (db w1)" using assms(2) by simp
    note lu = live_user [OF q1 ok1, of "lib_aggLock L" "tkSubject t"]
    show ?thesis
      using assms(1) g gt same t lu
      by (cases "user_view (db w) (tkSubject t)")
        (auto simp: StorageAdapter_SetIntrospectionFromToken_def tokenService_GetByID_def svc Let_def
          userClaimsBridge_UserClaims_def identityService_GetUser_def)
  qed
qed

definition blank_introspection :: IntrospectionResponse where
  "blank_introspection = \<lparr>irActive = False, irClientID = [], irScope = [], irAudience = [], irExpiration = 0,
     irIssuedAt = 0, irTokenType = [], irUser = blank_info\<rparr>"

theorem introspection_active_iff_live_witness:
  "\<exists>resp w'. run_state (StorageAdapter_SetIntrospectionFromToken sample_storage blank_introspection ''t1'') (idle_world sample_idb)
     = (Inr resp, w') \<and> irActive resp \<and> irClientID resp = ''c1''"
proof -
  obtain r w' where run: "run_state (StorageAdapter_SetIntrospectionFromToken sample_storage blank_introspection ''t1'')
      (idle_world sample_idb) = (r, w')" by fastforce
  have "access_view sample_idb ''t1'' = Some (scanToken sample_token)" by (simp add: access_view_def sample_defs)
  moreover have "tkClientID (scanToken sample_token) = ''c1''" "tkExpiration (scanToken sample_token) = Hour"
    by (simp_all add: scanToken_def sample_token_def)
  ultimately show ?thesis
    using introspection_active_iff_live [OF run [unfolded sample_storage_def]] run by auto
qed

section \<open>Revocation and cleanup\<close>

text \<open>C39: Revoking removes exactly the named token, and only when it belongs to the client that asks: a
  refresh token by its value when the library names a user, an access token by its identifier
  otherwise. On an error nothing has changed.\<close>
theorem revoke_own_token_only:
  assumes "run_state (StorageAdapter_RevokeToken (idp_storage L m a d) tok u c) w = (r, w')" and "db_ok (db w)"
  shows "case r of
      Inl e \<Rightarrow> db w' = db w
    | Inr _ \<Rightarrow> if u = []
        then (\<exists>t. access_view (db w) tok = Some t \<and> tkClientID t = c)
          \<and> access_view (db w') = (access_view (db w))(tok := None) \<and> refresh_view (db w') = refresh_view (db w)
        else (\<exists>t. refresh_view (db w) (hashRefreshToken (lib_sha256 L) tok) = Some t \<and> rtClientID t = c)
          \<and> refresh_view (db w') = (refresh_view (db w))(hashRefreshToken (lib_sha256 L) tok := None)
          \<and> access_view (db w') = access_view (db w)"
proof (cases "u = []")
  case True
  obtain x w1 where x: "run_state (TK_Revoke TokenRepository tok c) w = (x, w1)" by fastforce
  have r: "w' = w1" "isl r = isl x"
    using assms(1) x True by (cases x; auto simp: StorageAdapter_RevokeToken_def tokenService_Revoke_def idp_storage_def
      idp_tokens_def split: if_splits)+
  show ?thesis
    using x r True pg_tokens.revoke_error [of tok c w _ w1] pg_tokens.revoke_done [of tok c w _ w1] assms(2)
    by (cases x; cases r) auto
next
  case False
  let ?h = "hashRefreshToken (lib_sha256 L) tok"
  obtain x w1 where x: "run_state (TK_RevokeRefreshToken TokenRepository ?h c) w = (x, w1)" by fastforce
  have r: "w' = w1" "isl r = isl x"
    using assms(1) x False by (cases x; auto simp: StorageAdapter_RevokeToken_def tokenService_RevokeRefreshToken_def
      idp_storage_def idp_tokens_def split: if_splits)+
  show ?thesis
    using x r False pg_tokens.revoker_error [of ?h c w _ w1] pg_tokens.revoker_done [of ?h c w _ w1] assms(2)
    by (cases x; cases r) auto
qed

theorem revoke_own_token_only_witness:
  "\<exists>w'. run_state (StorageAdapter_RevokeToken sample_storage ''t1'' [] ''c1'') (idle_world sample_idb) = (Inr (), w')
     \<and> access_view (db w') ''t1'' = None"
proof -
  have "\<not> isl (fst (run_state (StorageAdapter_RevokeToken sample_storage ''t1'' [] ''c1'') (idle_world sample_idb)))"
    by (simp add: sample_storage_def idp_storage_def idp_tokens_def StorageAdapter_RevokeToken_def tokenService_Revoke_def
      TokenRepository_defs run_db_exec sql_delete_tokens_def sql_count_def sample_defs)
  from run_not_isl [OF this] obtain u w' where run:
    "run_state (StorageAdapter_RevokeToken sample_storage ''t1'' [] ''c1'') (idle_world sample_idb) = (Inr u, w')" by blast
  with revoke_own_token_only [OF run [unfolded sample_storage_def]] show ?thesis by auto
qed

text \<open>C40: No cleanup loop takes anything a request could still use: a round of the token loop removes
  exactly the tokens that had expired when it began, a round of the request loop exactly the requests
  older than their lifetime, and the device loop only sessions revoked longer than the retention ago
  that no live refresh token is bound to.\<close>
theorem cleanup_keeps_live:
  assumes "db_ok (db w)"
    and "run_state (tokenCleanup_round (idp_tokens L)) w = (Inr nt, wt)"
    and "run_state (authRequestCleanup_round (idp_requests m) ttl) w = (Inr nr, wr)"
    and "run_state (deviceSessionCleanup_round idp_devices age) w = (Inr nd, wd)"
  shows "(\<forall>i. access_view (db wt) i = (case access_view (db w) i of
            Some t \<Rightarrow> if tkExpiration t < clock w then None else Some t | None \<Rightarrow> None))
    \<and> (\<forall>h. refresh_view (db wt) h = (case refresh_view (db w) h of
            Some t \<Rightarrow> if rtExpiration t < clock w then None else Some t | None \<Rightarrow> None))
    \<and> (\<forall>i. request_view (db wr) i = (case request_view (db w) i of
            Some ar \<Rightarrow> if arCreatedAt ar + ttl < clock w then None else Some ar | None \<Rightarrow> None))
    \<and> (\<forall>i s. i \<noteq> [] \<and> device_view (db w) i = Some s \<and> device_view (db wd) i = None \<longrightarrow>
            (\<exists>t. dsRevokedAt s = Some t \<and> t + age < clock w)
            \<and> (\<forall>h r. refresh_view (db w) h = Some r \<and> rtDeviceSessionID r = i \<longrightarrow> rtExpiration r \<le> clock (pass w)))"
proof -
  have ok: "db_ok (db (pass w))" using assms(1) by simp
  have "run_state (TK_DeleteExpired TokenRepository (clock w)) (pass w) = (Inr nt, wt)"
    using assms(2) by (simp add: tokenCleanup_round_def tokenService_DeleteExpired_def idp_tokens_def)
  note t = pg_tokens.expired_done [OF this ok]
  have "run_state (AR_DeleteExpiredBefore AuthRequestRepository (clock w - ttl)) (pass w) = (Inr nr, wr)"
    using assms(3) by (simp add: authRequestCleanup_round_def authRequestService_DeleteExpiredBefore_def idp_requests_def)
  note q = pg_requests.expired_done [OF this ok]
  have "run_state (DS_DeleteRevokedBefore DeviceSessionRepository (clock w - age)) (pass w) = (Inr nd, wd)"
    using assms(4) by (simp add: deviceSessionCleanup_round_def deviceSessionService_DeleteRevokedBefore_def idp_devices_def)
  note d = pg_devices.purge_done [OF this ok]
  have dev: "(\<exists>t. dsRevokedAt s = Some t \<and> t + age < clock w)
      \<and> (\<forall>h r. refresh_view (db w) h = Some r \<and> rtDeviceSessionID r = i \<longrightarrow> rtExpiration r \<le> clock (pass w))"
    if "i \<noteq> []" "device_view (db w) i = Some s" "device_view (db wd) i = None" for i s
    using d that by (auto split: if_splits simp: less_diff_eq)
  show ?thesis
  proof (intro conjI)
    show "\<forall>i. access_view (db wt) i = (case access_view (db w) i of
            Some t \<Rightarrow> if tkExpiration t < clock w then None else Some t | None \<Rightarrow> None)"
      using t [THEN conjunct2, THEN conjunct2] by simp
    show "\<forall>h. refresh_view (db wt) h = (case refresh_view (db w) h of
            Some t \<Rightarrow> if rtExpiration t < clock w then None else Some t | None \<Rightarrow> None)"
      using t [THEN conjunct2, THEN conjunct1] by simp
    show "\<forall>i. request_view (db wr) i = (case request_view (db w) i of
            Some ar \<Rightarrow> if arCreatedAt ar + ttl < clock w then None else Some ar | None \<Rightarrow> None)"
      using q [THEN conjunct2] by (simp add: less_diff_eq split: option.split)
    show "\<forall>i s. i \<noteq> [] \<and> device_view (db w) i = Some s \<and> device_view (db wd) i = None \<longrightarrow>
            (\<exists>t. dsRevokedAt s = Some t \<and> t + age < clock w)
            \<and> (\<forall>h r. refresh_view (db w) h = Some r \<and> rtDeviceSessionID r = i \<longrightarrow> rtExpiration r \<le> clock (pass w))"
      using dev by blast
  qed
qed

theorem cleanup_keeps_live_witness:
  "\<exists>nt wt. run_state (tokenCleanup_round (idp_tokens sample_libs)) (idle_world sample_idb) = (Inr nt, wt)
     \<and> access_view (db wt) ''t1'' = access_view sample_idb ''t1'' \<and> access_view sample_idb ''t1'' \<noteq> None"
proof -
  have t: "\<not> isl (fst (run_state (tokenCleanup_round (idp_tokens sample_libs)) (idle_world sample_idb)))"
    by (simp add: tokenCleanup_round_def tokenService_DeleteExpired_def idp_tokens_def TokenRepository_defs run_db_exec
      sql_delete_tokens_def sql_delete_refresh_def)
  have r: "\<not> isl (fst (run_state (authRequestCleanup_round (idp_requests 30) (30 * Minute)) (idle_world sample_idb)))"
    by (simp add: authRequestCleanup_round_def authRequestService_DeleteExpiredBefore_def idp_requests_def
      AuthRequestRepository_defs run_db_exec sql_delete_auth_requests_def)
  have d: "\<not> isl (fst (run_state (deviceSessionCleanup_round idp_devices Hour) (idle_world sample_idb)))"
    by (simp add: deviceSessionCleanup_round_def deviceSessionService_DeleteRevokedBefore_def idp_devices_def
      DeviceSessionRepository_defs run_db_exec sql_purge_devices_def Let_def)
  have ok: "db_ok (db (idle_world sample_idb))" by simp
  obtain nt wt nr wr nd wd where runs: "run_state (tokenCleanup_round (idp_tokens sample_libs)) (idle_world sample_idb) = (Inr nt, wt)"
    "run_state (authRequestCleanup_round (idp_requests 30) (30 * Minute)) (idle_world sample_idb) = (Inr nr, wr)"
    "run_state (deviceSessionCleanup_round idp_devices Hour) (idle_world sample_idb) = (Inr nd, wd)"
    using run_not_isl [OF t] run_not_isl [OF r] run_not_isl [OF d] by blast
  have "access_view sample_idb ''t1'' = Some (scanToken sample_token)" "tkExpiration (scanToken sample_token) = Hour"
    by (simp_all add: access_view_def sample_defs scanToken_def)
  with cleanup_keeps_live [OF ok runs] runs(1) show ?thesis by auto
qed

end
