(* ===== verification/IdentitySpec.thy ===== *)
theory IdentitySpec
  imports IdentityProps
begin

text \<open>
  What the identity service promises of sign-ins, as an abstract machine: which provider subjects
  are linked to whom, which device sessions are signed in, and which refresh tokens are good for
  whom. Every operation of the repositories is one step of it, and so is every schedule a run.
\<close>

section \<open>The abstract machine\<close>

type_synonym grant = "string \<times> string \<times> string"

text \<open>A session has an owner and is signed in or out; a grant has a user, a client and a session, which
  is empty for none.\<close>

record sign_ins =
  siLinks :: "string \<times> string \<Rightarrow> string option"
  siSessions :: "string \<Rightarrow> (string \<times> bool) option"
  siGrants :: "string \<Rightarrow> grant option"

fun changes :: "idp_stmt \<Rightarrow> bool" where
  "changes (UserStmt (UsCreate p c u f t)) = True"
| "changes (UserStmt (UsDelete f u)) = True"
| "changes (DeviceStmt (DvFind i u ua ip nm)) = True"
| "changes (DeviceStmt (DvRevoke i u)) = True"
| "changes (DeviceStmt (DvPurge t)) = True"
| "changes (TokenStmt (TkRotate a r cur)) = True"
| "changes (TokenStmt (TkDeleteUser u c)) = True"
| "changes (TokenStmt (TkRevokeRefresh h c)) = True"
| "changes (TokenStmt (TkDeleteExpired t)) = True"
| "changes _ = False"

definition forget :: "string set \<Rightarrow> grant \<Rightarrow> grant" where
  "forget S = (\<lambda>(u, c, s). (u, c, if s \<in> S then [] else s))"

text \<open>
  A step with its operation and its answer. Signing a session out takes its grants with it; what is
  signed out and purged is forgotten by the grants that still name it. A rotation keeps the session
  of the grant it replaces unless it brings one.
\<close>

inductive sign_in_step :: "idp_stmt \<Rightarrow> goerr + unit \<Rightarrow> sign_ins \<Rightarrow> sign_ins \<Rightarrow> bool" where
  same: "\<not> changes q \<or> isl r \<Longrightarrow> sign_in_step q r l l"
| link: "siLinks l (p, fcSubject c) = None \<Longrightarrow>
    sign_in_step (UserStmt (UsCreate p c u f t)) (Inr ()) l (l\<lparr>siLinks := (siLinks l)((p, fcSubject c) \<mapsto> u)\<rparr>)"
| unlink: "siLinks l k = Some u \<Longrightarrow> k' \<noteq> k \<Longrightarrow> siLinks l k' = Some u \<Longrightarrow>
    sign_in_step (UserStmt (UsDelete f u)) (Inr ()) l (l\<lparr>siLinks := (siLinks l)(k := None)\<rparr>)"
| reuse: "siSessions l i = Some (u, True) \<Longrightarrow> sign_in_step (DeviceStmt (DvFind i u ua ip nm)) (Inr ()) l l"
| sign_in: "siSessions l i \<noteq> Some (u, True) \<Longrightarrow> siSessions l j = None \<Longrightarrow> (siSessions l i = None \<longrightarrow> j = i) \<Longrightarrow>
    sign_in_step (DeviceStmt (DvFind i u ua ip nm)) (Inr ()) l (l\<lparr>siSessions := (siSessions l)(j \<mapsto> (u, True))\<rparr>)"
| sign_out: "siSessions l i = Some (u, True) \<Longrightarrow> G \<subseteq>\<^sub>m siGrants l \<Longrightarrow>
    (i \<noteq> [] \<longrightarrow> G = siGrants l |` {h. \<forall>a c. siGrants l h \<noteq> Some (a, c, i)}) \<Longrightarrow>
    sign_in_step (DeviceStmt (DvRevoke i u)) (Inr ()) l
      (l\<lparr>siSessions := (siSessions l)(i \<mapsto> (u, False)), siGrants := G\<rparr>)"
| purge: "\<forall>i \<in> S. \<exists>u. siSessions l i = Some (u, False) \<Longrightarrow>
    sign_in_step (DeviceStmt (DvPurge t)) (Inr ()) l
      (l\<lparr>siSessions := siSessions l |` (- S), siGrants := map_option (forget S) \<circ> siGrants l\<rparr>)"
| grant: "siGrants l (rtToken r) = None \<Longrightarrow>
    sign_in_step (TokenStmt (TkRotate a r [])) (Inr ()) l
      (l\<lparr>siGrants := (siGrants l)(rtToken r \<mapsto> (rtUserID r, rtClientID r, rtDeviceSessionID r))\<rparr>)"
| exchange: "cur \<noteq> [] \<Longrightarrow> siGrants l cur = Some (u, c, s) \<Longrightarrow> rtToken r = cur \<or> siGrants l (rtToken r) = None \<Longrightarrow>
    sign_in_step (TokenStmt (TkRotate a r cur)) (Inr ()) l
      (l\<lparr>siGrants := (siGrants l)(cur := None, rtToken r \<mapsto>
          (rtUserID r, rtClientID r, if rtDeviceSessionID r = [] then s else rtDeviceSessionID r))\<rparr>)"
| sign_off: "sign_in_step (TokenStmt (TkDeleteUser u c)) (Inr ()) l
    (l\<lparr>siGrants := siGrants l |` {h. \<forall>s. siGrants l h \<noteq> Some (u, c, s)}\<rparr>)"
| revoke: "siGrants l h = Some (u, c, s) \<Longrightarrow>
    sign_in_step (TokenStmt (TkRevokeRefresh h c)) (Inr ()) l (l\<lparr>siGrants := (siGrants l)(h := None)\<rparr>)"
| expire: "G \<subseteq>\<^sub>m siGrants l \<Longrightarrow> sign_in_step (TokenStmt (TkDeleteExpired t)) (Inr ()) l (l\<lparr>siGrants := G\<rparr>)"

inductive_cases sign_out_stepE: "sign_in_step (DeviceStmt (DvRevoke i u)) (Inr x) l l'"

inductive sign_in_run :: "sign_ins \<Rightarrow> (idp_stmt \<times> (goerr + unit)) list \<Rightarrow> sign_ins \<Rightarrow> bool" where
  start: "sign_in_run l [] l"
| step: "sign_in_run l log l1 \<Longrightarrow> sign_in_step q r l1 l2 \<Longrightarrow> sign_in_run l (log @ [(q, r)]) l2"

inductive_simps sign_in_run_snoc: "sign_in_run l (log @ [(q, r)]) l'"
inductive_simps sign_in_run_Nil: "sign_in_run l [] l'"

section \<open>The tables as a state of the machine\<close>

definition session_of :: "DeviceSession \<Rightarrow> string \<times> bool" where
  "session_of s = (dsUserID s, dsRevokedAt s = None)"

definition grant_of :: "RefreshToken \<Rightarrow> grant" where
  "grant_of r = (rtUserID r, rtClientID r, rtDeviceSessionID r)"

definition sign_ins :: "identity_db \<Rightarrow> sign_ins" where
  "sign_ins d = \<lparr>siLinks = map_option fiUserID \<circ> fid_view d, siSessions = map_option session_of \<circ> device_view d,
     siGrants = map_option grant_of \<circ> refresh_view d\<rparr>"

lemma sign_ins_sel [simp]:
  "siLinks (sign_ins d) k = map_option fiUserID (fid_view d k)"
  "siSessions (sign_ins d) i = map_option session_of (device_view d i)"
  "siGrants (sign_ins d) h = map_option grant_of (refresh_view d h)"
  by (simp_all add: sign_ins_def)

text \<open>The state after an operation, from what it changed.\<close>

lemma sign_ins_eqI:
  assumes "\<And>k. map_option fiUserID (fid_view d k) = siLinks l k"
    and "\<And>i. map_option session_of (device_view d i) = siSessions l i"
    and "\<And>h. map_option grant_of (refresh_view d h) = siGrants l h"
  shows "sign_ins d = l"
  by (rule sign_ins.equality) (simp_all add: sign_ins_def assms fun_eq_iff)

section \<open>Frames\<close>

lemma user_stmt_frame:
  assumes "run_state (exec_idp agg (UserStmt q)) w = (r, w')"
  shows "device_view (db w') = device_view (db w)" "refresh_view (db w') = refresh_view (db w)"
proof -
  have "not_users (db w') = not_users (db w)"
    using keepsD [OF exec_user_frame, of agg q w r w' "db w"] assms by simp
  from arg_cong [OF this, of t_device_sessions] arg_cong [OF this, of t_refresh_tokens]
  show "device_view (db w') = device_view (db w)" "refresh_view (db w') = refresh_view (db w)"
    by (simp_all add: not_users_def device_view_def refresh_view_def fun_eq_iff)
qed

lemma request_stmt_frame:
  assumes "run_state (exec_idp agg (RequestStmt q)) w = (r, w')"
  shows "sign_ins (db w') = sign_ins (db w)"
proof -
  have "not_requests (db w') = not_requests (db w)"
    using keepsD [OF exec_request_frame, of q w r w' "db w"] assms by simp
  from arg_cong [OF this, of t_device_sessions] arg_cong [OF this, of t_refresh_tokens] arg_cong [OF this, of t_fids]
  show ?thesis by (intro sign_ins_eqI) (simp_all add: not_requests_def device_view_def refresh_view_def fid_view_def)
qed

lemma other_stmt_links:
  assumes "run_state (exec_idp agg q) w = (r, w')" "\<And>s. q \<noteq> UserStmt s"
  shows "fid_view (db w') = fid_view (db w)"
proof -
  have "keeps (\<lambda>d. fid_view d = fid_view (db w)) (exec_idp agg q)"
    by (rule other_groups_frame [OF assms(2)]) (simp_all add: fid_view_def fun_eq_iff)
  from keepsD [OF this assms(1)] show ?thesis by simp
qed

definition session_view :: "identity_db \<Rightarrow> string \<Rightarrow> (string \<times> bool) option" where
  "session_view d i = map_option session_of (device_view d i)"

lemma touch_session:
  assumes "sql_touch_device s t d = Inr (x, d')"
  shows "session_view d' = session_view d"
proof
  fix i
  show "session_view d' i = session_view d i"
    using assms by (cases "find (\<lambda>r. dr_id r = i) (t_device_sessions d)")
      (auto simp: sql_touch_device_def session_view_def session_of_def device_view_def find_update)
qed

lemma token_stmt_sessions:
  assumes "run_state (exec_idp agg (TokenStmt q)) w = (r, w')"
  shows "session_view (db w') = session_view (db w)"
proof -
  have other: "session_view (d\<lparr>t_tokens := ts\<rparr>) = session_view d" "session_view (d\<lparr>t_refresh_tokens := rs\<rparr>) = session_view d"
    for d ts rs by (simp_all add: session_view_def device_view_def fun_eq_iff)
  have "keeps (\<lambda>d. session_view d = session_view (db w)) (exec_token q)"
    by (cases q) (auto simp: TokenRepository_defs TokenRepository_retireOld_def TokenRepository_lookupOld_def
      TokenRepository_revokeOldAccess_def TokenRepository_deleteOldRefresh_def sql_insert_token_def
      sql_insert_refresh_def sql_old_refresh_def sql_delete_tokens_def sql_delete_refresh_def
      sql_select_token_def sql_select_refresh_def sql_latest_session_def Let_def other
      intro!: keeps dest: touch_session split: sum.splits if_splits list.splits)
  from keepsD [OF this, of w r w'] assms show ?thesis by simp
qed

section \<open>Every operation is a step\<close>

lemma same_step: "\<not> changes q \<or> isl r \<Longrightarrow> l' = l \<Longrightarrow> sign_in_step q r l l'"
  by (simp add: sign_in_step.same)

lemma create_user_step:
  assumes "run_state (exec_idp agg (UserStmt (UsCreate p c u f t))) w = (r, w')" "db_ok (db w)"
  shows "sign_in_step (UserStmt (UsCreate p c u f t)) r (sign_ins (db w)) (sign_ins (db w'))"
proof (cases r)
  case (Inl e)
  with assms show ?thesis using pg_users.create_error by (intro same_step) auto
next
  case (Inr x)
  note run = assms(1) [unfolded Inr]
  have new: "fid_view (db w) (p, fcSubject c) = None"
    "fid_view (db w') = (fid_view (db w))((p, fcSubject c) \<mapsto> new_identity p c u f t)"
    using pg_users.create_done [of agg "new_user c u t" "new_identity p c u f t" w x w'] run assms(2)
    by (simp_all add: new_user_def new_identity_def)
  have "sign_ins (db w') = (sign_ins (db w))\<lparr>siLinks := (siLinks (sign_ins (db w)))((p, fcSubject c) \<mapsto> u)\<rparr>"
    by (rule sign_ins_eqI) (simp_all add: user_stmt_frame [OF run] new new_identity_def)
  with Inr new(1) show ?thesis using sign_in_step.link [of "sign_ins (db w)" p c u f t] by simp
qed

lemma delete_identity_step:
  assumes "run_state (exec_idp agg (UserStmt (UsDelete f u))) w = (r, w')" "db_ok (db w)"
  shows "sign_in_step (UserStmt (UsDelete f u)) r (sign_ins (db w)) (sign_ins (db w'))"
proof (cases r)
  case (Inl e)
  with assms show ?thesis using pg_users.delete_error by (intro same_step) auto
next
  case (Inr x)
  note run = assms(1) [unfolded Inr]
  obtain k f1 k2 f2 where del: "fid_view (db w) k = Some f1" "fiUserID f1 = u"
    "fid_view (db w') = (fid_view (db w))(k := None)" "k2 \<noteq> k" "fid_view (db w) k2 = Some f2" "fiUserID f2 = u"
    using pg_users.delete_done [OF run [unfolded exec_idp.simps exec_user.simps] assms(2)] by blast
  have "sign_ins (db w') = (sign_ins (db w))\<lparr>siLinks := (siLinks (sign_ins (db w)))(k := None)\<rparr>"
    by (rule sign_ins_eqI) (simp_all add: user_stmt_frame [OF run] del(3))
  with Inr del show ?thesis using sign_in_step.unlink [of "sign_ins (db w)" k u k2 f] by simp
qed

lemma user_links_same:
  assumes "run_state (exec_idp agg (UserStmt q)) w = (r, w')" "db_ok (db w)" "\<not> changes (UserStmt q)"
  shows "map_option fiUserID (fid_view (db w') k) = map_option fiUserID (fid_view (db w) k)"
proof (cases q)
  case (UsFidClaims p s c t)
  show ?thesis
  proof (cases r)
    case (Inl e)
    with assms UsFidClaims show ?thesis using pg_users.fclaims_error by auto
  next
    case (Inr x)
    have run: "run_state (UpdateFederatedIdentityClaims (UserRepository agg) p s c t) w = (Inr x, w')"
      using assms(1) UsFidClaims Inr by simp
    note f = pg_users.fclaims_done [OF run assms(2)]
    have "map_option snd (map_option (\<lambda>f. (fiID f, fiUserID f)) (fid_view (db w') (p, s))) =
        map_option snd (map_option (\<lambda>f. (fiID f, fiUserID f)) (fid_view (db w) (p, s)))"
      using f by simp
    moreover have "k \<noteq> (p, s) \<Longrightarrow> fid_view (db w') k = fid_view (db w) k" using f by blast
    ultimately show ?thesis by (cases "k = (p, s)") (simp_all add: option.map_comp comp_def)
  qed
qed (use assms in \<open>cases r; auto elim!: done_with_elim dest: pg_users.get_done pg_users.get_error pg_users.find_done
    pg_users.find_error pg_users.list_done pg_users.list_error pg_users.claims_done pg_users.claims_error
    pg_users.profile_done pg_users.profile_error\<close>)+

lemma user_stmt_step:
  assumes "run_state (exec_idp agg (UserStmt q)) w = (r, w')" "db_ok (db w)"
  shows "sign_in_step (UserStmt q) r (sign_ins (db w)) (sign_ins (db w'))"
proof (cases "changes (UserStmt q)")
  case True
  with assms create_user_step delete_identity_step show ?thesis by (cases q) auto
next
  case False
  with user_links_same [OF assms] user_stmt_frame [OF assms(1)] show ?thesis
    by (intro same_step sign_ins_eqI) simp_all
qed

lemma request_stmt_step:
  assumes "run_state (exec_idp agg (RequestStmt q)) w = (r, w')"
  shows "sign_in_step (RequestStmt q) r (sign_ins (db w)) (sign_ins (db w'))"
  using request_stmt_frame [OF assms] by (intro same_step) simp_all

text \<open>An operation on tokens changes the grants only.\<close>

lemma token_stmt_grants:
  assumes "run_state (exec_idp agg (TokenStmt q)) w = (r, w')"
    and "\<And>h. map_option grant_of (refresh_view (db w') h) = G h"
  shows "sign_ins (db w') = (sign_ins (db w))\<lparr>siGrants := G\<rparr>"
proof (rule sign_ins_eqI)
  fix i show "map_option session_of (device_view (db w') i) = siSessions ((sign_ins (db w))\<lparr>siGrants := G\<rparr>) i"
    using fun_cong [OF token_stmt_sessions [OF assms(1)], of i] by (simp add: session_view_def)
qed (simp_all add: other_stmt_links [OF assms(1)] assms(2))

lemma rotate_stmt_step:
  assumes "run_state (exec_idp agg (TokenStmt (TkRotate a k cur))) w = (r, w')" "db_ok (db w)"
  shows "sign_in_step (TokenStmt (TkRotate a k cur)) r (sign_ins (db w)) (sign_ins (db w'))"
proof (cases r)
  case (Inl e)
  with assms have "db w' = db w" using pg_tokens.rotate_error by auto
  with Inl show ?thesis by (intro same_step) simp_all
next
  case (Inr x)
  note run = assms(1) [unfolded Inr]
  have rot: "run_state (TokenRepository_CreateAccessAndRefresh a k cur) w = (Inr x, w')"
    using run by (simp add: TokenRepository_def)
  note rt = rotate_step [OF rot assms(2)]
  have view: "refresh_view (db w') = rotate_refresh cur (k\<lparr>rtCreatedAt := clock w,
      rtDeviceSessionID := inherit_session cur (refresh_view (db w)) k\<rparr>) (refresh_view (db w))" using rt by blast
  show ?thesis
  proof (cases "cur = []")
    case True
    have "sign_ins (db w') = (sign_ins (db w))\<lparr>siGrants :=
        (siGrants (sign_ins (db w)))(rtToken k \<mapsto> (rtUserID k, rtClientID k, rtDeviceSessionID k))\<rparr>"
      by (rule token_stmt_grants [OF run]) (simp add: view True rotate_refresh_def inherit_session_def grant_of_def)
    with True Inr rt show ?thesis using sign_in_step.grant [of "sign_ins (db w)" k a] by simp
  next
    case False
    with rt obtain old where old: "refresh_view (db w) cur = Some old" by blast
    then have inh: "inherit_session cur (refresh_view (db w)) k =
        (if rtDeviceSessionID k = [] then rtDeviceSessionID old else rtDeviceSessionID k)"
      using False by (simp add: inherit_session_def)
    have "sign_ins (db w') = (sign_ins (db w))\<lparr>siGrants := (siGrants (sign_ins (db w)))(cur := None, rtToken k \<mapsto>
        (rtUserID k, rtClientID k, if rtDeviceSessionID k = [] then rtDeviceSessionID old else rtDeviceSessionID k))\<rparr>"
      by (rule token_stmt_grants [OF run]) (simp add: view inh False rotate_refresh_def grant_of_def)
    moreover have "rtToken k = cur \<or> refresh_view (db w) (rtToken k) = None"
      using rt False by (auto split: if_splits)
    ultimately show ?thesis
      using False Inr old sign_in_step.exchange [of cur "sign_ins (db w)" "rtUserID old" "rtClientID old" "rtDeviceSessionID old" k a]
      by (simp add: grant_of_def)
  qed
qed

lemma token_grants_same:
  assumes "run_state (exec_idp agg (TokenStmt q)) w = (r, w')" "db_ok (db w)" "\<not> changes (TokenStmt q)"
  shows "refresh_view (db w') = refresh_view (db w)"
  using assms
  by (cases q; cases r) (auto elim!: done_with_elim dest: pg_tokens.create_done pg_tokens.create_error
    pg_tokens.get_done pg_tokens.get_error pg_tokens.getr_done pg_tokens.getr_error pg_tokens.info_done
    pg_tokens.info_error pg_tokens.revoke_done pg_tokens.revoke_error pg_tokens.latest_done pg_tokens.latest_error)

text \<open>The other operations on tokens only take grants away.\<close>

lemma sign_off_stmt_step:
  assumes "run_state (exec_idp agg (TokenStmt (TkDeleteUser u c))) w = (r, w')" "db_ok (db w)"
  shows "sign_in_step (TokenStmt (TkDeleteUser u c)) r (sign_ins (db w)) (sign_ins (db w'))"
proof (cases r)
  case (Inl e)
  with assms show ?thesis using pg_tokens.delete_error by (intro same_step) auto
next
  case (Inr x)
  then have "run_state (TK_DeleteByUserAndClient TokenRepository u c) w = (Inr x, w')" using assms(1) by simp
  note del = pg_tokens.delete_done [OF this assms(2)]
  have "sign_ins (db w') = (sign_ins (db w))\<lparr>siGrants :=
      siGrants (sign_ins (db w)) |` {h. \<forall>s. siGrants (sign_ins (db w)) h \<noteq> Some (u, c, s)}\<rparr>"
    by (rule token_stmt_grants [OF assms(1)]) (use del in \<open>auto simp: restrict_map_def grant_of_def split: option.splits\<close>)
  with Inr show ?thesis using sign_in_step.sign_off [of u c "sign_ins (db w)"] by simp
qed

lemma revoke_stmt_step:
  assumes "run_state (exec_idp agg (TokenStmt (TkRevokeRefresh h c))) w = (r, w')" "db_ok (db w)"
  shows "sign_in_step (TokenStmt (TkRevokeRefresh h c)) r (sign_ins (db w)) (sign_ins (db w'))"
proof (cases r)
  case (Inl e)
  with assms show ?thesis using pg_tokens.revoker_error by (intro same_step) auto
next
  case (Inr x)
  then have "run_state (TK_RevokeRefreshToken TokenRepository h c) w = (Inr x, w')" using assms(1) by simp
  note del = pg_tokens.revoker_done [OF this assms(2)]
  then obtain k where k: "refresh_view (db w) h = Some k" "rtClientID k = c" by blast
  have "sign_ins (db w') = (sign_ins (db w))\<lparr>siGrants := (siGrants (sign_ins (db w)))(h := None)\<rparr>"
    by (rule token_stmt_grants [OF assms(1)]) (simp add: del)
  with Inr k show ?thesis
    using sign_in_step.revoke [of "sign_ins (db w)" h "rtUserID k" c "rtDeviceSessionID k"] by (simp add: grant_of_def)
qed

lemma expire_stmt_step:
  assumes "run_state (exec_idp agg (TokenStmt (TkDeleteExpired t))) w = (r, w')" "db_ok (db w)"
  shows "sign_in_step (TokenStmt (TkDeleteExpired t)) r (sign_ins (db w)) (sign_ins (db w'))"
proof (cases r)
  case (Inl e)
  with assms have "refresh_view (db w') = refresh_view (db w)"
    using pg_tokens.expired_error by (fastforce elim!: done_with_elim)
  then have "sign_ins (db w') = (sign_ins (db w))\<lparr>siGrants := siGrants (sign_ins (db w))\<rparr>"
    by (intro token_stmt_grants [OF assms(1)]) simp
  with Inl show ?thesis by (intro same_step) simp_all
next
  case (Inr x)
  then obtain n where "run_state (TK_DeleteExpired TokenRepository t) w = (Inr n, w')"
    using assms(1) by (auto elim!: done_with_elim)
  note del = pg_tokens.expired_done [OF this assms(2)]
  let ?G = "\<lambda>h. map_option grant_of (refresh_view (db w') h)"
  have "?G \<subseteq>\<^sub>m siGrants (sign_ins (db w))"
    using del by (auto simp: map_le_def split: option.splits if_splits)
  from sign_in_step.expire [OF this, of t] token_stmt_grants [OF assms(1), of ?G] Inr
  show ?thesis by simp
qed

lemma token_stmt_step:
  assumes "run_state (exec_idp agg (TokenStmt q)) w = (r, w')" "db_ok (db w)"
  shows "sign_in_step (TokenStmt q) r (sign_ins (db w)) (sign_ins (db w'))"
proof (cases "changes (TokenStmt q)")
  case True
  with assms rotate_stmt_step sign_off_stmt_step revoke_stmt_step expire_stmt_step show ?thesis by (cases q) auto
next
  case False
  with token_stmt_grants [OF assms(1), of "siGrants (sign_ins (db w))"] token_grants_same [OF assms] show ?thesis
    by (intro same_step) simp_all
qed

text \<open>The sessions, from the rows of their table.\<close>

lemma device_stmt_state:
  assumes "run_state (exec_idp agg (DeviceStmt q)) w = (r, w')"
    and "\<And>i. map_option session_of (device_view (db w') i) = S i"
    and "\<And>h. map_option grant_of (refresh_view (db w') h) = G h"
  shows "sign_ins (db w') = (sign_ins (db w))\<lparr>siSessions := S, siGrants := G\<rparr>"
  by (rule sign_ins_eqI) (simp_all add: other_stmt_links [OF assms(1)] assms(2,3))

lemma find_session_step:
  assumes "run_state (exec_idp agg (DeviceStmt (DvFind i u ua ip nm))) w = (r, w')" "db_ok (db w)"
  shows "sign_in_step (DeviceStmt (DvFind i u ua ip nm)) r (sign_ins (db w)) (sign_ins (db w'))"
proof (cases r)
  case (Inl e)
  with assms show ?thesis using pg_devices.find_error by (intro same_step) (auto elim!: done_with_elim)
next
  case (Inr x)
  then obtain s where run: "run_state (DS_FindOrCreate DeviceSessionRepository i u ua ip nm) w = (Inr s, w')"
    using assms(1) by (auto elim!: done_with_elim)
  note fd = pg_devices.find_done [OF run assms(2)]
  then obtain s' where s': "device_view (db w') (dsID s) = Some s'" "dsUserID s' = u" "dsRevokedAt s' = None" by blast
  let ?S = "(siSessions (sign_ins (db w)))(dsID s \<mapsto> (u, True))"
  have "sign_ins (db w') = (sign_ins (db w))\<lparr>siSessions := ?S, siGrants := siGrants (sign_ins (db w))\<rparr>"
    by (rule device_stmt_state [OF assms(1)]) (use fd s' in \<open>simp_all add: session_of_def\<close>)
  then have state: "sign_ins (db w') = (sign_ins (db w))\<lparr>siSessions := ?S\<rparr>" by simp
  show ?thesis
  proof (cases "siSessions (sign_ins (db w)) i = Some (u, True)")
    case True
    then have "dsID s = i" using fd by (auto simp: session_of_def split: option.splits if_splits)
    with True have "sign_ins (db w') = sign_ins (db w)"
      unfolding state by (intro sign_ins.equality) (auto simp: fun_eq_iff)
    with True Inr show ?thesis by (simp add: sign_in_step.reuse del: sign_ins_sel)
  next
    case False
    have "siSessions (sign_ins (db w)) (dsID s) = None \<and> (siSessions (sign_ins (db w)) i = None \<longrightarrow> dsID s = i)"
      using fd False by (auto simp: session_of_def split: option.splits if_splits)
    with False Inr state show ?thesis by (simp add: sign_in_step.sign_in del: sign_ins_sel)
  qed
qed

lemma revoke_run:
  assumes "run_state (DS_RevokeByID DeviceSessionRepository i u) w = (Inr x, w')" "db_ok (db w)"
  shows "refresh_view (db w') \<subseteq>\<^sub>m refresh_view (db w)"
proof -
  obtain n d1 where d1: "d1 = (db w)\<lparr>t_device_sessions := sql_update (\<lambda>r. dr_id r = i \<and> dr_user_id r = u \<and> dr_revoked_at r = None)
         (\<lambda>r. r\<lparr>dr_revoked_at := Some (clock w)\<rparr>) (t_device_sessions (db w))\<rparr>"
    and del: "sql_delete_refresh (\<lambda>_ k. rr_device_session_id k = Some i) (clock w) d1 = Inr (n, db w')"
    using assms(1) unfolding DeviceSessionRepository_def DeviceSessionRepository_RevokeByID_def
    by (simp, elim in_tx_Inr) (auto simp: tx_exec_def sql_revoke_device_def Let_def
        split: sum.splits prod.splits if_splits elim!: db_exec_cases)
  have "db w' = d1\<lparr>t_refresh_tokens := sql_delete (\<lambda>k. rr_device_session_id k = Some i) (t_refresh_tokens d1)\<rparr>"
    using del by (simp add: sql_delete_refresh_def)
  then have rows: "t_refresh_tokens (db w') = sql_delete (\<lambda>k. rr_device_session_id k = Some i) (t_refresh_tokens (db w))"
    by (simp add: d1)
  have key: "distinct (map rr_token_hash (t_refresh_tokens (db w)))" using assms(2) unfolding db_ok_def by blast
  show ?thesis
    by (auto simp: map_le_def refresh_view_def rows find_delete_key [OF key] split: option.splits if_splits)
qed

lemma revoke_session_step:
  assumes "run_state (exec_idp agg (DeviceStmt (DvRevoke i u))) w = (r, w')" "db_ok (db w)"
  shows "sign_in_step (DeviceStmt (DvRevoke i u)) r (sign_ins (db w)) (sign_ins (db w'))"
proof (cases r)
  case (Inl e)
  with assms show ?thesis using pg_devices.revoke_error by (intro same_step) auto
next
  case (Inr x)
  then have run: "run_state (DS_RevokeByID DeviceSessionRepository i u) w = (Inr x, w')" using assms(1) by simp
  note rd = pg_devices.revoke_done [OF run assms(2)]
  then obtain s where s: "device_view (db w) i = Some s" "dsUserID s = u" "dsRevokedAt s = None"
    "device_view (db w') = (device_view (db w))(i \<mapsto> s\<lparr>dsRevokedAt := Some (clock w)\<rparr>)" by blast
  let ?G = "siGrants (sign_ins (db w'))"
  have state: "sign_ins (db w') = (sign_ins (db w))\<lparr>siSessions := (siSessions (sign_ins (db w)))(i \<mapsto> (u, False)), siGrants := ?G\<rparr>"
    by (rule device_stmt_state [OF assms(1)]) (use s in \<open>simp_all add: session_of_def\<close>)
  have less: "?G \<subseteq>\<^sub>m siGrants (sign_ins (db w))"
    using revoke_run [OF run assms(2)] by (fastforce simp: map_le_def dom_def)
  have exact: "?G = siGrants (sign_ins (db w)) |` {h. \<forall>a c. siGrants (sign_ins (db w)) h \<noteq> Some (a, c, i)}" if "i \<noteq> []"
    using rd that by (auto simp: fun_eq_iff restrict_map_def grant_of_def split: option.splits)
  have "siSessions (sign_ins (db w)) i = Some (u, True)" using s by (simp add: session_of_def)
  from sign_in_step.sign_out [OF this less] exact Inr state show ?thesis by (simp del: sign_ins_sel)
qed

definition purged :: "int \<Rightarrow> int \<Rightarrow> identity_db \<Rightarrow> string set" where
  "purged b t d = {i. \<exists>r \<in> set (t_device_sessions d). dr_id r = i \<and> purgeable b t d r}"

lemma purge_run:
  fixes S
  assumes "sql_purge_devices b t d = Inr (n, d')" "db_ok d" and S_def: "S = purged b t d"
  shows "device_view d' = device_view d |` (- S)"
    and "map_option grant_of (refresh_view d' h) = map_option (forget S) (map_option grant_of (refresh_view d h))"
    and "i \<in> S \<Longrightarrow> \<exists>s x. device_view d i = Some s \<and> dsRevokedAt s = Some x"
proof -
  let ?gone = "set (map (\<lambda>r. Some (dr_id r)) (filter (purgeable b t d) (t_device_sessions d)))"
  have gone: "?gone = Some ` S" by (auto simp: S_def purged_def)
  have key: "distinct (map dr_id (t_device_sessions d))" using assms(2) unfolding db_ok_def by blast
  have d': "t_device_sessions d' = sql_delete (purgeable b t d) (t_device_sessions d)"
    "t_refresh_tokens d' = sql_update (\<lambda>k. rr_device_session_id k \<in> Some ` S)
       (\<lambda>k. k\<lparr>rr_device_session_id := None\<rparr>) (t_refresh_tokens d)"
    using assms(1) unfolding gone [symmetric] sql_purge_devices_def Let_def by auto
  show "device_view d' = device_view d |` (- S)"
  proof
    fix i
    show "device_view d' i = (device_view d |` (- S)) i"
    proof (cases "find (\<lambda>r. dr_id r = i) (t_device_sessions d)")
      case None
      then show ?thesis by (simp add: device_view_def d' find_delete_key [OF key] restrict_map_def)
    next
      case (Some r)
      then have r: "r \<in> set (t_device_sessions d)" "dr_id r = i" using find_SomeD by fastforce+
      have "i \<in> S \<longleftrightarrow> purgeable b t d r"
      proof
        assume "i \<in> S"
        then obtain q where "q \<in> set (t_device_sessions d)" "dr_id q = i" "purgeable b t d q" by (auto simp: S_def purged_def)
        with r key show "purgeable b t d r" by (metis distinct_map inj_onD)
      qed (use r in \<open>auto simp: S_def purged_def\<close>)
      with Some show ?thesis by (simp add: device_view_def d' find_delete_key [OF key] restrict_map_def)
    qed
  qed
  show "map_option grant_of (refresh_view d' h) = map_option (forget S) (map_option grant_of (refresh_view d h))"
  proof (cases "find (\<lambda>r. rr_token_hash r = h) (t_refresh_tokens d)")
    case (Some k)
    then show ?thesis
      by (cases "rr_device_session_id k") (auto simp: refresh_view_def d' find_update grant_of_def forget_def)
  qed (simp add: refresh_view_def d' find_update)
  show "\<exists>s x. device_view d i = Some s \<and> dsRevokedAt s = Some x" if i: "i \<in> S"
  proof -
    obtain r x where "r \<in> set (t_device_sessions d)" "dr_id r = i" "dr_revoked_at r = Some x"
      using i by (auto simp: S_def purged_def purgeable_def split: option.splits)
    then have "device_view d i = Some (device_of r)" "dsRevokedAt (device_of r) = Some x"
      using device_view_Some [OF assms(2)] by auto
    then show ?thesis by blast
  qed
qed

lemma purge_sessions_step:
  assumes "run_state (exec_idp agg (DeviceStmt (DvPurge b))) w = (r, w')" "db_ok (db w)"
  shows "sign_in_step (DeviceStmt (DvPurge b)) r (sign_ins (db w)) (sign_ins (db w'))"
proof (cases r)
  case (Inl e)
  with assms show ?thesis using pg_devices.purge_error by (intro same_step) (auto elim!: done_with_elim)
next
  case (Inr x)
  then obtain n where run: "sql_purge_devices b (clock w) (db w) = Inr (n, db w')"
    using assms(1) by (auto simp: DeviceSessionRepository_defs split: sum.splits prod.splits
        elim!: db_exec_cases done_with_elim)
  let ?S = "purged b (clock w) (db w)"
  note pg = purge_run [OF run assms(2) refl]
  have out: "\<forall>i \<in> ?S. \<exists>u. siSessions (sign_ins (db w)) i = Some (u, False)"
    using pg(3) by (fastforce simp: session_of_def)
  have "sign_ins (db w') = (sign_ins (db w))\<lparr>siSessions := siSessions (sign_ins (db w)) |` (- ?S),
      siGrants := map_option (forget ?S) \<circ> siGrants (sign_ins (db w))\<rparr>"
    by (rule device_stmt_state [OF assms(1)]) (simp_all add: pg(1,2) restrict_map_def)
  with sign_in_step.purge [OF out, of b] Inr show ?thesis by simp
qed

lemma device_stmt_step:
  assumes "run_state (exec_idp agg (DeviceStmt q)) w = (r, w')" "db_ok (db w)"
  shows "sign_in_step (DeviceStmt q) r (sign_ins (db w)) (sign_ins (db w'))"
proof (cases q)
  case (DvList u)
  with assms have "db w' = db w"
    by (auto elim!: done_with_elim dest: pg_devices.list_done pg_devices.list_error)
  with DvList show ?thesis by (intro same_step) simp_all
qed (use assms find_session_step revoke_session_step purge_sessions_step in blast)+

lemma exec_step:
  assumes "run_state (exec_idp agg q) w = (r, w')" "db_ok (db w)"
  shows "sign_in_step q r (sign_ins (db w)) (sign_ins (db w'))"
  using assms user_stmt_step token_stmt_step request_stmt_step device_stmt_step by (cases q) blast+

text \<open>
  C5: The operations of the identity service's repositories refine the abstract machine: under any
  schedule of concurrent requests, whatever fails, the operations with their answers are a run of
  \<open>sign_in_step\<close> on the sign-ins that the tables hold. So a link appears only for a new account and
  goes only while another is left; a session is opened for its user only under an identifier no
  session has, signed out only by its owner and forgotten only when signed out; a grant appears only
  under an unused hash, directly or in exchange for another one, which is gone with the same step.
\<close>

theorem schedule_refines_sign_ins:
  assumes "idp_schedule agg d log d'" "db_ok d"
  shows "sign_in_run (sign_ins d) log (sign_ins d') \<and> db_ok d'"
  using assms
proof (induction rule: idp_schedule.induct)
  case (exec d log w q r w')
  then have run: "sign_in_run (sign_ins d) log (sign_ins (db w))" and ok: "db_ok (db w)" by blast+
  have "sign_in_step q r (sign_ins (db w)) (sign_ins (db w'))" by (rule exec_step [OF exec.hyps(2) ok])
  with run keepsD [OF exec_keeps_ok exec.hyps(2) ok] show ?case by (blast intro: sign_in_run.step)
qed (simp add: sign_in_run.start)

theorem schedule_refines_sign_ins_witness:
  "\<exists>w'. run_state (exec_idp True (DeviceStmt (DvRevoke ''d1'' ''u1''))) (idle_world sample_idb) = (Inr (), w')
     \<and> sign_in_run (sign_ins sample_idb) [(DeviceStmt (DvRevoke ''d1'' ''u1''), Inr ())] (sign_ins (db w'))
     \<and> siSessions (sign_ins sample_idb) ''d1'' = Some (''u1'', True) \<and> siSessions (sign_ins (db w')) ''d1'' = Some (''u1'', False)"
proof -
  obtain w' where run: "run_state (DeviceSessionRepository_RevokeByID ''d1'' ''u1'') (idle_world sample_idb) = (Inr (), w')"
    using sample_revoke by blast
  then have ex: "run_state (exec_idp True (DeviceStmt (DvRevoke ''d1'' ''u1''))) (idle_world sample_idb) = (Inr (), w')"
    by (simp add: DeviceSessionRepository_def)
  have "idp_schedule True sample_idb ([] @ [(DeviceStmt (DvRevoke ''d1'' ''u1''), Inr ())]) (db w')"
    by (rule idp_schedule.exec [OF _ ex]) (simp add: idp_schedule.start)
  from schedule_refines_sign_ins [OF this] have r: "sign_in_run (sign_ins sample_idb) [(DeviceStmt (DvRevoke ''d1'' ''u1''), Inr ())]
      (sign_ins (db w'))" by simp
  have old: "siSessions (sign_ins sample_idb) ''d1'' = Some (''u1'', True)"
    by (simp add: device_view_def sample_defs session_of_def)
  have "sign_in_step (DeviceStmt (DvRevoke ''d1'' ''u1'')) (Inr ()) (sign_ins sample_idb) (sign_ins (db w'))"
    using r sign_in_run_snoc [of "sign_ins sample_idb" "[]"] by (auto simp: sign_in_run_Nil simp del: sign_ins_sel)
  then have "siSessions (sign_ins (db w')) ''d1'' = Some (''u1'', False)"
    by (rule sign_out_stepE) (simp_all del: sign_ins_sel)
  with ex r old show ?thesis by blast
qed

end
