(* ===== verification/CodeFlow.thy ===== *)
theory CodeFlow
  imports ServerInvariants OidcProps IdentitySpec
begin

text \<open>
  The authorization code flow from the provider's callback to the tokens, with other requests
  served in between: whom the tokens of a code are for.
\<close>

section \<open>What other requests leave of a completed login\<close>

text \<open>A request but for its code and its session, which the database clears when the session goes.\<close>

definition core :: "AuthRequest \<Rightarrow> AuthRequest" where
  "core ar = ar\<lparr>arCode := [], arDeviceSessionID := []\<rparr>"

text \<open>The request \<open>x\<close> is as its login left it, as far as it is still there, and no other request has
  the code.\<close>

definition same_login :: "AuthRequest \<Rightarrow> string \<Rightarrow> string \<Rightarrow> AuthRequest \<Rightarrow> bool" where
  "same_login x code j ar \<longleftrightarrow>
     (j = arID x \<longrightarrow> core ar = core x \<and> (arDeviceSessionID ar = arDeviceSessionID x \<or> arDeviceSessionID ar = []))
     \<and> (arCode ar = code \<longrightarrow> j = arID x)"

definition row_kept :: "AuthRequest \<Rightarrow> string \<Rightarrow> auth_request_row \<Rightarrow> bool" where
  "row_kept x code r = same_login x code (qr_id r) (scanAuthRequest r)"

definition login_kept :: "AuthRequest \<Rightarrow> string \<Rightarrow> identity_db \<Rightarrow> bool" where
  "login_kept x code d \<longleftrightarrow> db_ok d \<and> (\<forall>r \<in> set (t_auth_requests d). row_kept x code r)"

lemma row_steps:
  "row_kept x code r \<Longrightarrow> row_kept x code (r\<lparr>qr_device_session_id := None\<rparr>)"
  "row_kept x code r \<Longrightarrow> c \<noteq> code \<Longrightarrow> row_kept x code (r\<lparr>qr_code := Some c\<rparr>)"
  "row_kept x code r \<Longrightarrow> qr_id r \<noteq> arID x \<Longrightarrow> row_kept x code (r\<lparr>qr_user_id := u, qr_auth_time := t, qr_amr := amr,
     qr_is_done := True, qr_device_session_id := ds\<rparr>)"
  "code \<noteq> [] \<Longrightarrow> arID ar \<noteq> arID x \<Longrightarrow> row_kept x code (auth_request_values ar now)"
  by (simp_all add: row_kept_def same_login_def core_def scanAuthRequest_def auth_request_values_def)

text \<open>Statements of other requests: identifiers and codes are not used twice.\<close>

fun apart :: "AuthRequest \<Rightarrow> string \<Rightarrow> idp_stmt \<Rightarrow> bool" where
  "apart x code (RequestStmt (RqCreate ar)) = (arID ar \<noteq> arID x)"
| "apart x code (RequestStmt (RqSave j c)) = (c \<noteq> code)"
| "apart x code (RequestStmt (RqLogin j u t amr s)) = (j \<noteq> arID x)"
| "apart x code _ = True"

lemma row_view:
  assumes "db_ok d"
  shows "request_view d j = Some ar \<longleftrightarrow> (\<exists>r \<in> set (t_auth_requests d). qr_id r = j \<and> scanAuthRequest r = ar)"
proof -
  have key: "distinct (map qr_id (t_auth_requests d))" using assms unfolding db_ok_def by blast
  show ?thesis unfolding request_view_def map_option_eq_Some find_key_iff [OF key] by blast
qed

lemma login_kept_view:
  assumes "db_ok d"
  shows "login_kept x code d \<longleftrightarrow> (\<forall>j ar. request_view d j = Some ar \<longrightarrow> same_login x code j ar)"
  unfolding login_kept_def row_view [OF assms] row_kept_def using assms by blast

lemma rows_kept_apart:
  assumes "apart x code s" "code \<noteq> []"
  shows "keeps (\<lambda>d. \<forall>r \<in> set (t_auth_requests d). row_kept x code r) (exec_idp agg s)"
    (is "keeps ?P _")
proof (cases s)
  case (UserStmt q)
  have "keeps ?P (exec_user agg q)"
    by (rule frame_keeps [OF exec_user_frame, where Q = ?P]) (simp add: not_users_def)
  with UserStmt show ?thesis by simp
next
  case (TokenStmt q)
  have "keeps ?P (exec_token q)"
    by (rule frame_keeps [OF exec_token_frame, where Q = ?P]) (simp add: not_tokens_def)
  with TokenStmt show ?thesis by simp
next
  case (DeviceStmt q)
  then show ?thesis
    by (cases q) (auto simp: DeviceSessionRepository_defs DeviceSessionRepository_reuse_def sql_select_device_def
      sql_use_device_def sql_insert_device_def sql_revoke_device_def sql_list_active_def sql_purge_devices_def
      sql_delete_refresh_def set_sql_update Let_def
      intro!: keeps row_steps(1) split: sum.splits if_splits)
next
  case (RequestStmt q)
  with assms show ?thesis
    by (cases q) (auto simp: AuthRequestRepository_defs sql_insert_auth_request_def sql_insert_def
      sql_select_auth_request_def sql_save_code_def sql_complete_login_def sql_delete_auth_requests_def
      ClientRepository_def ClientRepository_GetByID_def sql_select_client_def set_sql_update
      intro!: keeps row_steps split: sum.splits if_splits option.splits)
qed

lemma schedule_login_kept:
  assumes "idp_schedule agg d log d'" "login_kept x code d" "code \<noteq> []" "\<forall>s \<in> fst ` set log. apart x code s"
  shows "login_kept x code d'"
proof (rule schedule_keeps [where P = "login_kept x code", OF assms(1,2)])
  fix s assume "s \<in> fst ` set log"
  with assms(3,4) show "keeps (login_kept x code) (exec_idp agg s)"
    unfolding login_kept_def by (intro keeps_conj exec_keeps_ok rows_kept_apart) auto
qed

section \<open>The steps of the provider\<close>

lemma save_step:
  assumes "run_state (StorageAdapter_SaveAuthCode (idp_storage L m a d) (arID x) code) w = (Inr y, w')"
    and "login_kept x code (db w)"
  shows "login_kept x code (db w')"
proof -
  obtain z where z: "run_state (AR_SaveCode AuthRequestRepository (arID x) code) w = (Inr z, w')"
    using assms(1) by (auto simp: StorageAdapter_SaveAuthCode_def idp_storage_def idp_requests_def
      authRequestService_SaveCode_def split: prod.splits sum.splits)
  have ok: "db_ok (db w)" using assms(2) by (simp add: login_kept_def)
  note sd = pg_requests.save_done [OF z ok]
  have old: "request_view (db w) j = Some ar \<Longrightarrow> same_login x code j ar" for j ar
    using assms(2) login_kept_view [OF ok] by blast
  have "same_login x code j ar" if "request_view (db w') j = Some ar" for j ar
  proof (cases "j = arID x")
    case True
    with that sd obtain b where "request_view (db w) j = Some b" "ar = b\<lparr>arCode := code\<rparr>" by auto
    with old [of j b] True show ?thesis by (simp add: same_login_def core_def)
  next
    case False
    with that sd old show ?thesis by simp
  qed
  with sd login_kept_view show ?thesis by blast
qed

lemma lookup_step:
  assumes "run_state (StorageAdapter_AuthRequestByCode (idp_storage L m a d) code) w = (Inr ar, w')"
    and "login_kept x code (db w)"
  shows "arID ar = arID x \<and> core ar = core x
    \<and> (arDeviceSessionID ar = arDeviceSessionID x \<or> arDeviceSessionID ar = []) \<and> db w' = db w"
proof -
  have svc: "run_state (authRequestService_GetByCode \<lparr>ars_repo = AuthRequestRepository, ars_authRequestTTL = wrap64 (m * Minute)\<rparr> code) w
      = (Inr ar, w')"
    using assms(1) by (auto simp: StorageAdapter_AuthRequestByCode_def idp_storage_def idp_requests_def
      split: prod.splits sum.splits if_splits)
  have ok: "db_ok (db w)" using assms(2) by (simp add: login_kept_def)
  note cd = pg_requests.service_code_done [OF svc ok]
  have "same_login x code (arID ar) ar" using assms(2) login_kept_view [OF ok] cd by blast
  with cd show ?thesis by (simp add: same_login_def)
qed

lemma token_step:
  assumes "run_state (StorageAdapter_CreateAccessAndRefreshTokens (idp_storage L m a d) (FromAuthRequest ar) []) w
      = (Inr (tid, raw, ex), w')" "db_ok (db w)" "sha_ok (lib_sha256 L)"
  shows "\<exists>acc ref. access_view (db w') = (access_view (db w))(tid \<mapsto> acc)
    \<and> refresh_view (db w') = (refresh_view (db w))(hashRefreshToken (lib_sha256 L) raw \<mapsto> ref)
    \<and> tkSubject acc = arUserID ar \<and> tkClientID acc = arClientID ar \<and> tkScopes acc = arScopes ar
    \<and> tkAudience acc = [arClientID ar] \<and> tkExpiration acc = ex
    \<and> rtUserID ref = arUserID ar \<and> rtClientID ref = arClientID ar \<and> rtScopes ref = arScopes ar
    \<and> rtAccessTokenID ref = tid \<and> rtDeviceSessionID ref = arDeviceSessionID ar"
proof -
  let ?run = "run_state (tokenService_CreateAccessAndRefresh \<lparr>ts_repo = TokenRepository, ts_sha256 = lib_sha256 L\<rparr>
      (arClientID ar) (arUserID ar) [arClientID ar] (arScopes ar) (clock w + wrap64 (a * Minute))
      (clock (pass w) + wrap64 (d * 24 * Hour)) (arAuthTime ar) (arAMR ar) [] (arDeviceSessionID ar)) (pass (pass w))"
  have "?run = (Inr (tid, raw), w') \<and> ex = clock w + wrap64 (a * Minute)"
    using assms(1) by (auto simp: StorageAdapter_CreateAccessAndRefreshTokens_def idp_storage_def idp_tokens_def Let_def
      split: prod.splits sum.splits if_splits)
  then have run: "?run = (Inr (tid, raw), w')" and ex: "ex = clock w + wrap64 (a * Minute)" by blast+
  from pg_tokens.service_rotate_done [OF run _ assms(3)] assms(2) obtain acc ref where
    "refresh_view (db w') = (refresh_view (db w))(hashRefreshToken (lib_sha256 L) raw \<mapsto> ref)"
    "access_view (db w') = (access_view (db w))(tid \<mapsto> acc)"
    "tkSubject acc = arUserID ar \<and> tkClientID acc = arClientID ar \<and> tkScopes acc = arScopes ar
      \<and> tkAudience acc = [arClientID ar] \<and> tkExpiration acc = ex"
    "rtUserID ref = arUserID ar \<and> rtClientID ref = arClientID ar \<and> rtScopes ref = arScopes ar
      \<and> rtAccessTokenID ref = tid \<and> rtDeviceSessionID ref = arDeviceSessionID ar"
    by (auto simp: rotate_refresh_def rotate_access_def ex)
  then show ?thesis by (intro exI [of _ acc] exI [of _ ref]) simp
qed

lemma core_same:
  "core ar = core x \<Longrightarrow> arUserID ar = arUserID x \<and> arClientID ar = arClientID x \<and> arScopes ar = arScopes x
     \<and> arCodeChallenge ar = arCodeChallenge x \<and> arNonce ar = arNonce x \<and> arRedirectURI ar = arRedirectURI x"
  by (cases ar; cases x) (simp add: core_def)

lemma login_kept_start:
  assumes "db_ok d" "request_view d i = Some x" "\<forall>j ar. request_view d j = Some ar \<longrightarrow> arCode ar \<noteq> code"
  shows "arID x = i \<and> login_kept x code d"
proof -
  have id: "arID x = i" using assms(2) row_view [OF assms(1)] by (auto simp: scanAuthRequest_def)
  have "same_login x code j ar" if "request_view d j = Some ar" for j ar
    using that assms(2,3) by (auto simp: same_login_def id)
  with id assms(1) login_kept_view show ?thesis by blast
qed

section \<open>From the callback to the tokens\<close>

text \<open>
  C4: The authorization code flow across the service, with any statements of other requests in between.
  A callback has completed an authorization request; a fresh code is saved for it, the code is
  exchanged for the request, and tokens are issued for what the exchange found. Then the tokens are
  for the user whom the provider's claims of that callback are linked to, who had an active device
  session at that moment; they carry the client and the scopes of the request as it was created, and
  the exchange sees the code challenge, nonce and redirect URI of that request; and the refresh
  token belongs to that device session, or to none when the session was deleted meanwhile. The
  statements in between may do anything but complete the same request again, create another one under
  its identifier, or save the same code for another request.
\<close>

theorem code_flow_tokens:
  fixes w w1 w2 w3 w4 w5 w6 w7 :: "identity_db go_world"
  assumes "run_state (NewProviders up cfg) w0 = (Inr ps, wp)" "upstream_frame up" "db_ok (db w)" "sha_ok (lib_sha256 L)"
    and "run_state (FederatedCallback (loginHandler L m ps g key cb tmpl up) r) w = (resp, w1)" "rsStatus resp = 302"
    and "decryptState g key (rqQuery r ''state'') = Inr st" "request_view (db w1) (fsAuthRequestID st) = Some x"
    and "code \<noteq> []" "\<forall>j ar. request_view (db w1) j = Some ar \<longrightarrow> arCode ar \<noteq> code"
    and "idp_schedule agg (db w1) log1 (db w2)"
    and "run_state (StorageAdapter_SaveAuthCode (idp_storage L m a d) (fsAuthRequestID st) code) w2 = (Inr y, w3)"
    and "idp_schedule agg (db w3) log2 (db w4)"
    and "run_state (StorageAdapter_AuthRequestByCode (idp_storage L m a d) code) w4 = (Inr ar, w5)"
    and "idp_schedule agg (db w5) log3 (db w6)"
    and "run_state (StorageAdapter_CreateAccessAndRefreshTokens (idp_storage L m a d) (FromAuthRequest ar) []) w6
           = (Inr (tid, raw, ex), w7)"
    and "\<forall>s \<in> fst ` set (log1 @ log2). apart x code s"
  shows "\<exists>p token claims wa wb u s ds x0 acc ref.
      p \<in> set ps \<and> pvName p = fsProvider st
    \<and> run_state (up_Exchange up (pvOAuth2Config p) (rqQuery r ''code'')) w = (Inr token, wa)
    \<and> run_state (pvClaims p token) wa = (Inr claims, wb)
    \<and> linked (fid_view (db w1)) (fsProvider st) (fcSubject claims) = Some u
    \<and> device_view (db w1) s = Some ds \<and> dsUserID ds = u \<and> dsRevokedAt ds = None
    \<and> request_view (db w) (fsAuthRequestID st) = Some x0 \<and> arID ar = fsAuthRequestID st
    \<and> arCodeChallenge ar = arCodeChallenge x0 \<and> arNonce ar = arNonce x0 \<and> arRedirectURI ar = arRedirectURI x0
    \<and> access_view (db w7) = (access_view (db w6))(tid \<mapsto> acc)
    \<and> refresh_view (db w7) = (refresh_view (db w6))(hashRefreshToken (lib_sha256 L) raw \<mapsto> ref)
    \<and> tkSubject acc = u \<and> tkClientID acc = arClientID x0 \<and> tkScopes acc = arScopes x0
    \<and> tkAudience acc = [arClientID x0] \<and> tkExpiration acc = ex
    \<and> rtUserID ref = u \<and> rtClientID ref = arClientID x0 \<and> rtScopes ref = arScopes x0
    \<and> rtAccessTokenID ref = tid \<and> (rtDeviceSessionID ref = s \<or> rtDeviceSessionID ref = [])"
proof -
  from callback_outcome [OF assms(1,2,3,5)] assms(6,7) obtain p token claims wa wb s where
    cb: "p \<in> set ps" "pvName p = fsProvider st"
      "run_state (up_Exchange up (pvOAuth2Config p) (rqQuery r ''code'')) w = (Inr token, wa)"
      "run_state (pvClaims p token) wa = (Inr claims, wb)" "login_completed (db w) (db w1) st claims s"
    by auto
  from cb(5) assms(8) obtain u ds t x0 where
    login: "linked (fid_view (db w1)) (fsProvider st) (fcSubject claims) = Some u"
      "device_view (db w1) s = Some ds" "dsUserID ds = u" "dsRevokedAt ds = None"
      "request_view (db w) (fsAuthRequestID st) = Some x0"
    and x: "x = x0\<lparr>arUserID := u, arAuthTime := t, arAMR := [''fed''], arIsDone := True, arDeviceSessionID := s\<rparr>"
    unfolding login_completed_def by auto
  have ok1: "db_ok (db w1)"
    using keepsD [OF callback_ok [OF assms(2)] assms(5,3)] NewProviders_cases [OF assms(1)] by metis
  from login_kept_start [OF this assms(8,10)] have id: "arID x = fsAuthRequestID st" and k1: "login_kept x code (db w1)" by blast+
  have k2: "login_kept x code (db w2)" using schedule_login_kept [OF assms(11) k1 assms(9)] assms(17) by auto
  have k3: "login_kept x code (db w3)" by (rule save_step [OF assms(12) [folded id] k2])
  have k4: "login_kept x code (db w4)" using schedule_login_kept [OF assms(13) k3 assms(9)] assms(17) by auto
  note found = lookup_step [OF assms(14) k4]
  have "db_ok (db w5)" using found k4 by (simp add: login_kept_def)
  then have ok6: "db_ok (db w6)" by (rule schedule_keeps [OF assms(15)]) (rule exec_keeps_ok)
  from token_step [OF assms(16) ok6 assms(4)] obtain acc ref where
    tokens: "access_view (db w7) = (access_view (db w6))(tid \<mapsto> acc)"
      "refresh_view (db w7) = (refresh_view (db w6))(hashRefreshToken (lib_sha256 L) raw \<mapsto> ref)"
      "tkSubject acc = arUserID ar" "tkClientID acc = arClientID ar" "tkScopes acc = arScopes ar"
      "tkAudience acc = [arClientID ar]" "tkExpiration acc = ex"
      "rtUserID ref = arUserID ar" "rtClientID ref = arClientID ar" "rtScopes ref = arScopes ar"
      "rtAccessTokenID ref = tid" "rtDeviceSessionID ref = arDeviceSessionID ar" by blast
  have same: "arUserID ar = u \<and> arClientID ar = arClientID x0 \<and> arScopes ar = arScopes x0
     \<and> arCodeChallenge ar = arCodeChallenge x0 \<and> arNonce ar = arNonce x0 \<and> arRedirectURI ar = arRedirectURI x0"
    using core_same [of ar x] found by (simp add: x)
  show ?thesis
    using cb(1-4) login tokens same found id
    by (intro exI [of _ p] exI [of _ token] exI [of _ claims] exI [of _ wa] exI [of _ wb] exI [of _ u] exI [of _ s]
        exI [of _ ds] exI [of _ x0] exI [of _ acc] exI [of _ ref]) (auto simp: x)
qed

definition sample_exchange_flow :: "(identity_db, goerr + string \<times> string \<times> int) io" where
  "sample_exchange_flow = do {
     y \<leftarrow> StorageAdapter_SaveAuthCode sample_storage ''q1'' ''fresh'';
     case y of
       Inl e \<Rightarrow> ret (Inl e)
     | Inr _ \<Rightarrow> do {
         q \<leftarrow> StorageAdapter_AuthRequestByCode sample_storage ''fresh'';
         case q of
           Inl e \<Rightarrow> ret (Inl e)
         | Inr ar \<Rightarrow> StorageAdapter_CreateAccessAndRefreshTokens sample_storage (FromAuthRequest ar) [] } }"

definition sample_flow :: "(identity_db, goerr + string \<times> string \<times> int) io" where
  "sample_flow = do { resp \<leftarrow> FederatedCallback sample_login sample_callback; sample_exchange_flow }"

lemma sample_hash_word:
  assumes "hashRefreshToken sample_sha raw = sample_hash"
  shows "word_of_nat (length raw) = (2 :: byte)"
proof -
  have "sample_sha (bytes_of raw) = sample_sha (bytes_of ''rt'')"
    using arg_cong [OF assms, of hex_Decode] by (simp add: sample_hash_def hashRefreshToken_def hex_Decode_Encode)
  then show ?thesis by (simp add: sample_sha_def bytes_of_def)
qed

lemma sample_hash_fresh:
  "hashRefreshToken sample_sha (RawURLEncoding_EncodeToString (map (\<lambda>i. 21 + word_of_nat i) [0..<32])) \<noteq> sample_hash"
proof
  let ?raw = "RawURLEncoding_EncodeToString (map (\<lambda>i. 21 + word_of_nat i) [0..<32])"
  assume "hashRefreshToken sample_sha ?raw = sample_hash"
  from sample_hash_word [OF this] show False by code_simp
qed

lemma sample_flow_runs: "\<not> isl (fst (run_state sample_flow (idle_world sample_idb)))"
  using sample_enc_nonempty
  by (simp add: sample_flow_def sample_exchange_flow_def callback_eval
      sample_storage_def storage_eval token_repo_eval wrap64_id
      StorageAdapter_SaveAuthCode_def authRequestService_SaveCode_def StorageAdapter_AuthRequestByCode_def
      authRequestService_GetByCode_def sql_select_auth_request_def sql_save_code_def check_request_age_def
      scanAuthRequest_def sample_hash_fresh)

lemma sample_state_sel: "fsAuthRequestID sample_state = ''q1''"
  by (simp add: sample_state_def)

lemma exchange_flow_cases:
  assumes "run_state sample_exchange_flow w = (Inr t, w')"
  shows "\<exists>y w3 ar w5. run_state (StorageAdapter_SaveAuthCode sample_storage ''q1'' ''fresh'') w = (Inr y, w3)
    \<and> run_state (StorageAdapter_AuthRequestByCode sample_storage ''fresh'') w3 = (Inr ar, w5)
    \<and> run_state (StorageAdapter_CreateAccessAndRefreshTokens sample_storage (FromAuthRequest ar) []) w5 = (Inr t, w')"
proof -
  obtain y w3 where y: "run_state (StorageAdapter_SaveAuthCode sample_storage ''q1'' ''fresh'') w = (y, w3)"
    by (rule prod.exhaust)
  obtain q w5 where q: "run_state (StorageAdapter_AuthRequestByCode sample_storage ''fresh'') w3 = (q, w5)"
    by (rule prod.exhaust)
  show ?thesis using assms y q by (cases y; cases q) (auto simp: sample_exchange_flow_def)
qed

theorem code_flow_tokens_witness:
  "\<exists>tid raw ex w' acc ref. run_state sample_flow (idle_world sample_idb) = (Inr (tid, raw, ex), w')
     \<and> access_view (db w') tid = Some acc \<and> refresh_view (db w') (hashRefreshToken sample_sha raw) = Some ref
     \<and> tkSubject acc = rtUserID ref \<and> tkClientID acc = ''c1'' \<and> tkScopes acc = [''openid'', ''email'']"
proof -
  obtain tid raw ex w' where flow: "run_state sample_flow (idle_world sample_idb) = (Inr (tid, raw, ex), w')"
    using run_not_isl [OF sample_flow_runs] by auto
  obtain resp w1 where cb: "run_state (FederatedCallback sample_login sample_callback) (idle_world sample_idb) = (resp, w1)"
    by (rule prod.exhaust)
  have "run_state sample_exchange_flow w1 = (Inr (tid, raw, ex), w')" using flow cb by (simp add: sample_flow_def)
  from exchange_flow_cases [OF this] obtain y w3 ar w5 where
    steps: "run_state (StorageAdapter_SaveAuthCode sample_storage ''q1'' ''fresh'') w1 = (Inr y, w3)"
      "run_state (StorageAdapter_AuthRequestByCode sample_storage ''fresh'') w3 = (Inr ar, w5)"
      "run_state (StorageAdapter_CreateAccessAndRefreshTokens sample_storage (FromAuthRequest ar) []) w5 = (Inr (tid, raw, ex), w')"
    by blast
  have redirect: "rsStatus resp = 302" using sample_callback_redirects cb by simp
  have st: "decryptState sample_aead sample_key (rqQuery sample_callback ''state'') = Inr sample_state"
    by (simp add: sample_callback_def sample_decrypt)
  have old: "request_view sample_idb j = (if j = ''q1'' then Some (scanAuthRequest sample_request) else None)" for j
    by (simp add: request_view_def sample_defs)
  from callback_outcome [OF sample_providers sample_up_frame _ cb [unfolded sample_login_def]] redirect st
  obtain claims s where "login_completed sample_idb (db w1) sample_state claims s" by auto
  then obtain u t where view: "request_view (db w1) = (request_view sample_idb)(''q1'' :=
      Some ((scanAuthRequest sample_request)\<lparr>arUserID := u, arAuthTime := t, arAMR := [''fed''], arIsDone := True,
        arDeviceSessionID := s\<rparr>))" (is "_ = _(_ := Some ?x)")
    unfolding login_completed_def by (auto simp: old sample_state_def)
  have fresh: "\<forall>j ar. request_view (db w1) j = Some ar \<longrightarrow> arCode ar \<noteq> ''fresh''"
    by (auto simp: view old scanAuthRequest_def sample_request_def split: if_splits)
  have "request_view (db w1) (fsAuthRequestID sample_state) = Some ?x" by (simp add: view sample_state_def)
  from code_flow_tokens [OF sample_providers sample_up_frame _ _ cb [unfolded sample_login_def] redirect st this _ fresh
      idp_schedule.start steps(1) [unfolded sample_storage_def, folded sample_state_sel] idp_schedule.start steps(2) [unfolded sample_storage_def] idp_schedule.start steps(3) [unfolded sample_storage_def]]
  show ?thesis using flow by (auto simp: old sample_state_def scanAuthRequest_def sample_request_def sample_libs_def)
qed

section \<open>A code for a session that was signed out\<close>

text \<open>
  The exchange does not look at the device session: when the user signs a session out between the
  callback and the exchange, the refresh token is stored for the session all the same, and it can no
  longer be signed out, because \<open>RevokeByID\<close> finds no active session.
\<close>

definition sample_late_exchange :: "(identity_db, (goerr + unit) \<times> (goerr + string \<times> string \<times> int) \<times> (goerr + unit)) io" where
  "sample_late_exchange = do {
     x \<leftarrow> DeviceSessionRepository_RevokeByID ''d1'' ''u1'';
     y \<leftarrow> StorageAdapter_CreateAccessAndRefreshTokens sample_storage (FromAuthRequest (scanAuthRequest sample_request)) [];
     z \<leftarrow> DeviceSessionRepository_RevokeByID ''d1'' ''u1'';
     ret (x, y, z) }"

lemma sample_late_exchange_runs:
  "case fst (run_state sample_late_exchange (idle_world sample_idb)) of (x, y, z) \<Rightarrow>
     x = Inr () \<and> \<not> isl y \<and> (\<exists>e. z = Inl e \<and> errors_Is e ErrNotFound)"
  by (simp add: sample_late_exchange_def device_repo_eval sample_defs sample_storage_def storage_eval token_repo_eval
      wrap64_id scanAuthRequest_def sample_libs_def ulid_unary_def tx_Rollback_def Let_def)

lemma signed_out_session_gets_tokens:
  "\<exists>w1 tid raw ex w2 ref e w3.
     run_state (DeviceSessionRepository_RevokeByID ''d1'' ''u1'') (idle_world sample_idb) = (Inr (), w1)
   \<and> siSessions (sign_ins (db w1)) ''d1'' = Some (''u1'', False)
   \<and> run_state (StorageAdapter_CreateAccessAndRefreshTokens sample_storage (FromAuthRequest (scanAuthRequest sample_request)) []) w1
       = (Inr (tid, raw, ex), w2)
   \<and> refresh_view (db w2) (hashRefreshToken sample_sha raw) = Some ref \<and> rtDeviceSessionID ref = ''d1''
   \<and> run_state (DeviceSessionRepository_RevokeByID ''d1'' ''u1'') w2 = (Inl e, w3) \<and> errors_Is e ErrNotFound \<and> db w3 = db w2"
proof -
  obtain x w1 where r1: "run_state (DeviceSessionRepository_RevokeByID ''d1'' ''u1'') (idle_world sample_idb) = (x, w1)"
    by (rule prod.exhaust)
  obtain y w2 where r2: "run_state (StorageAdapter_CreateAccessAndRefreshTokens sample_storage
      (FromAuthRequest (scanAuthRequest sample_request)) []) w1 = (y, w2)" by (rule prod.exhaust)
  obtain z w3 where r3: "run_state (DeviceSessionRepository_RevokeByID ''d1'' ''u1'') w2 = (z, w3)" by (rule prod.exhaust)
  have "x = Inr () \<and> \<not> isl y \<and> (\<exists>e. z = Inl e \<and> errors_Is e ErrNotFound)"
    using sample_late_exchange_runs r1 r2 r3 by (simp add: sample_late_exchange_def)
  then obtain t e where res: "x = Inr ()" "y = Inr t" "z = Inl e" "errors_Is e ErrNotFound" by (cases y) auto
  obtain tid raw ex where t: "t = (tid, raw, ex)" by (rule prod_cases3)
  note rd = revoke_device_done [OF r1 [unfolded res]]
  have ok: "db_ok (db w1)" using rd by simp
  have out: "siSessions (sign_ins (db w1)) ''d1'' = Some (''u1'', False)" using rd by (auto simp: session_of_def)
  obtain ref where "refresh_view (db w2) (hashRefreshToken sample_sha raw) = Some ref" "rtDeviceSessionID ref = ''d1''"
    using token_step [OF r2 [unfolded res t sample_storage_def] ok]
    by (auto simp: sample_libs_def scanAuthRequest_def sample_request_def)
  moreover have "db w3 = db w2" using pg_devices.revoke_error [of "''d1''" "''u1''" w2 e w3] r3 res
    by (simp add: DeviceSessionRepository_def)
  ultimately show ?thesis using r1 r2 r3 res t out by blast
qed

end
