(* ===== verification/WebProps.thy ===== *)
theory WebProps
  imports RateLimit ServiceConfig LoginProps
begin

text \<open>
  The properties of the configuration and of the rate limiter of the identity service.
\<close>

section \<open>Configuration\<close>

text \<open>
  A numeric setting: its default when the variable is unset or zero, the number written there otherwise,
  and within its bounds in either case.
\<close>

definition bounded_setting :: "config_source \<Rightarrow> string \<Rightarrow> int \<Rightarrow> int \<Rightarrow> int \<Rightarrow> int \<Rightarrow> bool" where
  "bounded_setting src key d lo hi v \<longleftrightarrow> lo \<le> v \<and> v \<le> hi
     \<and> (if src key = [] then v = d
        else \<exists>n. strconv_Atoi (src key) = Some n \<and> v = (if n = 0 then d else n))"

lemma loadBoundedInt_setting:
  assumes "loadBoundedInt src key d lo hi = Inr v"
  shows "bounded_setting src key d lo hi v"
proof -
  obtain n where n: "if src key = [] then n = d else strconv_Atoi (src key) = Some n"
    and v: "(if (if n = 0 then d else n) < lo \<or> (if n = 0 then d else n) > hi
        then Inl (ErrorString (key @ '' must be 0 (default) or '' @ strconv_Itoa lo @ ''-'' @ strconv_Itoa hi
             @ '', got '' @ strconv_Itoa (if n = 0 then d else n)))
        else Inr (if n = 0 then d else n)) = Inr v"
    using assms unfolding loadBoundedInt_def Let_def andThen_Inr by (fastforce split: option.splits if_splits)
  from v have "v = (if n = 0 then d else n)" "lo \<le> v" "v \<le> hi" by (auto split: if_splits)
  with n show ?thesis by (auto simp: bounded_setting_def)
qed

lemma loadBoundedInt_Inr:
  assumes "loadBoundedInt src key d lo hi = Inr v"
  shows "lo \<le> v \<and> v \<le> hi \<and> (src key = [] \<longrightarrow> v = d)"
  using loadBoundedInt_setting [OF assms] by (simp add: bounded_setting_def split: if_splits)

lemma parse_key_strong: "parseRSAPrivateKey lib pem = Inr k \<Longrightarrow> 2048 \<le> BitLen lib k"
  by (auto simp: parseRSAPrivateKey_def not_less split: option.splits prod.splits if_splits)

lemma previous_keys_strong: "previous_keys lib ps = Inr ks \<Longrightarrow> k \<in> set ks \<Longrightarrow> 2048 \<le> BitLen lib k"
  by (induction ps arbitrary: ks) (auto simp: Let_def split: if_splits sum.splits dest: parse_key_strong)

lemma idp_settings:
  assumes "idp_LoadFrom lib src = Inr cfg"
  shows "bounded_setting src ''ACCESS_TOKEN_LIFETIME_MINUTES'' 15 1 60 (icAccessTokenLifetimeMinutes cfg)"
    "bounded_setting src ''REFRESH_TOKEN_LIFETIME_DAYS'' 7 1 90 (icRefreshTokenLifetimeDays cfg)"
    "bounded_setting src ''AUTH_REQUEST_TTL_MINUTES'' 30 1 60 (icAuthRequestTTLMinutes cfg)"
    "bounded_setting src ''DB_MAX_OPEN_CONNS'' 25 1 500 (icDBMaxOpenConns cfg)"
    "bounded_setting src ''DB_MAX_IDLE_CONNS'' 10 1 200 (icDBMaxIdleConns cfg)"
    "bounded_setting src ''DB_CONN_MAX_LIFETIME_SECONDS'' 300 10 3600 (icDBConnMaxLifetimeSecs cfg)"
    "bounded_setting src ''DB_CONN_MAX_IDLE_TIME_SECONDS'' 180 10 1800 (icDBConnMaxIdleTimeSecs cfg)"
    "bounded_setting src ''RATE_LIMIT_LOGIN_RPM'' 20 1 600 (icRateLimitLoginRPM cfg)"
    "bounded_setting src ''RATE_LIMIT_TOKEN_RPM'' 60 1 6000 (icRateLimitTokenRPM cfg)"
    "bounded_setting src ''RATE_LIMIT_GLOBAL_RPM'' 120 1 6000 (icRateLimitGlobalRPM cfg)"
  using assms unfolding idp_LoadFrom_def andThen_Inr
  by (force simp: loadBoundedInt_setting split: sum.splits option.splits)+

lemma idp_rates:
  assumes "idp_LoadFrom lib src = Inr cfg"
  shows "icRateLimitLoginRPM cfg \<in> {1..600}" "icRateLimitTokenRPM cfg \<in> {1..6000}" "icRateLimitGlobalRPM cfg \<in> {1..6000}"
  using idp_settings(8-10) [OF assms] by (simp_all add: bounded_setting_def)

lemma idp_texts:
  assumes "idp_LoadFrom lib src = Inr cfg"
  shows "icIssuer cfg = src ''ISSUER''" "icIssuer cfg \<noteq> []"
    "\<exists>scheme host. url_Parse lib (icIssuer cfg) = Some (scheme, host) \<and> scheme \<noteq> [] \<and> host \<noteq> []"
    "icDatabaseURL cfg = src ''DATABASE_URL''" "icDatabaseURL cfg \<noteq> []"
    "icPort cfg = getFrom src ''PORT'' ''8080''" "icGRPCPort cfg = getFrom src ''GRPC_PORT'' ''50051''"
    "icRateLimitEnabled cfg \<longleftrightarrow> src ''RATE_LIMIT_ENABLED'' \<noteq> ''false''"
    "icGoogleClientID cfg = src ''GOOGLE_CLIENT_ID''" "icGoogleClientSecret cfg = src ''GOOGLE_CLIENT_SECRET''"
    "icGitHubClientID cfg = src ''GITHUB_CLIENT_ID''" "icGitHubClientSecret cfg = src ''GITHUB_CLIENT_SECRET''"
    "icGoogleClientID cfg \<noteq> [] \<or> icGitHubClientID cfg \<noteq> []"
  using assms unfolding idp_LoadFrom_def andThen_Inr by (force split: sum.splits option.splits prod.splits)+

lemma idp_keys:
  assumes "idp_LoadFrom lib src = Inr cfg"
  shows "hex_Decode (src ''CRYPTO_KEY'') = Some (icCryptoKey cfg)" "length (icCryptoKey cfg) = 32"
    "parseRSAPrivateKey lib (src ''SIGNING_KEY_PEM'') = Inr (icCurrentKey cfg)"
    "(if src ''SIGNING_KEY_PREVIOUS_PEM'' = [] then icPreviousKeys cfg = []
      else previous_keys lib (strings_Split [] (src ''SIGNING_KEY_PREVIOUS_PEM'') ''---NEXT---'') = Inr (icPreviousKeys cfg))"
  using assms unfolding idp_LoadFrom_def andThen_Inr by (force split: sum.splits option.splits if_splits)+

text \<open>
  C26: A configuration that loads is safe to serve with. Its encryption key is the 32 bytes written in
  hexadecimal in the environment, every signing key is parsed from there and has at least 2048 bits, the
  issuer is a URL with scheme and host, the database is named, and a provider is configured. Each of the
  ten numeric settings has its default when its variable is unset or zero and the number written there
  otherwise, and lies within its bounds. The lifetimes that the token, session and request
  services compute from them are the exact number of minutes and days: nothing wraps around.
\<close>

theorem idp_config_bounds:
  assumes "idp_LoadFrom lib src = Inr cfg"
  shows "bounded_setting src ''ACCESS_TOKEN_LIFETIME_MINUTES'' 15 1 60 (icAccessTokenLifetimeMinutes cfg)
    \<and> bounded_setting src ''REFRESH_TOKEN_LIFETIME_DAYS'' 7 1 90 (icRefreshTokenLifetimeDays cfg)
    \<and> bounded_setting src ''AUTH_REQUEST_TTL_MINUTES'' 30 1 60 (icAuthRequestTTLMinutes cfg)
    \<and> bounded_setting src ''DB_MAX_OPEN_CONNS'' 25 1 500 (icDBMaxOpenConns cfg)
    \<and> bounded_setting src ''DB_MAX_IDLE_CONNS'' 10 1 200 (icDBMaxIdleConns cfg)
    \<and> bounded_setting src ''DB_CONN_MAX_LIFETIME_SECONDS'' 300 10 3600 (icDBConnMaxLifetimeSecs cfg)
    \<and> bounded_setting src ''DB_CONN_MAX_IDLE_TIME_SECONDS'' 180 10 1800 (icDBConnMaxIdleTimeSecs cfg)
    \<and> bounded_setting src ''RATE_LIMIT_LOGIN_RPM'' 20 1 600 (icRateLimitLoginRPM cfg)
    \<and> bounded_setting src ''RATE_LIMIT_TOKEN_RPM'' 60 1 6000 (icRateLimitTokenRPM cfg)
    \<and> bounded_setting src ''RATE_LIMIT_GLOBAL_RPM'' 120 1 6000 (icRateLimitGlobalRPM cfg)
    \<and> hex_Decode (src ''CRYPTO_KEY'') = Some (icCryptoKey cfg) \<and> length (icCryptoKey cfg) = 32
    \<and> parseRSAPrivateKey lib (src ''SIGNING_KEY_PEM'') = Inr (icCurrentKey cfg)
    \<and> (if src ''SIGNING_KEY_PREVIOUS_PEM'' = [] then icPreviousKeys cfg = []
       else previous_keys lib (strings_Split [] (src ''SIGNING_KEY_PREVIOUS_PEM'') ''---NEXT---'') = Inr (icPreviousKeys cfg))
    \<and> (\<forall>k \<in> set (icCurrentKey cfg # icPreviousKeys cfg). 2048 \<le> BitLen lib k)
    \<and> icIssuer cfg = src ''ISSUER'' \<and> icIssuer cfg \<noteq> []
    \<and> (\<exists>scheme host. url_Parse lib (icIssuer cfg) = Some (scheme, host) \<and> scheme \<noteq> [] \<and> host \<noteq> [])
    \<and> icDatabaseURL cfg = src ''DATABASE_URL'' \<and> icDatabaseURL cfg \<noteq> []
    \<and> icPort cfg = getFrom src ''PORT'' ''8080'' \<and> icGRPCPort cfg = getFrom src ''GRPC_PORT'' ''50051''
    \<and> (icRateLimitEnabled cfg \<longleftrightarrow> src ''RATE_LIMIT_ENABLED'' \<noteq> ''false'')
    \<and> icGoogleClientID cfg = src ''GOOGLE_CLIENT_ID'' \<and> icGoogleClientSecret cfg = src ''GOOGLE_CLIENT_SECRET''
    \<and> icGitHubClientID cfg = src ''GITHUB_CLIENT_ID'' \<and> icGitHubClientSecret cfg = src ''GITHUB_CLIENT_SECRET''
    \<and> (icGoogleClientID cfg \<noteq> [] \<or> icGitHubClientID cfg \<noteq> [])
    \<and> (let s = idp_storage L (icAuthRequestTTLMinutes cfg) (icAccessTokenLifetimeMinutes cfg) (icRefreshTokenLifetimeDays cfg)
       in sa_accessTTL s = icAccessTokenLifetimeMinutes cfg * Minute \<and> sa_accessTTL s \<in> {Minute..Hour}
        \<and> sa_refreshTTL s = icRefreshTokenLifetimeDays cfg * (24 * Hour) \<and> sa_accessTTL s < sa_refreshTTL s
        \<and> ars_authRequestTTL (sa_authReqs s) = icAuthRequestTTLMinutes cfg * Minute)"
proof -
  note S = idp_settings [OF assms] and K = idp_keys [OF assms]
  have keys: "\<forall>k \<in> set (icCurrentKey cfg # icPreviousKeys cfg). 2048 \<le> BitLen lib k"
    using K(3,4) by (auto split: if_splits dest: parse_key_strong previous_keys_strong)
  have lives: "1 \<le> icAccessTokenLifetimeMinutes cfg \<and> icAccessTokenLifetimeMinutes cfg \<le> 60"
    "1 \<le> icRefreshTokenLifetimeDays cfg \<and> icRefreshTokenLifetimeDays cfg \<le> 90"
    "1 \<le> icAuthRequestTTLMinutes cfg \<and> icAuthRequestTTLMinutes cfg \<le> 60"
    using S(1-3) by (simp_all add: bounded_setting_def)
  have "let s = idp_storage L (icAuthRequestTTLMinutes cfg) (icAccessTokenLifetimeMinutes cfg) (icRefreshTokenLifetimeDays cfg)
       in sa_accessTTL s = icAccessTokenLifetimeMinutes cfg * Minute \<and> sa_accessTTL s \<in> {Minute..Hour}
        \<and> sa_refreshTTL s = icRefreshTokenLifetimeDays cfg * (24 * Hour) \<and> sa_accessTTL s < sa_refreshTTL s
        \<and> ars_authRequestTTL (sa_authReqs s) = icAuthRequestTTLMinutes cfg * Minute"
    using lives by (simp add: idp_storage_def idp_requests_def Let_def wrap64_id)
  with S K keys idp_texts [OF assms] show ?thesis by (intro conjI)
qed

definition sample_x509 :: "nat x509_lib" where
  "sample_x509 = \<lparr>url_Parse = \<lambda>s. if s = ''https://i'' then Some (''https'', ''i'') else None,
     pem_Decode = \<lambda>s. Some (''RSA PRIVATE KEY'', bytes_of s), ParsePKCS1 = \<lambda>bs. Some (length bs),
     ParsePKCS8 = \<lambda>_. None, BitLen = \<lambda>k. 2048 + int k\<rparr>"

definition sample_env :: config_source where
  "sample_env k = (if k = ''ISSUER'' then ''https://i'' else if k = ''DATABASE_URL'' then ''db''
     else if k = ''CRYPTO_KEY'' then replicate 64 (CHR ''a'') else if k = ''SIGNING_KEY_PEM'' then ''k''
     else if k = ''GITHUB_CLIENT_ID'' then ''gh'' else if k = ''ACCESS_TOKEN_LIFETIME_MINUTES'' then ''60'' else [])"

lemma sample_loads: "\<exists>cfg. idp_LoadFrom sample_x509 sample_env = Inr cfg \<and> icAccessTokenLifetimeMinutes cfg = 60"
proof -
  have hex: "hex_Decode (replicate 64 (CHR ''a'')) = Some (replicate 32 170)" by code_simp
  have env: "sample_env ''ISSUER'' = ''https://i''" "sample_env ''DATABASE_URL'' = ''db''"
    "sample_env ''CRYPTO_KEY'' = replicate 64 (CHR ''a'')" "sample_env ''SIGNING_KEY_PEM'' = ''k''"
    "sample_env ''GITHUB_CLIENT_ID'' = ''gh''" "sample_env ''SIGNING_KEY_PREVIOUS_PEM'' = []"
    by (simp_all add: sample_env_def)
  have num: "strconv_Atoi ''60'' = Some 60" by code_simp
  have ints: "loadBoundedInt sample_env ''ACCESS_TOKEN_LIFETIME_MINUTES'' 15 1 60 = Inr 60"
    by (simp add: loadBoundedInt_def sample_env_def num andThen_def Let_def)
  have dflt: "sample_env k = [] \<Longrightarrow> lo \<le> d \<Longrightarrow> d \<le> hi \<Longrightarrow> loadBoundedInt sample_env k d lo hi = Inr d" for k d lo hi
    by (simp add: loadBoundedInt_def andThen_def Let_def)
  have rest: "sample_env k = []" if "k \<in> set [''REFRESH_TOKEN_LIFETIME_DAYS'', ''AUTH_REQUEST_TTL_MINUTES'',
      ''DB_MAX_OPEN_CONNS'', ''DB_MAX_IDLE_CONNS'', ''DB_CONN_MAX_LIFETIME_SECONDS'', ''DB_CONN_MAX_IDLE_TIME_SECONDS'',
      ''RATE_LIMIT_LOGIN_RPM'', ''RATE_LIMIT_TOKEN_RPM'', ''RATE_LIMIT_GLOBAL_RPM'']" for k
    using that by (auto simp: sample_env_def)
  show ?thesis
    unfolding idp_LoadFrom_def andThen_Inr env hex ints
    by (simp add: sample_x509_def parseRSAPrivateKey_def andThen_def dflt rest bytes_of_def)
qed

theorem idp_config_bounds_witness:
  "\<exists>cfg. idp_LoadFrom sample_x509 sample_env = Inr cfg \<and> icAccessTokenLifetimeMinutes cfg = 60
     \<and> icRefreshTokenLifetimeDays cfg = 7 \<and> icDBMaxOpenConns cfg = 25 \<and> icDBConnMaxIdleTimeSecs cfg = 180
     \<and> sa_accessTTL (idp_storage sample_libs 30 60 7) = Hour \<and> length (icCryptoKey cfg) = 32"
proof -
  obtain cfg where cfg: "idp_LoadFrom sample_x509 sample_env = Inr cfg" "icAccessTokenLifetimeMinutes cfg = 60"
    using sample_loads by blast
  from idp_config_bounds [OF cfg(1), of sample_libs] cfg show ?thesis
    by (simp add: Let_def idp_storage_def wrap64_id bounded_setting_def sample_env_def)
qed

section \<open>Rate limiting\<close>

text \<open>A run of a limiter over requests, each with its client and the times the code reads.\<close>

fun serve :: "('f, 'l) rate_lib \<Rightarrow> 'f IPRateLimiter \<Rightarrow> 'l entries \<Rightarrow> (string \<times> int \<times> int) list \<Rightarrow> (string \<times> bool) list" where
  "serve lib l m [] = []"
| "serve lib l m ((ip, t, t2) # rs) =
     (let (ok, m2) = ask_entry lib ip t2 (snd (touch_entry lib l ip t m)) in (ip, ok) # serve lib l m2 rs)"

lemma step_own:
  "\<exists>e. ask_entry lib ip t2 (snd (touch_entry lib l ip t m)) =
     (fst (rate_Allow lib (case m ip of None \<Rightarrow> rate_NewLimiter lib (lmLimit l) (lmBurst l) | Some e \<Rightarrow> enLimiter e) t2),
      m(ip \<mapsto> e)) \<and>
     (\<forall>m'. m' ip = m ip \<longrightarrow> ask_entry lib ip t2 (snd (touch_entry lib l ip t m')) =
        (fst (rate_Allow lib (case m ip of None \<Rightarrow> rate_NewLimiter lib (lmLimit l) (lmBurst l) | Some e \<Rightarrow> enLimiter e) t2),
         m'(ip \<mapsto> e)))"
  by (auto simp: ask_entry_def touch_entry_def Let_def split: option.splits prod.splits)

lemma serve_own:
  "m a = m' a \<Longrightarrow> filter (\<lambda>(ip, _). ip = a) (serve lib l m rs) = serve lib l m' (filter (\<lambda>(ip, _). ip = a) rs)"
proof (induction rs arbitrary: m m')
  case (Cons r rs)
  obtain ip t t2 where r: "r = (ip, t, t2)" by (cases r)
  obtain e ok where e: "ask_entry lib ip t2 (snd (touch_entry lib l ip t m)) = (ok, m(ip \<mapsto> e))"
    "\<And>m'. m' ip = m ip \<Longrightarrow> ask_entry lib ip t2 (snd (touch_entry lib l ip t m')) = (ok, m'(ip \<mapsto> e))"
    using step_own [of lib ip t2 l t m] by blast
  show ?case
  proof (cases "ip = a")
    case True
    have ih: "filter (\<lambda>(ip, _). ip = a) (serve lib l (m(a \<mapsto> e)) rs) =
        serve lib l (m'(a \<mapsto> e)) (filter (\<lambda>(ip, _). ip = a) rs)"
      by (rule Cons.IH) simp
    have "m' a = m a" using Cons.prems by simp
    from e(2) [unfolded True, of m', OF this] e(1) [unfolded True] ih show ?thesis by (simp add: r True)
  next
    case False
    have "filter (\<lambda>(ip, _). ip = a) (serve lib l (m(ip \<mapsto> e)) rs) = serve lib l m' (filter (\<lambda>(ip, _). ip = a) rs)"
      by (rule Cons.IH) (use Cons.prems False in simp)
    with e(1) False show ?thesis by (simp add: r)
  qed
qed simp

text \<open>
  Clients have buckets of their own. However requests of different clients interleave, a
  client is answered as if it were alone; the limiter's middleware lets internal requests through
  without touching a bucket, and answers any other request as its client's bucket does.
\<close>

theorem rate_limit_per_client:
  "filter (\<lambda>(ip, _). ip = a) (serve lib l m rs) = serve lib l m (filter (\<lambda>(ip, _). ip = a) rs)
   \<and> (run_state (IPRateLimiter_allow lib l r) w = (ok, w') \<longrightarrow>
        (if isInternalRequest r then ok \<and> w' = w
         else [(middleware_clientIP r, ok)] =
             serve lib l (db w) [(middleware_clientIP r, clock w, clock w + int (tick w (step w)))]))"
proof -
  have "run_state (IPRateLimiter_allow lib l r) w = (ok, w') \<longrightarrow>
        (if isInternalRequest r then ok \<and> w' = w
         else [(middleware_clientIP r, ok)] =
             serve lib l (db w) [(middleware_clientIP r, clock w, clock w + int (tick w (step w)))])"
    by (auto simp: IPRateLimiter_allow_def modify_db_def touch_entry_def Let_def split: prod.splits)
  from conjI [OF serve_own [of m a m lib l rs, OF refl] this] show ?thesis .
qed

definition count_rate :: "(unit, nat) rate_lib" where
  "count_rate = \<lparr>rate_NewLimiter = \<lambda>_ b. nat b, rate_Allow = \<lambda>n _. (0 < n, n - 1)\<rparr>"

definition sample_web :: http_request where
  "sample_web = sample_callback\<lparr>rqHeader := \<lambda>k. if k = ''CF-Connecting-IP'' then ''2001:db8::1'' else []\<rparr>"

theorem rate_limit_per_client_witness:
  "serve count_rate \<lparr>lmLimit = (), lmBurst = 1\<rparr> Map.empty [(''b'', 0, 0)] = [(''b'', True)]
   \<and> filter (\<lambda>(ip, _). ip = ''b'') (serve count_rate \<lparr>lmLimit = (), lmBurst = 1\<rparr> Map.empty
        [(''a'', 0, 0), (''b'', 0, 0), (''a'', 1, 1)]) = [(''b'', True)]"
proof -
  have one: "serve count_rate \<lparr>lmLimit = (), lmBurst = 1\<rparr> Map.empty [(''b'', 0, 0)] = [(''b'', True)]"
    by (simp add: touch_entry_def ask_entry_def count_rate_def Let_def)
  have "filter (\<lambda>(ip, _). ip = ''b'') (serve count_rate \<lparr>lmLimit = (), lmBurst = 1\<rparr> Map.empty
        [(''a'', 0, 0), (''b'', 0, 0), (''a'', 1, 1)]) =
      serve count_rate \<lparr>lmLimit = (), lmBurst = 1\<rparr> Map.empty [(''b'', 0, 0)]"
    using conjunct1 [OF rate_limit_per_client [of "''b''" count_rate "\<lparr>lmLimit = (), lmBurst = 1\<rparr>" Map.empty
        "[(''a'', 0, 0), (''b'', 0, 0), (''a'', 1, 1)]"]] by simp
  with one show ?thesis by simp
qed

text \<open>The forwarding header of a local proxy never decides about a limited request: a request from a
  loopback address is internal.\<close>

lemma forwarded_for_ignored:
  assumes "\<not> isInternalRequest r"
  shows "forwarded_client r = None"
proof -
  have "net_ParseIP ''127.0.0.1'' = Some [127, 0, 0, 1]" "net_ParseIP ''::1'' = Some (replicate 15 0 @ [1])"
    by code_simp+
  then have "remote_host r \<noteq> ''127.0.0.1'' \<and> remote_host r \<noteq> ''::1''"
    using assms by (auto simp: isInternalRequest_def IsLoopback_def)
  then show ?thesis by (simp add: forwarded_client_def Let_def)
qed

end
