(* ===== verification/LimiterProps.thy ===== *)
theory LimiterProps
  imports IdentityServer WebProps
begin

text \<open>
  Clearing the tables of the limiters: an entry is dropped when its client has been idle for
  fifteen minutes. With the limits a configuration can set, its bucket is full again by then, so no
  client can tell. A global limit so small that its burst rounds to nothing locks every client out.
\<close>

section \<open>Buckets\<close>

text \<open>The answer of a client's bucket, a new one if the client has none.\<close>

definition client_bucket :: "('f, 'l) rate_lib \<Rightarrow> 'f IPRateLimiter \<Rightarrow> 'l entries \<Rightarrow> string \<Rightarrow> 'l" where
  "client_bucket lib l m ip =
     (case m ip of None \<Rightarrow> rate_NewLimiter lib (lmLimit l) (lmBurst l) | Some e \<Rightarrow> enLimiter e)"

definition admits :: "('f, 'l) rate_lib \<Rightarrow> 'f IPRateLimiter \<Rightarrow> 'l entries \<Rightarrow> string \<Rightarrow> int \<Rightarrow> bool" where
  "admits lib l m ip t = fst (rate_Allow lib (client_bucket lib l m ip) t)"

lemma entry_updated: "e\<lparr>enLastSeen := t, enLimiter := b\<rparr> = \<lparr>enLimiter = b, enLastSeen = t\<rparr>"
  by (cases e) simp

lemma serve_entry:
  "ask_entry lib ip t2 (snd (touch_entry lib l ip t m)) =
     (let a = rate_Allow lib (client_bucket lib l m ip) t2 in (fst a, m(ip \<mapsto> \<lparr>enLimiter = snd a, enLastSeen = t\<rparr>)))"
  by (simp add: ask_entry_def touch_entry_def client_bucket_def entry_updated Let_def split: prod.splits option.splits)

text \<open>The buckets a limiter hands out, each with the time it was last asked, or any for a new one.\<close>

inductive bucket :: "('f, 'l) rate_lib \<Rightarrow> 'f \<Rightarrow> int \<Rightarrow> int \<Rightarrow> 'l \<Rightarrow> bool" for lib f n where
  new: "bucket lib f n t (rate_NewLimiter lib f n)"
| asked: "bucket lib f n t b \<Longrightarrow> t \<le> t' \<Longrightarrow> bucket lib f n t' (snd (rate_Allow lib b t'))"

text \<open>
  What \<open>x/time/rate\<close> documents: a bucket of \<open>n\<close> tokens refills with the rate of its limit, so one
  that has been left alone for as long as that takes (and a second for the rounding of its float
  arithmetic) answers as a new one does; with a burst of zero no event is allowed.
\<close>

definition refills :: "('f, 'l) rate_lib \<Rightarrow> (int \<Rightarrow> 'f) \<Rightarrow> bool" where
  "refills lib per_second \<longleftrightarrow> (\<forall>rpm n t b t'. 1 \<le> rpm \<longrightarrow> 1 \<le> n \<longrightarrow> bucket lib (per_second rpm) n t b \<longrightarrow>
     t + n * Minute div rpm + Second \<le> t' \<longrightarrow>
     rate_Allow lib b t' = rate_Allow lib (rate_NewLimiter lib (per_second rpm) n) t')"

definition zero_burst_refuses :: "('f, 'l) rate_lib \<Rightarrow> bool" where
  "zero_burst_refuses lib \<longleftrightarrow> (\<forall>f t b t'. bucket lib f 0 t b \<longrightarrow> \<not> fst (rate_Allow lib b t'))"

section \<open>Runs with cleanup\<close>

text \<open>A request with the two times the code reads, or a round of the cleanup.\<close>

datatype limiter_event = Served string int int | Swept int

fun limiter_run ::
  "('f, 'l) rate_lib \<Rightarrow> 'f IPRateLimiter \<Rightarrow> int \<Rightarrow> 'l entries \<Rightarrow> limiter_event list \<Rightarrow> (string \<times> bool) list" where
  "limiter_run lib l ttl m [] = []"
| "limiter_run lib l ttl m (Served ip t t2 # es) =
     (let (ok, m2) = ask_entry lib ip t2 (snd (touch_entry lib l ip t m)) in (ip, ok) # limiter_run lib l ttl m2 es)"
| "limiter_run lib l ttl m (Swept t # es) = limiter_run lib l ttl (snd (sweep ttl t m)) es"

fun served :: "limiter_event list \<Rightarrow> (string \<times> int \<times> int) list" where
  "served [] = []"
| "served (Served ip t t2 # es) = (ip, t, t2) # served es"
| "served (Swept t # es) = served es"

text \<open>Events in the order of time, each bucket asked within \<open>delay\<close> of its entry's touch.\<close>

fun timed :: "int \<Rightarrow> int \<Rightarrow> limiter_event list \<Rightarrow> bool" where
  "timed delay now [] = True"
| "timed delay now (Served ip t t2 # es) = (now \<le> t \<and> t \<le> t2 \<and> t2 \<le> t + delay \<and> timed delay t2 es)"
| "timed delay now (Swept t # es) = (now \<le> t \<and> timed delay t es)"

text \<open>
  The table with cleanup against the one without: the same buckets, but for those that have had
  the time \<open>refill\<close> to fill up.
\<close>

definition same_entry ::
  "('f, 'l) rate_lib \<Rightarrow> 'f IPRateLimiter \<Rightarrow> int \<Rightarrow> int \<Rightarrow> int \<Rightarrow> 'l ipEntry option \<Rightarrow> 'l ipEntry option \<Rightarrow> bool" where
  "same_entry lib l refill delay now x y \<longleftrightarrow>
     (case (x, y) of
        (None, None) \<Rightarrow> True
      | (None, Some e) \<Rightarrow> \<exists>t. bucket lib (lmLimit l) (lmBurst l) t (enLimiter e) \<and> t + refill \<le> now
      | (Some e, Some e') \<Rightarrow> enLimiter e' = enLimiter e
          \<and> (\<exists>t \<le> now. bucket lib (lmLimit l) (lmBurst l) t (enLimiter e) \<and> t \<le> enLastSeen e + delay)
      | _ \<Rightarrow> False)"

lemma same_entry_later:
  "same_entry lib l refill delay now x y \<Longrightarrow> now \<le> now' \<Longrightarrow> same_entry lib l refill delay now' x y"
  by (auto simp: same_entry_def split: option.splits) (meson order_trans)+

lemma same_entry_swept:
  assumes "same_entry lib l refill delay now (m ip) (m' ip)" "now \<le> t" "refill + delay \<le> ttl"
  shows "same_entry lib l refill delay t (snd (sweep ttl t m) ip) (m' ip)"
proof (cases "m ip")
  case (Some e)
  with assms(1) obtain e' tb where e: "m' ip = Some e'" "enLimiter e' = enLimiter e" "tb \<le> now"
    "bucket lib (lmLimit l) (lmBurst l) tb (enLimiter e)" "tb \<le> enLastSeen e + delay"
    by (auto simp: same_entry_def split: option.splits)
  show ?thesis
  proof (cases "enLastSeen e < t - ttl")
    case True
    with e assms(3) have "tb + refill \<le> t" by simp
    with e True Some show ?thesis by (auto simp: same_entry_def sweep_def)
  next
    case False
    with e assms(2) Some show ?thesis by (auto simp: same_entry_def sweep_def intro: exI [of _ tb])
  qed
qed (use assms(1,2) same_entry_later in \<open>auto simp: sweep_def\<close>)

lemma same_entry_served:
  assumes same: "\<forall>a. same_entry lib l refill delay now (m a) (m' a)" and time: "now \<le> t" "t \<le> t2" "t2 \<le> t + delay"
    and law: "\<And>t b t'. bucket lib (lmLimit l) (lmBurst l) t b \<Longrightarrow> t + refill \<le> t' \<Longrightarrow>
      rate_Allow lib b t' = rate_Allow lib (rate_NewLimiter lib (lmLimit l) (lmBurst l)) t'"
    and runs: "ask_entry lib ip t2 (snd (touch_entry lib l ip t m)) = (ok, m2)"
      "ask_entry lib ip t2 (snd (touch_entry lib l ip t m')) = (ok', m2')"
  shows "ok' = ok \<and> (\<forall>a. same_entry lib l refill delay t2 (m2 a) (m2' a))"
proof -
  have here: "same_entry lib l refill delay now (m ip) (m' ip)" using same by blast
  let ?b = "client_bucket lib l m ip" and ?b' = "client_bucket lib l m' ip"
  have b: "rate_Allow lib ?b' t2 = rate_Allow lib ?b t2 \<and> bucket lib (lmLimit l) (lmBurst l) t2 (snd (rate_Allow lib ?b t2))"
  proof (cases "m ip")
    case None
    have "bucket lib (lmLimit l) (lmBurst l) t2 (snd (rate_Allow lib ?b t2))"
      using bucket.asked [OF bucket.new, of t2 t2] None by (simp add: client_bucket_def)
    moreover have "rate_Allow lib ?b' t2 = rate_Allow lib ?b t2"
    proof (cases "m' ip")
      case (Some e')
      with here None obtain tb where "bucket lib (lmLimit l) (lmBurst l) tb (enLimiter e')" "tb + refill \<le> now"
        by (auto simp: same_entry_def)
      with law [of tb "enLimiter e'" t2] time None Some show ?thesis by (simp add: client_bucket_def)
    qed (use None in \<open>simp add: client_bucket_def\<close>)
    ultimately show ?thesis by blast
  next
    case (Some e)
    with here obtain e' tb where "m' ip = Some e'" "enLimiter e' = enLimiter e" "tb \<le> now"
      "bucket lib (lmLimit l) (lmBurst l) tb (enLimiter e)"
      by (auto simp: same_entry_def split: option.splits)
    with bucket.asked [of lib "lmLimit l" "lmBurst l" tb "enLimiter e" t2] time Some show ?thesis
      by (simp add: client_bucket_def)
  qed
  have "m2 = m(ip \<mapsto> \<lparr>enLimiter = snd (rate_Allow lib ?b t2), enLastSeen = t\<rparr>)"
    "m2' = m'(ip \<mapsto> \<lparr>enLimiter = snd (rate_Allow lib ?b t2), enLastSeen = t\<rparr>)"
    "ok = fst (rate_Allow lib ?b t2)" "ok' = fst (rate_Allow lib ?b t2)"
    using runs b by (auto simp: serve_entry Let_def)
  moreover have "same_entry lib l refill delay t2 (m a) (m' a)" for a
    using same time by (blast intro: same_entry_later order_trans)
  ultimately show ?thesis using b time(3) by (auto simp: same_entry_def intro!: exI [of _ t2])
qed

lemma limiter_run_serve:
  assumes "\<forall>a. same_entry lib l refill delay now (m a) (m' a)" "timed delay now es" "refill + delay \<le> ttl"
    and law: "\<And>t b t'. bucket lib (lmLimit l) (lmBurst l) t b \<Longrightarrow> t + refill \<le> t' \<Longrightarrow>
      rate_Allow lib b t' = rate_Allow lib (rate_NewLimiter lib (lmLimit l) (lmBurst l)) t'"
  shows "limiter_run lib l ttl m es = serve lib l m' (served es)"
  using assms(1,2)
proof (induction es arbitrary: now m m')
  case (Cons ev es)
  show ?case
  proof (cases ev)
    case (Served ip t t2)
    obtain ok m2 where r: "ask_entry lib ip t2 (snd (touch_entry lib l ip t m)) = (ok, m2)" by fastforce
    obtain ok' m2' where r': "ask_entry lib ip t2 (snd (touch_entry lib l ip t m')) = (ok', m2')" by fastforce
    from Cons.prems Served have t: "now \<le> t" "t \<le> t2" "t2 \<le> t + delay" "timed delay t2 es" by simp_all
    note s = same_entry_served [OF Cons.prems(1) t(1-3) law r r']
    from Cons.IH [OF conjunct2 [OF s] t(4)] s show ?thesis by (simp add: Served r r')
  next
    case (Swept t)
    with Cons.prems(2) have t: "now \<le> t" "timed delay t es" by simp_all
    have "\<forall>a. same_entry lib l refill delay t (snd (sweep ttl t m) a) (m' a)"
      using same_entry_swept Cons.prems(1) t(1) assms(3) by metis
    from Cons.IH [OF this t(2)] show ?thesis by (simp add: Swept)
  qed
qed simp

section \<open>The limiters of a configuration\<close>

lemma new_limiters_Some:
  assumes "new_limiters ps cfg = Some ls"
  shows "ilGlobal ls = \<lparr>lmLimit = ps (icRateLimitGlobalRPM cfg), lmBurst = icRateLimitGlobalRPM cfg div 4\<rparr>"
    "ilLogin ls = \<lparr>lmLimit = ps (icRateLimitLoginRPM cfg), lmBurst = 5\<rparr>"
    "ilToken ls = \<lparr>lmLimit = ps (icRateLimitTokenRPM cfg), lmBurst = 10\<rparr>"
  using assms by (auto simp: new_limiters_def NewIPRateLimiter_def split: if_splits)

lemma div_up: "1 \<le> r \<Longrightarrow> x \<le> (x div r + 1) * (r :: int)"
  using div_mult_mod_eq [of x r] pos_mod_bound [of r x] distrib_right [of "x div r" 1 r] by linarith

lemma div_bound: "x \<le> r * k \<Longrightarrow> 1 \<le> r \<Longrightarrow> x div r \<le> (k :: int)"
  using zdiv_mono1 [of x "r * k" r] by simp

text \<open>
  C28: Clearing the limiters' tables is not noticed. With a configuration that loads, and the
  buckets' documented refilling, a run of any of the three limiters in which its cleanup removes
  entries idle for fifteen minutes, as often as it likes, answers every client as the run without
  cleanup does (\<open>sweep\<close> is what the code's cleanup does to the table); for the global limiter its rate must be one whose burst is not rounded to zero.
\<close>

theorem limiter_cleanup_unnoticed:
  assumes "idp_LoadFrom lib src = Inr cfg" "new_limiters per_second cfg = Some ls" "refills rl per_second"
    and "l = ilGlobal ls \<and> 4 \<le> icRateLimitGlobalRPM cfg \<or> l = ilLogin ls \<or> l = ilToken ls"
    and "timed Minute t0 es"
  shows "limiter_run rl l (15 * Minute) no_entries es = serve rl l no_entries (served es)
    \<and> (run_state (IPRateLimiter_Cleanup (15 * Minute)) w = (u, w') \<longrightarrow>
        db w' = snd (sweep (15 * Minute) (clock w) (db w)))"
proof -
  note rates = idp_rates [OF assms(1)]
  note new = new_limiters_Some [OF assms(2)]
  obtain rpm n where l: "l = \<lparr>lmLimit = per_second rpm, lmBurst = n\<rparr>" "1 \<le> rpm" "1 \<le> n"
    and "n * Minute div rpm \<le> 10 * Minute"
  proof (rule disjE [OF assms(4)])
    let ?r = "icRateLimitGlobalRPM cfg"
    assume g: "l = ilGlobal ls \<and> 4 \<le> ?r"
    have "?r div 4 * Minute \<le> ?r * (10 * Minute)"
    proof -
      have "0 \<le> ?r" using rates(3) by simp
      then have "?r div 4 \<le> 10 * ?r" by presburger
      then show ?thesis by simp
    qed
    then have "?r div 4 * Minute div ?r \<le> 10 * Minute" by (rule div_bound) (use rates(3) in simp)
    moreover have "1 \<le> ?r div 4" using conjunct2 [OF g] by presburger
    ultimately show thesis using that [of ?r "?r div 4"] new(1) rates(3) g by simp
  next
    assume "l = ilLogin ls \<or> l = ilToken ls"
    moreover have "5 * Minute div icRateLimitLoginRPM cfg \<le> 10 * Minute" "10 * Minute div icRateLimitTokenRPM cfg \<le> 10 * Minute"
      by (rule div_bound; use rates in simp)+
    ultimately show thesis
      using that [of "icRateLimitLoginRPM cfg" 5] that [of "icRateLimitTokenRPM cfg" 10] new rates by auto
  qed
  then have r: "n * Minute div rpm + Second + Minute \<le> 15 * Minute" by simp
  have "limiter_run rl l (15 * Minute) no_entries es = serve rl l no_entries (served es)"
  proof (rule limiter_run_serve [OF _ assms(5) r])
    show "\<forall>a. same_entry rl l (n * Minute div rpm + Second) Minute t0 (no_entries a) (no_entries a)"
      by (simp add: same_entry_def no_entries_def)
  qed (use assms(3) l in \<open>auto simp: refills_def\<close>)
  then show ?thesis by (auto simp: IPRateLimiter_Cleanup_def modify_db_def sweep_def)
qed

text \<open>A token bucket over integers: the level counts parts of a token, one per request and nanosecond.\<close>

definition level :: "int \<times> int \<times> int \<times> int \<Rightarrow> int \<Rightarrow> int" where
  "level b t = (case b of (rpm, n, lv, lst) \<Rightarrow> min (n * Minute) (lv + max 0 (t - lst) * rpm))"

definition token_rate :: "(int, int \<times> int \<times> int \<times> int) rate_lib" where
  "token_rate = \<lparr>rate_NewLimiter = \<lambda>rpm n. (rpm, n, n * Minute, 0),
     rate_Allow = \<lambda>b t. case b of (rpm, n, lv, lst) \<Rightarrow>
       if Minute \<le> level b t then (True, (rpm, n, level b t - Minute, t)) else (False, (rpm, n, level b t, t))\<rparr>"

lemma token_bucket:
  assumes "bucket token_rate rpm n t b" "1 \<le> n" "1 \<le> rpm"
  shows "\<exists>lv lst. b = (rpm, n, lv, lst) \<and> 0 \<le> lv \<and> (lv = n * Minute \<or> lst \<le> t)"
  using assms
proof (induction rule: bucket.induct)
  case (asked t b t')
  then obtain lv lst where "b = (rpm, n, lv, lst)" "0 \<le> lv" by auto
  with asked.prems show ?case by (auto simp: token_rate_def level_def)
qed (simp add: token_rate_def)

lemma token_refills: "refills token_rate id"
  unfolding refills_def
proof (intro allI impI)
  fix rpm n t b t'
  assume r: "1 \<le> rpm" "1 \<le> n" and b: "bucket token_rate (id rpm) n t b" and t': "t + n * Minute div rpm + Second \<le> t'"
  obtain lv lst where v: "b = (rpm, n, lv, lst)" "0 \<le> lv" "lv = n * Minute \<or> lst \<le> t"
    using token_bucket [of rpm n t b] b r by auto
  have "n * Minute \<le> lv + max 0 (t' - lst) * rpm"
  proof (cases "lv = n * Minute")
    case False
    with v t' have "n * Minute div rpm + 1 \<le> max 0 (t' - lst)" by simp
    then have "(n * Minute div rpm + 1) * rpm \<le> max 0 (t' - lst) * rpm" using r(1) by (intro mult_right_mono) simp_all
    moreover have "n * Minute \<le> (n * Minute div rpm + 1) * rpm" by (rule div_up [OF r(1)])
    ultimately show ?thesis using v(2) by linarith
  qed (use r in simp)
  then have "level b t' = n * Minute" by (simp add: level_def v)
  moreover have "level (rpm, n, n * Minute, 0) t' = n * Minute" using r by (simp add: level_def)
  ultimately show "rate_Allow token_rate b t' = rate_Allow token_rate (rate_NewLimiter token_rate (id rpm) n) t'"
    by (simp add: token_rate_def v)
qed

theorem limiter_cleanup_unnoticed_witness:
  "\<exists>cfg ls. idp_LoadFrom sample_x509 sample_env = Inr cfg \<and> new_limiters id cfg = Some ls
     \<and> limiter_run token_rate (ilLogin ls) (15 * Minute) no_entries [Served ''a'' 1 2, Swept Hour, Served ''a'' Hour Hour]
       = [(''a'', True), (''a'', True)]"
proof -
  obtain cfg where cfg: "idp_LoadFrom sample_x509 sample_env = Inr cfg" using sample_loads by blast
  moreover have "icRateLimitEnabled cfg"
    using cfg unfolding idp_LoadFrom_def andThen_Inr by (fastforce simp: sample_env_def)
  ultimately obtain ls where ls: "new_limiters id cfg = Some ls" by (simp add: new_limiters_def)
  have "limiter_run token_rate (ilLogin ls) (15 * Minute) no_entries [Served ''a'' 1 2, Swept Hour, Served ''a'' Hour Hour]
      = serve token_rate (ilLogin ls) no_entries (served [Served ''a'' 1 2, Swept Hour, Served ''a'' Hour Hour])"
    by (rule conjunct1 [OF limiter_cleanup_unnoticed [OF cfg ls token_refills, of _ 0]]) simp_all
  also have "\<dots> = [(''a'', True), (''a'', True)]"
    using new_limiters_Some(2) [OF ls] idp_rates(1) [OF cfg]
    by (simp add: serve_entry client_bucket_def token_rate_def level_def no_entries_def Let_def)
  finally show ?thesis using cfg ls by blast
qed

text \<open>
  A global limit below four requests per minute has a burst of zero, and no request that is not
  internal is ever served.
\<close>

lemma zero_burst_run:
  assumes "zero_burst_refuses rl" "lmBurst l = 0" "timed delay now es"
    and "\<forall>a. \<exists>t \<le> now. bucket rl (lmLimit l) 0 t (client_bucket rl l m a)"
  shows "\<forall>(a, ok) \<in> set (limiter_run rl l ttl m es). \<not> ok"
  using assms(3,4)
proof (induction es arbitrary: now m)
  case (Cons ev es)
  show ?case
  proof (cases ev)
    case (Served ip t t2)
    let ?a = "rate_Allow rl (client_bucket rl l m ip) t2"
    let ?m = "m(ip \<mapsto> \<lparr>enLimiter = snd ?a, enLastSeen = t\<rparr>)"
    from Cons.prems Served have t: "now \<le> t2" "timed delay t2 es" by auto
    from Cons.prems(2) obtain tb where tb: "tb \<le> now" "bucket rl (lmLimit l) 0 tb (client_bucket rl l m ip)" by blast
    have "\<exists>t \<le> t2. bucket rl (lmLimit l) 0 t (client_bucket rl l ?m a)" for a
    proof (cases "a = ip")
      case True
      with bucket.asked [OF tb(2), of t2] tb(1) t(1) show ?thesis by (auto simp: client_bucket_def)
    next
      case False
      with Cons.prems(2) t(1) show ?thesis by (auto simp: client_bucket_def intro: order_trans)
    qed
    with Cons.IH [OF t(2)] have "\<forall>(a, ok) \<in> set (limiter_run rl l ttl ?m es). \<not> ok" by blast
    moreover have "\<not> fst ?a" using assms(1) tb(2) by (auto simp: zero_burst_refuses_def)
    ultimately show ?thesis by (simp add: Served serve_entry Let_def)
  next
    case (Swept t)
    with Cons.prems(1) have t: "now \<le> t" "timed delay t es" by simp_all
    have "\<exists>tb \<le> t. bucket rl (lmLimit l) 0 tb (client_bucket rl l (snd (sweep ttl t m)) a)" for a
    proof (cases "snd (sweep ttl t m) a")
      case None
      then show ?thesis using bucket.new [of rl "lmLimit l" 0 t] assms(2) by (auto simp: client_bucket_def)
    next
      case (Some e)
      then have "m a = Some e" by (auto simp: sweep_def split: option.splits if_splits)
      with Some have "client_bucket rl l (snd (sweep ttl t m)) a = client_bucket rl l m a" by (simp add: client_bucket_def)
      with Cons.prems(2) t(1) show ?thesis by (auto intro: order_trans)
    qed
    with Cons.IH [OF t(2)] have "\<forall>(a, ok) \<in> set (limiter_run rl l ttl (snd (sweep ttl t m)) es). \<not> ok" by blast
    then show ?thesis by (simp add: Swept)
  qed
qed simp

lemma small_global_limit_refuses:
  assumes "new_limiters per_second cfg = Some ls" "0 \<le> icRateLimitGlobalRPM cfg" "icRateLimitGlobalRPM cfg < 4"
    and "zero_burst_refuses rl" "timed delay t0 es"
  shows "\<forall>(a, ok) \<in> set (limiter_run rl (ilGlobal ls) ttl no_entries es). \<not> ok"
proof (rule zero_burst_run [OF assms(4) _ assms(5)])
  show z: "lmBurst (ilGlobal ls) = 0" using new_limiters_Some(1) [OF assms(1)] assms(2,3) by simp
  show "\<forall>a. \<exists>t \<le> t0. bucket rl (lmLimit (ilGlobal ls)) 0 t (client_bucket rl (ilGlobal ls) no_entries a)"
    using bucket.new [of rl "lmLimit (ilGlobal ls)" 0 t0] z by (auto simp: client_bucket_def no_entries_def)
qed

end
