(* ===== verification/AccountsProps.thy ===== *)
theory AccountsProps
  imports AccountsServer IdentityProps
begin

text \<open>
  The properties of the account management API: who may call it, that a call touches the
  caller's data only, what revoking all other sessions does, which errors leave the service,
  and that a rotated signing key keeps its tokens valid.
\<close>

section \<open>The caller's data only\<close>

text \<open>From \<open>d\<close> to \<open>d'\<close> nothing changed but the profile, identities and sessions of user \<open>u\<close>
  and the refresh tokens of \<open>u\<close>'s sessions, which may be gone; no session is lost.\<close>

definition only_own :: "string \<Rightarrow> identity_db \<Rightarrow> identity_db \<Rightarrow> bool" where
  "only_own u d d' \<longleftrightarrow> db_ok d' \<and> t_tokens d' = t_tokens d \<and> t_clients d' = t_clients d
     \<and> (\<forall>v. v \<noteq> u \<longrightarrow> user_view d' v = user_view d v)
     \<and> (\<forall>k. case fid_view d k of None \<Rightarrow> fid_view d' k = None
              | Some f \<Rightarrow> fiUserID f \<noteq> u \<longrightarrow> fid_view d' k = Some f)
     \<and> (\<forall>i. case device_view d i of None \<Rightarrow> device_view d' i = None
              | Some s \<Rightarrow> \<exists>s'. device_view d' i = Some s' \<and> dsUserID s' = dsUserID s \<and> (dsUserID s \<noteq> u \<longrightarrow> s' = s))
     \<and> (\<forall>h. refresh_view d' h = refresh_view d h \<or> refresh_view d' h = None \<and>
          (\<exists>r s. refresh_view d h = Some r \<and> device_view d (rtDeviceSessionID r) = Some s \<and> dsUserID s = u))"

lemma only_own_refl: "db_ok d \<Longrightarrow> only_own u d d"
  by (simp add: only_own_def split: option.splits)

lemma only_own_ok: "only_own u d d' \<Longrightarrow> db_ok d'"
  by (simp add: only_own_def)

lemma only_own_same: "db_ok (db w) \<Longrightarrow> db w' = db w \<Longrightarrow> only_own u (db w) (db w')"
  by (simp add: only_own_refl)

text \<open>A revocation, by the contract and the frame of the device session repository.\<close>

lemma revoke_frame:
  assumes "run_state (DS_RevokeByID DeviceSessionRepository i u) w = (r, w')"
  shows "not_devices (db w') = not_devices (db w)"
  using keepsD [OF exec_device_frame [of "db w" "DvRevoke i u"], of w r w'] assms by simp

lemma frame_views:
  "not_devices d' = not_devices d \<Longrightarrow>
     user_view d' = user_view d \<and> fid_view d' = fid_view d \<and> t_tokens d' = t_tokens d \<and> t_clients d' = t_clients d"
  by (cases d; cases d') (simp add: not_devices_def user_view_def fid_view_def fun_eq_iff)

lemma revoke_own:
  assumes "run_state (DS_RevokeByID DeviceSessionRepository i u) w = (r, w')" "db_ok (db w)" "i \<noteq> []"
  shows "only_own u (db w) (db w')"
proof (cases r)
  case (Inl e)
  with assms pg_devices.revoke_error have "db w' = db w" by blast
  then show ?thesis by (rule only_own_same [OF assms(2)])
next
  case (Inr x)
  note rd = pg_devices.revoke_done [OF assms(1) [unfolded Inr] assms(2)]
  obtain s where s: "device_view (db w) i = Some s" "dsUserID s = u"
    "device_view (db w') = (device_view (db w))(i \<mapsto> s\<lparr>dsRevokedAt := Some (clock w)\<rparr>)"
    using rd by blast
  have r: "refresh_view (db w') h = (case refresh_view (db w) h of
            Some r \<Rightarrow> if rtDeviceSessionID r = i then None else Some r | None \<Rightarrow> None)" for h
    using rd assms(3) by blast
  show ?thesis
    using rd s r frame_views [OF revoke_frame [OF assms(1)]]
    by (auto simp: only_own_def split: option.splits)
qed

lemma only_own_trans:
  assumes "only_own u a b" "only_own u b c"
  shows "only_own u a c"
proof -
  have dev: "case device_view a i of None \<Rightarrow> device_view b i = None
      | Some s \<Rightarrow> \<exists>s'. device_view b i = Some s' \<and> dsUserID s' = dsUserID s \<and> (dsUserID s \<noteq> u \<longrightarrow> s' = s)" for i
    using assms(1) unfolding only_own_def by blast
  have dev2: "case device_view b i of None \<Rightarrow> device_view c i = None
      | Some s \<Rightarrow> \<exists>s'. device_view c i = Some s' \<and> dsUserID s' = dsUserID s \<and> (dsUserID s \<noteq> u \<longrightarrow> s' = s)" for i
    using assms(2) unfolding only_own_def by blast
  have d: "case device_view a i of None \<Rightarrow> device_view c i = None
      | Some s \<Rightarrow> \<exists>s'. device_view c i = Some s' \<and> dsUserID s' = dsUserID s \<and> (dsUserID s \<noteq> u \<longrightarrow> s' = s)" for i
    using dev [of i] dev2 [of i] by (auto split: option.splits)
  have f: "case fid_view a k of None \<Rightarrow> fid_view c k = None
      | Some f \<Rightarrow> fiUserID f \<noteq> u \<longrightarrow> fid_view c k = Some f" for k
  proof -
    have "case fid_view a k of None \<Rightarrow> fid_view b k = None | Some f \<Rightarrow> fiUserID f \<noteq> u \<longrightarrow> fid_view b k = Some f"
      "case fid_view b k of None \<Rightarrow> fid_view c k = None | Some f \<Rightarrow> fiUserID f \<noteq> u \<longrightarrow> fid_view c k = Some f"
      using assms unfolding only_own_def by blast+
    then show ?thesis by (auto split: option.splits)
  qed
  have r: "refresh_view c h = refresh_view a h \<or> refresh_view c h = None \<and>
      (\<exists>r s. refresh_view a h = Some r \<and> device_view a (rtDeviceSessionID r) = Some s \<and> dsUserID s = u)" for h
  proof -
    have owner: "\<exists>s'. device_view a i = Some s' \<and> dsUserID s' = u" if "device_view b i = Some s" "dsUserID s = u" for i s
      using dev [of i] that by (auto split: option.splits)
    have "refresh_view b h = refresh_view a h \<or> refresh_view b h = None \<and>
        (\<exists>r s. refresh_view a h = Some r \<and> device_view a (rtDeviceSessionID r) = Some s \<and> dsUserID s = u)"
      "refresh_view c h = refresh_view b h \<or> refresh_view c h = None \<and>
        (\<exists>r s. refresh_view b h = Some r \<and> device_view b (rtDeviceSessionID r) = Some s \<and> dsUserID s = u)"
      using assms unfolding only_own_def by blast+
    with owner show ?thesis by metis
  qed
  have rest: "db_ok c" "t_tokens c = t_tokens a" "t_clients c = t_clients a" "v \<noteq> u \<Longrightarrow> user_view c v = user_view a v" for v
    using assms unfolding only_own_def by simp_all
  show ?thesis unfolding only_own_def by (intro conjI allI impI rest d f r)
qed

lemma revoke_others_own:
  assumes "run_state (revoke_others idp_devices u c ss) w = (r, w')" "db_ok (db w)" "\<forall>s \<in> set ss. dsID s \<noteq> []"
  shows "only_own u (db w) (db w')"
  using assms
proof (induction ss arbitrary: w)
  case Nil
  then show ?case by (simp add: only_own_refl)
next
  case (Cons s ss)
  show ?case
  proof (cases "dsID s = c")
    case True
    with Cons show ?thesis by simp
  next
    case False
    then obtain x w1 where run: "run_state (DS_RevokeByID DeviceSessionRepository (dsID s) u) w = (x, w1)"
      "run_state (revoke_others idp_devices u c ss) w1 = (r, w')"
      using Cons.prems(1) by (auto simp: deviceSessionService_RevokeByID_def idp_devices_def split: prod.splits)
    have "only_own u (db w) (db w1)" using revoke_own [OF run(1) Cons.prems(2)] Cons.prems(3) by simp
    moreover from this have "only_own u (db w1) (db w')"
      using Cons.IH [OF run(2)] Cons.prems(3) only_own_ok by simp
    ultimately show ?thesis by (rule only_own_trans)
  qed
qed

lemma user_frame_views:
  "not_users d' = not_users d \<Longrightarrow> device_view d' = device_view d \<and> refresh_view d' = refresh_view d
     \<and> t_tokens d' = t_tokens d \<and> t_clients d' = t_clients d"
  by (cases d; cases d') (simp add: not_users_def device_view_def refresh_view_def fun_eq_iff)

lemma profile_own:
  assumes "run_state (UpdateLocalProfile (UserRepository agg) u nm pic t) w = (r, w')" "db_ok (db w)"
  shows "only_own u (db w) (db w')"
proof (cases r)
  case (Inl e)
  with assms pg_users.profile_error have "db w' = db w" by blast
  then show ?thesis by (rule only_own_same [OF assms(2)])
next
  case (Inr x)
  have "not_users (db w') = not_users (db w)"
    using keepsD [OF exec_user_frame [of "db w" agg "UsLocal u nm pic t"], of w r w'] assms(1) by simp
  from user_frame_views [OF this] show ?thesis
    using pg_users.profile_done [OF assms(1) [unfolded Inr] assms(2)]
    by (auto simp: only_own_def split: option.splits)
qed

lemma unlink_own:
  assumes "run_state (DeleteFederatedIdentity (UserRepository agg) i u) w = (r, w')" "db_ok (db w)"
  shows "only_own u (db w) (db w')"
proof (cases r)
  case (Inl e)
  with assms pg_users.delete_error have "db w' = db w" by blast
  then show ?thesis by (rule only_own_same [OF assms(2)])
next
  case (Inr x)
  have "not_users (db w') = not_users (db w)"
    using keepsD [OF exec_user_frame [of "db w" agg "UsDelete i u"], of w r w'] assms(1) by simp
  from user_frame_views [OF this] show ?thesis
    using pg_users.delete_done [OF assms(1) [unfolded Inr] assms(2)]
    by (auto simp: only_own_def split: option.splits)
qed

lemma get_same:
  "run_state (identityService_GetUser (UserRepository agg) u) w = (r, w') \<Longrightarrow> db_ok (db w) \<Longrightarrow> db w' = db w"
  by (cases r) (auto simp: identityService_GetUser_def split: prod.splits sum.splits
      dest: pg_users.get_done pg_users.get_error)

lemma sessions_same:
  "run_state (DS_ListActiveByUserID DeviceSessionRepository u) w = (r, w') \<Longrightarrow> db_ok (db w) \<Longrightarrow> db w' = db w"
  by (cases r) (auto dest: pg_devices.list_done pg_devices.list_error)

lemma providers_same:
  "run_state (ListFederatedIdentities (UserRepository agg) u) w = (r, w') \<Longrightarrow> db_ok (db w) \<Longrightarrow> db w' = db w"
  by (cases r) (auto dest: pg_users.list_done pg_users.list_error)

lemma own_same_of: "db w' = db w1 \<Longrightarrow> only_own u d (db w1) \<Longrightarrow> only_own u d (db w')"
  by simp

lemma sessions_named:
  assumes "run_state (DS_ListActiveByUserID DeviceSessionRepository u) w = (Inr ss, w')" "db_ok (db w)"
    "device_view (db w) [] = None"
  shows "\<forall>s \<in> set ss. dsID s \<noteq> []"
proof
  fix s assume "s \<in> set ss"
  then obtain i where "device_view (db w) i = Some s"
    using pg_devices.list_done [OF assms(1,2)] by (auto simp: ran_def)
  then show "dsID s \<noteq> []" using pg_devices.dev_key [OF assms(2)] assms(3) by fastforce
qed

lemma dispatch_own:
  assumes "run_state (accounts_dispatch (accountsHandler agg) u req) w = (r, w')" "db_ok (db w)"
    and "device_view (db w) [] = None"
  shows "only_own u (db w) (db w')"
proof (cases req)
  case GetMyProfileRequest
  with assms have "db w' = db w"
    by (auto simp: Handler_defs accountsHandler_def split: prod.splits sum.splits dest: get_same)
  then show ?thesis by (rule only_own_same [OF assms(2)])
next
  case (UpdateMyProfileRequest nm pic)
  with assms(1) obtain t x w1 where "run_state (UpdateLocalProfile (UserRepository agg) u nm pic t) (pass w) = (x, w1)"
    and rest: "w' = w1 \<or> (\<exists>y. run_state (identityService_GetUser (UserRepository agg) u) w1 = (y, w'))"
    by (auto simp: Handler_defs accountsHandler_def identityService_UpdateProfile_def split: prod.splits sum.splits)
  then have own: "only_own u (db w) (db w1)" using profile_own assms(2) by fastforce
  then have "db w' = db w1" using rest get_same only_own_ok by blast
  then show ?thesis by (rule own_same_of [OF _ own])
next
  case ListLinkedProvidersRequest
  with assms have "db w' = db w"
    by (auto simp: Handler_defs accountsHandler_def identityService_ListLinkedProviders_def
        split: prod.splits sum.splits dest: providers_same)
  then show ?thesis by (rule only_own_same [OF assms(2)])
next
  case (UnlinkProviderRequest i)
  with assms(1) have "w' = w \<or> w' = snd (run_state (DeleteFederatedIdentity (UserRepository agg) i u) w)"
    by (cases "i = []"; cases "run_state (DeleteFederatedIdentity (UserRepository agg) i u) w")
      (auto simp: Handler_defs accountsHandler_def identityService_UnlinkProvider_def split: sum.splits)
  then show ?thesis
    using unlink_own [OF surjective_pairing assms(2)] by (auto simp: only_own_refl assms(2))
next
  case ListActiveSessionsRequest
  with assms have "db w' = db w"
    by (auto simp: Handler_defs accountsHandler_def idp_devices_def deviceSessionService_ListActiveByUserID_def
        split: prod.splits sum.splits dest: sessions_same)
  then show ?thesis by (rule only_own_same [OF assms(2)])
next
  case (RevokeSessionRequest i)
  with assms(1) have "w' = w \<or> i \<noteq> [] \<and> w' = snd (run_state (DS_RevokeByID DeviceSessionRepository i u) w)"
    by (cases "i = []"; cases "run_state (DS_RevokeByID DeviceSessionRepository i u) w")
      (auto simp: Handler_defs accountsHandler_def idp_devices_def deviceSessionService_RevokeByID_def
        split: sum.splits)
  then show ?thesis
    using revoke_own [OF surjective_pairing assms(2)] by (auto simp: only_own_refl assms(2))
next
  case (RevokeAllOtherSessionsRequest c)
  with assms(1) obtain x w1 where l: "run_state (DS_ListActiveByUserID DeviceSessionRepository u) w = (x, w1)"
    and rest: "w' = w1 \<or> (\<exists>ss y. x = Inr ss \<and> run_state (revoke_others idp_devices u c ss) w1 = (y, w'))"
    by (auto simp: Handler_defs accountsHandler_def idp_devices_def deviceSessionService_ListActiveByUserID_def
        split: prod.splits sum.splits)
  have same: "db w1 = db w" by (rule sessions_same [OF l assms(2)])
  from rest show ?thesis
  proof (elim disjE exE conjE)
    assume "w' = w1"
    with same show ?thesis by (simp add: only_own_refl assms(2))
  next
    fix ss y assume "x = Inr ss" and run: "run_state (revoke_others idp_devices u c ss) w1 = (y, w')"
    with l assms have "\<forall>s \<in> set ss. dsID s \<noteq> []" using sessions_named by blast
    from revoke_others_own [OF run _ this] show ?thesis using same assms(2) by simp
  qed
qed

section \<open>Revoking all other sessions\<close>

text \<open>The sessions of \<open>u\<close> that \<open>RevokeAllOtherSessions\<close> ends.\<close>

definition other_session :: "string \<Rightarrow> string \<Rightarrow> identity_db \<Rightarrow> string \<Rightarrow> bool" where
  "other_session u c d i \<longleftrightarrow> i \<noteq> c \<and>
     (case device_view d i of None \<Rightarrow> False | Some s \<Rightarrow> dsUserID s = u \<and> dsRevokedAt s = None)"

lemma sessions_quiet:
  assumes "quiet w" "db_ok (db w)"
  obtains ss where "run_state (DS_ListActiveByUserID DeviceSessionRepository u) w = (Inr ss, pass w)"
    "distinct (map dsID ss)" "\<forall>i. i \<in> dsID ` set ss \<longleftrightarrow> (\<exists>s. device_view (db w) i = Some s \<and> dsUserID s = u \<and> dsRevokedAt s = None)"
proof -
  let ?rows = "filter (\<lambda>r. dr_user_id r = u \<and> dr_revoked_at r = None) (t_device_sessions (db w))"
  let ?ss = "map scanDeviceSession (sql_order_desc dr_last_used_at ?rows)"
  have run: "run_state (DS_ListActiveByUserID DeviceSessionRepository u) w = (Inr ?ss, pass w)"
    using assms(1) by (simp add: DeviceSessionRepository_defs run_db_exec_quiet sql_list_active_def)
  have "distinct (map dr_id (t_device_sessions (db w)))" using assms(2) by simp
  then have "distinct (map dr_id ?rows)" by (rule distinct_map_filter)
  then have dist: "distinct (map dsID ?ss)" by (simp add: distinct_map comp_def sql_order_desc_def inj_on_def)
  have ids: "\<forall>i. i \<in> dsID ` set ?ss \<longleftrightarrow> (\<exists>s. device_view (db w) i = Some s \<and> dsUserID s = u \<and> dsRevokedAt s = None)"
  proof -
    have "(\<exists>s. device_view (db w) i = Some s \<and> dsUserID s = u \<and> dsRevokedAt s = None) \<longleftrightarrow>
        (\<exists>r \<in> set ?rows. dr_id r = i)" for i
      unfolding device_view_Some [OF assms(2)] by auto
    then show ?thesis by (simp add: sql_order_desc_def image_image image_iff) blast
  qed
  show thesis using that [OF run dist ids] .
qed

lemma revoke_quiet:
  assumes "quiet w" "device_view (db w) i = Some s" "dsUserID s = u" "dsRevokedAt s = None"
  obtains (revoked) w' where "run_state (DS_RevokeByID DeviceSessionRepository i u) w = (Inr (), w')"
    "quiet w'" "clock w \<le> clock w'"
proof -
  obtain r where r: "r \<in> set (t_device_sessions (db w))" "dr_id r = i" "dr_user_id r = u" "dr_revoked_at r = None"
    using assms(2-4) by (auto simp: device_view_def dest!: find_SomeD)
  then have n: "sql_count (\<lambda>r. dr_id r = i \<and> dr_user_id r = u \<and> dr_revoked_at r = None) (t_device_sessions (db w)) \<noteq> 0"
    by (auto simp: sql_count_def filter_empty_conv)
  have "\<exists>w'. run_state (DS_RevokeByID DeviceSessionRepository i u) w = (Inr (), w') \<and> quiet w' \<and> clock w \<le> clock w'"
    using assms(1) n by (simp add: DeviceSessionRepository_defs in_tx_def tx_Begin_def tx_Commit_def tx_exec_def
      run_db_exec_quiet sql_revoke_device_def sql_delete_refresh_def Let_def)
  then show thesis using that by blast
qed

lemma revoke_others_run:
  assumes "quiet w" "db_ok (db w)" "distinct (map dsID ss)"
    and "\<forall>i \<in> dsID ` set ss. i \<noteq> [] \<and> (\<exists>s. device_view (db w) i = Some s \<and> dsUserID s = u \<and> dsRevokedAt s = None)"
    and "run_state (revoke_others idp_devices u c ss) w = (r, w')"
  shows "quiet w' \<and> clock w \<le> clock w' \<and> db_ok (db w')
    \<and> (\<forall>i \<in> dsID ` set ss - {c}. \<exists>s t. device_view (db w) i = Some s \<and> clock w \<le> t
         \<and> device_view (db w') i = Some (s\<lparr>dsRevokedAt := Some t\<rparr>))
    \<and> (\<forall>i. i \<notin> dsID ` set ss - {c} \<longrightarrow> device_view (db w') i = device_view (db w) i)
    \<and> (\<forall>h. refresh_view (db w') h = (case refresh_view (db w) h of None \<Rightarrow> None
         | Some k \<Rightarrow> if rtDeviceSessionID k \<in> dsID ` set ss - {c} then None else Some k))"
  using assms
proof (induction ss arbitrary: w)
  case Nil
  then show ?case by (auto split: option.splits)
next
  case (Cons s ss)
  show ?case
  proof (cases "dsID s = c")
    case True
    then have eq: "dsID ` set (s # ss) - {c} = dsID ` set ss - {c}" by auto
    show ?thesis unfolding eq by (rule Cons.IH) (use Cons.prems True in auto)
  next
    case False
    let ?i = "dsID s"
    obtain s0 where s0: "device_view (db w) ?i = Some s0" "dsUserID s0 = u" "dsRevokedAt s0 = None" and ne: "?i \<noteq> []"
      using Cons.prems(4) by auto
    obtain w1 where run1: "run_state (DS_RevokeByID DeviceSessionRepository ?i u) w = (Inr (), w1)"
      and w1: "quiet w1" "clock w \<le> clock w1"
      by (rule revoke_quiet [OF Cons.prems(1) s0])
    have run2: "run_state (revoke_others idp_devices u c ss) w1 = (r, w')"
      using Cons.prems(5) False run1 by (simp add: deviceSessionService_RevokeByID_def idp_devices_def)
    note rd = pg_devices.revoke_done [OF run1 Cons.prems(2)]
    have dev: "device_view (db w1) = (device_view (db w))(?i \<mapsto> s0\<lparr>dsRevokedAt := Some (clock w)\<rparr>)"
      using rd s0 by auto
    have ref: "refresh_view (db w1) h = (case refresh_view (db w) h of
            Some r \<Rightarrow> if rtDeviceSessionID r = ?i then None else Some r | None \<Rightarrow> None)" for h
      using rd ne by blast
    have fresh: "?i \<notin> dsID ` set ss" using Cons.prems(3) by simp
    have pre: "\<forall>i \<in> dsID ` set ss. i \<noteq> [] \<and> (\<exists>s. device_view (db w1) i = Some s \<and> dsUserID s = u \<and> dsRevokedAt s = None)"
    proof
      fix i assume "i \<in> dsID ` set ss"
      with Cons.prems(4) fresh show "i \<noteq> [] \<and> (\<exists>s. device_view (db w1) i = Some s \<and> dsUserID s = u \<and> dsRevokedAt s = None)"
        by (metis dev fun_upd_other image_eqI image_insert insertI2 list.simps(15))
    qed
    have ok1: "db_ok (db w1)" using rd by blast
    have "distinct (map dsID ss)" using Cons.prems(3) by simp
    from Cons.IH [OF w1(1) ok1 this pre run2] have
      q: "quiet w'" "clock w1 \<le> clock w'" "db_ok (db w')"
      and d1: "\<And>i. i \<in> dsID ` set ss - {c} \<Longrightarrow> \<exists>s t. device_view (db w1) i = Some s \<and> clock w1 \<le> t
         \<and> device_view (db w') i = Some (s\<lparr>dsRevokedAt := Some t\<rparr>)"
      and d2: "\<And>i. i \<notin> dsID ` set ss - {c} \<Longrightarrow> device_view (db w') i = device_view (db w1) i"
      and r2: "\<And>h. refresh_view (db w') h = (case refresh_view (db w1) h of None \<Rightarrow> None
         | Some k \<Rightarrow> if rtDeviceSessionID k \<in> dsID ` set ss - {c} then None else Some k)"
      by blast+
    have A: "\<exists>x t. device_view (db w) i = Some x \<and> clock w \<le> t \<and> device_view (db w') i = Some (x\<lparr>dsRevokedAt := Some t\<rparr>)"
      if i: "i \<in> dsID ` set (s # ss) - {c}" for i
    proof (cases "i = ?i")
      case True
      with fresh d2 [of ?i] s0 show ?thesis by (auto simp: dev)
    next
      case ne: False
      with i have "i \<in> dsID ` set ss - {c}" by auto
      from d1 [OF this] ne w1(2) show ?thesis by (auto simp: dev intro: order_trans)
    qed
    have B: "device_view (db w') i = device_view (db w) i" if "i \<notin> dsID ` set (s # ss) - {c}" for i
      using that d2 [of i] False by (auto simp: dev)
    have C: "refresh_view (db w') h = (case refresh_view (db w) h of None \<Rightarrow> None
         | Some k \<Rightarrow> if rtDeviceSessionID k \<in> dsID ` set (s # ss) - {c} then None else Some k)" for h
      using r2 [of h] ref [of h] False by (auto split: option.splits)
    show ?thesis using q w1(2) A B C by auto
  qed
qed

section \<open>Keys and tokens\<close>

lemma verify_loop_find:
  "verify_loop lib raw kid ks None =
     Option.bind (find (\<lambda>k. pkID k = kid \<and> jws_verify lib raw (pkKey k) \<noteq> None) ks) (\<lambda>k. jws_verify lib raw (pkKey k))"
  by (induction ks) (auto split: option.splits)

text \<open>The identifier a token names: the one of its first signature.\<close>

definition token_kid :: "string list \<Rightarrow> string" where
  "token_kid kids = (case kids of [] \<Rightarrow> [] | k # _ \<Rightarrow> k)"

lemma verifyJWT_Inr:
  assumes "\<forall>k k' p p'. jws_verify lib raw k = Some p \<longrightarrow> jws_verify lib raw k' = Some p' \<longrightarrow> p = p'"
  shows "verifyJWT lib raw ks = Inr c \<longleftrightarrow> (\<exists>kids k p. jws_parse lib raw = Some kids \<and> k \<in> set (PublicKeySet_All ks)
    \<and> pkID k = token_kid kids \<and> jws_verify lib raw (pkKey k) = Some p \<and> jws_claims lib p = Some c)"
    (is "?L = ?R")
proof
  assume ?L
  then show ?R
    by (auto simp: verifyJWT_def Let_def verify_loop_find token_kid_def [symmetric] find_Some_iff bind_eq_Some_conv
        split: option.splits) (metis nth_mem)
next
  assume ?R
  then obtain kids k p where k: "jws_parse lib raw = Some kids" "k \<in> set (PublicKeySet_All ks)" "pkID k = token_kid kids"
    "jws_verify lib raw (pkKey k) = Some p" "jws_claims lib p = Some c" by blast
  let ?ok = "\<lambda>k. pkID k = token_kid kids \<and> jws_verify lib raw (pkKey k) \<noteq> None"
  obtain k2 where k2: "find ?ok (PublicKeySet_All ks) = Some k2"
    using k by (cases "find ?ok (PublicKeySet_All ks)") (auto simp: find_None_iff)
  then have "?ok k2" by (auto simp: find_Some_iff)
  then have "jws_verify lib raw (pkKey k2) = Some p" using assms k(4) by fastforce
  with k k2 show ?L
    by (simp add: verifyJWT_def Let_def verify_loop_find token_kid_def [symmetric])
qed

text \<open>
  Key rotation. A token is accepted exactly when a key of the set has the identifier the
  token names, verifies its signature and yields the claims; and a token accepted before a new
  signing key is installed, with the old one kept among the previous keys, is accepted with the
  same claims afterwards. The hypothesis is what a JWS library documents: the payload does not
  depend on the key that verified it.
\<close>

theorem signing_key_rotation:
  assumes "\<And>raw k k' p p'. jws_verify lib raw k = Some p \<Longrightarrow> jws_verify lib raw k' = Some p' \<Longrightarrow> p = p'"
    and "verifyJWT lib raw (NewPublicKeySet sha256 der old previous) = Inr c"
  shows "verifyJWT lib raw (NewPublicKeySet sha256 der new (old # previous)) = Inr c
    \<and> (\<exists>kids k p. jws_parse lib raw = Some kids \<and> k \<in> set (old # previous)
         \<and> deriveKeyID sha256 der k = token_kid kids \<and> jws_verify lib raw k = Some p \<and> jws_claims lib p = Some c)
    \<and> (\<forall>k \<in> set (new # old # previous). NewPublicKey sha256 der k
         \<in> set (StorageAdapter_KeySet (NewPublicKeySet sha256 der new (old # previous))))"
proof (intro conjI)
  have law: "\<forall>k k' p p'. jws_verify lib raw k = Some p \<longrightarrow> jws_verify lib raw k' = Some p' \<longrightarrow> p = p'"
    using assms(1) by blast
  note sets = PublicKeySet_All_def NewPublicKeySet_def NewPublicKey_def
  show "verifyJWT lib raw (NewPublicKeySet sha256 der new (old # previous)) = Inr c"
    using assms(2) unfolding verifyJWT_Inr [OF law] by (auto simp: sets)
  show "\<exists>kids k p. jws_parse lib raw = Some kids \<and> k \<in> set (old # previous)
      \<and> deriveKeyID sha256 der k = token_kid kids \<and> jws_verify lib raw k = Some p \<and> jws_claims lib p = Some c"
    using assms(2) unfolding verifyJWT_Inr [OF law] by (auto simp: sets) blast+
  show "\<forall>k \<in> set (new # old # previous). NewPublicKey sha256 der k
      \<in> set (StorageAdapter_KeySet (NewPublicKeySet sha256 der new (old # previous)))"
    by (simp add: StorageAdapter_KeySet_def sets)
qed

text \<open>Sample keys are numbers; a sample token is verified by key 7 and carries user \<open>u1\<close>.\<close>

definition sample_der :: "nat \<Rightarrow> byte list" where
  "sample_der k = replicate k 0"

definition sample_jws :: "nat jws_lib" where
  "sample_jws = \<lparr>jws_parse = \<lambda>raw. if raw = ''tok'' then Some [deriveKeyID sample_sha sample_der 7] else None,
     jws_verify = \<lambda>raw k. if raw = ''tok'' \<and> k = 7 then Some [1] else None,
     jws_claims = \<lambda>p. if p = [1] then Some \<lparr>jcSubject = ''u1'', jcExpiry = 100, jcIssuer = ''iss''\<rparr> else None\<rparr>"

lemma sample_verify:
  "verifyJWT sample_jws ''tok'' (NewPublicKeySet sample_sha sample_der 7 []) =
     Inr \<lparr>jcSubject = ''u1'', jcExpiry = 100, jcIssuer = ''iss''\<rparr>"
  by (simp add: verifyJWT_def sample_jws_def NewPublicKeySet_def NewPublicKey_def PublicKeySet_All_def)

theorem signing_key_rotation_witness:
  "verifyJWT sample_jws ''tok'' (NewPublicKeySet sample_sha sample_der 9 [7]) =
     Inr \<lparr>jcSubject = ''u1'', jcExpiry = 100, jcIssuer = ''iss''\<rparr>"
  by (rule signing_key_rotation [THEN conjunct1, OF _ sample_verify]) (auto simp: sample_jws_def split: if_splits)


section \<open>Calls\<close>

lemma interceptor_cases:
  assumes "run_state (JWTAuthInterceptor lib keys issuer md handler) w = (r, w')"
  obtains (refused) m where "r = Inl (StatusErr Unauthenticated m)" "db w' = db w"
  | (accepted) raw c where "JWT_extractBearerToken md = Inr raw" "verifyJWT lib raw keys = Inr c"
      "jcIssuer c = issuer" "clock w div Second \<le> jcExpiry c" "jcSubject c \<noteq> []"
      "run_state (handler (jcSubject c)) (pass w) = (r, w')"
proof (cases "JWT_extractBearerToken md")
  case (Inl e)
  moreover from this have "\<exists>m. e = StatusErr Unauthenticated m"
    by (auto simp: JWT_extractBearerToken_def split: option.splits list.splits if_splits)
  ultimately show ?thesis using assms refused by (auto simp: JWTAuthInterceptor_def)
next
  case (Inr raw)
  then show ?thesis
    using assms refused accepted [of raw]
    by (cases "verifyJWT lib raw keys") (auto simp: JWTAuthInterceptor_def split: if_splits)
qed

lemma rpc_confined:
  assumes "run_state (accounts_rpc agg lib keys issuer md req) w = (r, w')" "db_ok (db w)"
    and "device_view (db w) [] = None"
  shows "((\<exists>m. r = Inl (StatusErr Unauthenticated m)) \<and> db w' = db w)
    \<or> (\<exists>raw c. JWT_extractBearerToken md = Inr raw \<and> verifyJWT lib raw keys = Inr c
         \<and> jcIssuer c = issuer \<and> clock w div Second \<le> jcExpiry c \<and> jcSubject c \<noteq> []
         \<and> only_own (jcSubject c) (db w) (db w'))"
  using assms(1) unfolding accounts_rpc_def
proof (cases rule: interceptor_cases)
  case (accepted raw c)
  then show ?thesis using dispatch_own [OF accepted(6)] assms(2,3) by auto
qed auto

text \<open>
  C7: Calls of the account API are authenticated and confined to the caller. Either the call is
  refused as unauthenticated and changes nothing, or it carries a bearer token that verifies
  against the published keys, has the issuer, an expiry that is not past and a subject, and its
  effect is on that subject's profile, identities and sessions only.
\<close>

theorem accounts_rpc_confined:
  assumes "run_state (accounts_rpc agg lib keys issuer md req) w = (r, w')" "db_ok (db w)"
    and "device_view (db w) [] = None"
  shows "((\<exists>m. r = Inl (StatusErr Unauthenticated m)) \<and> db w' = db w)
    \<or> (\<exists>raw c. JWT_extractBearerToken md = Inr raw \<and> verifyJWT lib raw keys = Inr c
         \<and> jcIssuer c = issuer \<and> clock w div Second \<le> jcExpiry c \<and> jcSubject c \<noteq> []
         \<and> only_own (jcSubject c) (db w) (db w'))"
  by (rule rpc_confined [OF assms])

definition sample_md :: "grpc_metadata option" where
  "sample_md = Some (\<lambda>k. if k = ''authorization'' then [''Bearer tok''] else [])"

definition sample_keys :: "nat PublicKeySet" where
  "sample_keys = NewPublicKeySet sample_sha sample_der 7 []"

lemma sample_token_ok [simp]: "JWT_extractBearerToken sample_md = Inr ''tok''"
  by (simp add: JWT_extractBearerToken_def sample_md_def strings_HasPrefix_def strings_TrimPrefix_def)

lemma sample_no_empty [simp]: "device_view sample_idb [] = None"
  by (simp add: sample_defs device_view_def)

theorem accounts_rpc_confined_witness:
  "\<exists>r w'. run_state (accounts_rpc True sample_jws sample_keys ''iss'' sample_md GetMyProfileRequest)
      (idle_world sample_idb) = (Inr r, w') \<and> only_own ''u1'' sample_idb (db w')"
proof -
  have "\<not> isl (fst (run_state (accounts_rpc True sample_jws sample_keys ''iss'' sample_md GetMyProfileRequest)
      (idle_world sample_idb)))"
    by (simp add: accounts_rpc_def JWTAuthInterceptor_def sample_keys_def sample_verify Handler_GetMyProfile_def
      accountsHandler_def identityService_GetUser_def UserRepository_defs run_db_exec sql_select_user_def sql_first_def
      sample_defs)
  from run_not_isl [OF this] obtain r w' where
    run: "run_state (accounts_rpc True sample_jws sample_keys ''iss'' sample_md GetMyProfileRequest)
      (idle_world sample_idb) = (Inr r, w')" by blast
  have "only_own ''u1'' sample_idb (db w')"
    using accounts_rpc_confined [OF run] by (simp add: sample_keys_def sample_verify)
  with run show ?thesis by blast
qed

text \<open>
  Errors of the account API. Whatever goes wrong below it, an error leaves the service as a
  gRPC status with one of six codes, and an internal failure is reported without its text.
\<close>

theorem accounts_rpc_errors:
  assumes "run_state (accounts_rpc agg lib keys issuer md req) w = (Inl e, w')"
  shows "\<exists>code m. e = StatusErr code m
    \<and> code \<in> {Unauthenticated, InvalidArgument, NotFound, PermissionDenied, FailedPrecondition, Internal}
    \<and> (code = Internal \<longrightarrow> m = ''internal error'')"
  using assms unfolding accounts_rpc_def
proof (cases rule: interceptor_cases)
  case (accepted raw c)
  then have "e = StatusErr InvalidArgument ''identity_id is required''
      \<or> e = StatusErr InvalidArgument ''session_id is required'' \<or> (\<exists>x. e = domainStatus x)"
    by (cases req) (auto simp: Handler_defs split: prod.splits sum.splits if_splits)
  then show ?thesis by (auto simp: domainStatus_def)
qed auto

theorem accounts_rpc_errors_witness:
  "\<exists>e w'. run_state (accounts_rpc True sample_jws sample_keys ''iss'' sample_md (RevokeSessionRequest ''d9''))
      (idle_world sample_idb) = (Inl e, w') \<and> (\<exists>code m. e = StatusErr code m)"
proof -
  have "isl (fst (run_state (accounts_rpc True sample_jws sample_keys ''iss'' sample_md (RevokeSessionRequest ''d9''))
      (idle_world sample_idb)))"
    by (simp add: accounts_rpc_def JWTAuthInterceptor_def sample_keys_def sample_verify Handler_RevokeSession_def
      accountsHandler_def idp_devices_def deviceSessionService_RevokeByID_def DeviceSessionRepository_defs in_tx_def
      tx_Begin_def tx_Commit_def tx_Rollback_def tx_exec_def run_db_exec sql_revoke_device_def sql_count_def Let_def sample_defs)
  from run_isl [OF this] obtain e w' where
    run: "run_state (accounts_rpc True sample_jws sample_keys ''iss'' sample_md (RevokeSessionRequest ''d9''))
      (idle_world sample_idb) = (Inl e, w')" by blast
  from accounts_rpc_errors [OF run] run show ?thesis by blast
qed

text \<open>
  C18: Signing out everywhere else. When nothing fails, revoking all other sessions revokes every
  active session of the user but the named one, with a revocation time that is not before the
  call, ends exactly the refresh tokens bound to those sessions, and leaves every other session
  as it was.
\<close>

theorem revoke_all_other_sessions:
  assumes "quiet w" "db_ok (db w)" "device_view (db w) [] = None"
    and "run_state (Handler_RevokeAllOtherSessions (accountsHandler agg) u c) w = (r, w')"
  shows "r = Inr EmptyResponse
    \<and> (\<forall>i s. device_view (db w) i = Some s \<longrightarrow>
         (if other_session u c (db w) i
          then \<exists>t \<ge> clock w. device_view (db w') i = Some (s\<lparr>dsRevokedAt := Some t\<rparr>)
          else device_view (db w') i = Some s))
    \<and> (\<forall>h. refresh_view (db w') h = (case refresh_view (db w) h of None \<Rightarrow> None
         | Some k \<Rightarrow> if other_session u c (db w) (rtDeviceSessionID k) then None else Some k))"
proof -
  obtain ss where ss: "run_state (DS_ListActiveByUserID DeviceSessionRepository u) w = (Inr ss, pass w)"
    "distinct (map dsID ss)"
    "\<forall>i. i \<in> dsID ` set ss \<longleftrightarrow> (\<exists>s. device_view (db w) i = Some s \<and> dsUserID s = u \<and> dsRevokedAt s = None)"
    by (rule sessions_quiet [OF assms(1,2)])
  have S: "i \<in> dsID ` set ss - {c} \<longleftrightarrow> other_session u c (db w) i" for i
    using ss(3) by (auto simp: other_session_def split: option.splits)
  obtain x where r: "r = Inr EmptyResponse" and run: "run_state (revoke_others idp_devices u c ss) (pass w) = (x, w')"
    using assms(4) ss(1) by (auto simp: Handler_RevokeAllOtherSessions_def accountsHandler_def idp_devices_def
        deviceSessionService_ListActiveByUserID_def split: prod.splits)
  have "\<forall>i \<in> dsID ` set ss. i \<noteq> [] \<and>
      (\<exists>s. device_view (db (pass w)) i = Some s \<and> dsUserID s = u \<and> dsRevokedAt s = None)"
  proof
    fix i assume "i \<in> dsID ` set ss"
    then obtain s where "device_view (db w) i = Some s" "dsUserID s = u" "dsRevokedAt s = None" using ss(3) by blast
    with assms(3) show "i \<noteq> [] \<and> (\<exists>s. device_view (db (pass w)) i = Some s \<and> dsUserID s = u \<and> dsRevokedAt s = None)"
      by auto
  qed
  note R = revoke_others_run [OF quiet_pass [OF assms(1)] _ ss(2) this run, unfolded S pass_sel, OF assms(2)]
  have "if other_session u c (db w) i
      then \<exists>t \<ge> clock w. device_view (db w') i = Some (s\<lparr>dsRevokedAt := Some t\<rparr>)
      else device_view (db w') i = Some s" if s: "device_view (db w) i = Some s" for i s
  proof (cases "other_session u c (db w) i")
    case True
    then have "i \<in> dsID ` set ss - {c}" using S by blast
    with R obtain x t where "device_view (db w) i = Some x" "clock w + int (tick w (step w)) \<le> t"
      "device_view (db w') i = Some (x\<lparr>dsRevokedAt := Some t\<rparr>)" by blast
    with True s show ?thesis by (simp add: exI [of _ t])
  next
    case False
    with R s show ?thesis by simp
  qed
  with R r show ?thesis by blast
qed

definition two_devices :: identity_db where
  "two_devices = sample_idb\<lparr>t_device_sessions := [sample_device, sample_device\<lparr>dr_id := ''d2''\<rparr>]\<rparr>"

theorem revoke_all_other_sessions_witness:
  "\<exists>r w'. run_state (Handler_RevokeAllOtherSessions (accountsHandler True) ''u1'' ''d2'') (idle_world two_devices) = (r, w')
     \<and> r = Inr EmptyResponse \<and> refresh_view (db w') sample_hash = None"
proof -
  obtain r w' where run: "run_state (Handler_RevokeAllOtherSessions (accountsHandler True) ''u1'' ''d2'')
      (idle_world two_devices) = (r, w')" by force
  have ok: "db_ok two_devices" "device_view two_devices [] = None"
    "other_session ''u1'' ''d2'' two_devices ''d1''"
    by (simp_all add: two_devices_def sample_defs db_ok_def fr_key_def device_view_def other_session_def)
  have old: "\<exists>k. refresh_view two_devices sample_hash = Some k \<and> rtDeviceSessionID k = ''d1''"
    by (simp add: two_devices_def sample_defs refresh_view_def scanRefreshToken_def)
  show ?thesis
    using revoke_all_other_sessions [OF _ _ _ run] ok old run by auto
qed

end
