(* ===== verification/ServerProps.thy ===== *)
theory ServerProps
  imports LimiterProps ServerInvariants AccountsProps
begin

text \<open>
  What the limiters of the identity service let through: a request to its HTTP port is refused
  without effect, or every bucket of its client on the route admits it and the route's handler runs.
\<close>

section \<open>Limited routes\<close>

lemma allow_cases:
  assumes "run_state (IPRateLimiter_allow lib l r) w = (ok, w')"
  obtains (internal) "isInternalRequest r" "ok" "w' = w"
  | (asked) t e where "\<not> isInternalRequest r" "clock w \<le> t" "ok = admits lib l (db w) (middleware_clientIP r) t"
      "db w' = (db w)(middleware_clientIP r \<mapsto> e)" "clock w \<le> clock w'"
      "enLimiter e = snd (rate_Allow lib (client_bucket lib l (db w) (middleware_clientIP r)) t)"
proof (cases "isInternalRequest r")
  case True
  with assms internal show thesis by (auto simp: IPRateLimiter_allow_def)
next
  case False
  let ?ip = "middleware_clientIP r" let ?t = "clock w + int (tick w (step w))"
  let ?a = "rate_Allow lib (client_bucket lib l (db w) ?ip) ?t"
  let ?e = "\<lparr>enLimiter = snd ?a, enLastSeen = clock w\<rparr>"
  have r: "ok = fst ?a \<and> db w' = (db w)(?ip \<mapsto> ?e) \<and> clock w \<le> clock w'"
    using assms False unfolding IPRateLimiter_allow_def modify_db_def touch_entry_def ask_entry_def client_bucket_def
    by (auto simp: Let_def split: prod.splits option.splits)
  show thesis by (rule asked [of ?t ?e]) (use r False in \<open>simp_all add: admits_def\<close>)
qed

text \<open>The middleware over a part of the process's memory.\<close>

lemma middleware_cases:
  assumes "run_state (IPRateLimiter_Middleware (\<lambda>r. on_part get put (IPRateLimiter_allow lib l r)) next_handler r h) w = (x, w')"
  obtains (refused) t m where "x = (h, http_Error [] ''rate limit exceeded'' 429)" "\<not> isInternalRequest r"
      "clock w \<le> t" "\<not> admits lib l (get (db w)) (middleware_clientIP r) t" "db w' = put m (db w)"
      "\<forall>a. a \<noteq> middleware_clientIP r \<longrightarrow> m a = get (db w) a"
  | (passed) w1 m where "run_state (next_handler r h) w1 = (x, w')" "clock w \<le> clock w1" "db w1 = put m (db w)"
      "\<forall>a. a \<noteq> middleware_clientIP r \<longrightarrow> m a = get (db w) a"
      "isInternalRequest r \<or> (\<exists>t \<ge> clock w. admits lib l (get (db w)) (middleware_clientIP r) t)"
proof -
  obtain ok w1 where p: "run_state (on_part get put (IPRateLimiter_allow lib l r)) w = (ok, w1)" by fastforce
  then obtain v v' where v: "run_state (IPRateLimiter_allow lib l r) v = (ok, v')" "db v = get (db w)" "clock v = clock w"
    "db w1 = put (db v') (db w)" "clock w1 = clock v'" by (rule run_on_part) blast
  from assms p have x: "if ok then run_state (next_handler r h) w1 = (x, w')
      else x = (h, http_Error [] ''rate limit exceeded'' 429) \<and> w' = w1"
    by (auto simp: IPRateLimiter_Middleware_def)
  from v(1) show thesis
  proof (cases rule: allow_cases)
    case internal
    with x v passed [of w1 "get (db w)"] show thesis by simp
  next
    case (asked t e)
    show thesis
    proof (cases ok)
      case True
      with asked x v passed [of w1 "db v'"] show thesis by auto
    next
      case False
      with asked x v refused [of t "db v'"] show thesis by simp
    qed
  qed
qed

text \<open>The limiters a route passes, the global one first, each with its table.\<close>

definition route_limits ::
  "'f idp_limiters option \<Rightarrow> idp_route \<Rightarrow> http_request \<Rightarrow> 'l idp_memory \<Rightarrow> ('f IPRateLimiter \<times> 'l entries) list" where
  "route_limits limiters rt r d =
     (case limiters of
        None \<Rightarrow> []
      | Some ls \<Rightarrow> (ilGlobal ls, imGlobal d) #
          (if in_login rt then [(ilLogin ls, imLogin d)]
           else if rt = ProviderRoute \<and> rqPath r \<in> set token_paths then [(ilToken ls, imToken d)] else []))"

definition others_kept :: "string \<Rightarrow> 'l idp_memory \<Rightarrow> 'l idp_memory \<Rightarrow> bool" where
  "others_kept ip d d' \<longleftrightarrow> (\<forall>a. a \<noteq> ip \<longrightarrow>
     imGlobal d' a = imGlobal d a \<and> imLogin d' a = imLogin d a \<and> imToken d' a = imToken d a)"

definition secured :: "headers \<Rightarrow> bool" where
  "secured h \<longleftrightarrow> map_of h ''X-Content-Type-Options'' = Some ''nosniff'' \<and> map_of h ''X-Frame-Options'' = Some ''DENY''
     \<and> map_of h ''Referrer-Policy'' = Some ''strict-origin-when-cross-origin''
     \<and> map_of h ''Strict-Transport-Security'' = Some ''max-age=63072000; includeSubDomains; preload''"

lemma header_Set_lookup [simp]: "map_of (header_Set k v h) k' = (if k' = k then Some v else map_of h k')"
  by (induction h) (auto simp: header_Set_def)

lemma SecurityHeaders_secured: "\<exists>h'. SecurityHeaders next_handler r h = next_handler r h' \<and> secured h'"
  unfolding SecurityHeaders_def Let_def secured_def by (intro exI conjI, rule refl) simp_all

text \<open>
  What serving a request at the time \<open>c\<close> comes to, given the limiters with their tables: a refusal
  by one of them, or the run of the route's handler.
\<close>

definition limiter_refused ::
  "('f, 'l) rate_lib \<Rightarrow> ('f IPRateLimiter \<times> 'l entries) list \<Rightarrow> http_request \<Rightarrow> int \<Rightarrow> identity_db
   \<Rightarrow> headers \<times> http_response \<Rightarrow> identity_db \<Rightarrow> bool" where
  "limiter_refused lib ls r c d x d' \<longleftrightarrow>
     snd x = http_Error [] ''rate limit exceeded'' 429 \<and> secured (fst x) \<and> d' = d \<and> \<not> isInternalRequest r
     \<and> (\<exists>(l, m) \<in> set ls. \<exists>t \<ge> c. \<not> admits lib l m (middleware_clientIP r) t)"

definition handler_ran ::
  "('f, 'l) rate_lib \<Rightarrow> ('f IPRateLimiter \<times> 'l entries) list \<Rightarrow> 'f idp_server \<Rightarrow> idp_route \<Rightarrow> http_request \<Rightarrow> int
   \<Rightarrow> identity_db \<Rightarrow> headers \<times> http_response \<Rightarrow> identity_db \<Rightarrow> bool" where
  "handler_ran lib ls s rt r c d x d' \<longleftrightarrow>
     (isInternalRequest r \<or> (\<forall>(l, m) \<in> set ls. \<exists>t \<ge> c. admits lib l m (middleware_clientIP r) t))
     \<and> (\<exists>h v v'. secured h \<and> run_state (idp_handler s rt r h) v = (x, v') \<and> c \<le> clock v \<and> db v = d \<and> d' = db v')"

definition outcome ::
  "('f, 'l) rate_lib \<Rightarrow> ('f IPRateLimiter \<times> 'l entries) list \<Rightarrow> 'f idp_server \<Rightarrow> idp_route \<Rightarrow> http_request \<Rightarrow> int
   \<Rightarrow> 'l idp_memory \<Rightarrow> headers \<times> http_response \<Rightarrow> 'l idp_memory \<Rightarrow> bool" where
  "outcome lib ls s rt r c d x d' \<longleftrightarrow> others_kept (middleware_clientIP r) d d'
     \<and> (limiter_refused lib ls r c (imDb d) x (imDb d') \<or> handler_ran lib ls s rt r c (imDb d) x (imDb d'))"

lemma outcome_handler:
  assumes "run_state (on_idb (idp_handler s rt r h)) w = (x, w')" "secured h"
  shows "outcome lib [] s rt r (clock w) (db w) x (db w')"
proof -
  from assms(1) obtain v v' where "run_state (idp_handler s rt r h) v = (x, v')" "db v = imDb (db w)" "clock v = clock w"
    "db w' = (db w)\<lparr>imDb := db v'\<rparr>" unfolding on_idb_def by (rule run_on_part) blast
  then have "handler_ran lib [] s rt r (clock w) (imDb (db w)) x (imDb (db w'))"
    unfolding handler_ran_def using assms(2) by (simp, metis order_refl)
  then show ?thesis using \<open>db w' = _\<close> by (simp add: outcome_def others_kept_def)
qed

lemma later:
  assumes "\<forall>(l, m) \<in> set ls. \<exists>t \<ge> c1. P l m t" "c \<le> (c1 :: int)"
  shows "\<forall>(l, m) \<in> set ls. \<exists>t \<ge> c. P l m t"
proof clarify
  fix l m assume "(l, m) \<in> set ls"
  with assms(1) obtain t where "c1 \<le> t" "P l m t" by blast
  with assms(2) show "\<exists>t \<ge> c. P l m t" by (auto intro: order_trans)
qed

lemma outcome_Cons:
  assumes "outcome lib ls s rt r c1 d1 x d'" "c \<le> c1" "others_kept (middleware_clientIP r) d d1" "imDb d1 = imDb d"
    and "isInternalRequest r \<or> (\<exists>t \<ge> c. admits lib l m (middleware_clientIP r) t)"
  shows "outcome lib ((l, m) # ls) s rt r c d x d'"
proof -
  have "others_kept (middleware_clientIP r) d d'" using assms(1,3) by (simp add: outcome_def others_kept_def)
  moreover have "limiter_refused lib ((l, m) # ls) r c (imDb d) x (imDb d')"
    if "limiter_refused lib ls r c1 (imDb d1) x (imDb d')"
  proof -
    from that assms(2) have "\<exists>(l, m) \<in> set ((l, m) # ls). \<exists>t \<ge> c. \<not> admits lib l m (middleware_clientIP r) t"
      unfolding limiter_refused_def by (fastforce intro: order_trans)
    with that assms(4) show ?thesis by (simp only: limiter_refused_def simp_thms)
  qed
  moreover have "handler_ran lib ((l, m) # ls) s rt r c (imDb d) x (imDb d')"
    if "handler_ran lib ls s rt r c1 (imDb d1) x (imDb d')"
  proof -
    from that obtain h v v' where r: "secured h" "run_state (idp_handler s rt r h) v = (x, v')" "c1 \<le> clock v"
      "db v = imDb d1" "imDb d' = db v'" by (auto simp: handler_ran_def)
    have "\<exists>h v v'. secured h \<and> run_state (idp_handler s rt r h) v = (x, v') \<and> c \<le> clock v \<and> db v = imDb d
        \<and> imDb d' = db v'"
      by (intro exI [of _ h] exI [of _ v] exI [of _ v']) (use r assms(2,4) in simp)
    moreover have "isInternalRequest r \<or> (\<forall>(l, m) \<in> set ((l, m) # ls). \<exists>t \<ge> c. admits lib l m (middleware_clientIP r) t)"
    proof (cases "isInternalRequest r")
      case False
      with that have "\<forall>(l, m) \<in> set ls. \<exists>t \<ge> c1. admits lib l m (middleware_clientIP r) t"
        by (simp add: handler_ran_def)
      from later [OF this assms(2)] False assms(5) show ?thesis by simp
    qed simp
    ultimately show ?thesis by (simp only: handler_ran_def simp_thms)
  qed
  ultimately show ?thesis using assms(1) by (auto simp: outcome_def)
qed

text \<open>A limiter in front of a handler, over one of the three tables.\<close>

definition table_of :: "('l idp_memory \<Rightarrow> 'l entries) \<Rightarrow> ('l entries \<Rightarrow> 'l idp_memory \<Rightarrow> 'l idp_memory) \<Rightarrow> bool" where
  "table_of get put \<longleftrightarrow> (\<forall>m d. imDb (put m d) = imDb d
     \<and> (\<forall>ip. (\<forall>a. a \<noteq> ip \<longrightarrow> m a = get d a) \<longrightarrow> others_kept ip d (put m d)))"

lemma tables:
  "table_of imGlobal (\<lambda>m d. d\<lparr>imGlobal := m\<rparr>)" "table_of imLogin (\<lambda>m d. d\<lparr>imLogin := m\<rparr>)"
  "table_of imToken (\<lambda>m d. d\<lparr>imToken := m\<rparr>)"
  by (simp_all add: table_of_def others_kept_def)

lemma outcome_middleware:
  assumes "run_state (IPRateLimiter_Middleware (\<lambda>r. on_part get put (IPRateLimiter_allow lib l r)) next_handler r h) w = (x, w')"
    and "table_of get put" "secured h"
    and "\<And>w1 m. run_state (next_handler r h) w1 = (x, w') \<Longrightarrow> db w1 = put m (db w) \<Longrightarrow>
      outcome lib ls s rt r (clock w1) (db w1) x (db w')"
  shows "outcome lib ((l, get (db w)) # ls) s rt r (clock w) (db w) x (db w')"
  using assms(1)
proof (cases rule: middleware_cases)
  case (refused t m)
  then have "limiter_refused lib ((l, get (db w)) # ls) r (clock w) (imDb (db w)) x (imDb (db w'))"
    using assms(2,3) by (auto simp: limiter_refused_def table_of_def)
  with refused assms(2) show ?thesis by (simp add: outcome_def table_of_def)
next
  case (passed w1 m)
  show ?thesis
    by (rule outcome_Cons [OF assms(4) [OF passed(1,3)] passed(2)]) (use passed assms(2) in \<open>auto simp: table_of_def\<close>)
qed

lemma outcome_secure:
  assumes "run_state (SecurityHeaders next_handler r h) w = (x, w')"
    and "\<And>h. run_state (next_handler r h) w = (x, w') \<Longrightarrow> secured h \<Longrightarrow> P"
  shows P
  using SecurityHeaders_secured [of next_handler r h] assms by auto

lemma outcome_group:
  fixes w :: "'l idp_memory go_world"
  assumes "run_state (idp_group lib (srLimiters s) rt (\<lambda>r h. on_idb (idp_handler s rt r h)) r h) w = (x, w')"
    and "secured h" "srLimiters s \<noteq> None" "imLogin (db w) = imLogin d" "imToken (db w) = imToken d"
  shows "outcome lib (drop 1 (route_limits (srLimiters s) rt r d)) s rt r (clock w) (db w) x (db w')"
proof (cases "in_login rt")
  case True
  with assms obtain l where l: "drop 1 (route_limits (srLimiters s) rt r d) = [(l, imLogin (db w))]"
    "run_state (IPRateLimiter_Middleware (\<lambda>r. on_part imLogin (\<lambda>m d. d\<lparr>imLogin := m\<rparr>) (IPRateLimiter_allow lib l r))
       (SecurityHeaders (\<lambda>r h. on_idb (idp_handler s rt r h))) r h) w = (x, w')"
    by (auto simp: idp_group_def route_limits_def on_login_def)
  show ?thesis unfolding l(1)
    by (rule outcome_middleware [OF l(2) tables(2) assms(2)]) (blast intro: outcome_secure outcome_handler)
next
  case False
  show ?thesis
  proof (cases "rt = ProviderRoute \<and> rqPath r \<in> set token_paths")
    case True
    with False assms obtain l where l: "drop 1 (route_limits (srLimiters s) rt r d) = [(l, imToken (db w))]"
      "run_state (IPRateLimiter_Middleware (\<lambda>r. on_part imToken (\<lambda>m d. d\<lparr>imToken := m\<rparr>) (IPRateLimiter_allow lib l r))
         (\<lambda>r h. on_idb (idp_handler s rt r h)) r h) w = (x, w')"
      by (auto simp: idp_group_def route_limits_def on_token_def tokenPathLimiter_def)
    show ?thesis unfolding l(1)
      by (rule outcome_middleware [OF l(2) tables(3) assms(2)]) (blast intro: outcome_handler assms(2))
  next
    case rest: False
    with False assms have "drop 1 (route_limits (srLimiters s) rt r d) = []" "run_state ((\<lambda>r h. on_idb (idp_handler s rt r h)) r h) w = (x, w')"
      by (auto simp: idp_group_def route_limits_def tokenPathLimiter_def split: if_splits)
    then show ?thesis using outcome_handler assms(2) by metis
  qed
qed

lemma serve_outcome:
  fixes w :: "'l idp_memory go_world"
  assumes "run_state (idp_serve lib s rt r h) w = (x, w')"
    and "ls = route_limits (srLimiters s) rt r (db w)"
  shows "outcome lib ls s rt r (clock w) (db w) x (db w')"
proof -
  let ?inner = "\<lambda>r h. on_idb (idp_handler s rt r h) :: ('l idp_memory, headers \<times> http_response) io"
  show ?thesis
  proof (cases "srLimiters s")
    case None
    then have "run_state (SecurityHeaders (idp_group lib None rt ?inner) r h) w = (x, w')"
      using assms(1) by (simp add: idp_serve_def Let_def)
    then obtain h1 where h1: "run_state (idp_group lib None rt ?inner r h1) w = (x, w')" "secured h1"
      by (rule outcome_secure) blast
    obtain h2 where h2: "SecurityHeaders ?inner r h1 = ?inner r h2" "secured h2"
      using SecurityHeaders_secured [of ?inner r h1] by blast
    have "\<exists>h. run_state (?inner r h) w = (x, w') \<and> secured h"
      using h1 h2 by (cases "in_login rt") (auto simp: idp_group_def split: if_splits)
    then obtain h2 where "run_state (?inner r h2) w = (x, w')" "secured h2" by blast
    then show ?thesis using outcome_handler None assms(2) by (simp add: route_limits_def)
  next
    case (Some lim)
    let ?allow = "\<lambda>r. on_part imGlobal (\<lambda>m d. d\<lparr>imGlobal := m\<rparr>) (IPRateLimiter_allow lib (ilGlobal lim) r)"
    have "run_state (SecurityHeaders (IPRateLimiter_Middleware ?allow (idp_group lib (srLimiters s) rt ?inner)) r h) w = (x, w')"
      using assms(1) Some by (simp add: idp_serve_def Let_def on_global_def)
    then obtain h1 where h1: "run_state (IPRateLimiter_Middleware ?allow (idp_group lib (srLimiters s) rt ?inner) r h1) w = (x, w')"
      "secured h1" by (rule outcome_secure) blast
    have split: "ls = (ilGlobal lim, imGlobal (db w)) # drop 1 (route_limits (srLimiters s) rt r (db w))"
      using assms(2) Some by (simp add: route_limits_def)
    show ?thesis unfolding split
    proof (rule outcome_middleware [OF h1(1) tables(1) h1(2)])
      fix w1 m
      assume "run_state (idp_group lib (srLimiters s) rt ?inner r h1) w1 = (x, w')" "db w1 = db w\<lparr>imGlobal := m\<rparr>"
      then show "outcome lib (drop 1 (route_limits (srLimiters s) rt r (db w))) s rt r (clock w1) (db w1) x (db w')"
        using Some by (intro outcome_group [OF _ h1(2)]) simp_all
    qed
  qed
qed

text \<open>
  C27: Nothing gets past the limiters of the identity service. A request to its HTTP port is
  answered 429, without any effect on the database, when a bucket of its client on the route (the
  global one, then that of the login pages or of the token and introspection paths) refuses it;
  otherwise it is internal or every one of these buckets has admitted it, and the answer is the
  route's handler's, run on the database as it was. Every answer and every handler has the
  security headers, and buckets of other clients stay as they are.
\<close>

theorem rate_limits_guard:
  fixes w :: "'l idp_memory go_world"
  assumes "run_state (idp_serve lib s rt r h) w = (x, w')"
    and "ls = route_limits (srLimiters s) rt r (db w)"
  shows "others_kept (middleware_clientIP r) (db w) (db w')
    \<and> (limiter_refused lib ls r (clock w) (imDb (db w)) x (imDb (db w'))
       \<or> handler_ran lib ls s rt r (clock w) (imDb (db w)) x (imDb (db w')))"
  using serve_outcome [OF assms] by (simp only: outcome_def)

definition sample_limiters :: "unit idp_limiters" where
  "sample_limiters = \<lparr>ilGlobal = NewIPRateLimiter () 1, ilLogin = NewIPRateLimiter () 0, ilToken = NewIPRateLimiter () 1\<rparr>"

definition sample_idp_server :: "unit idp_server" where
  "sample_idp_server = \<lparr>srLimiters = Some sample_limiters,
     srLogin = loginHandler sample_libs 30 [] sample_aead sample_key id (\<lambda>_ _. Some []) sample_up,
     srProvider = \<lparr>opServeHTTP = \<lambda>r h. ret (h, http_OK []), opAuthCallbackURL = id\<rparr>,
     srPing = ret (Inr ()), srRpc = accounts_rpc True sample_jws sample_keys ''iss''\<rparr>"

definition sample_get :: http_request where
  "sample_get = \<lparr>rqMethod = ''GET'', rqPath = ''/login'',
     rqHeader = \<lambda>k. if k = ''CF-Connecting-IP'' then ''192.0.2.1'' else [], rqQuery = \<lambda>_. [], rqForm = None,
     rqCookie = \<lambda>_. None, rqRemoteAddr = ''1.2.3.4:5''\<rparr>"

lemma sample_get_external: "\<not> isInternalRequest sample_get" "middleware_clientIP sample_get = ''192.0.2.1''"
  by code_simp+

theorem rate_limits_guard_witness:
  "\<exists>x w'. run_state (idp_serve count_rate sample_idp_server SelectRoute sample_get [])
      (idle_world (idp_start sample_idb)) = (x, w')
    \<and> (rsStatus (snd x) = 429 \<longrightarrow> secured (fst x) \<and> imDb (db w') = sample_idb)
    \<and> rsStatus (snd x) = 429"
proof -
  obtain x w' where run: "run_state (idp_serve count_rate sample_idp_server SelectRoute sample_get [])
      (idle_world (idp_start sample_idb)) = (x, w')" by fastforce
  have "\<not> admits count_rate (ilLogin sample_limiters) no_entries ip t" for ip t
    by (simp add: admits_def client_bucket_def no_entries_def count_rate_def sample_limiters_def NewIPRateLimiter_def)
  then have "\<not> handler_ran count_rate (route_limits (Some sample_limiters) SelectRoute sample_get (idp_start sample_idb))
      sample_idp_server SelectRoute sample_get 0 sample_idb x (imDb (db w'))"
    by (simp add: handler_ran_def route_limits_def idp_start_def sample_get_external)
  with rate_limits_guard [OF run refl] have "limiter_refused count_rate
      (route_limits (Some sample_limiters) SelectRoute sample_get (idp_start sample_idb))
      sample_get 0 sample_idb x (imDb (db w'))"
    by (simp add: sample_idp_server_def idp_start_def)
  with run show ?thesis by (auto simp: limiter_refused_def)
qed

end
