(* ===== verification/ServerEffects.thy ===== *)
theory ServerEffects
  imports ServerProps IdentitySpec
begin

text \<open>
  The identity service as one process: which part of its memory an event may change and what it may do
  there, for a request on each route, a call of the account API and a tick of each loop, and that
  the process that \<open>runServer\<close> starts does nothing else.
\<close>

section \<open>What an event may do\<close>


definition links :: "identity_db \<Rightarrow> string \<times> string \<Rightarrow> string option" where
  "links d k = map_option fiUserID (fid_view d k)"


text \<open>
  A login: no token or client changes, identities are only added and keep their accounts, sessions
  are only added and keep their owner.
\<close>

definition login_frame :: "identity_db \<Rightarrow> identity_db \<Rightarrow> bool" where
  "login_frame d d' \<longleftrightarrow> t_tokens d' = t_tokens d \<and> t_refresh_tokens d' = t_refresh_tokens d
     \<and> t_clients d' = t_clients d \<and> links d \<subseteq>\<^sub>m links d' \<and> session_view d \<subseteq>\<^sub>m session_view d'"










section \<open>The provider\<close>









section \<open>The login pages\<close>


lemma login_frame_users [simp]: "login_frame d0 (d\<lparr>t_users := us\<rparr>) = login_frame d0 d"
proof -
  have "links (d\<lparr>t_users := us\<rparr>) = links d" "session_view (d\<lparr>t_users := us\<rparr>) = session_view d"
    by (simp_all add: links_def session_view_def fid_view_def device_view_def fun_eq_iff)
  then show ?thesis by (simp add: login_frame_def)
qed

lemma login_frame_requests [simp]: "login_frame d0 (d\<lparr>t_auth_requests := qs\<rparr>) = login_frame d0 d"
proof -
  have "links (d\<lparr>t_auth_requests := qs\<rparr>) = links d" "session_view (d\<lparr>t_auth_requests := qs\<rparr>) = session_view d"
    by (simp_all add: links_def session_view_def fid_view_def device_view_def fun_eq_iff)
  then show ?thesis by (simp add: login_frame_def)
qed










section \<open>The account API\<close>



section \<open>The loops\<close>






section \<open>The process\<close>



















end
