(* ===== verification/CleanupLoops.thy ===== *)
theory CleanupLoops
  imports IdentityServer WebProps
begin

text \<open>
  The goroutines of \<open>identity-service/main.go\<close> that clean up in the background, as the loops they
  are: when they return, and that they go on otherwise.
\<close>

section \<open>Loops over a select\<close>

text \<open>
  What the \<open>select\<close> of a loop receives: a tick of its ticker, or that the context is done. With a
  tick comes what the rest of the process did to the state while the loop waited. Which one Go takes
  when both are ready is left open: the sequence of receptions is given.
\<close>

datatype 'w wakeup = Tick "'w \<Rightarrow> 'w" | Done

datatype 'w loop_end = Panicked string | Returned 'w

text \<open>The value \<open>None\<close> is a loop that never returns.\<close>

partial_function (option) select_loop :: "('w \<Rightarrow> 'w) \<Rightarrow> (nat \<Rightarrow> 'w wakeup) \<Rightarrow> nat \<Rightarrow> 'w \<Rightarrow> 'w option" where
  "select_loop round recv k w =
     (case recv k of
        Done \<Rightarrow> Some w
      | Tick others \<Rightarrow> select_loop round recv (Suc k) (round (others w)))"

text \<open>\<open>time.NewTicker\<close> panics for an interval that is not positive.\<close>

definition time_NewTicker :: "int \<Rightarrow> 'w option \<Rightarrow> 'w loop_end option" where
  "time_NewTicker d rest =
     (if d \<le> 0 then Some (Panicked ''non-positive interval for NewTicker'') else map_option Returned rest)"

text \<open>A round goes on with the state it left, whatever it answered: errors are logged.\<close>

definition round_of :: "('db, 'a) io \<Rightarrow> 'db go_world \<Rightarrow> 'db go_world" where
  "round_of m w = snd (run_state m w)"

definition runAuthRequestCleanup ::
  "'db authRequestService \<Rightarrow> int \<Rightarrow> (nat \<Rightarrow> 'db go_world wakeup) \<Rightarrow> 'db go_world \<Rightarrow> 'db go_world loop_end option" where
  "runAuthRequestCleanup svc ttl recv w =
     time_NewTicker ttl (select_loop (round_of (authRequestCleanup_round svc ttl)) recv 0 w)"

definition runTokenCleanupLoop ::
  "'db tokenService \<Rightarrow> int \<Rightarrow> (nat \<Rightarrow> 'db go_world wakeup) \<Rightarrow> 'db go_world \<Rightarrow> 'db go_world loop_end option" where
  "runTokenCleanupLoop svc interval recv w =
     time_NewTicker interval (select_loop (round_of (tokenCleanup_round svc)) recv 0 w)"

definition runDeviceSessionCleanup ::
  "'db deviceSessionService \<Rightarrow> int \<Rightarrow> (nat \<Rightarrow> 'db go_world wakeup) \<Rightarrow> 'db go_world \<Rightarrow> 'db go_world loop_end option" where
  "runDeviceSessionCleanup svc maxAge recv w =
     time_NewTicker (24 * Hour) (select_loop (round_of (deviceSessionCleanup_round svc maxAge)) recv 0 w)"

definition limiterCleanup ::
  "(nat \<Rightarrow> 'l idp_memory go_world wakeup) \<Rightarrow> 'l idp_memory go_world \<Rightarrow> 'l idp_memory go_world loop_end option" where
  "limiterCleanup recv w = time_NewTicker (10 * Minute) (select_loop (round_of limiterCleanup_round) recv 0 w)"

section \<open>When a loop returns\<close>

text \<open>The state after the first \<open>k\<close> ticks.\<close>

primrec after_ticks :: "('w \<Rightarrow> 'w) \<Rightarrow> (nat \<Rightarrow> 'w wakeup) \<Rightarrow> nat \<Rightarrow> 'w \<Rightarrow> 'w" where
  "after_ticks round recv 0 w = w"
| "after_ticks round recv (Suc k) w =
     (case recv k of
        Tick others \<Rightarrow> round (others (after_ticks round recv k w))
      | Done \<Rightarrow> after_ticks round recv k w)"

definition returns_when_done ::
  "((nat \<Rightarrow> 'w wakeup) \<Rightarrow> 'w \<Rightarrow> 'w loop_end option) \<Rightarrow> ('w \<Rightarrow> 'w) \<Rightarrow> bool" where
  "returns_when_done loop round \<longleftrightarrow> (\<forall>recv w.
     ((\<forall>k. recv k \<noteq> Done) \<longrightarrow> loop recv w = None)
     \<and> (\<forall>k. recv k = Done \<and> (\<forall>j < k. recv j \<noteq> Done) \<longrightarrow> loop recv w = Some (Returned (after_ticks round recv k w))))"

lemma select_loop_ticks:
  assumes "\<forall>j < k. recv j \<noteq> Done"
  shows "select_loop round recv 0 w = select_loop round recv k (after_ticks round recv k w)"
  using assms
proof (induction k)
  case (Suc k)
  then obtain others where "recv k = Tick others" by (cases "recv k") auto
  with Suc show ?case by (simp add: select_loop.simps [of round recv k])
qed simp

lemma select_loop_done:
  assumes "recv k = Done" "\<forall>j < k. recv j \<noteq> Done"
  shows "select_loop round recv 0 w = Some (after_ticks round recv k w)"
  using select_loop_ticks [OF assms(2)] assms(1) by (simp add: select_loop.simps [of round recv k])

text \<open>A loop that returns has received that its context is done.\<close>

lemma select_loop_Some:
  assumes "select_loop round recv k w = Some v"
  shows "\<exists>j. recv j = Done"
  by (rule select_loop.raw_induct [where P = "\<lambda>round recv k w v. \<exists>j. recv j = Done", OF _ assms])
     (auto split: wakeup.splits)

lemma select_loop_returns:
  assumes "0 < d"
  shows "returns_when_done (\<lambda>recv w. time_NewTicker d (select_loop round recv 0 w)) round"
proof -
  have "select_loop round recv 0 w = None" if "\<forall>k. recv k \<noteq> Done" for recv w
    using that select_loop_Some [of round recv 0 w] by (cases "select_loop round recv 0 w") auto
  then show ?thesis
    using assms select_loop_done by (fastforce simp: returns_when_done_def time_NewTicker_def)
qed

lemma idp_request_ttl:
  assumes "idp_LoadFrom lib src = Inr cfg"
  shows "icAuthRequestTTLMinutes cfg \<in> {1..60}"
proof -
  have "loadBoundedInt src ''AUTH_REQUEST_TTL_MINUTES'' 30 1 60 = Inr (icAuthRequestTTLMinutes cfg)"
    using assms unfolding idp_LoadFrom_def andThen_Inr by (fastforce split: sum.splits option.splits)
  from loadBoundedInt_Inr [OF this] show ?thesis by auto
qed

text \<open>
  C29: With a configuration that loads, each background loop of the identity service returns exactly
  when its context is done. It returns at the first reception of that, after one round for each tick
  before, whatever the rounds answered and whatever the rest of the process did meanwhile; while only
  ticks arrive it goes on for ever, so a failed round ends no loop; and no ticker is created with an
  interval that panics, for which the lower bound of the setting for authorization requests is needed.
\<close>

theorem cleanup_loops_return:
  assumes "idp_LoadFrom lib src = Inr cfg"
  defines "ttl \<equiv> wrap64 (icAuthRequestTTLMinutes cfg * Minute)" and "reqs \<equiv> idp_requests (icAuthRequestTTLMinutes cfg)"
  shows "returns_when_done (runAuthRequestCleanup reqs ttl) (round_of (authRequestCleanup_round reqs ttl))
    \<and> returns_when_done (runTokenCleanupLoop (idp_tokens L) Hour) (round_of (tokenCleanup_round (idp_tokens L)))
    \<and> returns_when_done (runDeviceSessionCleanup idp_devices (30 * 24 * Hour))
        (round_of (deviceSessionCleanup_round idp_devices (30 * 24 * Hour)))
    \<and> returns_when_done limiterCleanup (round_of limiterCleanup_round)"
proof -
  have "0 < ttl" using idp_request_ttl [OF assms(1)] by (simp add: ttl_def wrap64_id)
  then show ?thesis
    unfolding runAuthRequestCleanup_def runTokenCleanupLoop_def runDeviceSessionCleanup_def limiterCleanup_def
    by (intro conjI select_loop_returns) simp_all
qed

lemma returnsD:
  "returns_when_done loop round \<Longrightarrow> recv k = Done \<Longrightarrow> \<forall>j < k. recv j \<noteq> Done
     \<Longrightarrow> loop recv w = Some (Returned (after_ticks round recv k w))"
  by (simp add: returns_when_done_def)

lemma two_ticks:
  "recv 0 = Tick (\<lambda>w. w) \<Longrightarrow> recv 1 = Tick (\<lambda>w. w) \<Longrightarrow> after_ticks r recv (Suc (Suc 0)) w = r (r w)"
  by simp

theorem cleanup_loops_return_witness:
  "\<exists>cfg. idp_LoadFrom sample_x509 sample_env = Inr cfg
     \<and> runTokenCleanupLoop (idp_tokens sample_libs) Hour (\<lambda>k. if k < 2 then Tick (\<lambda>w. w) else Done) (idle_world sample_idb)
         = Some (Returned (round_of (tokenCleanup_round (idp_tokens sample_libs))
             (round_of (tokenCleanup_round (idp_tokens sample_libs)) (idle_world sample_idb))))"
proof -
  obtain cfg where cfg: "idp_LoadFrom sample_x509 sample_env = Inr cfg" using sample_loads by blast
  let ?recv = "\<lambda>k::nat. if k < 2 then Tick (\<lambda>w. w) else Done" and ?r = "round_of (tokenCleanup_round (idp_tokens sample_libs))"
  have "returns_when_done (runTokenCleanupLoop (idp_tokens sample_libs) Hour) ?r"
    using cleanup_loops_return [OF cfg] by blast
  moreover have "?recv (Suc (Suc 0)) = Done" "\<forall>j < Suc (Suc 0). ?recv j \<noteq> Done" by simp_all
  ultimately have "runTokenCleanupLoop (idp_tokens sample_libs) Hour ?recv (idle_world sample_idb)
      = Some (Returned (after_ticks ?r ?recv (Suc (Suc 0)) (idle_world sample_idb)))"
    by (rule returnsD)
  also have "after_ticks ?r ?recv (Suc (Suc 0)) (idle_world sample_idb) = ?r (?r (idle_world sample_idb))"
    by (rule two_ticks) simp_all
  finally show ?thesis using cfg by blast
qed

text \<open>A lifetime of zero minutes, which the configuration refuses, would panic.\<close>

lemma zero_ttl_panics:
  "runAuthRequestCleanup svc 0 recv w = Some (Panicked ''non-positive interval for NewTicker'')"
  by (simp add: runAuthRequestCleanup_def time_NewTicker_def)

end
