(* ===== verification/GoTime.thy ===== *)
theory GoTime
  imports GoEncoding
begin

text \<open>
  The text form of a \<open>time.Time\<close> in UTC: \<open>Format\<close> with \<open>time.RFC3339\<close>, and the
  \<open>MarshalJSON\<close>/\<open>UnmarshalJSON\<close> pair, with the calendar of package \<open>time\<close>. A time is an
  integer of nanoseconds since the Unix epoch. Reading is by RFC 3339; the other spellings that
  Go's parser lets pass (a one-digit hour, a comma before the fraction) are refused here.
\<close>

section \<open>The calendar\<close>

definition isLeap :: "int \<Rightarrow> bool" where
  "isLeap y \<longleftrightarrow> y mod 4 = 0 \<and> (y mod 100 \<noteq> 0 \<or> y mod 400 = 0)"

text \<open>Days from 1 January of year 1 to 1 January of a year.\<close>

definition days_before :: "int \<Rightarrow> int" where
  "days_before y = 365 * (y - 1) + (y - 1) div 4 - (y - 1) div 100 + (y - 1) div 400"

definition month_lengths :: "int \<Rightarrow> nat list" where
  "month_lengths y = [31, if isLeap y then 29 else 28, 31, 30, 31, 30, 31, 31, 30, 31, 30, 31]"

text \<open>The year of a day, and its day of the year, by cycles of 400, 100, 4 and 1 years; the
  last day of a cycle belongs to its last part.\<close>

definition year_day :: "int \<Rightarrow> int \<times> nat" where
  "year_day d =
     (let n400 = d div 146097; d1 = d mod 146097;
          n100 = min 3 (d1 div 36524); d2 = d1 - 36524 * n100;
          n4 = d2 div 1461; d3 = d2 mod 1461;
          n1 = min 3 (d3 div 365)
      in (400 * n400 + 100 * n100 + 4 * n4 + n1 + 1, nat (d3 - 365 * n1)))"

fun month_day :: "nat list \<Rightarrow> nat \<Rightarrow> nat \<Rightarrow> nat \<times> nat" where
  "month_day [] m d = (m, d + 1)"
| "month_day (l # ls) m d = (if d < l then (m, d + 1) else month_day ls (m + 1) (d - l))"

definition civil :: "int \<Rightarrow> int \<times> nat \<times> nat" where
  "civil d = (case year_day d of (y, yd) \<Rightarrow> (y, month_day (month_lengths y) 1 yd))"

definition day_number :: "int \<Rightarrow> nat \<Rightarrow> nat \<Rightarrow> int" where
  "day_number y m d = days_before y + int (sum_list (take (m - 1) (month_lengths y))) + int d - 1"

lemma year_day_bounds:
  assumes "year_day d = (y, yd)"
  shows "days_before y + int yd = d" "yd < (if isLeap y then 366 else 365)"
proof -
  define n400 d1 where "n400 = d div 146097" and "d1 = d mod 146097"
  define n100 where "n100 = min 3 (d1 div 36524)"
  define d2 where "d2 = d1 - 36524 * n100"
  define n4 d3 where "n4 = d2 div 1461" and "d3 = d2 mod 1461"
  define n1 where "n1 = min 3 (d3 div 365)"
  have "year_day d = (400 * n400 + 100 * n100 + 4 * n4 + n1 + 1, nat (d3 - 365 * n1))"
    unfolding year_day_def Let_def n400_def d1_def n100_def d2_def n4_def d3_def n1_def by (rule refl)
  with assms have y: "y = 400 * n400 + 100 * n100 + 4 * n4 + n1 + 1" and yd: "yd = nat (d3 - 365 * n1)"
    by simp_all
  have d: "d = 146097 * n400 + d1" and d1: "0 \<le> d1" "d1 < 146097"
    by (simp_all add: n400_def d1_def)
  have n100: "0 \<le> n100" "n100 \<le> 3" and d2: "0 \<le> d2" "d2 < 36524 \<or> n100 = 3 \<and> d2 \<le> 36524"
    unfolding d2_def n100_def using d1 by linarith+
  have n4: "0 \<le> n4" "n4 \<le> 24" and d3: "0 \<le> d3" "d3 < 1461" and d2': "d2 = 1461 * n4 + d3"
    using d2 unfolding n4_def d3_def by auto
  have n1: "0 \<le> n1" "n1 \<le> 3" and r: "0 \<le> d3 - 365 * n1" "d3 - 365 * n1 < 365 \<or> n1 = 3 \<and> d3 - 365 * n1 \<le> 365"
    unfolding n1_def using d3 by linarith+
  have z: "(y - 1) div 4 = 100 * n400 + 25 * n100 + n4" "(y - 1) div 100 = 4 * n400 + n100"
    "(y - 1) div 400 = n400"
    using n100 n4 n1 unfolding y by linarith+
  show "days_before y + int yd = d"
    using r(1) unfolding days_before_def z unfolding y yd d d2' [symmetric]
    using d2_def d2' by simp
  have leap: "d3 - 365 * n1 = 365 \<Longrightarrow> isLeap y"
  proof -
    assume e: "d3 - 365 * n1 = 365"
    then have "n1 = 3" "d3 = 1460" using r d3 n1 by auto
    have "n4 = 24 \<longrightarrow> n100 = 3" using d2 d2' \<open>d3 = 1460\<close> by auto
    show ?thesis
    proof (cases "n4 = 24")
      case True
      then show ?thesis using \<open>n4 = 24 \<longrightarrow> n100 = 3\<close> \<open>n1 = 3\<close> unfolding isLeap_def y by simp
    next
      case False
      have "y = 400 * n400 + 100 * n100 + (4 * n4 + 4)" using y \<open>n1 = 3\<close> by simp
      moreover have "0 < 4 * n4 + 4" "4 * n4 + 4 < 100" using n4 False by auto
      ultimately have "y mod 100 \<noteq> 0" by presburger
      moreover have "y mod 4 = 0" using \<open>n1 = 3\<close> unfolding y by presburger
      ultimately show ?thesis by (simp add: isLeap_def)
    qed
  qed
  show "yd < (if isLeap y then 366 else 365)"
  proof (cases "d3 - 365 * n1 = 365")
    case True
    then show ?thesis using leap [OF True] unfolding yd by simp
  next
    case False
    with r have "d3 - 365 * n1 < 365" by auto
    then show ?thesis unfolding yd by (auto simp: nat_less_iff)
  qed
qed

lemma month_day_sum:
  assumes "d < sum_list ls" "month_day ls m d = (m', d')"
  shows "m \<le> m' \<and> m' < m + length ls \<and> 1 \<le> d' \<and> d' \<le> ls ! (m' - m)
    \<and> sum_list (take (m' - m) ls) + d' = d + 1"
  using assms
proof (induction ls m d rule: month_day.induct)
  case (2 l ls m d)
  show ?case
  proof (cases "d < l")
    case False
    then have IH: "m + 1 \<le> m' \<and> m' < m + 1 + length ls \<and> 1 \<le> d' \<and> d' \<le> ls ! (m' - (m + 1))
        \<and> sum_list (take (m' - (m + 1)) ls) + d' = d - l + 1"
      using 2 by simp
    then obtain k where "m' = Suc (m + k)" by (metis Suc_eq_plus1 add_Suc le_Suc_ex)
    with IH False show ?thesis by simp linarith
  qed (use 2 in auto)
qed simp

lemma civil_day_number:
  assumes "civil n = (y, m, d)"
  shows "day_number y m d = n" "1 \<le> m" "m \<le> 12" "1 \<le> d" "d \<le> month_lengths y ! (m - 1)"
proof -
  obtain yd where yd: "year_day n = (y, yd)" and md: "month_day (month_lengths y) 1 yd = (m, d)"
    using assms by (auto simp: civil_def split: prod.splits)
  have "yd < sum_list (month_lengths y)"
    using year_day_bounds(2) [OF yd] by (auto simp: month_lengths_def split: if_splits)
  from month_day_sum [OF this md] have md': "1 \<le> m" "m < 13" "1 \<le> d" "d \<le> month_lengths y ! (m - 1)"
    and s: "sum_list (take (m - 1) (month_lengths y)) + d = yd + 1"
    by (auto simp: month_lengths_def)
  show "day_number y m d = n"
    using year_day_bounds(1) [OF yd] s unfolding day_number_def by linarith
  show "1 \<le> m" "m \<le> 12" "1 \<le> d" "d \<le> month_lengths y ! (m - 1)" using md' by simp_all
qed

section \<open>Text\<close>

text \<open>A number in exactly \<open>w\<close> digits, and a year as \<open>Format\<close> writes it.\<close>

fun pad :: "nat \<Rightarrow> nat \<Rightarrow> string" where
  "pad 0 n = []"
| "pad (Suc w) n = pad w (n div 10) @ [''0123456789'' ! (n mod 10)]"

definition year_text :: "int \<Rightarrow> string" where
  "year_text y =
     (let a = nat \<bar>y\<bar>; s = (if a < 10000 then pad 4 a else nat_digits a)
      in if y < 0 then CHR ''-'' # s else s)"

definition date_time_text :: "int \<Rightarrow> string" where
  "date_time_text t =
     (let secs = t div Second; day = secs div 86400; s = nat (secs mod 86400)
      in case civil (day + 719162) of (y, m, d) \<Rightarrow>
           year_text y @ ''-'' @ pad 2 m @ ''-'' @ pad 2 d @ ''T'' @
           pad 2 (s div 3600) @ '':'' @ pad 2 (s div 60 mod 60) @ '':'' @ pad 2 (s mod 60))"

definition Format_RFC3339 :: "int \<Rightarrow> string" where
  "Format_RFC3339 t = date_time_text t @ ''Z''"

text \<open>The fraction loses its trailing zeros, and its point when nothing is left.\<close>

definition fraction_text :: "nat \<Rightarrow> string" where
  "fraction_text ns =
     (if ns = 0 then [] else CHR ''.'' # rev (dropWhile (\<lambda>c. c = CHR ''0'') (rev (pad 9 ns))))"

definition year_of :: "int \<Rightarrow> int" where
  "year_of t = fst (civil (t div Second div 86400 + 719162))"

definition time_MarshalText :: "int \<Rightarrow> string option" where
  "time_MarshalText t =
     (if 0 \<le> year_of t \<and> year_of t \<le> 9999
      then Some (date_time_text t @ fraction_text (nat (t mod Second)) @ ''Z'')
      else None)"

definition parse_field :: "string \<Rightarrow> nat \<Rightarrow> nat \<Rightarrow> nat option" where
  "parse_field s lo hi =
     (case parse_digits 0 s of Some n \<Rightarrow> if lo \<le> n \<and> n \<le> hi then Some n else None | None \<Rightarrow> None)"

definition parse_zone :: "string \<Rightarrow> int option" where
  "parse_zone s =
     (if s = ''Z'' then Some 0
      else if length s = 6 \<and> s ! 0 \<in> {CHR ''+'', CHR ''-''} \<and> s ! 3 = CHR '':''
      then (case (parse_field (take 2 (drop 1 s)) 0 24, parse_field (drop 4 s) 0 60) of
              (Some hr, Some mm) \<Rightarrow>
                Some ((if s ! 0 = CHR ''-'' then - 1 else 1) * int ((hr * 60 + mm) * 60))
            | _ \<Rightarrow> None)
      else None)"

text \<open>The fraction at the start of a text, in nanoseconds, and the rest; digits after the ninth
  do not count.\<close>

definition parse_fraction :: "string \<Rightarrow> nat \<times> string" where
  "parse_fraction s =
     (case s of
        c # r \<Rightarrow>
          let ds = takeWhile (\<lambda>d. digit_val d \<noteq> None) r; ds9 = take 9 ds
          in if c = CHR ''.'' \<and> ds \<noteq> []
             then (the (parse_digits 0 ds9) * 10 ^ (9 - length ds9), drop (length ds) r)
             else (0, s)
      | [] \<Rightarrow> (0, s))"

definition separators_ok :: "string \<Rightarrow> bool" where
  "separators_ok s \<longleftrightarrow>
     s ! 4 = CHR ''-'' \<and> s ! 7 = CHR ''-'' \<and> s ! 10 = CHR ''T'' \<and> s ! 13 = CHR '':'' \<and> s ! 16 = CHR '':''"

definition parse_date :: "string \<Rightarrow> int option" where
  "parse_date s =
     Option.bind (parse_field (take 4 s) 0 9999) (\<lambda>y.
     Option.bind (parse_field (take 2 (drop 5 s)) 1 12) (\<lambda>m.
     Option.bind (parse_field (take 2 (drop 8 s)) 1 (month_lengths (int y) ! (m - 1))) (\<lambda>d.
       Some (day_number (int y) m d - 719162))))"

definition parse_clock :: "string \<Rightarrow> nat option" where
  "parse_clock s =
     Option.bind (parse_field (take 2 (drop 11 s)) 0 23) (\<lambda>h.
     Option.bind (parse_field (take 2 (drop 14 s)) 0 59) (\<lambda>m.
     Option.bind (parse_field (take 2 (drop 17 s)) 0 59) (\<lambda>sec.
       Some (h * 3600 + m * 60 + sec))))"

definition time_UnmarshalText :: "string \<Rightarrow> int option" where
  "time_UnmarshalText s =
     (if length s < 19 \<or> \<not> separators_ok s then None
      else case (parse_date s, parse_clock s) of
        (Some day, Some sec) \<Rightarrow>
          (let (ns, r) = parse_fraction (drop 19 s)
           in case parse_zone r of
                None \<Rightarrow> None
              | Some zone \<Rightarrow> Some ((day * 86400 + int sec - zone) * Second + int ns))
      | _ \<Rightarrow> None)"

section \<open>Round trip\<close>

lemma length_pad [simp]: "length (pad w n) = w"
  by (induction w n rule: pad.induct) auto

lemma parse_pad: "parse_digits 0 (pad w n) = Some (n mod 10 ^ w)"
proof (induction w n rule: pad.induct)
  case (2 w n)
  have "n div 10 mod 10 ^ w * 10 + n mod 10 = n mod 10 ^ Suc w"
    using mod_mult2_eq [of n 10 "10 ^ w"] by simp
  then show ?case using 2 by (simp add: parse_digits_append digit_val_table)
qed simp

lemma pad_digits: "c \<in> set (pad w n) \<Longrightarrow> digit_val c \<noteq> None"
  by (induction w n rule: pad.induct) (auto simp: digit_val_table)

lemma parse_field_pad: "lo \<le> n \<Longrightarrow> n \<le> hi \<Longrightarrow> n < 10 ^ w \<Longrightarrow> parse_field (pad w n) lo hi = Some n"
  by (simp add: parse_field_def parse_pad)

lemma parse_digits_zeros: "parse_digits a (replicate k (CHR ''0'')) = Some (a * 10 ^ k)"
proof (induction k arbitrary: a)
  case (Suc k)
  have "digit_val (CHR ''0'') = Some 0" by code_simp
  with Suc show ?case by simp
qed simp

lemma strip_zeros: "\<exists>k. s = rev (dropWhile (\<lambda>c. c = CHR ''0'') (rev s)) @ replicate k (CHR ''0'')"
proof -
  have "\<exists>k. r = replicate k (CHR ''0'') @ dropWhile (\<lambda>c. c = CHR ''0'') r" for r
  proof (induction r)
    case (Cons c r)
    then obtain k where "r = replicate k (CHR ''0'') @ dropWhile (\<lambda>c. c = CHR ''0'') r" by blast
    then show ?case by (cases "c = CHR ''0''") (auto intro: exI [of _ "Suc k"] exI [of _ 0])
  qed simp
  then obtain k where "rev s = replicate k (CHR ''0'') @ dropWhile (\<lambda>c. c = CHR ''0'') (rev s)" by blast
  from arg_cong [OF this, of rev] have "s = rev (dropWhile (\<lambda>c. c = CHR ''0'') (rev s)) @ replicate k (CHR ''0'')"
    by simp
  then show ?thesis ..
qed

lemma parse_fraction_text:
  assumes "ns < 10 ^ 9"
  shows "parse_fraction (fraction_text ns @ ''Z'') = (ns, ''Z'')"
proof (cases "ns = 0")
  case False
  define f where "f = rev (dropWhile (\<lambda>c. c = CHR ''0'') (rev (pad 9 ns)))"
  obtain k where k: "pad 9 ns = f @ replicate k (CHR ''0'')"
    using strip_zeros [of "pad 9 ns"] f_def by blast
  have len: "length f + k = 9" using arg_cong [OF k, of length] by simp
  have "Option.bind (parse_digits 0 f) (\<lambda>n. Some (n * 10 ^ k)) = Some ns"
    using parse_pad [of 9 ns] assms by (simp add: k parse_digits_append parse_digits_zeros)
  then obtain n where n: "parse_digits 0 f = Some n" "n * 10 ^ k = ns" by (cases "parse_digits 0 f") auto
  have "f \<noteq> []" using n False by auto
  have dig: "\<forall>c \<in> set f. digit_val c \<noteq> None" using pad_digits [of _ 9 ns] by (auto simp: k)
  have Z: "digit_val (CHR ''Z'') = None" by code_simp
  have tw: "takeWhile (\<lambda>d. digit_val d \<noteq> None) (f @ ''Z'') = f"
    using dig by (subst takeWhile_append2) (simp_all add: Z)
  have "take 9 f = f" "9 - length f = k" using len by simp_all
  then show ?thesis
    using False n \<open>f \<noteq> []\<close> tw by (simp add: fraction_text_def parse_fraction_def f_def [symmetric])
qed (simp add: fraction_text_def parse_fraction_def)

lemma civil_range:
  assumes "civil n = (y, m, d)"
  shows "1 \<le> m" "m \<le> 12" "1 \<le> d" "d \<le> month_lengths y ! (m - 1)" "d \<le> 31"
proof -
  show "1 \<le> m" "m \<le> 12" "1 \<le> d" "d \<le> month_lengths y ! (m - 1)" by (rule civil_day_number [OF assms])+
  have "\<forall>l \<in> set (month_lengths y). l \<le> 31" by (simp add: month_lengths_def)
  moreover have "m - 1 < length (month_lengths y)" using \<open>m \<le> 12\<close> by (simp add: month_lengths_def)
  ultimately show "d \<le> 31" using \<open>d \<le> month_lengths y ! (m - 1)\<close> by (meson nth_mem order_trans)
qed

lemma Marshal_Unmarshal:
  assumes "time_MarshalText t = Some s"
  shows "time_UnmarshalText s = Some t"
proof -
  define secs where "secs = t div Second"
  define day where "day = secs div 86400"
  define sec where "sec = nat (secs mod 86400)"
  obtain y m d where c: "civil (day + 719162) = (y, m, d)" by (cases "civil (day + 719162)")
  have y: "0 \<le> y" "y \<le> 9999"
    and s: "s = date_time_text t @ fraction_text (nat (t mod Second)) @ ''Z''"
    using assms c by (auto simp: time_MarshalText_def year_of_def day_def secs_def split: if_splits)
  have y': "nat y < 10000" using y by simp
  note r = civil_range [OF c]
  have sec: "sec < 86400" by (simp add: sec_def nat_less_iff)
  have dt: "date_time_text t = pad 4 (nat y) @ ''-'' @ pad 2 m @ ''-'' @ pad 2 d @ ''T'' @
      pad 2 (sec div 3600) @ '':'' @ pad 2 (sec div 60 mod 60) @ '':'' @ pad 2 (sec mod 60)"
    using c y y' by (simp add: date_time_text_def Let_def year_text_def secs_def day_def sec_def)
  have pd: "parse_date s = Some day"
    using y r civil_day_number(1) [OF c]
    by (simp add: s dt parse_date_def parse_field_pad)
  have pc: "parse_clock s = Some sec"
  proof -
    have "sec div 3600 \<le> 23" "sec div 60 mod 60 \<le> 59" "sec mod 60 \<le> 59" using sec by simp_all
    moreover have "sec div 3600 = sec div 60 div 60" by (simp flip: div_mult2_eq)
    then have "sec div 3600 * 3600 + sec div 60 mod 60 * 60 + sec mod 60 = sec"
      using div_mult_mod_eq [of "sec div 60" 60] div_mult_mod_eq [of sec 60] by linarith
    ultimately show ?thesis by (simp add: s dt parse_clock_def parse_field_pad)
  qed
  have fr: "parse_fraction (drop 19 s) = (nat (t mod Second), ''Z'')"
    using parse_fraction_text [of "nat (t mod Second)"] by (simp add: s dt nat_less_iff)
  have sep: "separators_ok s" "19 \<le> length s" by (simp_all add: separators_ok_def s dt nth_append)
  have "int sec = secs mod 86400" by (simp add: sec_def)
  then have "(day * 86400 + int sec) * Second + t mod Second = t" by (simp add: day_def secs_def)
  then show ?thesis using sep by (simp add: time_UnmarshalText_def pd pc fr parse_zone_def)
qed

end
