(* ===== verification/BffStore.thy ===== *)
theory BffStore
  imports GoJson GoTime
begin

text \<open>
  \<open>myaccount-bff/internal/session\<close>: browser sessions, login states and refresh locks in Redis.
  Redis maps a key to a value and the time it expires; each command is one atomic step. The
  world's database is Redis and, beside it, whatever the account front end reaches by its
  other calls.
\<close>

section \<open>Redis\<close>

type_synonym redis = "string \<Rightarrow> (string \<times> int option) option"
type_synonym 'b bff_db = "redis \<times> 'b"

definition redis_live :: "int \<Rightarrow> int option \<Rightarrow> bool" where
  "redis_live t e \<longleftrightarrow> (case e of None \<Rightarrow> True | Some u \<Rightarrow> t \<le> u)"

definition redis_get :: "int \<Rightarrow> redis \<Rightarrow> string \<Rightarrow> string option" where
  "redis_get t r k = (case r k of Some (v, e) \<Rightarrow> if redis_live t e then Some v else None | None \<Rightarrow> None)"

text \<open>An expiration of zero is none.\<close>

definition redis_set :: "int \<Rightarrow> string \<Rightarrow> string \<Rightarrow> int \<Rightarrow> redis \<Rightarrow> redis" where
  "redis_set t k v ttl r = r(k \<mapsto> (v, if 0 < ttl then Some (t + ttl) else None))"

definition rdb_Set :: "string \<Rightarrow> string \<Rightarrow> int \<Rightarrow> ('b bff_db, unit) eio" where
  "rdb_Set k v ttl = db_exec (\<lambda>t (r, b). Inr ((), (redis_set t k v ttl r, b)))"

definition rdb_GetEx :: "string \<Rightarrow> int \<Rightarrow> ('b bff_db, string) eio" where
  "rdb_GetEx k ttl = db_exec (\<lambda>t (r, b). case redis_get t r k of
       None \<Rightarrow> Inl (Sentinel RedisNil) | Some v \<Rightarrow> Inr (v, (redis_set t k v ttl r, b)))"

definition rdb_Del :: "string \<Rightarrow> ('b bff_db, unit) eio" where
  "rdb_Del k = db_exec (\<lambda>t (r, b). Inr ((), (r(k := None), b)))"

definition rdb_SetNX :: "string \<Rightarrow> string \<Rightarrow> int \<Rightarrow> ('b bff_db, unit) eio" where
  "rdb_SetNX k v ttl = db_exec (\<lambda>t (r, b). case redis_get t r k of
       Some _ \<Rightarrow> Inl (Sentinel RedisNil) | None \<Rightarrow> Inr ((), (redis_set t k v ttl r, b)))"

text \<open>The script \<open>getDelScript\<close>, which Redis runs as one step.\<close>

definition getDelScript :: "string \<Rightarrow> ('b bff_db, string) eio" where
  "getDelScript k = db_exec (\<lambda>t (r, b). case redis_get t r k of
       None \<Rightarrow> Inl (Sentinel RedisNil) | Some v \<Rightarrow> Inr (v, (r(k := None), b)))"

lemma redis_get_set:
  "0 < ttl \<Longrightarrow> redis_get u (redis_set t k v ttl r) j =
     (if j = k then if u \<le> t + ttl then Some v else None else redis_get u r j)"
  by (auto simp: redis_get_def redis_set_def redis_live_def)

lemma redis_get_set_other: "j \<noteq> k \<Longrightarrow> redis_get u (redis_set t k v ttl r) j = redis_get u r j"
  by (simp add: redis_get_def redis_set_def)

lemma redis_get_del: "redis_get u (r(k := None)) j = (if j = k then None else redis_get u r j)"
  by (simp add: redis_get_def)

lemmas redis_defs = rdb_Set_def rdb_GetEx_def rdb_Del_def rdb_SetNX_def getDelScript_def

section \<open>Sessions\<close>

record bff_Session =
  seUserID :: string
  seAccessToken :: string
  seRefreshToken :: string
  seIDToken :: string
  seTokenExpiry :: int
  seDeviceSessionID :: string
  seCreatedAt :: int
  seLastActiveAt :: int

text \<open>The times print as quoted strings without characters to escape.\<close>

definition session_Marshal :: "bff_Session \<Rightarrow> string option" where
  "session_Marshal s =
     Option.bind (time_MarshalText (seTokenExpiry s)) (\<lambda>expiry.
     Option.bind (time_MarshalText (seCreatedAt s)) (\<lambda>created.
     map_option (\<lambda>active. json_print
        [(''user_id'', seUserID s), (''access_token'', seAccessToken s), (''refresh_token'', seRefreshToken s),
         (''id_token'', seIDToken s), (''token_expiry'', expiry), (''device_session_id'', seDeviceSessionID s),
         (''created_at'', created), (''last_active_at'', active)])
       (time_MarshalText (seLastActiveAt s))))"

fun into_time :: "json \<Rightarrow> int \<Rightarrow> int option" where
  "into_time (JStr s) old = time_UnmarshalText s"
| "into_time JNull old = Some old"
| "into_time _ old = None"

definition session_fields :: "(string \<times> json) list \<Rightarrow> bff_Session option" where
  "session_fields kvs =
     Option.bind (into_field into_string ''user_id'' kvs []) (\<lambda>u.
     Option.bind (into_field into_string ''access_token'' kvs []) (\<lambda>a.
     Option.bind (into_field into_string ''refresh_token'' kvs []) (\<lambda>rt.
     Option.bind (into_field into_string ''id_token'' kvs []) (\<lambda>i.
     Option.bind (into_field into_time ''token_expiry'' kvs zeroTime) (\<lambda>e.
     Option.bind (into_field into_string ''device_session_id'' kvs []) (\<lambda>d.
     Option.bind (into_field into_time ''created_at'' kvs zeroTime) (\<lambda>c.
     map_option (\<lambda>l. \<lparr>seUserID = u, seAccessToken = a, seRefreshToken = rt, seIDToken = i, seTokenExpiry = e,
         seDeviceSessionID = d, seCreatedAt = c, seLastActiveAt = l\<rparr>)
       (into_field into_time ''last_active_at'' kvs zeroTime))))))))"

definition session_Unmarshal :: "string \<Rightarrow> bff_Session option" where
  "session_Unmarshal data =
     (case json_parse data of
        Some JNull \<Rightarrow> session_fields []
      | Some (JObj kvs) \<Rightarrow> session_fields kvs
      | _ \<Rightarrow> None)"

section \<open>The store\<close>

record Store =
  stIdleTTL :: int
  stHardTTL :: int

definition keyPrefix :: string where "keyPrefix = ''session:''"
definition lockPrefix :: string where "lockPrefix = ''refresh_lock:''"
definition statePrefix :: string where "statePrefix = ''oidc_state:''"
definition lockTTL :: int where "lockTTL = 10 * Second"
definition stateTTL :: int where "stateTTL = 10 * Minute"

definition NewStore :: "int \<Rightarrow> int \<Rightarrow> Store" where
  "NewStore idleTTL hardTTL = \<lparr>stIdleTTL = idleTTL, stHardTTL = hardTTL\<rparr>"

definition Store_Save :: "Store \<Rightarrow> string \<Rightarrow> bff_Session \<Rightarrow> ('b bff_db, unit) eio" where
  "Store_Save s sid sess =
     (case session_Marshal sess of
        None \<Rightarrow> ret (Inl (errorf ''marshal session: '' (DriverErr 0)))
      | Some data \<Rightarrow> rdb_Set (keyPrefix @ sid) data (stIdleTTL s))"

definition Store_Delete :: "string \<Rightarrow> ('b bff_db, unit) eio" where
  "Store_Delete sid = rdb_Del (keyPrefix @ sid)"

text \<open>A session whose \<open>created_at\<close> is the zero time has no hard limit.\<close>

definition Store_Load :: "Store \<Rightarrow> string \<Rightarrow> ('b bff_db, bff_Session) eio" where
  "Store_Load s sid = do {
     r \<leftarrow> rdb_GetEx (keyPrefix @ sid) (stIdleTTL s);
     case r of
       Inl err \<Rightarrow>
         if errors_Is err RedisNil then ret (Inl (Sentinel SessionErrNotFound))
         else ret (Inl (errorf ''load session: '' err))
     | Inr data \<Rightarrow>
         (case session_Unmarshal data of
            None \<Rightarrow> ret (Inl (errorf ''unmarshal session: '' (DriverErr 0)))
          | Some sess \<Rightarrow>
              if seCreatedAt sess = zeroTime then ret (Inr sess)
              else do {
                now \<leftarrow> time_Now;
                if seCreatedAt sess + stHardTTL s < now then do {
                  _ \<leftarrow> Store_Delete sid;
                  ret (Inl (Sentinel SessionErrNotFound)) }
                else ret (Inr sess) }) }"

definition Store_AcquireRefreshLock :: "string \<Rightarrow> ('b bff_db, bool) eio" where
  "Store_AcquireRefreshLock sid = do {
     r \<leftarrow> rdb_SetNX (lockPrefix @ sid) ''1'' lockTTL;
     case r of
       Inl err \<Rightarrow>
         if errors_Is err RedisNil then ret (Inr False)
         else ret (Inl (errorf ''acquire refresh lock: '' err))
     | Inr _ \<Rightarrow> ret (Inr True) }"

definition Store_ReleaseRefreshLock :: "string \<Rightarrow> ('b bff_db, unit) eio" where
  "Store_ReleaseRefreshLock sid = rdb_Del (lockPrefix @ sid)"

definition Store_SaveState :: "string \<Rightarrow> string \<Rightarrow> ('b bff_db, unit) eio" where
  "Store_SaveState state verifier =
     rdb_Set (statePrefix @ state) (json_print [(''verifier'', verifier)]) stateTTL"

text \<open>Decoding into a \<open>map[string]string\<close>: exact keys, the last one wins, a null value is the
  empty string, a value of another type an error.\<close>

fun into_string_map :: "(string \<times> json) list \<Rightarrow> (string \<Rightarrow> string option) \<Rightarrow> (string \<Rightarrow> string option) option" where
  "into_string_map [] m = Some m"
| "into_string_map ((k, v) # kvs) m =
     (case into_string v [] of None \<Rightarrow> None | Some x \<Rightarrow> into_string_map kvs (m(k \<mapsto> x)))"

definition verifier_Unmarshal :: "string \<Rightarrow> (string \<Rightarrow> string option) option" where
  "verifier_Unmarshal data =
     (case json_parse data of
        Some JNull \<Rightarrow> Some Map.empty
      | Some (JObj kvs) \<Rightarrow> into_string_map kvs Map.empty
      | _ \<Rightarrow> None)"

definition Store_LoadAndDeleteState :: "string \<Rightarrow> ('b bff_db, string) eio" where
  "Store_LoadAndDeleteState state = do {
     r \<leftarrow> getDelScript (statePrefix @ state);
     case r of
       Inl err \<Rightarrow>
         if errors_Is err RedisNil then ret (Inl (Sentinel SessionErrNotFound))
         else ret (Inl (errorf ''load and delete state: '' err))
     | Inr result \<Rightarrow>
         (case verifier_Unmarshal result of
            None \<Rightarrow> ret (Inl (errorf ''unmarshal state: '' (DriverErr 0)))
          | Some payload \<Rightarrow>
              (case payload ''verifier'' of
                 None \<Rightarrow> ret (Inl (Sentinel SessionErrNotFound))
               | Some v \<Rightarrow> ret (Inr v))) }"

section \<open>What the operations touch\<close>

text \<open>From \<open>d\<close> to \<open>d'\<close> only the Redis keys in \<open>K\<close> have changed.\<close>

definition redis_frame :: "string set \<Rightarrow> 'b bff_db \<Rightarrow> 'b bff_db \<Rightarrow> bool" where
  "redis_frame K d d' \<longleftrightarrow> snd d' = snd d \<and> (\<forall>k. k \<notin> K \<longrightarrow> fst d' k = fst d k)"

lemma redis_frame_refl [simp, intro]: "redis_frame K d d"
  by (simp add: redis_frame_def)

lemma redis_frame_trans: "redis_frame K d e \<Longrightarrow> redis_frame K e f \<Longrightarrow> redis_frame K d f"
  by (simp add: redis_frame_def)

lemma redis_frame_mono: "redis_frame K d e \<Longrightarrow> K \<subseteq> L \<Longrightarrow> redis_frame L d e"
  by (auto simp: redis_frame_def)

lemma redis_cmd_frame:
  "run_state (rdb_Set k v ttl) w = (r, w') \<Longrightarrow> redis_frame {k} (db w) (db w')"
  "run_state (rdb_GetEx k ttl) w = (q, w') \<Longrightarrow> redis_frame {k} (db w) (db w')"
  "run_state (rdb_Del k) w = (r, w') \<Longrightarrow> redis_frame {k} (db w) (db w')"
  "run_state (rdb_SetNX k v ttl) w = (r, w') \<Longrightarrow> redis_frame {k} (db w) (db w')"
  "run_state (getDelScript k) w = (q, w') \<Longrightarrow> redis_frame {k} (db w) (db w')"
  by (auto simp: redis_defs redis_frame_def redis_set_def split: prod.splits option.splits elim!: db_exec_cases)

text \<open>The three families of keys do not meet.\<close>

lemma key_prefix_simps [simp]:
  "keyPrefix @ a = keyPrefix @ b \<longleftrightarrow> a = b" "lockPrefix @ a = lockPrefix @ b \<longleftrightarrow> a = b"
  "statePrefix @ a = statePrefix @ b \<longleftrightarrow> a = b"
  "keyPrefix @ a \<noteq> lockPrefix @ b" "lockPrefix @ a \<noteq> keyPrefix @ b" "keyPrefix @ a \<noteq> statePrefix @ b"
  "statePrefix @ a \<noteq> keyPrefix @ b" "lockPrefix @ a \<noteq> statePrefix @ b" "statePrefix @ a \<noteq> lockPrefix @ b"
  "keyPrefix \<noteq> lockPrefix" "lockPrefix \<noteq> keyPrefix" "keyPrefix \<noteq> statePrefix" "statePrefix \<noteq> keyPrefix"
  "lockPrefix \<noteq> statePrefix" "statePrefix \<noteq> lockPrefix"
  by (simp_all add: keyPrefix_def lockPrefix_def statePrefix_def)

section \<open>Sessions\<close>

definition session_at :: "int \<Rightarrow> 'b bff_db \<Rightarrow> string \<Rightarrow> bff_Session option" where
  "session_at t d sid = Option.bind (redis_get t (fst d) (keyPrefix @ sid)) session_Unmarshal"

definition session_text_ok :: "bff_Session \<Rightarrow> bool" where
  "session_text_ok s \<longleftrightarrow> list_all valid_utf8
     [seUserID s, seAccessToken s, seRefreshToken s, seIDToken s, seDeviceSessionID s]"

lemma session_names:
  "\<forall>a \<in> set [''user_id'', ''access_token'', ''refresh_token'', ''id_token'', ''token_expiry'',
       ''device_session_id'', ''created_at'', ''last_active_at''].
     \<forall>b \<in> set [''user_id'', ''access_token'', ''refresh_token'', ''id_token'', ''token_expiry'',
       ''device_session_id'', ''created_at'', ''last_active_at'']. same_field a b = (a = b)"
  by code_simp

lemma session_names_utf8:
  "\<forall>a \<in> set [''user_id'', ''access_token'', ''refresh_token'', ''id_token'', ''token_expiry'',
       ''device_session_id'', ''created_at'', ''last_active_at'', ''verifier'']. valid_utf8 a"
  by code_simp

lemma ascii_valid: "\<forall>c \<in> set s. is_ascii c \<Longrightarrow> valid_utf8 s"
proof (induction s rule: valid_utf8.induct)
  case (1 s)
  then show ?case by (cases s) (subst valid_utf8.simps, auto)+
qed

lemma digit_ascii: "digit_val c \<noteq> None \<Longrightarrow> is_ascii c"
proof -
  have "\<forall>c \<in> set ''0123456789''. is_ascii c" by code_simp
  then show "digit_val c \<noteq> None \<Longrightarrow> is_ascii c"
    by (auto simp: digit_val_def dest!: map_of_SomeD set_zip_leftD)
qed

lemma time_text_valid: "time_MarshalText t = Some s \<Longrightarrow> valid_utf8 s"
proof (rule ascii_valid, rule ballI)
  fix c assume s: "time_MarshalText t = Some s" and c: "c \<in> set s"
  have sep: "\<forall>c \<in> set ''-T:.Z''. is_ascii c" by code_simp
  have y: "year_text (year_of t) = pad 4 (nat (year_of t))" using s
    by (auto simp: time_MarshalText_def year_text_def Let_def split: if_splits)
  have dg: "\<And>w n. c \<in> set (pad w n) \<Longrightarrow> is_ascii c" using pad_digits digit_ascii by blast
  have fr: "\<And>n. c \<in> set (fraction_text n) \<Longrightarrow> is_ascii c"
    using dg [of 9] sep by (auto simp: fraction_text_def split: if_splits dest: set_dropWhileD)
  show "is_ascii c"
    using s c y fr dg sep by (auto simp: time_MarshalText_def date_time_text_def year_of_def Let_def
        split: if_splits prod.splits)
qed

lemma session_Unmarshal_Marshal:
  assumes "session_Marshal s = Some data" "session_text_ok s"
  shows "session_Unmarshal data = Some s"
proof -
  obtain e c l where t: "time_MarshalText (seTokenExpiry s) = Some e" "time_MarshalText (seCreatedAt s) = Some c"
      "time_MarshalText (seLastActiveAt s) = Some l"
    using assms(1) by (auto simp: session_Marshal_def split: bind_splits)
  define kvs where "kvs = [(''user_id'', seUserID s), (''access_token'', seAccessToken s),
      (''refresh_token'', seRefreshToken s), (''id_token'', seIDToken s), (''token_expiry'', e),
      (''device_session_id'', seDeviceSessionID s), (''created_at'', c), (''last_active_at'', l)]"
  have data: "data = json_print kvs" using assms(1) t by (simp add: session_Marshal_def kvs_def)
  have "\<forall>(k, v) \<in> set kvs. valid_utf8 k \<and> valid_utf8 v"
    using session_names_utf8 time_text_valid t assms(2) by (simp add: kvs_def session_text_ok_def)
  with json_parse_print [of kvs] have "json_parse data = Some (JObj (map (apsnd JStr) kvs))"
    by (simp add: data kvs_def)
  moreover have "session_fields (map (apsnd JStr) kvs) = Some s"
    using session_names Marshal_Unmarshal t by (simp add: session_fields_def kvs_def)
  ultimately show ?thesis by (simp add: session_Unmarshal_def)
qed

lemma verifier_round_trip:
  assumes "valid_utf8 v"
  shows "\<exists>m. verifier_Unmarshal (json_print [(''verifier'', v)]) = Some m \<and> m ''verifier'' = Some v"
  using json_parse_print [of "[(''verifier'', v)]"] session_names_utf8 assms
  by (simp add: verifier_Unmarshal_def)

text \<open>A session that is loaded was stored, within both limits; loading renews its idle time.\<close>

lemma Load_Inr:
  assumes "run_state (Store_Load st sid) w = (Inr sess, w')"
  shows "session_at (clock w) (db w) sid = Some sess"
    and "seCreatedAt sess = zeroTime \<or> clock (pass w) \<le> seCreatedAt sess + stHardTTL st"
    and "redis_frame {keyPrefix @ sid} (db w) (db w')"
    and "0 < stIdleTTL st \<Longrightarrow> clock w \<le> u \<Longrightarrow> u \<le> clock w + stIdleTTL st \<Longrightarrow> session_at u (db w') sid = Some sess"
proof -
  from assms obtain data where d: "redis_get (clock w) (fst (db w)) (keyPrefix @ sid) = Some data"
      "session_Unmarshal data = Some sess"
      "db w' = (redis_set (clock w) (keyPrefix @ sid) data (stIdleTTL st) (fst (db w)), snd (db w))"
      "seCreatedAt sess = zeroTime \<or> clock (pass w) \<le> seCreatedAt sess + stHardTTL st"
    by (auto simp: Store_Load_def rdb_GetEx_def run_db_exec
        split: prod.splits sum.splits option.splits if_splits)
  show "session_at (clock w) (db w) sid = Some sess" using d by (simp add: session_at_def)
  show "seCreatedAt sess = zeroTime \<or> clock (pass w) \<le> seCreatedAt sess + stHardTTL st" by (rule d(4))
  show "redis_frame {keyPrefix @ sid} (db w) (db w')" using d by (simp add: redis_frame_def redis_set_def)
  show "0 < stIdleTTL st \<Longrightarrow> clock w \<le> u \<Longrightarrow> u \<le> clock w + stIdleTTL st \<Longrightarrow> session_at u (db w') sid = Some sess"
    using d by (simp add: session_at_def redis_get_set)
qed

lemma Load_frame:
  assumes "run_state (Store_Load st sid) w = (r, w')"
  shows "redis_frame {keyPrefix @ sid} (db w) (db w')"
proof -
  from assms obtain q w1 where q: "run_state (rdb_GetEx (keyPrefix @ sid) (stIdleTTL st)) w = (q, w1)"
    by (cases "run_state (rdb_GetEx (keyPrefix @ sid) (stIdleTTL st)) w")
  have "redis_frame {keyPrefix @ sid} (db w1) (db w')"
    using assms q by (auto simp: Store_Load_def Store_Delete_def split: sum.splits option.splits if_splits prod.splits
        dest: redis_cmd_frame(3))
  with redis_cmd_frame(2) [OF q] show ?thesis by (rule redis_frame_trans)
qed

text \<open>Not found: there is none, or it is past its hard limit and now gone.\<close>

lemma Load_NotFound:
  assumes "run_state (Store_Load st sid) w = (Inl e, w')" "errors_Is e SessionErrNotFound"
  shows "redis_get (clock w) (fst (db w)) (keyPrefix @ sid) = None
    \<or> (\<exists>sess. session_at (clock w) (db w) sid = Some sess \<and> seCreatedAt sess + stHardTTL st < clock (pass w))"
  using assms
  by (auto simp: Store_Load_def rdb_GetEx_def run_db_exec session_at_def
      split: prod.splits sum.splits option.splits if_splits)

lemma Load_quiet:
  assumes "quiet w" "session_at (clock w) (db w) sid = Some sess"
    "seCreatedAt sess = zeroTime \<or> clock (pass w) \<le> seCreatedAt sess + stHardTTL st"
  shows "\<exists>w'. run_state (Store_Load st sid) w = (Inr sess, w') \<and> quiet w'"
  using assms
  by (auto simp: Store_Load_def rdb_GetEx_def run_db_exec_quiet session_at_def split: option.splits prod.splits)

lemma Save_session:
  assumes "run_state (Store_Save st sid sess) w = (Inr u, w')" "session_text_ok sess" "0 < stIdleTTL st"
    "t \<le> clock w + stIdleTTL st"
  shows "session_at t (db w') sid = Some sess"
  using assms session_Unmarshal_Marshal
  by (auto simp: Store_Save_def rdb_Set_def run_db_exec session_at_def redis_get_set
      split: option.splits prod.splits)

lemma Save_frame: "run_state (Store_Save st sid sess) w = (r, w') \<Longrightarrow> redis_frame {keyPrefix @ sid} (db w) (db w')"
  by (auto simp: Store_Save_def split: option.splits dest: redis_cmd_frame(1))

lemma Delete_frame: "run_state (Store_Delete sid) w = (r, w') \<Longrightarrow> redis_frame {keyPrefix @ sid} (db w) (db w')"
  unfolding Store_Delete_def by (rule redis_cmd_frame(3))

lemma Delete_gone: "run_state (Store_Delete sid) w = (Inr u, w') \<Longrightarrow> session_at t (db w') sid = None"
  by (auto simp: Store_Delete_def rdb_Del_def run_db_exec session_at_def redis_get_del split: option.splits prod.splits)

lemma Acquire_frame:
  "run_state (Store_AcquireRefreshLock sid) w = (r, w') \<Longrightarrow> redis_frame {lockPrefix @ sid} (db w) (db w')"
  by (auto simp: Store_AcquireRefreshLock_def split: prod.splits sum.splits if_splits dest: redis_cmd_frame(4))

lemma Release_frame:
  "run_state (Store_ReleaseRefreshLock sid) w = (r, w') \<Longrightarrow> redis_frame {lockPrefix @ sid} (db w) (db w')"
  unfolding Store_ReleaseRefreshLock_def by (rule redis_cmd_frame(3))

lemma State_frame:
  "run_state (Store_SaveState s v) w = (q, w') \<Longrightarrow> redis_frame {statePrefix @ s} (db w) (db w')"
  "run_state (Store_LoadAndDeleteState s) w = (r, w') \<Longrightarrow> redis_frame {statePrefix @ s} (db w) (db w')"
  by (auto simp: Store_SaveState_def Store_LoadAndDeleteState_def split: prod.splits sum.splits if_splits option.splits
      dest: redis_cmd_frame(1,5))

end
