(* ===== verification/BffAuth.thy ===== *)
theory BffAuth
  imports BffStore GoHttp
begin

text \<open>
  \<open>myaccount-bff/internal/oidcrp/client.go\<close>, the relying party's calls of the OpenID and OAuth2
  libraries, and \<open>internal/middleware\<close>: authentication by session cookie with its token refresh,
  and the guard against cross-site requests.
\<close>

section \<open>The relying party\<close>

record rp_token =
  tkAccessToken :: string
  tkRefreshToken :: string
  tkExpiry :: int
  tkIDToken :: "string option"

text \<open>
  The libraries: a random verifier, the authorization URL of a state and a verifier, the exchange
  of a code, the refresh of a token and the verification of an ID token (its subject), each by what
  it answers at a step; \<open>lib_discovery\<close> is the provider's discovery document. \<open>tkIDToken\<close> is the
  \<open>id_token\<close> of a token's extra fields when it is a string.
\<close>

record rp_lib =
  lib_GenerateVerifier :: "nat \<Rightarrow> string"
  lib_AuthCodeURL :: "string \<Rightarrow> string \<Rightarrow> string"
  lib_Exchange :: "string \<Rightarrow> string \<Rightarrow> nat \<Rightarrow> nat + rp_token"
  lib_Token :: "string \<Rightarrow> nat \<Rightarrow> nat + rp_token"
  lib_Verify :: "string \<Rightarrow> nat \<Rightarrow> nat + string"
  lib_discovery :: string

definition oauth2_GenerateVerifier :: "rp_lib \<Rightarrow> ('db, string) io" where
  "oauth2_GenerateVerifier lib = State (\<lambda>w. (lib_GenerateVerifier lib (step w), pass w))"

definition Client_AuthCodeURL :: "rp_lib \<Rightarrow> ('db, string \<times> string \<times> string) io" where
  "Client_AuthCodeURL lib = do {
     state \<leftarrow> oauth2_GenerateVerifier lib;
     verifier \<leftarrow> oauth2_GenerateVerifier lib;
     ret (lib_AuthCodeURL lib state verifier, state, verifier) }"

definition Client_Exchange :: "rp_lib \<Rightarrow> string \<Rightarrow> string \<Rightarrow> ('db, rp_token \<times> string) eio" where
  "Client_Exchange lib code verifier = do {
     r \<leftarrow> oracle_call (lib_Exchange lib code verifier);
     case r of
       Inl err \<Rightarrow> ret (Inl (errorf ''token exchange: '' err))
     | Inr token \<Rightarrow>
         (case tkIDToken token of
            None \<Rightarrow> ret (Inl (ErrorString ''id_token missing from token response''))
          | Some rawIDToken \<Rightarrow>
              if rawIDToken = [] then ret (Inl (ErrorString ''id_token missing from token response''))
              else do {
                v \<leftarrow> oracle_call (lib_Verify lib rawIDToken);
                case v of
                  Inl err \<Rightarrow> ret (Inl (errorf ''verify id_token: '' err))
                | Inr subject \<Rightarrow> ret (Inr (token, subject)) }) }"

definition Client_EndSessionURL :: "rp_lib \<Rightarrow> string \<Rightarrow> string \<Rightarrow> goerr + string" where
  "Client_EndSessionURL lib idToken postLogoutRedirectURI =
     (case (case json_parse (lib_discovery lib) of
              Some JNull \<Rightarrow> Some []
            | Some (JObj kvs) \<Rightarrow> into_field into_string ''end_session_endpoint'' kvs []
            | _ \<Rightarrow> None) of
        None \<Rightarrow> Inl (errorf ''provider claims: '' (DriverErr 0))
      | Some endpoint \<Rightarrow>
          if endpoint = [] then Inl (ErrorString ''end_session_endpoint not found in discovery document'')
          else let u = endpoint @ ''?id_token_hint='' @ idToken
               in Inr (if postLogoutRedirectURI \<noteq> []
                       then u @ ''&post_logout_redirect_uri='' @ postLogoutRedirectURI else u))"

definition Client_RefreshToken :: "rp_lib \<Rightarrow> string \<Rightarrow> ('db, rp_token \<times> string option) eio" where
  "Client_RefreshToken lib rawRefreshToken = do {
     r \<leftarrow> oracle_call (lib_Token lib rawRefreshToken);
     case r of
       Inl err \<Rightarrow> ret (Inl (errorf ''token refresh: '' err))
     | Inr tok \<Rightarrow>
         (case tkIDToken tok of
            None \<Rightarrow> ret (Inr (tok, None))
          | Some rawIDToken \<Rightarrow>
              if rawIDToken = [] then ret (Inr (tok, None))
              else do {
                v \<leftarrow> oracle_call (lib_Verify lib rawIDToken);
                ret (Inr (tok, case v of Inl _ \<Rightarrow> None | Inr subject \<Rightarrow> Some subject)) }) }"

text \<open>Decoding one string field and going on after a value of another type.\<close>

fun keep_string_field :: "string \<Rightarrow> (string \<times> json) list \<Rightarrow> string \<Rightarrow> string" where
  "keep_string_field name [] old = old"
| "keep_string_field name ((k, v) # kvs) old =
     keep_string_field name kvs
       (if same_field k name then (case into_string v old of Some s \<Rightarrow> s | None \<Rightarrow> old) else old)"

definition ExtractDSID :: "string \<Rightarrow> string" where
  "ExtractDSID rawAccessToken =
     (let parts = strings_Split [] rawAccessToken ''.''
      in if length parts \<noteq> 3 then []
         else case b64_Decode False (parts ! 1) of
           None \<Rightarrow> []
         | Some payload \<Rightarrow>
             (case json_parse (string_of payload) of
                Some (JObj kvs) \<Rightarrow> keep_string_field ''dsid'' kvs []
              | _ \<Rightarrow> []))"

section \<open>Authentication\<close>

definition sid_cookie :: "string \<Rightarrow> int \<Rightarrow> cookie" where
  "sid_cookie v maxAge = \<lparr>ckName = ''__Host-sid'', ckValue = v, ckMaxAge = maxAge, ckHttpOnly = True,
     ckSecure = True, ckSameSite = SameSiteLax, ckPath = ''/''\<rparr>"

definition clearCookie :: cookie where
  "clearCookie = sid_cookie [] (- 1)"

definition writeErrorJSON :: "cookie list \<Rightarrow> nat \<Rightarrow> string \<Rightarrow> string \<Rightarrow> http_response" where
  "writeErrorJSON cookies statusCode code message =
     \<lparr>rsStatus = statusCode,
      rsBody = ''{'' @ json_quote ''error'' @ '':'' @ [CHR 0x22] @ code @ [CHR 0x22] @ '','' @
        json_quote ''message'' @ '':'' @ [CHR 0x22] @ message @ [CHR 0x22] @ ''}'',
      rsLocation = None, rsCookies = cookies\<rparr>"

definition time_Sleep :: "int \<Rightarrow> ('db, unit) io" where
  "time_Sleep d = State (\<lambda>w. ((), (pass w)\<lparr>clock := clock (pass w) + d\<rparr>))"

text \<open>\<open>time.Until\<close> saturates at the ends of a \<open>Duration\<close>, which no comparison with a minute sees.\<close>

definition time_Until :: "int \<Rightarrow> ('db, int) io" where
  "time_Until t = do { now \<leftarrow> time_Now; ret (t - now) }"

definition refreshed :: "bff_Session \<Rightarrow> rp_token \<Rightarrow> int \<Rightarrow> bff_Session" where
  "refreshed sess newToken now =
     (let s1 = sess\<lparr>seAccessToken := tkAccessToken newToken\<rparr>;
          s2 = (if tkRefreshToken newToken \<noteq> [] then s1\<lparr>seRefreshToken := tkRefreshToken newToken\<rparr> else s1);
          s3 = s2\<lparr>seTokenExpiry := tkExpiry newToken\<rparr>;
          s4 = (case tkIDToken newToken of
                  Some raw \<Rightarrow> if raw \<noteq> [] then s3\<lparr>seIDToken := raw\<rparr> else s3
                | None \<Rightarrow> s3);
          newDSID = ExtractDSID (tkAccessToken newToken);
          s5 = (if newDSID \<noteq> [] then s4\<lparr>seDeviceSessionID := newDSID\<rparr> else s4)
      in s5\<lparr>seLastActiveAt := now\<rparr>)"

text \<open>The body of \<open>refreshTokens\<close> while it holds the lock.\<close>

definition refreshTokens_locked :: "Store \<Rightarrow> rp_lib \<Rightarrow> string \<Rightarrow> bff_Session \<Rightarrow> ('b bff_db, bff_Session) eio" where
  "refreshTokens_locked store rp sid sess = do {
     left \<leftarrow> time_Until (seTokenExpiry sess);
     if 60 * Second \<le> left then ret (Inr sess)
     else do {
       r \<leftarrow> Client_RefreshToken rp (seRefreshToken sess);
       case r of
         Inl _ \<Rightarrow> ret (Inl (Sentinel ErrRefreshFailed))
       | Inr (newToken, _) \<Rightarrow> do {
           now \<leftarrow> time_Now;
           let sess' = refreshed sess newToken now;
           s \<leftarrow> Store_Save store sid sess';
           case s of
             Inl err \<Rightarrow> ret (Inl err)
           | Inr _ \<Rightarrow> ret (Inr sess') } } }"

definition refreshTokens :: "Store \<Rightarrow> rp_lib \<Rightarrow> string \<Rightarrow> bff_Session \<Rightarrow> ('b bff_db, bff_Session) eio" where
  "refreshTokens store rp sid sess = do {
     a \<leftarrow> Store_AcquireRefreshLock sid;
     case a of
       Inl err \<Rightarrow> ret (Inl err)
     | Inr acquired \<Rightarrow>
         if \<not> acquired then do {
           time_Sleep (500 * 1000000);
           l \<leftarrow> Store_Load store sid;
           case l of
             Inl err \<Rightarrow>
               if errors_Is err SessionErrNotFound then ret (Inl (Sentinel ErrRefreshFailed)) else ret (Inl err)
           | Inr reloaded \<Rightarrow> ret (Inr reloaded) }
         else do {
           r \<leftarrow> refreshTokens_locked store rp sid sess;
           _ \<leftarrow> Store_ReleaseRefreshLock sid;
           ret r } }"

definition Auth ::
  "Store \<Rightarrow> rp_lib \<Rightarrow> http_request \<Rightarrow> (bff_Session \<Rightarrow> ('b bff_db, http_response) io) \<Rightarrow> ('b bff_db, http_response) io" where
  "Auth store rp r handler =
     (case rqCookie r ''__Host-sid'' of
        None \<Rightarrow> ret (writeErrorJSON [] 401 ''unauthorized'' ''not authenticated'')
      | Some sid \<Rightarrow> do {
          l \<leftarrow> Store_Load store sid;
          case l of
            Inl err \<Rightarrow>
              if errors_Is err SessionErrNotFound
              then ret (writeErrorJSON [clearCookie] 401 ''unauthorized'' ''session expired'')
              else ret (writeErrorJSON [] 500 ''internal'' ''session store error'')
          | Inr sess \<Rightarrow> do {
              left \<leftarrow> time_Until (seTokenExpiry sess);
              if left < 60 * Second then do {
                f \<leftarrow> refreshTokens store rp sid sess;
                case f of
                  Inl err \<Rightarrow>
                    if errors_Is err ErrRefreshFailed then do {
                      _ \<leftarrow> Store_Delete sid;
                      ret (writeErrorJSON [clearCookie] 401 ''unauthorized'' ''session expired'') }
                    else ret (writeErrorJSON [] 500 ''internal'' ''token refresh error'')
                | Inr sess' \<Rightarrow> handler sess' }
              else handler sess } })"

section \<open>Cross-site requests\<close>

definition CSRF :: "http_request \<Rightarrow> ('db, http_response) io \<Rightarrow> ('db, http_response) io" where
  "CSRF r handler =
     (if rqMethod r \<in> {''POST'', ''PATCH'', ''DELETE'', ''PUT''} \<and> rqHeader r ''X-Requested-With'' \<noteq> ''XMLHttpRequest''
      then ret (http_Error [] (json_print [(''error'', ''csrf''), (''message'', ''X-Requested-With header required'')]) 403)
      else handler)"

end
