(* ===== verification/BffHandlers.thy ===== *)
theory BffHandlers
  imports BffAuth AccountsServer
begin

text \<open>
  \<open>myaccount-bff/internal/handler\<close> and \<open>internal/accounts/client.go\<close>, with the routes of \<open>main.go\<close>.
  The router is a library: a \<open>route\<close> is what it has chosen, with the URL parameter where the
  pattern has one. Handlers behind the authentication receive the session that the context holds.
  The messages of the account API are those of its server, whose time stamps are never nil.
\<close>

record api_request = http_request +
  rqBody :: string

section \<open>Errors\<close>

text \<open>\<open>status.FromError\<close>: the code of the status in the chain of an error.\<close>

fun status_FromError :: "goerr \<Rightarrow> grpc_code option" where
  "status_FromError (StatusErr c m) = Some c"
| "status_FromError (Wrap pre e post) = status_FromError e"
| "status_FromError _ = None"

definition grpcToHTTP :: "goerr \<Rightarrow> nat \<times> string" where
  "grpcToHTTP err =
     (case status_FromError err of
        None \<Rightarrow> (500, ''internal'')
      | Some NotFound \<Rightarrow> (404, ''not_found'')
      | Some InvalidArgument \<Rightarrow> (400, ''invalid_argument'')
      | Some PermissionDenied \<Rightarrow> (403, ''forbidden'')
      | Some Unauthenticated \<Rightarrow> (401, ''unauthorized'')
      | Some FailedPrecondition \<Rightarrow> (409, ''conflict'')
      | _ \<Rightarrow> (500, ''internal''))"

definition json_response :: "nat \<Rightarrow> cookie list \<Rightarrow> string \<Rightarrow> http_response" where
  "json_response code cookies body =
     \<lparr>rsStatus = code, rsBody = body @ [CHR 0x0A], rsLocation = None, rsCookies = cookies\<rparr>"

definition writeError :: "nat \<Rightarrow> string \<Rightarrow> string \<Rightarrow> http_response" where
  "writeError statusCode code message =
     json_response statusCode [] (json_print [(''error'', code), (''message'', message)])"

definition grpc_error :: "goerr \<Rightarrow> http_response" where
  "grpc_error err = (case grpcToHTTP err of (httpStatus, code) \<Rightarrow> writeError httpStatus code (error_text err))"

definition no_content :: "cookie list \<Rightarrow> http_response" where
  "no_content cookies = \<lparr>rsStatus = 204, rsBody = [], rsLocation = None, rsCookies = cookies\<rparr>"

text \<open>An object whose values are given as they are printed, and an array of printed values.\<close>

fun comma_sep :: "string list \<Rightarrow> string" where
  "comma_sep [] = []"
| "comma_sep [x] = x"
| "comma_sep (x # xs) = x @ '','' @ comma_sep xs"

definition json_object :: "(string \<times> string) list \<Rightarrow> string" where
  "json_object kvs = ''{'' @ comma_sep (map (\<lambda>(k, v). json_quote k @ '':'' @ v) kvs) @ ''}''"

definition json_array :: "string list \<Rightarrow> string" where
  "json_array xs = ''['' @ comma_sep xs @ '']''"

definition json_bool :: "bool \<Rightarrow> string" where
  "json_bool b = (if b then ''true'' else ''false'')"

section \<open>The account API's client\<close>

text \<open>The generated client, one method per RPC, with the outgoing metadata.\<close>

record 'db AccountManagementServiceClient =
  svc_GetMyProfile :: "grpc_metadata \<Rightarrow> ('db, Profile) eio"
  svc_UpdateMyProfile :: "grpc_metadata \<Rightarrow> string option \<Rightarrow> string option \<Rightarrow> ('db, Profile) eio"
  svc_ListLinkedProviders :: "grpc_metadata \<Rightarrow> ('db, FederatedProviderInfo list) eio"
  svc_UnlinkProvider :: "grpc_metadata \<Rightarrow> string \<Rightarrow> ('db, unit) eio"
  svc_ListActiveSessions :: "grpc_metadata \<Rightarrow> ('db, Session list) eio"
  svc_RevokeSession :: "grpc_metadata \<Rightarrow> string \<Rightarrow> ('db, unit) eio"
  svc_RevokeAllOtherSessions :: "grpc_metadata \<Rightarrow> string \<Rightarrow> ('db, unit) eio"

definition withBearer :: "string \<Rightarrow> grpc_metadata" where
  "withBearer token = (\<lambda>k. if k = ''authorization'' then [''Bearer '' @ token] else [])"

definition accounts_GetMyProfile :: "'db AccountManagementServiceClient \<Rightarrow> string \<Rightarrow> ('db, Profile) eio" where
  "accounts_GetMyProfile c token = svc_GetMyProfile c (withBearer token)"

definition accounts_UpdateMyProfile ::
  "'db AccountManagementServiceClient \<Rightarrow> string \<Rightarrow> string option \<Rightarrow> string option \<Rightarrow> ('db, Profile) eio" where
  "accounts_UpdateMyProfile c token name picture = svc_UpdateMyProfile c (withBearer token) name picture"

definition accounts_ListLinkedProviders ::
  "'db AccountManagementServiceClient \<Rightarrow> string \<Rightarrow> ('db, FederatedProviderInfo list) eio" where
  "accounts_ListLinkedProviders c token = do {
     r \<leftarrow> svc_ListLinkedProviders c (withBearer token);
     case r of Inl err \<Rightarrow> ret (Inl err) | Inr resp \<Rightarrow> ret (Inr resp) }"

definition accounts_UnlinkProvider :: "'db AccountManagementServiceClient \<Rightarrow> string \<Rightarrow> string \<Rightarrow> ('db, unit) eio" where
  "accounts_UnlinkProvider c token identityID = svc_UnlinkProvider c (withBearer token) identityID"

definition accounts_ListActiveSessions :: "'db AccountManagementServiceClient \<Rightarrow> string \<Rightarrow> ('db, Session list) eio" where
  "accounts_ListActiveSessions c token = do {
     r \<leftarrow> svc_ListActiveSessions c (withBearer token);
     case r of Inl err \<Rightarrow> ret (Inl err) | Inr resp \<Rightarrow> ret (Inr resp) }"

definition accounts_RevokeSession :: "'db AccountManagementServiceClient \<Rightarrow> string \<Rightarrow> string \<Rightarrow> ('db, unit) eio" where
  "accounts_RevokeSession c token sessionID = svc_RevokeSession c (withBearer token) sessionID"

definition accounts_RevokeAllOtherSessions ::
  "'db AccountManagementServiceClient \<Rightarrow> string \<Rightarrow> string \<Rightarrow> ('db, unit) eio" where
  "accounts_RevokeAllOtherSessions c token currentSessionID =
     svc_RevokeAllOtherSessions c (withBearer token) currentSessionID"

lemmas accounts_client_defs = accounts_GetMyProfile_def accounts_UpdateMyProfile_def
  accounts_ListLinkedProviders_def accounts_UnlinkProvider_def accounts_ListActiveSessions_def
  accounts_RevokeSession_def accounts_RevokeAllOtherSessions_def

section \<open>Signing in and out\<close>

definition AuthHandler_Login :: "rp_lib \<Rightarrow> ('b bff_db, http_response) io" where
  "AuthHandler_Login rp = do {
     (authURL, state, verifier) \<leftarrow> Client_AuthCodeURL rp;
     s \<leftarrow> Store_SaveState state verifier;
     case s of
       Inl err \<Rightarrow> ret (writeError 500 ''internal'' ''failed to save state'')
     | Inr _ \<Rightarrow> ret (http_Redirect [] authURL 302) }"

definition AuthHandler_Callback :: "Store \<Rightarrow> rp_lib \<Rightarrow> api_request \<Rightarrow> ('b bff_db, http_response) io" where
  "AuthHandler_Callback store rp r =
     (let code = rqQuery r ''code''; state = rqQuery r ''state''
      in if code = [] \<or> state = [] then ret (writeError 400 ''invalid_request'' ''code and state are required'')
         else do {
           v \<leftarrow> Store_LoadAndDeleteState state;
           case v of
             Inl err \<Rightarrow> ret (writeError 400 ''invalid_state'' ''invalid or expired state'')
           | Inr verifier \<Rightarrow> do {
               e \<leftarrow> Client_Exchange rp code verifier;
               case e of
                 Inl err \<Rightarrow> ret (writeError 400 ''exchange_failed'' ''token exchange failed'')
               | Inr (token, subject) \<Rightarrow> do {
                   let rawIDToken = (case tkIDToken token of Some raw \<Rightarrow> raw | None \<Rightarrow> []);
                   let dsid = ExtractDSID (tkAccessToken token);
                   now \<leftarrow> time_Now;
                   let sess = \<lparr>seUserID = subject, seAccessToken = tkAccessToken token,
                     seRefreshToken = tkRefreshToken token, seIDToken = rawIDToken, seTokenExpiry = tkExpiry token,
                     seDeviceSessionID = dsid, seCreatedAt = now, seLastActiveAt = now\<rparr>;
                   sid \<leftarrow> ulid_Make;
                   s \<leftarrow> Store_Save store sid sess;
                   case s of
                     Inl err \<Rightarrow> ret (writeError 500 ''internal'' ''failed to save session'')
                   | Inr _ \<Rightarrow> ret (http_Redirect [sid_cookie sid (7 * 24 * 60 * 60)] ''/'' 302) } } })"

definition AuthHandler_Logout :: "rp_lib \<Rightarrow> bff_Session \<Rightarrow> api_request \<Rightarrow> ('b bff_db, http_response) io" where
  "AuthHandler_Logout rp sess r = do {
     _ \<leftarrow> (case rqCookie r ''__Host-sid'' of
         Some sid \<Rightarrow> Store_Delete sid
       | None \<Rightarrow> ret (Inr ()));
     let endSessionURL = (case Client_EndSessionURL rp (seIDToken sess) [] of Inl _ \<Rightarrow> ''/'' | Inr u \<Rightarrow> u);
     ret (json_response 200 [sid_cookie [] (- 1)] (json_print [(''redirect_to'', endSessionURL)])) }"

definition AuthHandler_Me :: "Store \<Rightarrow> api_request \<Rightarrow> ('b bff_db, http_response) io" where
  "AuthHandler_Me store r =
     (case rqCookie r ''__Host-sid'' of
        None \<Rightarrow> ret (json_response 200 [] (json_object [(''logged_in'', json_bool False)]))
      | Some sid \<Rightarrow> do {
          l \<leftarrow> Store_Load store sid;
          case l of
            Inl err \<Rightarrow> ret (json_response 200 [] (json_object [(''logged_in'', json_bool False)]))
          | Inr sess \<Rightarrow> ret (json_response 200 [] (json_object
              [(''logged_in'', json_bool True), (''user_id'', json_quote (seUserID sess))])) })"

section \<open>Profile\<close>

definition AsTime :: "int \<times> int \<Rightarrow> int" where
  "AsTime ts = fst ts * Second + snd ts"

definition toProfileResponse :: "Profile \<Rightarrow> string" where
  "toProfileResponse p = json_object
     [(''user_id'', json_quote (pbUserId p)), (''email'', json_quote (pbEmail p)),
      (''email_verified'', json_bool (pbEmailVerified p)), (''name'', json_quote (pbName p)),
      (''given_name'', json_quote (pbGivenName p)), (''family_name'', json_quote (pbFamilyName p)),
      (''picture'', json_quote (pbPicture p)), (''name_is_local'', json_bool (pbNameIsLocal p)),
      (''picture_is_local'', json_bool (pbPictureIsLocal p)),
      (''created_at'', json_quote (Format_RFC3339 (AsTime (pbCreatedAt p)))),
      (''updated_at'', json_quote (Format_RFC3339 (AsTime (pbUpdatedAt p))))]"

definition ProfileHandler_Get ::
  "'b bff_db AccountManagementServiceClient \<Rightarrow> bff_Session \<Rightarrow> ('b bff_db, http_response) io" where
  "ProfileHandler_Get ac sess = do {
     p \<leftarrow> accounts_GetMyProfile ac (seAccessToken sess);
     case p of
       Inl err \<Rightarrow> ret (grpc_error err)
     | Inr profile \<Rightarrow> ret (json_response 200 [] (toProfileResponse profile)) }"

text \<open>Decoding into a \<open>*string\<close>: null is nil.\<close>

fun into_string_ptr :: "json \<Rightarrow> string option \<Rightarrow> string option option" where
  "into_string_ptr (JStr s) old = Some (Some s)"
| "into_string_ptr JNull old = Some None"
| "into_string_ptr _ old = None"

definition updateProfileRequest :: "string \<Rightarrow> (string option \<times> string option) option" where
  "updateProfileRequest body =
     (let fields = (\<lambda>kvs.
           Option.bind (into_field into_string_ptr ''name'' kvs None) (\<lambda>nm.
           map_option (\<lambda>pic. (nm, pic)) (into_field into_string_ptr ''picture'' kvs None)))
      in case json_first body of
           Some (JNull, _) \<Rightarrow> fields []
         | Some (JObj kvs, _) \<Rightarrow> fields kvs
         | _ \<Rightarrow> None)"

definition ProfileHandler_Update ::
  "'b bff_db AccountManagementServiceClient \<Rightarrow> bff_Session \<Rightarrow> api_request \<Rightarrow> ('b bff_db, http_response) io" where
  "ProfileHandler_Update ac sess r =
     (case updateProfileRequest (rqBody r) of
        None \<Rightarrow> ret (writeError 400 ''invalid_request'' ''invalid JSON body'')
      | Some (name, picture) \<Rightarrow> do {
          p \<leftarrow> accounts_UpdateMyProfile ac (seAccessToken sess) name picture;
          case p of
            Inl err \<Rightarrow> ret (grpc_error err)
          | Inr profile \<Rightarrow> ret (json_response 200 [] (toProfileResponse profile)) })"

section \<open>Linked providers\<close>

definition providerResponse :: "FederatedProviderInfo \<Rightarrow> string" where
  "providerResponse p = json_object
     [(''identity_id'', json_quote (pbIdentityId p)), (''provider'', json_quote (pbProvider p)),
      (''provider_email'', json_quote (pbProviderEmail p)),
      (''last_login_at'', json_quote (Format_RFC3339 (AsTime (pbLastLoginAt p))))]"

definition ProvidersHandler_List ::
  "'b bff_db AccountManagementServiceClient \<Rightarrow> bff_Session \<Rightarrow> ('b bff_db, http_response) io" where
  "ProvidersHandler_List ac sess = do {
     p \<leftarrow> accounts_ListLinkedProviders ac (seAccessToken sess);
     case p of
       Inl err \<Rightarrow> ret (grpc_error err)
     | Inr providers \<Rightarrow> ret (json_response 200 [] (json_array (map providerResponse providers))) }"

definition ProvidersHandler_Unlink ::
  "'b bff_db AccountManagementServiceClient \<Rightarrow> bff_Session \<Rightarrow> string \<Rightarrow> ('b bff_db, http_response) io" where
  "ProvidersHandler_Unlink ac sess identityID =
     (if identityID = [] then ret (writeError 400 ''invalid_request'' ''identityID is required'')
      else do {
        u \<leftarrow> accounts_UnlinkProvider ac (seAccessToken sess) identityID;
        case u of
          Inl err \<Rightarrow> ret (grpc_error err)
        | Inr _ \<Rightarrow> ret (no_content []) })"

section \<open>Device sessions\<close>

definition sessionResponse :: "bff_Session \<Rightarrow> Session \<Rightarrow> string" where
  "sessionResponse sess s = json_object
     [(''session_id'', json_quote (pbSessionId s)), (''device_name'', json_quote (pbDeviceName s)),
      (''ip_address'', json_quote (pbIpAddress s)),
      (''created_at'', json_quote (Format_RFC3339 (AsTime (pbSessionCreatedAt s)))),
      (''last_used_at'', json_quote (Format_RFC3339 (AsTime (pbLastUsedAt s)))),
      (''is_current'', json_bool (pbSessionId s = seDeviceSessionID sess))]"

definition SessionsHandler_List ::
  "'b bff_db AccountManagementServiceClient \<Rightarrow> bff_Session \<Rightarrow> ('b bff_db, http_response) io" where
  "SessionsHandler_List ac sess = do {
     p \<leftarrow> accounts_ListActiveSessions ac (seAccessToken sess);
     case p of
       Inl err \<Rightarrow> ret (grpc_error err)
     | Inr sessions \<Rightarrow> ret (json_response 200 [] (json_array (map (sessionResponse sess) sessions))) }"

definition SessionsHandler_Revoke ::
  "'b bff_db AccountManagementServiceClient \<Rightarrow> bff_Session \<Rightarrow> string \<Rightarrow> api_request \<Rightarrow> ('b bff_db, http_response) io" where
  "SessionsHandler_Revoke ac sess sessionID r =
     (if sessionID = [] then ret (writeError 400 ''invalid_request'' ''sessionID is required'')
      else do {
        u \<leftarrow> accounts_RevokeSession ac (seAccessToken sess) sessionID;
        case u of
          Inl err \<Rightarrow>
            if status_FromError err = Some NotFound then ret (writeError 404 ''not_found'' ''session not found'')
            else ret (grpc_error err)
        | Inr _ \<Rightarrow>
            if sessionID = seDeviceSessionID sess then do {
              _ \<leftarrow> (case rqCookie r ''__Host-sid'' of
                  Some sid \<Rightarrow> Store_Delete sid
                | None \<Rightarrow> ret (Inr ()));
              ret (no_content [sid_cookie [] (- 1)]) }
            else ret (no_content []) })"

definition SessionsHandler_RevokeAllOthers ::
  "'b bff_db AccountManagementServiceClient \<Rightarrow> bff_Session \<Rightarrow> ('b bff_db, http_response) io" where
  "SessionsHandler_RevokeAllOthers ac sess =
     (if seDeviceSessionID sess = [] then ret (writeError 409 ''conflict'' ''cannot identify current session'')
      else do {
        u \<leftarrow> accounts_RevokeAllOtherSessions ac (seAccessToken sess) (seDeviceSessionID sess);
        case u of
          Inl err \<Rightarrow> ret (grpc_error err)
        | Inr _ \<Rightarrow> ret (no_content []) })"

lemmas BffHandler_defs = ProfileHandler_Get_def ProfileHandler_Update_def ProvidersHandler_List_def
  ProvidersHandler_Unlink_def SessionsHandler_List_def SessionsHandler_Revoke_def
  SessionsHandler_RevokeAllOthers_def

section \<open>Routes\<close>

datatype route =
    LoginRoute | CallbackRoute | MeRoute | LogoutRoute | ProfileGetRoute | ProfileUpdateRoute
  | ProvidersListRoute | ProviderUnlinkRoute string | SessionsListRoute | SessionsRevokeOthersRoute
  | SessionRevokeRoute string | HealthzRoute | ReadyzRoute

fun route_method :: "route \<Rightarrow> string" where
  "route_method LogoutRoute = ''POST''"
| "route_method ProfileUpdateRoute = ''PATCH''"
| "route_method (ProviderUnlinkRoute i) = ''DELETE''"
| "route_method SessionsRevokeOthersRoute = ''DELETE''"
| "route_method (SessionRevokeRoute i) = ''DELETE''"
| "route_method _ = ''GET''"

record 'b bff_app =
  ba_store :: Store
  ba_rp :: rp_lib
  ba_accounts :: "'b bff_db AccountManagementServiceClient"

definition rdb_Ping :: "('b bff_db, unit) eio" where
  "rdb_Ping = db_exec (\<lambda>t d. Inr ((), d))"

definition readyz :: "('b bff_db, http_response) io" where
  "readyz = do {
     p \<leftarrow> rdb_Ping;
     case p of
       Inl err \<Rightarrow> ret (http_Error [] ''redis not ready'' 503)
     | Inr _ \<Rightarrow> ret \<lparr>rsStatus = 200, rsBody = [], rsLocation = None, rsCookies = []\<rparr> }"

text \<open>The routes of the authenticated group, given the session.\<close>

fun bff_group :: "'b bff_app \<Rightarrow> route \<Rightarrow> api_request \<Rightarrow> bff_Session \<Rightarrow> ('b bff_db, http_response) io" where
  "bff_group a LogoutRoute r sess = AuthHandler_Logout (ba_rp a) sess r"
| "bff_group a ProfileGetRoute r sess = ProfileHandler_Get (ba_accounts a) sess"
| "bff_group a ProfileUpdateRoute r sess = ProfileHandler_Update (ba_accounts a) sess r"
| "bff_group a ProvidersListRoute r sess = ProvidersHandler_List (ba_accounts a) sess"
| "bff_group a (ProviderUnlinkRoute i) r sess = ProvidersHandler_Unlink (ba_accounts a) sess i"
| "bff_group a SessionsListRoute r sess = SessionsHandler_List (ba_accounts a) sess"
| "bff_group a SessionsRevokeOthersRoute r sess = SessionsHandler_RevokeAllOthers (ba_accounts a) sess"
| "bff_group a (SessionRevokeRoute i) r sess = SessionsHandler_Revoke (ba_accounts a) sess i r"
| "bff_group a _ r sess = ret (http_Error [] ''404 page not found'' 404)"

fun bff_serve :: "'b bff_app \<Rightarrow> route \<Rightarrow> api_request \<Rightarrow> ('b bff_db, http_response) io" where
  "bff_serve a LoginRoute r = AuthHandler_Login (ba_rp a)"
| "bff_serve a CallbackRoute r = AuthHandler_Callback (ba_store a) (ba_rp a) r"
| "bff_serve a MeRoute r = AuthHandler_Me (ba_store a) r"
| "bff_serve a HealthzRoute r = ret \<lparr>rsStatus = 200, rsBody = [], rsLocation = None, rsCookies = []\<rparr>"
| "bff_serve a ReadyzRoute r = readyz"
| "bff_serve a rt r =
     Auth (ba_store a) (ba_rp a) (http_request.truncate r)
       (\<lambda>sess. CSRF (http_request.truncate r) (bff_group a rt r sess))"

end
