(* ===== verification/BffRequests.thy ===== *)
theory BffRequests
  imports BffHandlers
begin

text \<open>
  What a request to the account front end does: the authentication middleware by its outcomes, and
  every route over any account service that keeps to the bearer of a call, stated as a locale.
\<close>

section \<open>Relying party calls\<close>

lemma rp_calls_db:
  "run_state (Client_AuthCodeURL lib) w = (x, w') \<Longrightarrow> db w' = db w"
  "run_state (Client_Exchange lib code v) w = (y, w') \<Longrightarrow> db w' = db w"
  "run_state (Client_RefreshToken lib rt) w = (z, w') \<Longrightarrow> db w' = db w"
  by (auto simp: Client_AuthCodeURL_def oauth2_GenerateVerifier_def Client_Exchange_def Client_RefreshToken_def
      run_oracle_call split: prod.splits sum.splits option.splits if_splits)

lemma RefreshToken_Inr:
  "run_state (Client_RefreshToken lib rt) w = (Inr (tok, i), w') \<Longrightarrow> lib_Token lib rt (step w) = Inr tok"
  by (auto simp: Client_RefreshToken_def run_oracle_call split: prod.splits sum.splits option.splits if_splits)

lemma refreshed_keeps [simp]:
  "seUserID (refreshed s tok now) = seUserID s" "seCreatedAt (refreshed s tok now) = seCreatedAt s"
  "seTokenExpiry (refreshed s tok now) = tkExpiry tok" "seAccessToken (refreshed s tok now) = tkAccessToken tok"
  "seLastActiveAt (refreshed s tok now) = now"
  by (auto simp: refreshed_def Let_def split: option.splits)

section \<open>Authentication\<close>

abbreviation sid_keys :: "string \<Rightarrow> string set" where
  "sid_keys sid \<equiv> {keyPrefix @ sid, lockPrefix @ sid}"

lemma session_at_unique: "session_at t d sid = Some a \<Longrightarrow> session_at u d sid = Some b \<Longrightarrow> a = b"
  by (auto simp: session_at_def redis_get_def split: option.splits if_splits bind_splits)

lemma session_at_frame:
  "redis_frame {lockPrefix @ sid} d d' \<Longrightarrow> session_at t d' sid = session_at t d sid"
proof -
  assume "redis_frame {lockPrefix @ sid} d d'"
  then have "fst d' (keyPrefix @ sid) = fst d (keyPrefix @ sid)" by (auto simp: redis_frame_def)
  then show ?thesis by (simp add: session_at_def redis_get_def)
qed

lemma frame_sid:
  "redis_frame {keyPrefix @ sid} d d' \<Longrightarrow> redis_frame (sid_keys sid) d d'"
  "redis_frame {lockPrefix @ sid} d d' \<Longrightarrow> redis_frame (sid_keys sid) d d'"
  by (auto simp: redis_frame_def)

text \<open>Under the lock: the session as it was, or renewed by a token of the provider and stored.\<close>

lemma refresh_locked_cases:
  assumes "run_state (refreshTokens_locked st rp sid sess) w = (r, w')"
  obtains (fresh) "r = Inr sess" "db w' = db w" "clock w + 60 * Second \<le> seTokenExpiry sess"
  | (renewed) tok k now w1 w2 where "lib_Token rp (seRefreshToken sess) k = Inr tok"
      "r = Inr (refreshed sess tok now)" "run_state (Store_Save st sid (refreshed sess tok now)) w1 = (Inr (), w2)"
      "db w1 = db w" "db w' = db w2" "clock w \<le> now" "now \<le> clock w1"
  | (failed) e where "r = Inl e" "redis_frame {keyPrefix @ sid} (db w) (db w')"
proof (cases "60 * Second \<le> seTokenExpiry sess - clock w")
  case True
  with assms have "r = Inr sess" "w' = pass w" by (auto simp: refreshTokens_locked_def time_Until_def)
  with fresh True show ?thesis by simp
next
  case False
  obtain q w1 where q: "run_state (Client_RefreshToken rp (seRefreshToken sess)) (pass w) = (q, w1)" by fastforce
  have d1: "db w1 = db w" using rp_calls_db(3) [OF q] by simp
  show ?thesis
  proof (cases q)
    case (Inl e)
    with assms False q d1 failed show ?thesis by (auto simp: refreshTokens_locked_def time_Until_def)
  next
    case (Inr ti)
    obtain tok i where ti: "ti = (tok, i)" by (cases ti)
    obtain u w2 where s: "run_state (Store_Save st sid (refreshed sess tok (clock w1))) (pass w1) = (u, w2)" by fastforce
    have c: "clock w \<le> clock w1" using q
      by (auto simp: Client_RefreshToken_def run_oracle_call split: prod.splits sum.splits option.splits if_splits)
    note eqs = assms False q Inr ti s
    show ?thesis
    proof (cases u)
      case (Inl e)
      with eqs have "r = Inl e" "w' = w2" by (auto simp: refreshTokens_locked_def time_Until_def Let_def)
      with Save_frame [OF s] d1 failed show ?thesis by simp
    next
      case (Inr v)
      with eqs have "r = Inr (refreshed sess tok (clock w1))" "w' = w2"
        by (auto simp: refreshTokens_locked_def time_Until_def Let_def)
      with RefreshToken_Inr [of rp "seRefreshToken sess" "pass w" tok i w1] q ti \<open>q = Inr ti\<close> s Inr d1 c
      show ?thesis by (intro renewed [of "step (pass w)" tok "clock w1" "pass w1" w2]) auto
    qed
  qed
qed

lemma Acquire_False:
  "run_state (Store_AcquireRefreshLock sid) w = (Inr False, w') \<Longrightarrow>
     redis_get (clock w) (fst (db w)) (lockPrefix @ sid) \<noteq> None"
  by (auto simp: Store_AcquireRefreshLock_def rdb_SetNX_def run_db_exec split: prod.splits sum.splits option.splits if_splits)

lemma refresh_cases:
  assumes "run_state (refreshTokens st rp sid sess) w = (r, w')" "session_at t (db w) sid = Some sess"
  obtains (fresh) "r = Inr sess" "redis_frame {lockPrefix @ sid} (db w) (db w')"
      "clock w + 60 * Second \<le> seTokenExpiry sess"
  | (waited) "r = Inr sess" "redis_get (clock w) (fst (db w)) (lockPrefix @ sid) \<noteq> None"
      "redis_frame (sid_keys sid) (db w) (db w')"
  | (renewed) tok k now w1 w2 where "lib_Token rp (seRefreshToken sess) k = Inr tok"
      "r = Inr (refreshed sess tok now)" "run_state (Store_Save st sid (refreshed sess tok now)) w1 = (Inr (), w2)"
      "redis_frame {lockPrefix @ sid} (db w) (db w1)" "redis_frame {lockPrefix @ sid} (db w2) (db w')"
      "clock w \<le> now" "now \<le> clock w1"
  | (failed) e where "r = Inl e" "redis_frame (sid_keys sid) (db w) (db w')"
proof -
  obtain a w1 where a: "run_state (Store_AcquireRefreshLock sid) w = (a, w1)" by fastforce
  note fr = Acquire_frame [OF a]
  have c1: "clock w \<le> clock w1" using a
    by (auto simp: Store_AcquireRefreshLock_def rdb_SetNX_def run_db_exec split: prod.splits sum.splits option.splits if_splits)
  consider (err) e where "a = Inl e" | (busy) "a = Inr False" | (mine) "a = Inr True" by (cases a) auto
  then show ?thesis
  proof cases
    case err
    with assms(1) a fr failed show ?thesis by (auto simp: refreshTokens_def intro: frame_sid)
  next
    case busy
    define w2 where "w2 = snd (run_state (time_Sleep (500 * 1000000)) w1)"
    have w2: "run_state (time_Sleep (500 * 1000000)) w1 = ((), w2)" "db w2 = db w1"
      by (simp_all add: w2_def time_Sleep_def)
    obtain l w3 where l: "run_state (Store_Load st sid) w2 = (l, w3)" by fastforce
    have fr3: "redis_frame (sid_keys sid) (db w) (db w3)"
      using redis_frame_trans [OF frame_sid(2) [OF fr]] frame_sid(1) [OF Load_frame [OF l]] w2(2) by simp
    show ?thesis
    proof (cases l)
      case (Inl e)
      with assms(1) a busy w2 l fr3 failed show ?thesis
        by (auto simp: refreshTokens_def simp del: bind_runE split: if_splits)
    next
      case (Inr s)
      from Load_Inr(1) [OF l [unfolded Inr]] assms(2) w2(2) session_at_frame [OF fr]
      have "s = sess" using session_at_unique by metis
      with assms(1) a busy w2 l Inr fr3 Acquire_False [of sid w w1] waited show ?thesis
        by (auto simp: refreshTokens_def)
    qed
  next
    case mine
    obtain q w2 where q: "run_state (refreshTokens_locked st rp sid sess) w1 = (q, w2)" by fastforce
    obtain u w3 where u: "run_state (Store_ReleaseRefreshLock sid) w2 = (u, w3)" by fastforce
    have res: "r = q" "w' = w3" using assms(1) a mine q u by (auto simp: refreshTokens_def)
    note fr3 = Release_frame [OF u]
    from q show ?thesis
    proof (cases rule: refresh_locked_cases)
      case fresh': fresh
      have "redis_frame {lockPrefix @ sid} (db w) (db w')"
        using redis_frame_trans [OF fr] fr3 fresh'(2) res(2) by simp
      with fresh'(1,3) res(1) c1 fresh show ?thesis by simp
    next
      case renewed': (renewed tok k now v1 v2)
      then show ?thesis using fr fr3 res c1 by (intro renewed [of k tok now v1 v2]) auto
    next
      case failed': (failed e)
      from redis_frame_trans [OF frame_sid(2) [OF fr] redis_frame_trans [OF frame_sid(1) [OF failed'(2)] frame_sid(2) [OF fr3]]]
      show ?thesis using failed' res failed by simp
    qed
  qed
qed

text \<open>The session a request is served with: the stored one while its token is good for a minute or
  another request holds the refresh lock, or its renewal, which has been stored.\<close>

definition admitted ::
  "Store \<Rightarrow> rp_lib \<Rightarrow> string \<Rightarrow> bff_Session \<Rightarrow> bff_Session \<Rightarrow> int \<Rightarrow> 'b bff_db \<Rightarrow> 'b bff_db \<Rightarrow> bool" where
  "admitted st rp sid sess0 sess t d d1 \<longleftrightarrow>
     (sess = sess0 \<and> t + 60 * Second \<le> seTokenExpiry sess0)
   \<or> (sess = sess0 \<and> (\<exists>u \<ge> t. redis_get u (fst d) (lockPrefix @ sid) \<noteq> None))
   \<or> (\<exists>tok k now. t \<le> now \<and> lib_Token rp (seRefreshToken sess0) k = Inr tok \<and> sess = refreshed sess0 tok now
        \<and> (session_text_ok sess \<longrightarrow> 0 < stIdleTTL st \<longrightarrow>
             (\<forall>u \<le> now + stIdleTTL st. session_at u d1 sid = Some sess)))"

lemma Auth_cases:
  assumes "run_state (Auth st rp r handler) w = (resp, w')"
  obtains (anonymous) "rqCookie r ''__Host-sid'' = None" "rsStatus resp = 401" "w' = w"
  | (refused) sid where "rqCookie r ''__Host-sid'' = Some sid" "rsStatus resp \<in> {401, 500}"
      "redis_frame (sid_keys sid) (db w) (db w')"
  | (served) sid sess0 sess w1 where "rqCookie r ''__Host-sid'' = Some sid"
      "session_at (clock w) (db w) sid = Some sess0"
      "seCreatedAt sess0 = zeroTime \<or> clock w \<le> seCreatedAt sess0 + stHardTTL st"
      "admitted st rp sid sess0 sess (clock w) (db w) (db w1)"
      "redis_frame (sid_keys sid) (db w) (db w1)" "run_state (handler sess) w1 = (resp, w')"
proof (cases "rqCookie r ''__Host-sid''")
  case None
  with assms anonymous show ?thesis by (auto simp: Auth_def writeErrorJSON_def)
next
  case (Some sid)
  obtain l w1 where l: "run_state (Store_Load st sid) w = (l, w1)" by fastforce
  note fr = frame_sid(1) [OF Load_frame [OF l]]
  show ?thesis
  proof (cases l)
    case (Inl e)
    with assms Some l have "rsStatus resp \<in> {401, 500}" "w' = w1"
      by (auto simp: Auth_def writeErrorJSON_def split: if_splits)
    with refused Some fr show ?thesis by blast
  next
    case (Inr sess0)
    note ld = Load_Inr [OF l [unfolded Inr]]
    have c: "clock w \<le> clock w1" using l
      by (auto simp: Store_Load_def Store_Delete_def rdb_Del_def rdb_GetEx_def run_db_exec
          split: prod.splits sum.splits option.splits if_splits)
    have created: "seCreatedAt sess0 = zeroTime \<or> clock w \<le> seCreatedAt sess0 + stHardTTL st" using ld(2) by auto
    have lock: "fst (db w1) (lockPrefix @ sid) = fst (db w) (lockPrefix @ sid)"
      using ld(3) by (simp add: redis_frame_def)
    show ?thesis
    proof (cases "seTokenExpiry sess0 - clock w1 < 60 * Second")
      case False
      with assms Some l Inr have "run_state (handler sess0) (pass w1) = (resp, w')"
        by (simp add: Auth_def time_Until_def)
      moreover have "admitted st rp sid sess0 sess0 (clock w) (db w) (db (pass w1))"
        using False c by (simp add: admitted_def)
      ultimately show ?thesis using served [of sid sess0 sess0 "pass w1"] Some ld(1) created fr by simp
    next
      case True
      obtain f w2 where f: "run_state (refreshTokens st rp sid sess0) (pass w1) = (f, w2)" by fastforce
      have at1: "\<exists>t. session_at t (db (pass w1)) sid = Some sess0"
      proof -
        from l [unfolded Inr] obtain data e where "fst (db w1) (keyPrefix @ sid) = Some (data, e)"
            "session_Unmarshal data = Some sess0" "e = (if 0 < stIdleTTL st then Some (clock w + stIdleTTL st) else None)"
          by (auto simp: Store_Load_def rdb_GetEx_def run_db_exec redis_set_def
              split: prod.splits sum.splits option.splits if_splits)
        then show ?thesis
          by (intro exI [of _ "clock w + stIdleTTL st"]) (simp add: session_at_def redis_get_def redis_live_def)
      qed
      then obtain t where at1: "session_at t (db (pass w1)) sid = Some sess0" ..
      have cont: "run_state (handler sess) w2 = (resp, w')" if "f = Inr sess" for sess
        using assms Some l Inr True f that by (simp add: Auth_def time_Until_def)
      have go: ?thesis if "f = Inr sess" "admitted st rp sid sess0 sess (clock w) (db w) (db w2)"
          "redis_frame (sid_keys sid) (db w) (db w2)" for sess
        using served [of sid sess0 sess w2] Some ld(1) created that cont by blast
      from f at1 show ?thesis
      proof (cases rule: refresh_cases)
        case fresh
        with c have "admitted st rp sid sess0 sess0 (clock w) (db w) (db w2)" by (simp add: admitted_def)
        with go fresh redis_frame_trans [OF fr frame_sid(2) [of sid "db w1" "db w2"]] show ?thesis by simp
      next
        case waited
        then have "admitted st rp sid sess0 sess0 (clock w) (db w) (db w2)"
          using c lock unfolding admitted_def redis_get_def by (intro disjI2 disjI1 conjI exI [of _ "clock (pass w1)"]) auto
        with go waited redis_frame_trans [OF fr] show ?thesis by simp
      next
        case (renewed tok k now v1 v2)
        have stored: "\<forall>u \<le> now + stIdleTTL st. session_at u (db w2) sid = Some (refreshed sess0 tok now)"
          if "session_text_ok (refreshed sess0 tok now)" "0 < stIdleTTL st"
          using Save_session [OF renewed(3) that] renewed(7) session_at_frame [OF renewed(5)] by auto
        have "admitted st rp sid sess0 (refreshed sess0 tok now) (clock w) (db w) (db w2)"
          using renewed(1,6) c stored unfolding admitted_def
          by (intro disjI2 exI [of _ tok] exI [of _ k] exI [of _ now]) auto
        moreover have "redis_frame (sid_keys sid) (db w) (db w2)"
          using redis_frame_trans [OF fr] redis_frame_trans [OF frame_sid(2) [OF renewed(4)]]
            redis_frame_trans [OF frame_sid(1) [OF Save_frame [OF renewed(3)]]] frame_sid(2) [OF renewed(5)] by simp
        ultimately show ?thesis using go renewed(2) by simp
      next
        case (failed e)
        from redis_frame_trans [OF fr] failed(2) have fr2: "redis_frame (sid_keys sid) (db w) (db w2)" by simp
        obtain u w3 where u: "run_state (Store_Delete sid) w2 = (u, w3)" by fastforce
        note fr3 = redis_frame_trans [OF fr2 frame_sid(1) [OF Delete_frame [OF u]]]
        have "rsStatus resp \<in> {401, 500}" "w' = w2 \<or> w' = w3"
          using assms Some l Inr True f failed(1) u
          by (auto simp: Auth_def time_Until_def writeErrorJSON_def split: if_splits)
        with refused Some fr2 fr3 show ?thesis by blast
      qed
    qed
  qed
qed

section \<open>Routes without authentication\<close>

definition open_route :: "route \<Rightarrow> bool" where
  "open_route rt \<longleftrightarrow> rt \<in> {LoginRoute, CallbackRoute, MeRoute, HealthzRoute, ReadyzRoute}"

lemma open_route_simps [simp]:
  "open_route LoginRoute" "open_route CallbackRoute" "open_route MeRoute" "open_route HealthzRoute" "open_route ReadyzRoute"
  "\<not> open_route LogoutRoute" "\<not> open_route ProfileGetRoute" "\<not> open_route ProfileUpdateRoute"
  "\<not> open_route ProvidersListRoute" "\<not> open_route (ProviderUnlinkRoute i)" "\<not> open_route SessionsListRoute"
  "\<not> open_route SessionsRevokeOthersRoute" "\<not> open_route (SessionRevokeRoute i)"
  by (simp_all add: open_route_def)

lemma frame_rest: "redis_frame K d d' \<Longrightarrow> snd d' = snd d"
  by (simp add: redis_frame_def)

lemma store_rest:
  "run_state (Store_SaveState s v) w = (q, w') \<Longrightarrow> snd (db w') = snd (db w)"
  "run_state (Store_LoadAndDeleteState s) w = (x, w') \<Longrightarrow> snd (db w') = snd (db w)"
  "run_state (Store_Save st sid sess) w = (q, w') \<Longrightarrow> snd (db w') = snd (db w)"
  "run_state (Store_Load st sid) w = (y, w') \<Longrightarrow> snd (db w') = snd (db w)"
  by (rule frame_rest, erule State_frame Save_frame Load_frame)+

lemma Exchange_Inr:
  assumes "run_state (Client_Exchange lib code v) w = (Inr (tok, subject), w')"
  obtains raw where "lib_Exchange lib code v (step w) = Inr tok" "tkIDToken tok = Some raw" "raw \<noteq> []"
    "lib_Verify lib raw (Suc (step w)) = Inr subject" "db w' = db w" "clock w \<le> clock w'" "ulid w' = ulid w"
  using assms
  by (auto simp: Client_Exchange_def run_oracle_call split: prod.splits sum.splits option.splits if_splits)

text \<open>The session a callback creates.\<close>

definition new_session :: "string \<Rightarrow> rp_token \<Rightarrow> string \<Rightarrow> int \<Rightarrow> bff_Session" where
  "new_session subject token raw now = \<lparr>seUserID = subject, seAccessToken = tkAccessToken token,
     seRefreshToken = tkRefreshToken token, seIDToken = raw, seTokenExpiry = tkExpiry token,
     seDeviceSessionID = ExtractDSID (tkAccessToken token), seCreatedAt = now, seLastActiveAt = now\<rparr>"

lemma Save_Inl: "run_state (Store_Save st sid sess) w = (Inl e, w') \<Longrightarrow> db w' = db w"
  by (auto simp: Store_Save_def rdb_Set_def run_db_exec split: option.splits prod.splits)

lemma Callback_cases:
  assumes "run_state (AuthHandler_Callback st rp r) w = (resp, w')"
  obtains (refused) "rsStatus resp \<in> {400, 500}" "rsCookies resp = []"
      "redis_frame {statePrefix @ rqQuery r ''state''} (db w) (db w')"
  | (signed_in) verifier tok subject raw k now sid w1 w2 where
      "run_state (Store_LoadAndDeleteState (rqQuery r ''state'')) w = (Inr verifier, w1)"
      "lib_Exchange rp (rqQuery r ''code'') verifier k = Inr tok" "tkIDToken tok = Some raw" "raw \<noteq> []"
      "lib_Verify rp raw (Suc k) = Inr subject" "db w2 = db w1" "clock w1 \<le> now" "now \<le> clock w2"
      "run_state (Store_Save st sid (new_session subject tok raw now)) w2 = (Inr (), w')"
      "rsStatus resp = 302" "rsCookies resp = [sid_cookie sid 604800]"
proof -
  let ?code = "rqQuery r ''code''" and ?state = "rqQuery r ''state''"
  obtain v w1 where v: "run_state (Store_LoadAndDeleteState ?state) w = (v, w1)" by fastforce
  note d1 = State_frame(2) [OF v]
  have status [simp]: "rsStatus (writeError n c m) = n" "rsCookies (writeError n c m) = []" for n c m
    by (simp_all add: writeError_def json_response_def)
  consider (early) "?code = [] \<or> ?state = []" | (bad) e where "\<not> (?code = [] \<or> ?state = [])" "v = Inl e"
    | (go) verifier where "\<not> (?code = [] \<or> ?state = [])" "v = Inr verifier" by (cases v) auto
  then show ?thesis
  proof cases
    case early
    with assms have "rsStatus resp = 400" "rsCookies resp = []" "w' = w"
      by (auto simp: AuthHandler_Callback_def Let_def)
    with refused show ?thesis by simp
  next
    case bad
    with assms v have "rsStatus resp = 400" "rsCookies resp = []" "w' = w1"
      by (auto simp: AuthHandler_Callback_def Let_def)
    with refused d1 show ?thesis by simp
  next
    case go
    obtain e w2 where e: "run_state (Client_Exchange rp ?code verifier) w1 = (e, w2)" by fastforce
    have d2: "db w2 = db w1" by (rule rp_calls_db(2) [OF e])
    show ?thesis
    proof (cases e)
      case (Inl err)
      with assms go v e have "rsStatus resp = 400" "rsCookies resp = []" "w' = w2"
        by (auto simp: AuthHandler_Callback_def Let_def)
      with refused d1 d2 show ?thesis by simp
    next
      case (Inr ts)
      obtain tok subject where ts: "ts = (tok, subject)" by (cases ts)
      from Exchange_Inr [OF e [unfolded Inr ts]] obtain raw where
        x: "lib_Exchange rp ?code verifier (step w1) = Inr tok" "tkIDToken tok = Some raw" "raw \<noteq> []"
          "lib_Verify rp raw (Suc (step w1)) = Inr subject" by blast
      let ?sess = "new_session subject tok raw (clock w2)" and ?sid = "ulid w2 (Suc (step w2))"
      obtain u w4 where u: "run_state (Store_Save st ?sid ?sess) (pass (pass w2)) = (u, w4)" by fastforce
      have run: "(resp, w') = (case u of
          Inl _ \<Rightarrow> (writeError 500 ''internal'' ''failed to save session'', w4)
        | Inr _ \<Rightarrow> (http_Redirect [sid_cookie ?sid 604800] ''/'' 302, w4))"
        using assms go v e Inr ts u x(2)
        by (cases u) (auto simp: AuthHandler_Callback_def Let_def new_session_def)
      show ?thesis
      proof (cases u)
        case (Inl err)
        with run Save_Inl [of st ?sid ?sess "pass (pass w2)" err w4] u d1 d2 refused show ?thesis by auto
      next
        case (Inr y)
        have "clock w1 \<le> clock w2" by (rule Exchange_Inr [OF e [unfolded \<open>e = Inr ts\<close> ts]]) simp
        with signed_in [of verifier w1 "step w1" tok raw subject "pass (pass w2)" "clock w2" ?sid] run u v go x d2 Inr
        show ?thesis by simp
      qed
    qed
  qed
qed

lemma Callback_rest:
  assumes "run_state (AuthHandler_Callback st rp r) w = (resp, w')"
  shows "snd (db w') = snd (db w)"
  using assms
proof (cases rule: Callback_cases)
  case (signed_in verifier tok subject raw k now sid w1 w2)
  then show ?thesis using store_rest(2) [OF signed_in(1)] store_rest(3) [OF signed_in(9)] by simp
qed (simp add: frame_rest)

lemma open_route_rest:
  assumes "run_state (bff_serve a rt r) w = (resp, w')" "open_route rt"
  shows "snd (db w') = snd (db w)"
proof (cases rt)
  case LoginRoute
  with assms(1) show ?thesis
    by (auto simp: AuthHandler_Login_def split: prod.splits sum.splits dest!: store_rest(1) rp_calls_db(1))
next
  case CallbackRoute
  with assms(1) show ?thesis by (auto dest: Callback_rest)
next
  case MeRoute
  with assms(1) show ?thesis
    by (auto simp: AuthHandler_Me_def split: prod.splits sum.splits option.splits dest!: store_rest(4))
next
  case ReadyzRoute
  with assms(1) show ?thesis
    by (auto simp: readyz_def rdb_Ping_def run_db_exec split: prod.splits sum.splits option.splits)
qed (use assms in auto)

section \<open>The account service as an interface\<close>

text \<open>
  A call of the account service with metadata \<open>md\<close> leaves Redis alone, and what it does to the rest
  is \<open>confined md\<close>: a relation that the service behind the client fixes.
\<close>

locale account_service =
  fixes svc :: "'b bff_db AccountManagementServiceClient"
    and confined :: "grpc_metadata \<Rightarrow> 'b \<Rightarrow> 'b \<Rightarrow> bool"
  assumes idle: "confined md b b"
    and get_profile: "run_state (svc_GetMyProfile svc md) w = (r1, w') \<Longrightarrow>
      fst (db w') = fst (db w) \<and> confined md (snd (db w)) (snd (db w'))"
    and update_profile: "run_state (svc_UpdateMyProfile svc md nm pic) w = (r1, w') \<Longrightarrow>
      fst (db w') = fst (db w) \<and> confined md (snd (db w)) (snd (db w'))"
    and list_providers: "run_state (svc_ListLinkedProviders svc md) w = (r2, w') \<Longrightarrow>
      fst (db w') = fst (db w) \<and> confined md (snd (db w)) (snd (db w'))"
    and unlink: "run_state (svc_UnlinkProvider svc md i) w = (r3, w') \<Longrightarrow>
      fst (db w') = fst (db w) \<and> confined md (snd (db w)) (snd (db w'))"
    and list_sessions: "run_state (svc_ListActiveSessions svc md) w = (r4, w') \<Longrightarrow>
      fst (db w') = fst (db w) \<and> confined md (snd (db w)) (snd (db w'))"
    and revoke: "run_state (svc_RevokeSession svc md i) w = (r3, w') \<Longrightarrow>
      fst (db w') = fst (db w) \<and> confined md (snd (db w)) (snd (db w'))"
    and revoke_others: "run_state (svc_RevokeAllOtherSessions svc md i) w = (r3, w') \<Longrightarrow>
      fst (db w') = fst (db w) \<and> confined md (snd (db w)) (snd (db w'))"
begin

lemmas calls = get_profile update_profile list_providers unlink list_sessions revoke revoke_others

text \<open>A handler behind the authentication touches the cookie's session in Redis and, by the token
  of the session it was given, the account service.\<close>

lemma group_confined:
  assumes "run_state (bff_group a rt r sess) w = (resp, w')" "ba_accounts a = svc"
  shows "confined (withBearer (seAccessToken sess)) (snd (db w)) (snd (db w'))"
    and "\<forall>k. (\<forall>sid. rqCookie r ''__Host-sid'' = Some sid \<longrightarrow> k \<noteq> keyPrefix @ sid) \<longrightarrow> fst (db w') k = fst (db w) k"
proof -
  note by_app = calls [folded assms(2)]
  have "confined (withBearer (seAccessToken sess)) (snd (db w)) (snd (db w')) \<and>
    (\<forall>k. (\<forall>sid. rqCookie r ''__Host-sid'' = Some sid \<longrightarrow> k \<noteq> keyPrefix @ sid) \<longrightarrow> fst (db w') k = fst (db w) k)"
    using assms(1)
    by (cases rt)
      (auto simp: BffHandler_defs accounts_client_defs AuthHandler_Logout_def Let_def idle redis_frame_def
        split: option.splits prod.splits sum.splits if_splits dest!: Delete_frame by_app)
  then show "confined (withBearer (seAccessToken sess)) (snd (db w)) (snd (db w'))"
    "\<forall>k. (\<forall>sid. rqCookie r ''__Host-sid'' = Some sid \<longrightarrow> k \<noteq> keyPrefix @ sid) \<longrightarrow> fst (db w') k = fst (db w) k"
    by blast+
qed

lemma CSRF_cases:
  assumes "run_state (CSRF r m) w = (resp, w')"
  obtains (refused) "rqMethod r \<in> {''POST'', ''PATCH'', ''DELETE'', ''PUT''}"
      "rqHeader r ''X-Requested-With'' \<noteq> ''XMLHttpRequest''" "rsStatus resp = 403" "w' = w"
  | (passed) "rqMethod r \<in> {''POST'', ''PATCH'', ''DELETE'', ''PUT''} \<longrightarrow> rqHeader r ''X-Requested-With'' = ''XMLHttpRequest''"
      "run_state m w = (resp, w')"
  using assms by (auto simp: CSRF_def split: if_splits)

lemma serve_confined:
  assumes "run_state (bff_serve a rt r) w = (resp, w')" "ba_accounts a = svc"
    and "rqMethod r = route_method rt"
  shows "snd (db w') = snd (db w) \<or>
    (\<exists>sid sess0 sess d1. rqCookie r ''__Host-sid'' = Some sid \<and> session_at (clock w) (db w) sid = Some sess0
       \<and> (seCreatedAt sess0 = zeroTime \<or> clock w \<le> seCreatedAt sess0 + stHardTTL (ba_store a))
       \<and> admitted (ba_store a) (ba_rp a) sid sess0 sess (clock w) (db w) d1
       \<and> (route_method rt \<noteq> ''GET'' \<longrightarrow> rqHeader r ''X-Requested-With'' = ''XMLHttpRequest'')
       \<and> confined (withBearer (seAccessToken sess)) (snd (db w)) (snd (db w')))"
proof -
  let ?r = "http_request.truncate r"
  have tr: "rqCookie ?r = rqCookie r" "rqMethod ?r = rqMethod r" "rqHeader ?r = rqHeader r"
    by (simp_all add: http_request.truncate_def)
  have group: ?thesis
    if "run_state (Auth (ba_store a) (ba_rp a) ?r (\<lambda>sess. CSRF ?r (bff_group a rt r sess))) w = (resp, w')"
    using that
  proof (cases rule: Auth_cases)
    case (served sid sess0 sess w1)
    have same: "snd (db w1) = snd (db w)" using served(5) by (simp add: redis_frame_def)
    from served(6) show ?thesis
    proof (cases rule: CSRF_cases)
      case refused
      with same show ?thesis by simp
    next
      case passed
      have "route_method rt \<noteq> ''GET'' \<longrightarrow> rqHeader r ''X-Requested-With'' = ''XMLHttpRequest''"
        using passed(1) assms(3) tr by (cases rt) auto
      with group_confined(1) [OF passed(2) assms(2)] served same tr show ?thesis
        by (intro disjI2 exI [of _ sid] exI [of _ sess0] exI [of _ sess] exI [of _ "db w1"]) simp
    qed
  qed (auto simp: redis_frame_def)
  show ?thesis
  proof (cases "open_route rt")
    case True
    from open_route_rest [OF assms(1) True] show ?thesis ..
  next
    case False
    with assms(1) group show ?thesis by (cases rt) auto
  qed
qed

end

end
