(* ===== verification/BffSessions.thy ===== *)
theory BffSessions
  imports BffStore
begin

text \<open>
  The session store under concurrent requests: a schedule is any sequence of the store's Redis
  commands, each in a world of its own (time, failures), logged with its time and answer. What
  the log implies for Redis gives the life of a login state and of a refresh lock.
\<close>

section \<open>Schedules\<close>

text \<open>\<open>OpRead\<close> is the GETEX of \<open>Load\<close>, whose DEL of an outlived session is an \<open>OpDelete\<close>.\<close>

datatype store_op =
    OpSave string bff_Session | OpRead string | OpDelete string
  | OpAcquire string | OpRelease string | OpSaveState string string | OpTakeState string

datatype store_answer = Done | Data string | Acquired bool | Verifier string

type_synonym store_event = "int \<times> store_op \<times> (goerr + store_answer)"

definition answer :: "('x \<Rightarrow> store_answer) \<Rightarrow> ('db, 'x) eio \<Rightarrow> ('db, store_answer) eio" where
  "answer f m = do { r \<leftarrow> m; ret (map_sum id f r) }"

fun exec_store :: "Store \<Rightarrow> store_op \<Rightarrow> ('b bff_db, store_answer) eio" where
  "exec_store st (OpSave sid sess) = answer (\<lambda>_. Done) (Store_Save st sid sess)"
| "exec_store st (OpRead sid) = answer Data (rdb_GetEx (keyPrefix @ sid) (stIdleTTL st))"
| "exec_store st (OpDelete sid) = answer (\<lambda>_. Done) (Store_Delete sid)"
| "exec_store st (OpAcquire sid) = answer Acquired (Store_AcquireRefreshLock sid)"
| "exec_store st (OpRelease sid) = answer (\<lambda>_. Done) (Store_ReleaseRefreshLock sid)"
| "exec_store st (OpSaveState s v) = answer (\<lambda>_. Done) (Store_SaveState s v)"
| "exec_store st (OpTakeState s) = answer Verifier (Store_LoadAndDeleteState s)"

inductive store_schedule :: "Store \<Rightarrow> 'b bff_db \<Rightarrow> store_event list \<Rightarrow> 'b bff_db \<Rightarrow> bool" where
  start: "store_schedule st d [] d"
| exec: "store_schedule st d log (db w) \<Longrightarrow> run_state (exec_store st op) w = (r, w') \<Longrightarrow>
    store_schedule st d (log @ [(clock w, op, r)]) (db w')"

inductive_cases store_schedule_snoc: "store_schedule st d (log @ [e]) d'"

lemma schedule_last:
  "store_schedule st d (log @ [(t, op, r)]) d' \<Longrightarrow>
     \<exists>w w'. store_schedule st d log (db w) \<and> run_state (exec_store st op) w = (r, w') \<and> t = clock w \<and> d' = db w'"
  by (auto elim!: store_schedule_snoc)

lemma schedule_split:
  assumes "store_schedule st d (l1 @ (t, op, r) # l2) d'"
  shows "\<exists>w w'. store_schedule st d l1 (db w) \<and> run_state (exec_store st op) w = (r, w') \<and> t = clock w"
  using assms
proof (induction l2 arbitrary: d' rule: rev_induct)
  case Nil
  then show ?case by (auto elim!: store_schedule_snoc)
next
  case (snoc e l2)
  obtain u p q where e: "e = (u, p, q)" by (cases e)
  from snoc.prems have "store_schedule st d ((l1 @ (t, op, r) # l2) @ [(u, p, q)]) d'" by (simp add: e)
  from schedule_last [OF this] obtain w w' where
    "store_schedule st d (l1 @ (t, op, r) # l2) (db w)" "run_state (exec_store st p) w = (q, w')" by blast
  then show ?case using snoc.IH by blast
qed

text \<open>The key an operation works on, and so the keys it leaves alone.\<close>

fun op_key :: "store_op \<Rightarrow> string" where
  "op_key (OpSave sid sess) = keyPrefix @ sid"
| "op_key (OpRead sid) = keyPrefix @ sid"
| "op_key (OpDelete sid) = keyPrefix @ sid"
| "op_key (OpAcquire sid) = lockPrefix @ sid"
| "op_key (OpRelease sid) = lockPrefix @ sid"
| "op_key (OpSaveState s v) = statePrefix @ s"
| "op_key (OpTakeState s) = statePrefix @ s"

lemma exec_store_frame:
  "run_state (exec_store st op) w = (r, w') \<Longrightarrow> redis_frame {op_key op} (db w) (db w')"
  by (cases op) (auto simp: answer_def split: prod.splits
      dest: Save_frame redis_cmd_frame(2) Delete_frame Acquire_frame Release_frame State_frame)

lemma exec_store_other:
  "run_state (exec_store st op) w = (r, w') \<Longrightarrow> op_key op \<noteq> k \<Longrightarrow> fst (db w') k = fst (db w) k"
  using exec_store_frame [of st op w r w'] by (auto simp: redis_frame_def)

section \<open>Login states\<close>

text \<open>The state as the log has it: saved at a time with a verifier, and not taken since.\<close>

definition saved_state :: "string \<Rightarrow> store_event list \<Rightarrow> (int \<times> string) option" where
  "saved_state s log = foldl (\<lambda>p (t, op, r). case (op, r) of
       (OpSaveState x v, Inr _) \<Rightarrow> if x = s then Some (t, v) else p
     | (OpTakeState x, Inr _) \<Rightarrow> if x = s then None else p
     | _ \<Rightarrow> p) None log"

definition touches_state :: "string \<Rightarrow> store_event \<Rightarrow> bool" where
  "touches_state s e = (case e of
       (t, OpSaveState x v, Inr _) \<Rightarrow> x = s
     | (t, OpTakeState x, Inr _) \<Rightarrow> x = s
     | _ \<Rightarrow> False)"

lemma saved_state_simps [simp]:
  "saved_state s [] = None"
  "saved_state s (log @ [(t, op, r)]) = (case (op, r) of
       (OpSaveState x v, Inr _) \<Rightarrow> if x = s then Some (t, v) else saved_state s log
     | (OpTakeState x, Inr _) \<Rightarrow> if x = s then None else saved_state s log
     | _ \<Rightarrow> saved_state s log)"
  by (auto simp: saved_state_def split: store_op.splits sum.splits)

lemma saved_state_Some:
  "saved_state s log = Some (t, v) \<Longrightarrow>
     \<exists>a b x. log = a @ (t, OpSaveState s v, Inr x) # b \<and> (\<forall>e \<in> set b. \<not> touches_state s e)"
proof (induction log rule: rev_induct)
  case (snoc e log)
  obtain u op r where e: "e = (u, op, r)" by (cases e)
  show ?case
  proof (cases "touches_state s e")
    case True
    with snoc.prems show ?thesis unfolding e
      by (intro exI [of _ log] exI [of _ "[]"]) (auto simp: touches_state_def split: store_op.splits sum.splits)
  next
    case False
    with snoc.prems have "saved_state s log = Some (t, v)" unfolding e
      by (auto simp: touches_state_def split: store_op.splits sum.splits if_splits)
    from snoc.IH [OF this] obtain a b x where
      "log = a @ (t, OpSaveState s v, Inr x) # b" "\<forall>e \<in> set b. \<not> touches_state s e" by blast
    with False show ?thesis by (intro exI [of _ a] exI [of _ "b @ [e]"]) auto
  qed
qed simp

definition state_value :: "int \<times> string \<Rightarrow> string \<times> int option" where
  "state_value p = (json_print [(''verifier'', snd p)], Some (fst p + stateTTL))"

lemma schedule_state:
  assumes "store_schedule st d log d'" "fst d (statePrefix @ s) = None" "fst d' (statePrefix @ s) = Some x"
  shows "\<exists>p. saved_state s log = Some p \<and> x = state_value p"
  using assms
proof (induction arbitrary: x rule: store_schedule.induct)
  case (exec st d log w op r w')
  have old: "fst (db w) (statePrefix @ s) = Some x \<Longrightarrow> \<exists>p. saved_state s log = Some p \<and> x = state_value p"
    by (rule exec.IH [OF exec.prems(1)])
  consider (save) v where "op = OpSaveState s v" | (take) "op = OpTakeState s" | (other) "op_key op \<noteq> statePrefix @ s"
    by (cases op) auto
  then show ?case
  proof cases
    case save
    show ?thesis
    proof (cases r)
      case (Inl e)
      then have "db w' = db w" using exec.hyps(2) save
        by (auto simp: answer_def Store_SaveState_def rdb_Set_def run_db_exec split: prod.splits option.splits)
      with old exec.prems(2) Inl save show ?thesis by simp
    next
      case (Inr a)
      then have "x = state_value (clock w, v)" using exec.hyps(2) exec.prems(2) save
        by (auto simp: answer_def Store_SaveState_def rdb_Set_def run_db_exec redis_set_def state_value_def stateTTL_def
            split: prod.splits option.splits)
      with Inr save show ?thesis by simp
    qed
  next
    case take
    have "fst (db w') (statePrefix @ s) = (if isl r then fst (db w) (statePrefix @ s) else None)
        \<or> fst (db w') (statePrefix @ s) = None"
      using exec.hyps(2) take
      by (auto simp: answer_def Store_LoadAndDeleteState_def getDelScript_def run_db_exec
          split: prod.splits option.splits sum.splits if_splits)
    with exec.prems(2) have "isl r" "fst (db w) (statePrefix @ s) = Some x" by (auto split: if_splits)
    with old take show ?thesis by (cases r) auto
  next
    case other
    then have "fst (db w) (statePrefix @ s) = Some x" using exec.prems(2) exec_store_other [OF exec.hyps(2)] by simp
    with old other show ?thesis by (auto split: store_op.splits sum.splits)
  qed
qed simp

lemma take_state_from_log:
  assumes "store_schedule st d log (db w)" "fst d (statePrefix @ s) = None"
    "run_state (exec_store st (OpTakeState s)) w = (Inr (Verifier v), w')"
  shows "\<exists>t u. saved_state s log = Some (t, u) \<and> clock w \<le> t + stateTTL \<and> (valid_utf8 u \<longrightarrow> u = v)"
proof -
  from assms(3) obtain x m where x: "fst (db w) (statePrefix @ s) = Some x" "redis_live (clock w) (snd x)"
      "verifier_Unmarshal (fst x) = Some m" "m ''verifier'' = Some v"
    by (auto simp: answer_def Store_LoadAndDeleteState_def getDelScript_def run_db_exec redis_get_def
        split: prod.splits option.splits sum.splits if_splits)
  from schedule_state [OF assms(1,2) x(1)] obtain t u where
    p: "saved_state s log = Some (t, u)" "x = state_value (t, u)" by force
  then show ?thesis using x verifier_round_trip [of u] by (auto simp: state_value_def redis_live_def)
qed

section \<open>Refresh locks\<close>

definition locked_since :: "string \<Rightarrow> store_event list \<Rightarrow> int option" where
  "locked_since sid log = foldl (\<lambda>p (t, op, r). case (op, r) of
       (OpAcquire x, Inr (Acquired b)) \<Rightarrow> if x = sid \<and> b then Some t else p
     | (OpRelease x, Inr _) \<Rightarrow> if x = sid then None else p
     | _ \<Rightarrow> p) None log"

lemma locked_since_simps [simp]:
  "locked_since sid [] = None"
  "locked_since sid (log @ [(t, op, r)]) = (case (op, r) of
       (OpAcquire x, Inr (Acquired b)) \<Rightarrow> if x = sid \<and> b then Some t else locked_since sid log
     | (OpRelease x, Inr _) \<Rightarrow> if x = sid then None else locked_since sid log
     | _ \<Rightarrow> locked_since sid log)"
  by (auto simp: locked_since_def split: store_op.splits sum.splits store_answer.splits)

lemma schedule_lock:
  assumes "store_schedule st d log d'" "locked_since sid log = Some t"
  shows "fst d' (lockPrefix @ sid) = Some (''1'', Some (t + lockTTL))"
  using assms
proof (induction arbitrary: t rule: store_schedule.induct)
  case (exec st d log w op r w')
  show ?case
  proof (cases "op_key op = lockPrefix @ sid")
    case True
    then consider "op = OpAcquire sid" | "op = OpRelease sid" by (cases op) auto
    then show ?thesis
      using exec
      by cases (auto simp: answer_def Store_AcquireRefreshLock_def Store_ReleaseRefreshLock_def rdb_SetNX_def
          rdb_Del_def run_db_exec redis_set_def lockTTL_def
          split: prod.splits option.splits sum.splits if_splits)
  next
    case False
    then have "locked_since sid log = Some t" using exec.prems by (auto split: store_op.splits sum.splits store_answer.splits if_splits)
    with exec.IH exec_store_other [OF exec.hyps(2) False] show ?thesis by simp
  qed
qed simp

lemma acquire_after:
  assumes "store_schedule st d log (db w)" "locked_since sid log = Some t"
    "run_state (exec_store st (OpAcquire sid)) w = (Inr (Acquired True), w')"
  shows "t + lockTTL < clock w"
  using assms(3) schedule_lock [OF assms(1,2)]
  by (auto simp: answer_def Store_AcquireRefreshLock_def rdb_SetNX_def run_db_exec redis_get_def redis_live_def
      split: prod.splits option.splits sum.splits if_splits)

text \<open>Without a release in between, a later holder has waited out the earlier one's time.\<close>

lemma locked_since_grows:
  assumes "store_schedule st d (l1 @ (t1, OpAcquire sid, Inr (Acquired True)) # l2) d'"
    and "\<forall>t x. (t, OpRelease sid, Inr x) \<notin> set l2"
  shows "\<exists>t. locked_since sid (l1 @ (t1, OpAcquire sid, Inr (Acquired True)) # l2) = Some t \<and> t1 \<le> t"
  using assms
proof (induction l2 arbitrary: d' rule: rev_induct)
  case Nil
  then show ?case by simp
next
  case (snoc e l2)
  let ?l = "l1 @ (t1, OpAcquire sid, Inr (Acquired True)) # l2"
  obtain u op r where e: "e = (u, op, r)" by (cases e)
  from snoc.prems(1) have "store_schedule st d (?l @ [(u, op, r)]) d'" by (simp add: e)
  from schedule_last [OF this] obtain w w' where
    run: "store_schedule st d ?l (db w)" "run_state (exec_store st op) w = (r, w')" "u = clock w" by auto
  from snoc.IH [OF run(1)] snoc.prems(2) obtain t where t: "locked_since sid ?l = Some t" "t1 \<le> t" by auto
  show ?case
  proof (cases "op = OpAcquire sid \<and> r = Inr (Acquired True)")
    case True
    with acquire_after [OF run(1) t(1)] run t have "t1 \<le> u" by (simp add: lockTTL_def)
    then show ?thesis using True locked_since_simps(2) [of sid ?l u op r] by (simp add: e)
  next
    case False
    then have "locked_since sid (?l @ [(u, op, r)]) = Some t"
      using t snoc.prems(2) unfolding locked_since_simps(2)
      by (auto simp: e split: store_op.splits sum.splits store_answer.splits)
    then show ?thesis using t by (simp add: e)
  qed
qed

section \<open>Sessions that are gone\<close>

text \<open>A session that is not in Redis comes back only by being saved.\<close>

lemma gone_stays:
  assumes "store_schedule st d log d'" "fst d (keyPrefix @ sid) = None"
    and "\<forall>t sess r. (t, OpSave sid sess, r) \<notin> set log"
  shows "fst d' (keyPrefix @ sid) = None"
  using assms
proof (induction rule: store_schedule.induct)
  case (exec st d log w op r w')
  then have gone: "fst (db w) (keyPrefix @ sid) = None" by simp
  consider (read) "op = OpRead sid" | (del) "op = OpDelete sid" | (other) "op_key op \<noteq> keyPrefix @ sid"
    using exec.prems(2) by (cases op) auto
  then show ?case
  proof cases
    case read
    with exec.hyps(2) gone show ?thesis
      by (auto simp: answer_def rdb_GetEx_def run_db_exec redis_get_def split: prod.splits option.splits)
  next
    case del
    with exec.hyps(2) gone show ?thesis
      by (auto simp: answer_def Store_Delete_def rdb_Del_def run_db_exec split: prod.splits option.splits)
  next
    case other
    with exec_store_other [OF exec.hyps(2)] gone show ?thesis by simp
  qed
qed simp

lemma session_at_gone: "fst d (keyPrefix @ sid) = None \<Longrightarrow> session_at t d sid = None"
  by (simp add: session_at_def redis_get_def)

end
