(* ===== verification/BffSystem.thy ===== *)
theory BffSystem
  imports BffRequests BffSessions AccountsProps ServiceConfig
begin

text \<open>
  The account front end over the identity service: \<open>myaccount-bff/main.go\<close>'s wiring, with the
  account API of the identity service behind a gRPC connection. A call can fail before it reaches
  the server and after the server has served it.
\<close>

section \<open>The connection\<close>

text \<open>An action on the identity database, run beside Redis.\<close>

definition on_rest :: "('b, 'a) io \<Rightarrow> ('b bff_db, 'a) io" where
  "on_rest = on_part snd (\<lambda>b d. (fst d, b))"

text \<open>What a server's error is at the client: a status as it is, anything else \<open>Unknown\<close>.\<close>

fun wire_error :: "goerr \<Rightarrow> goerr" where
  "wire_error (StatusErr c m) = StatusErr c m"
| "wire_error e = StatusErr Unknown (error_text e)"

definition link_down :: goerr where
  "link_down = StatusErr Unavailable ''connection error''"

definition link :: "('db, unit) eio" where
  "link = db_exec (\<lambda>t d. Inr ((), d))"

definition grpc_call :: "('b, 'a) eio \<Rightarrow> ('b bff_db, 'a) eio" where
  "grpc_call m = do {
     a \<leftarrow> link;
     case a of
       Inl _ \<Rightarrow> ret (Inl link_down)
     | Inr _ \<Rightarrow> do {
         r \<leftarrow> on_rest m;
         b \<leftarrow> link;
         case b of
           Inl _ \<Rightarrow> ret (Inl link_down)
         | Inr _ \<Rightarrow> ret (map_sum wire_error id r) } }"

lemma run_on_rest:
  assumes "run_state (on_rest m) w = (r, w')"
  obtains v v' where "run_state m v = (r, v')" "db v = snd (db w)" "clock v = clock w"
    "db w' = (fst (db w), db v')"
  using assms unfolding on_rest_def by (rule run_on_part) blast

lemma link_db: "run_state link w = (r, w') \<Longrightarrow> db w' = db w \<and> clock w \<le> clock w'"
  by (auto simp: link_def run_db_exec split: option.splits)

lemma grpc_call_cases:
  assumes "run_state (grpc_call m) w = (r, w')"
  obtains (unsent) "r = Inl link_down" "db w' = db w"
  | (served) q v v' where "run_state m v = (q, v')" "db v = snd (db w)" "clock w \<le> clock v"
      "db w' = (fst (db w), db v')" "r = Inl link_down \<or> r = map_sum wire_error id q"
proof -
  obtain a w1 where a: "run_state link w = (a, w1)" by fastforce
  show ?thesis
  proof (cases a)
    case (Inl e)
    with assms a link_db [OF a] unsent show ?thesis by (auto simp: grpc_call_def)
  next
    case (Inr u)
    obtain q w2 where q: "run_state (on_rest m) w1 = (q, w2)" by fastforce
    obtain b w3 where b: "run_state link w2 = (b, w3)" by fastforce
    from assms a Inr q b have r: "r = Inl link_down \<or> r = map_sum wire_error id q" "w' = w3"
      by (auto simp: grpc_call_def split: sum.splits)
    from run_on_rest [OF q] obtain v v' where v: "run_state m v = (q, v')" "db v = snd (db w1)" "clock v = clock w1"
      "db w2 = (fst (db w1), db v')" by blast
    show ?thesis using served [OF v(1)] v r link_db [OF a] link_db [OF b] by simp
  qed
qed

section \<open>The account client\<close>

text \<open>The generated client asks for one type of response by method; no server sends another.\<close>

definition expect :: "(accounts_response \<Rightarrow> 'a option) \<Rightarrow> ('db, accounts_response) eio \<Rightarrow> ('db, 'a) eio" where
  "expect f m = do {
     r \<leftarrow> m;
     ret (case r of
       Inl e \<Rightarrow> Inl e
     | Inr x \<Rightarrow> (case f x of Some y \<Rightarrow> Inr y | None \<Rightarrow> Inl (StatusErr Internal ''unexpected response type''))) }"

fun as_profile :: "accounts_response \<Rightarrow> Profile option" where
  "as_profile (ProfileResponse p) = Some p"
| "as_profile _ = None"

fun as_providers :: "accounts_response \<Rightarrow> FederatedProviderInfo list option" where
  "as_providers (LinkedProviders ps) = Some ps"
| "as_providers _ = None"

fun as_sessions :: "accounts_response \<Rightarrow> Session list option" where
  "as_sessions (ActiveSessions ss) = Some ss"
| "as_sessions _ = None"

fun as_empty :: "accounts_response \<Rightarrow> unit option" where
  "as_empty EmptyResponse = Some ()"
| "as_empty _ = None"

definition accounts_call ::
  "bool \<Rightarrow> 'k jws_lib \<Rightarrow> 'k PublicKeySet \<Rightarrow> string \<Rightarrow> (accounts_response \<Rightarrow> 'a option) \<Rightarrow> grpc_metadata
   \<Rightarrow> accounts_request \<Rightarrow> (identity_db bff_db, 'a) eio" where
  "accounts_call agg lib keys issuer f md req =
     expect f (grpc_call (accounts_rpc agg lib keys issuer (Some md) req))"

definition accounts_stub ::
  "bool \<Rightarrow> 'k jws_lib \<Rightarrow> 'k PublicKeySet \<Rightarrow> string \<Rightarrow> identity_db bff_db AccountManagementServiceClient" where
  "accounts_stub agg lib keys issuer =
     \<lparr>svc_GetMyProfile = \<lambda>md. accounts_call agg lib keys issuer as_profile md GetMyProfileRequest,
      svc_UpdateMyProfile = \<lambda>md nm pic. accounts_call agg lib keys issuer as_profile md (UpdateMyProfileRequest nm pic),
      svc_ListLinkedProviders = \<lambda>md. accounts_call agg lib keys issuer as_providers md ListLinkedProvidersRequest,
      svc_UnlinkProvider = \<lambda>md i. accounts_call agg lib keys issuer as_empty md (UnlinkProviderRequest i),
      svc_ListActiveSessions = \<lambda>md. accounts_call agg lib keys issuer as_sessions md ListActiveSessionsRequest,
      svc_RevokeSession = \<lambda>md i. accounts_call agg lib keys issuer as_empty md (RevokeSessionRequest i),
      svc_RevokeAllOtherSessions =
        \<lambda>md i. accounts_call agg lib keys issuer as_empty md (RevokeAllOtherSessionsRequest i)\<rparr>"

text \<open>\<open>main\<close>: the front end of a configuration.\<close>

definition bff_main ::
  "bff_config \<Rightarrow> rp_lib \<Rightarrow> 'b bff_db AccountManagementServiceClient \<Rightarrow> 'b bff_app" where
  "bff_main cfg rp client =
     \<lparr>ba_store = NewStore (fcSessionIdleTTL cfg) (fcSessionHardTTL cfg), ba_rp = rp, ba_accounts = client\<rparr>"

lemma bff_main_sel [simp]:
  "ba_store (bff_main cfg rp client) = NewStore (fcSessionIdleTTL cfg) (fcSessionHardTTL cfg)"
  "ba_rp (bff_main cfg rp client) = rp" "ba_accounts (bff_main cfg rp client) = client"
  by (simp_all add: bff_main_def)

section \<open>Calls touch the bearer's data\<close>

text \<open>Nothing happens, or the metadata's token verifies and its subject's data alone is touched.\<close>

definition bearer_only ::
  "'k jws_lib \<Rightarrow> 'k PublicKeySet \<Rightarrow> string \<Rightarrow> grpc_metadata \<Rightarrow> identity_db \<Rightarrow> identity_db \<Rightarrow> bool" where
  "bearer_only lib keys issuer md d d' \<longleftrightarrow> d' = d \<or> \<not> db_ok d \<or> device_view d [] \<noteq> None
     \<or> (\<exists>raw c. JWT_extractBearerToken (Some md) = Inr raw \<and> verifyJWT lib raw keys = Inr c
          \<and> jcIssuer c = issuer \<and> jcSubject c \<noteq> [] \<and> only_own (jcSubject c) d d')"

lemma accounts_call_bearer:
  assumes "run_state (accounts_call agg lib keys issuer f md req) w = (r, w')"
  shows "fst (db w') = fst (db w) \<and> bearer_only lib keys issuer md (snd (db w)) (snd (db w'))"
proof -
  from assms obtain q where "run_state (grpc_call (accounts_rpc agg lib keys issuer (Some md) req)) w = (q, w')"
    by (auto simp: accounts_call_def expect_def split: prod.splits)
  then show ?thesis
  proof (cases rule: grpc_call_cases)
    case unsent
    then show ?thesis by (simp add: bearer_only_def)
  next
    case (served p v v')
    from rpc_confined [OF served(1)] served(2,4) show ?thesis by (auto simp: bearer_only_def)
  qed
qed

interpretation accounts: account_service "accounts_stub agg lib keys issuer" "bearer_only lib keys issuer"
  for agg lib keys issuer
  by unfold_locales (simp add: bearer_only_def, simp_all add: accounts_stub_def accounts_call_bearer)

lemma bearer_withBearer [simp]: "JWT_extractBearerToken (Some (withBearer token)) = Inr token"
  by (simp add: JWT_extractBearerToken_def withBearer_def strings_HasPrefix_def strings_TrimPrefix_def)

end
