(* ===== verification/BffProps.thy ===== *)
theory BffProps
  imports BffSystem
begin

text \<open>
  The properties of the account front end: whom a request acts for, sessions and their limits,
  login states, refresh locks, signing in and signing out.
\<close>

section \<open>A sample front end\<close>

definition sample_session :: bff_Session where
  "sample_session = \<lparr>seUserID = ''u1'', seAccessToken = ''tok'', seRefreshToken = ''rt'', seIDToken = ''idt'',
     seTokenExpiry = 100 * Second, seDeviceSessionID = ''d1'', seCreatedAt = 0, seLastActiveAt = 0\<rparr>"

definition sample_store :: Store where
  "sample_store = NewStore (120 * Minute) (168 * Hour)"

definition sample_data :: string where
  "sample_data = the (session_Marshal sample_session)"

definition sample_bdb :: "identity_db bff_db" where
  "sample_bdb = ([keyPrefix @ ''s1'' \<mapsto> (sample_data, Some (120 * Minute))], sample_idb)"

definition sample_rp :: rp_lib where
  "sample_rp = \<lparr>lib_GenerateVerifier = \<lambda>k. (if even k then ''st'' else ''ver''), lib_AuthCodeURL = \<lambda>s v. ''url'',
     lib_Exchange = \<lambda>c v k. if c = ''code'' \<and> v = ''ver'' then Inr \<lparr>tkAccessToken = ''tok'', tkRefreshToken = ''rt'',
       tkExpiry = 900 * Second, tkIDToken = Some ''idt''\<rparr> else Inl 0,
     lib_Token = \<lambda>t k. Inl 0, lib_Verify = \<lambda>raw k. Inr ''u1'', lib_discovery = []\<rparr>"

definition sample_cfg :: bff_config where
  "sample_cfg = \<lparr>fcPort = [], fcOIDCIssuer = ''iss'', fcClientID = [], fcClientSecret = [], fcRedirectURL = [],
     fcAccountsGRPC = [], fcRedisURL = [], fcSessionKey = [], fcSessionIdleTTL = 120 * Minute,
     fcSessionHardTTL = 168 * Hour, fcCORSOrigins = []\<rparr>"

definition sample_app :: "identity_db bff_app" where
  "sample_app = bff_main sample_cfg sample_rp (accounts_stub True sample_jws sample_keys ''iss'')"

definition sample_api_request :: "string \<Rightarrow> api_request" where
  "sample_api_request m = \<lparr>rqMethod = m, rqPath = [],
     rqHeader = \<lambda>h. if h = ''X-Requested-With'' then ''XMLHttpRequest'' else [],
     rqQuery = \<lambda>q. if q = ''code'' then ''code'' else if q = ''state'' then ''st'' else [], rqForm = None,
     rqCookie = \<lambda>c. if c = ''__Host-sid'' then Some ''s1'' else None, rqRemoteAddr = [], rqBody = []\<rparr>"

lemma sample_marshal: "session_Marshal sample_session = Some sample_data"
proof -
  have "\<exists>x. session_Marshal sample_session = Some x"
    by (simp add: session_Marshal_def sample_session_def time_MarshalText_def year_of_def civil_def year_day_def
        month_lengths_def isLeap_def Let_def)
  then show ?thesis by (auto simp: sample_data_def)
qed

lemma sample_text_ok: "session_text_ok sample_session"
  unfolding session_text_ok_def sample_session_def by (simp, code_simp)

lemma sample_unmarshal: "session_Unmarshal sample_data = Some sample_session"
  by (rule session_Unmarshal_Marshal [OF sample_marshal sample_text_ok])

lemma sample_request_sel [simp]:
  "rqMethod (sample_api_request m) = m" "rqCookie (sample_api_request m) ''__Host-sid'' = Some ''s1''"
  "rqHeader (sample_api_request m) ''X-Requested-With'' = ''XMLHttpRequest''"
  "rqMethod (http_request.truncate (sample_api_request m)) = m"
  "rqCookie (http_request.truncate (sample_api_request m)) ''__Host-sid'' = Some ''s1''"
  "rqHeader (http_request.truncate (sample_api_request m)) ''X-Requested-With'' = ''XMLHttpRequest''"
  by (simp_all add: sample_api_request_def http_request.truncate_def)

lemma sample_app_sel [simp]:
  "ba_store sample_app = sample_store" "ba_rp sample_app = sample_rp"
  "ba_accounts sample_app = accounts_stub True sample_jws sample_keys ''iss''"
  by (simp_all add: sample_app_def sample_store_def sample_cfg_def)

definition sample_world :: "identity_db bff_db go_world" where
  "sample_world = snd (run_state (Store_Load sample_store ''s1'') (idle_world sample_bdb))"

lemma sample_load:
  "run_state (Store_Load sample_store ''s1'') (idle_world sample_bdb) = (Inr sample_session, sample_world)"
  "snd (db sample_world) = sample_idb" "quiet sample_world" "clock sample_world = 2" "step sample_world = 2"
  "tick sample_world = (\<lambda>_. 1)" "fault sample_world = (\<lambda>_. None)"
proof -
  let ?run = "run_state (Store_Load sample_store ''s1'') (idle_world sample_bdb)"
  have "fst ?run = Inr sample_session \<and> snd (db (snd ?run)) = sample_idb \<and> quiet (snd ?run) \<and> clock (snd ?run) = 2
      \<and> step (snd ?run) = 2 \<and> tick (snd ?run) = (\<lambda>_. 1) \<and> fault (snd ?run) = (\<lambda>_. None)"
    by (simp add: Store_Load_def rdb_GetEx_def run_db_exec redis_get_def redis_live_def sample_bdb_def
        sample_unmarshal sample_store_def NewStore_def sample_session_def)
  then show "?run = (Inr sample_session, sample_world)"
    "snd (db sample_world) = sample_idb" "quiet sample_world" "clock sample_world = 2" "step sample_world = 2"
    "tick sample_world = (\<lambda>_. 1)" "fault sample_world = (\<lambda>_. None)"
    by (simp_all add: sample_world_def prod_eq_iff)
qed

lemma sample_auth:
  "run_state (Auth sample_store sample_rp (http_request.truncate (sample_api_request m)) h) (idle_world sample_bdb) =
     run_state (h sample_session) (pass sample_world)"
  by (simp add: Auth_def sample_load time_Until_def sample_session_def)

lemma sample_subject: "verifyJWT sample_jws raw sample_keys = Inr c \<Longrightarrow> jcSubject c = ''u1''"
proof (cases "raw = ''tok''")
  case False
  then show "verifyJWT sample_jws raw sample_keys = Inr c \<Longrightarrow> ?thesis" by (simp add: verifyJWT_def sample_jws_def)
qed (auto simp: sample_keys_def sample_verify)

lemma sample_own: "only_own u sample_idb sample_idb"
  using only_own_same [of "idle_world sample_idb" "idle_world sample_idb" u] by simp

lemma sample_bdb_rest [simp]: "snd sample_bdb = sample_idb"
  by (simp add: sample_bdb_def)

section \<open>Whom a request acts for\<close>

text \<open>
  C8: A request to the account front end acts for nobody but the subject of its session's access
  token. Whatever the route, either the identity database is as before, or the request carries the
  cookie of a stored session within its hard limit, the session was admitted as it is or renewed
  with a token of the provider, the request has the header that a cross-site form cannot send
  unless its route only reads, the access token verifies against the published keys with the
  issuer, and the effect is on that token's subject only.
\<close>

theorem front_end_confined:
  assumes "run_state (bff_serve (bff_main cfg rp (accounts_stub agg lib keys issuer)) rt r) w = (resp, w')"
    and "rqMethod r = route_method rt" "db_ok (snd (db w))" "device_view (snd (db w)) [] = None"
  shows "snd (db w') = snd (db w) \<or>
    (\<exists>sid sess0 sess d1 c. rqCookie r ''__Host-sid'' = Some sid \<and> session_at (clock w) (db w) sid = Some sess0
       \<and> (seCreatedAt sess0 = zeroTime \<or> clock w \<le> seCreatedAt sess0 + fcSessionHardTTL cfg)
       \<and> admitted (NewStore (fcSessionIdleTTL cfg) (fcSessionHardTTL cfg)) rp sid sess0 sess (clock w) (db w) d1
       \<and> (route_method rt \<noteq> ''GET'' \<longrightarrow> rqHeader r ''X-Requested-With'' = ''XMLHttpRequest'')
       \<and> verifyJWT lib (seAccessToken sess) keys = Inr c \<and> jcIssuer c = issuer \<and> jcSubject c \<noteq> []
       \<and> only_own (jcSubject c) (snd (db w)) (snd (db w')))"
  using accounts.serve_confined [OF assms(1) _ assms(2)] assms(3,4)
  by (fastforce simp: bearer_only_def NewStore_def)

theorem front_end_confined_witness:
  "\<exists>resp w'. run_state (bff_serve sample_app (SessionRevokeRoute ''d1'') (sample_api_request ''DELETE''))
       (idle_world sample_bdb) = (resp, w') \<and> rsStatus resp = 204 \<and> only_own ''u1'' sample_idb (snd (db w'))"
proof -
  let ?r = "sample_api_request ''DELETE''"
  let ?run = "run_state (bff_serve sample_app (SessionRevokeRoute ''d1'') ?r) (idle_world sample_bdb)"
  have st: "rsStatus (fst ?run) = 204"
    by (simp add: sample_auth CSRF_def SessionsHandler_Revoke_def accounts_client_defs accounts_stub_def accounts_call_def
      expect_def grpc_call_def link_def on_rest_def on_part_def accounts_rpc_def JWTAuthInterceptor_def sample_keys_def sample_verify
      Handler_RevokeSession_def accountsHandler_def idp_devices_def deviceSessionService_RevokeByID_def
      DeviceSessionRepository_defs in_tx_def tx_Begin_def tx_Commit_def tx_Rollback_def tx_exec_def run_db_exec
      sql_revoke_device_def sql_count_def sql_delete_refresh_def Let_def sample_defs sample_load sample_session_def
      Store_Delete_def rdb_Del_def no_content_def)
  obtain resp w' where run: "?run = (resp, w')" by (cases ?run)
  have "only_own ''u1'' sample_idb (snd (db w'))"
    using front_end_confined [OF run [unfolded sample_app_def]] sample_own sample_subject
    by fastforce
  with run st show ?thesis by auto
qed

section \<open>Sessions\<close>

text \<open>
  C22: What \<open>Save\<close> has stored, \<open>Load\<close> gives back field by field, as long as the idle time has not
  passed since and the hard limit from the creation has not passed; otherwise it answers that
  there is no session. Redis must not fail, and the texts of the session must be UTF-8.
\<close>

theorem session_round_trip:
  assumes "run_state (Store_Save st sid sess) w = (Inr (), w1)" "session_text_ok sess" "0 < stIdleTTL st"
    and "db w2 = db w1" "quiet w2"
  shows "fst (run_state (Store_Load st sid) w2) =
    (if clock w2 \<le> clock w + stIdleTTL st
        \<and> (seCreatedAt sess = zeroTime \<or> clock (pass w2) \<le> seCreatedAt sess + stHardTTL st)
     then Inr sess else Inl (Sentinel SessionErrNotFound))"
proof -
  from assms(1) obtain data where data: "session_Marshal sess = Some data"
      "redis_get (clock w2) (fst (db w1)) (keyPrefix @ sid) = (if clock w2 \<le> clock w + stIdleTTL st then Some data else None)"
    using assms(3)
    by (auto simp: Store_Save_def rdb_Set_def run_db_exec redis_get_set split: option.splits prod.splits)
  then show ?thesis
    using assms(4,5) session_Unmarshal_Marshal [OF data(1) assms(2)]
    by (cases "db w1")
      (simp add: Store_Load_def rdb_GetEx_def run_db_exec_quiet Store_Delete_def rdb_Del_def split: prod.splits)
qed

theorem session_round_trip_witness:
  "\<exists>w1. run_state (Store_Save sample_store ''s2'' sample_session) (idle_world sample_bdb) = (Inr (), w1)
     \<and> fst (run_state (Store_Load sample_store ''s2'') w1) = Inr sample_session"
proof -
  have run: "run_state (Store_Save sample_store ''s2'' sample_session) (idle_world sample_bdb)
      = (Inr (), snd (run_state (Store_Save sample_store ''s2'' sample_session) (idle_world sample_bdb)))"
    by (simp add: Store_Save_def sample_marshal rdb_Set_def run_db_exec sample_bdb_def prod_eq_iff)
  let ?w1 = "snd (run_state (Store_Save sample_store ''s2'' sample_session) (idle_world sample_bdb))"
  have w1: "quiet ?w1" "clock ?w1 = 1" "clock (pass ?w1) = 2"
    by (simp_all add: Store_Save_def sample_marshal rdb_Set_def run_db_exec sample_bdb_def)
  from session_round_trip [OF run sample_text_ok _ refl w1(1)] run w1 show ?thesis
    by (auto simp: sample_store_def NewStore_def sample_session_def)
qed

section \<open>Login states\<close>

text \<open>
  C19: A login state is good for one callback, within ten minutes of the login that made it. In any
  interleaving of the store's Redis commands, a callback that takes a state gets the verifier of a
  login that saved the state at most ten minutes before, and between the two nobody took the state
  or saved it again. The state must not have been in Redis at the start, and verifiers are UTF-8.
\<close>

theorem login_state_once:
  assumes "store_schedule st d (l1 @ (t, OpTakeState s, Inr (Verifier v)) # l2) d'"
    and "fst d (statePrefix @ s) = None"
    and "\<forall>t0 u x. (t0, OpSaveState s u, x) \<in> set l1 \<longrightarrow> valid_utf8 u"
  shows "\<exists>a b t0 x. l1 = a @ (t0, OpSaveState s v, Inr x) # b \<and> t \<le> t0 + 10 * Minute
    \<and> (\<forall>e \<in> set b. \<not> touches_state s e)"
proof -
  from schedule_split [OF assms(1)] obtain w w' where
    w: "store_schedule st d l1 (db w)" "run_state (exec_store st (OpTakeState s)) w = (Inr (Verifier v), w')" "t = clock w"
    by blast
  from take_state_from_log [OF w(1) assms(2) w(2)] obtain t0 u where
    u: "saved_state s l1 = Some (t0, u)" "clock w \<le> t0 + stateTTL" "valid_utf8 u \<longrightarrow> u = v" by blast
  from saved_state_Some [OF u(1)] obtain a b x where
    ab: "l1 = a @ (t0, OpSaveState s u, Inr x) # b" "\<forall>e \<in> set b. \<not> touches_state s e" by blast
  with assms(3) u(3) have "u = v" by auto
  with ab u(2) w(3) show ?thesis by (auto simp: stateTTL_def)
qed

text \<open>A login saves state \<open>st\<close>, and the callback takes it.\<close>

theorem login_state_once_witness:
  "\<exists>t w1 w2. run_state (exec_store sample_store (OpSaveState ''st'' ''ver'')) (idle_world (Map.empty, ())) = (Inr Done, w1)
     \<and> run_state (exec_store sample_store (OpTakeState ''st'')) w1 = (Inr (Verifier ''ver''), w2)
     \<and> t = (0::int) \<and> clock w1 \<le> t + 10 * Minute"
proof -
  let ?w0 = "idle_world (Map.empty :: redis, ())"
  have ver: "valid_utf8 ''ver''" by code_simp
  obtain m where m: "verifier_Unmarshal (json_print [(''verifier'', ''ver'')]) = Some m" "m ''verifier'' = Some ''ver''"
    using verifier_round_trip [OF ver] by blast
  let ?w1 = "snd (run_state (exec_store sample_store (OpSaveState ''st'' ''ver'')) ?w0)"
  have s1: "run_state (exec_store sample_store (OpSaveState ''st'' ''ver'')) ?w0 = (Inr Done, ?w1)" "clock ?w1 = 1"
    by (simp_all add: answer_def Store_SaveState_def rdb_Set_def run_db_exec prod_eq_iff)
  let ?w2 = "snd (run_state (exec_store sample_store (OpTakeState ''st'')) ?w1)"
  have s2: "run_state (exec_store sample_store (OpTakeState ''st'')) ?w1 = (Inr (Verifier ''ver''), ?w2)"
    by (simp add: answer_def Store_SaveState_def Store_LoadAndDeleteState_def getDelScript_def rdb_Set_def run_db_exec
        redis_get_def redis_set_def redis_live_def stateTTL_def m prod_eq_iff)
  have "store_schedule sample_store (db ?w0) ([] @ [(clock ?w0, OpSaveState ''st'' ''ver'', Inr Done)]) (db ?w1)"
    by (rule store_schedule.exec [OF store_schedule.start s1(1)])
  from store_schedule.exec [OF this s2]
  have "store_schedule sample_store (db ?w0)
      ([(0, OpSaveState ''st'' ''ver'', Inr Done)] @ (1, OpTakeState ''st'', Inr (Verifier ''ver'')) # []) (db ?w2)"
    by (simp only: s1(2) append_Cons append_Nil idle_world_sel)
  then have "\<exists>a b t0 x. [(0, OpSaveState ''st'' ''ver'', Inr Done) :: store_event] = a @ (t0, OpSaveState ''st'' ''ver'', Inr x) # b
      \<and> 1 \<le> t0 + 10 * Minute \<and> (\<forall>e \<in> set b. \<not> touches_state ''st'' e)"
    by (rule login_state_once) (use ver in auto)
  then obtain a b t0 x where
    "[(0, OpSaveState ''st'' ''ver'', Inr Done) :: store_event] = a @ (t0, OpSaveState ''st'' ''ver'', Inr x) # b" "1 \<le> t0 + 10 * Minute"
    by blast
  then have "t0 = 0" "clock ?w1 \<le> t0 + 10 * Minute" by (simp_all only: s1(2)) (auto simp: Cons_eq_append_conv)
  with s1(1) s2 show ?thesis by blast
qed

section \<open>Refresh locks\<close>

text \<open>
  At most one request at a time refreshes a session's tokens. In any interleaving, when the lock
  of a session is taken twice without a release in between, the second holder has waited out the
  ten seconds the first one had.
\<close>

theorem refresh_lock_exclusive:
  assumes "store_schedule st d
      (l1 @ (t1, OpAcquire sid, Inr (Acquired True)) # l2 @ (t2, OpAcquire sid, Inr (Acquired True)) # l3) d'"
    and "\<forall>t x. (t, OpRelease sid, Inr x) \<notin> set l2"
  shows "t1 + 10 * Second < t2"
proof -
  let ?l = "l1 @ (t1, OpAcquire sid, Inr (Acquired True)) # l2"
  have "store_schedule st d (?l @ (t2, OpAcquire sid, Inr (Acquired True)) # l3) d'" using assms(1) by simp
  from schedule_split [OF this] obtain w w' where
    w: "store_schedule st d ?l (db w)" "run_state (exec_store st (OpAcquire sid)) w = (Inr (Acquired True), w')"
      "t2 = clock w" by blast
  from locked_since_grows [OF w(1) assms(2)] obtain t where t: "locked_since sid ?l = Some t" "t1 \<le> t" by blast
  from acquire_after [OF w(1) t(1) w(2)] t w(3) show ?thesis by (simp add: lockTTL_def)
qed

text \<open>A world whose clock runs a second per step lets the first lock run out.\<close>

definition slow_world :: "'d \<Rightarrow> 'd go_world" where
  "slow_world d = (idle_world d)\<lparr>tick := \<lambda>_. nat (11 * Second)\<rparr>"

theorem refresh_lock_exclusive_witness:
  "\<exists>w1 w2. run_state (exec_store sample_store (OpAcquire ''s1'')) (slow_world (Map.empty, ())) = (Inr (Acquired True), w1)
     \<and> run_state (exec_store sample_store (OpAcquire ''s1'')) w1 = (Inr (Acquired True), w2)
     \<and> (0::int) + 10 * Second < clock w1"
proof -
  let ?w0 = "slow_world (Map.empty :: redis, ())"
  let ?w1 = "snd (run_state (exec_store sample_store (OpAcquire ''s1'')) ?w0)"
  have s1: "run_state (exec_store sample_store (OpAcquire ''s1'')) ?w0 = (Inr (Acquired True), ?w1)"
    by (simp add: answer_def Store_AcquireRefreshLock_def rdb_SetNX_def run_db_exec redis_get_def slow_world_def prod_eq_iff)
  let ?w2 = "snd (run_state (exec_store sample_store (OpAcquire ''s1'')) ?w1)"
  have s2: "run_state (exec_store sample_store (OpAcquire ''s1'')) ?w1 = (Inr (Acquired True), ?w2)"
    by (simp add: answer_def Store_AcquireRefreshLock_def rdb_SetNX_def run_db_exec redis_get_def redis_set_def
        redis_live_def lockTTL_def slow_world_def prod_eq_iff)
  have c0: "clock ?w0 = 0" by (simp add: slow_world_def)
  have "store_schedule sample_store (db ?w0) ([] @ [(clock ?w0, OpAcquire ''s1'', Inr (Acquired True))]) (db ?w1)"
    by (rule store_schedule.exec [OF store_schedule.start s1])
  from store_schedule.exec [OF this s2]
  have "store_schedule sample_store (db ?w0) ([] @ (0, OpAcquire ''s1'', Inr (Acquired True)) # []
      @ (clock ?w1, OpAcquire ''s1'', Inr (Acquired True)) # []) (db ?w2)"
    by (simp only: c0 append_Cons append_Nil)
  from refresh_lock_exclusive [OF this] s1 s2 show ?thesis by auto
qed

section \<open>Authentication\<close>

text \<open>
  C21: The authentication middleware serves a request exactly with an admitted session. Without the
  cookie it answers 401 and does nothing; with one, either it answers 401 or 500, or it hands the
  request to its handler with the stored session, which is within its hard limit: as it is while its
  token is good for another minute or another request is renewing it, or renewed by the provider,
  with user and creation time kept, and stored. Besides, it touches that session and its lock only.
\<close>

theorem auth_outcome:
  assumes "run_state (Auth st rp r handler) w = (resp, w')"
  shows "(rqCookie r ''__Host-sid'' = None \<and> rsStatus resp = 401 \<and> w' = w)
    \<or> (\<exists>sid. rqCookie r ''__Host-sid'' = Some sid \<and>
        (rsStatus resp \<in> {401, 500} \<and> redis_frame {keyPrefix @ sid, lockPrefix @ sid} (db w) (db w')
         \<or> (\<exists>sess0 sess w1. session_at (clock w) (db w) sid = Some sess0
              \<and> (seCreatedAt sess0 = zeroTime \<or> clock w \<le> seCreatedAt sess0 + stHardTTL st)
              \<and> seUserID sess = seUserID sess0 \<and> seCreatedAt sess = seCreatedAt sess0
              \<and> admitted st rp sid sess0 sess (clock w) (db w) (db w1)
              \<and> redis_frame {keyPrefix @ sid, lockPrefix @ sid} (db w) (db w1)
              \<and> run_state (handler sess) w1 = (resp, w'))))"
  using assms
proof (cases rule: Auth_cases)
  case (served sid sess0 sess w1)
  have "seUserID sess = seUserID sess0 \<and> seCreatedAt sess = seCreatedAt sess0"
    using served(4) by (auto simp: admitted_def)
  with served show ?thesis by blast
qed blast+

section \<open>Signing in\<close>

text \<open>
  C20: A callback creates a session only for a login that the provider has confirmed. Either it
  answers 400 or 500, sets no cookie and touches no key but the one of its state, or it has taken
  the state's verifier, the provider has exchanged the code with that verifier for a token whose
  non-empty ID token verifies for the session's user, the state is gone, and the browser gets the
  identifier of a session with these tokens that Redis holds for the idle time.
\<close>

theorem sign_in_creates_session:
  assumes "run_state (AuthHandler_Callback st rp r) w = (resp, w')"
  shows "(rsStatus resp \<in> {400, 500} \<and> rsCookies resp = []
      \<and> redis_frame {statePrefix @ rqQuery r ''state''} (db w) (db w'))
    \<or> (\<exists>verifier tok subject raw k now sid w1.
         run_state (Store_LoadAndDeleteState (rqQuery r ''state'')) w = (Inr verifier, w1)
         \<and> lib_Exchange rp (rqQuery r ''code'') verifier k = Inr tok \<and> tkIDToken tok = Some raw \<and> raw \<noteq> []
         \<and> lib_Verify rp raw (Suc k) = Inr subject \<and> clock w1 \<le> now
         \<and> fst (db w') (statePrefix @ rqQuery r ''state'') = None
         \<and> rsStatus resp = 302 \<and> rsCookies resp = [sid_cookie sid 604800]
         \<and> redis_frame {statePrefix @ rqQuery r ''state'', keyPrefix @ sid} (db w) (db w')
         \<and> (session_text_ok (new_session subject tok raw now) \<and> 0 < stIdleTTL st \<longrightarrow>
              (\<forall>u \<le> now + stIdleTTL st. session_at u (db w') sid = Some (new_session subject tok raw now))))"
  using assms
proof (cases rule: Callback_cases)
  case (signed_in verifier tok subject raw k now sid w1 w2)
  have gone: "fst (db w1) (statePrefix @ rqQuery r ''state'') = None"
    using signed_in(1)
    by (auto simp: Store_LoadAndDeleteState_def getDelScript_def run_db_exec
        split: prod.splits option.splits sum.splits if_splits)
  note fr1 = State_frame(2) [OF signed_in(1)] and fr2 = Save_frame [OF signed_in(9)]
  have "fst (db w') (statePrefix @ rqQuery r ''state'') = None"
    using gone fr2 signed_in(6) by (simp add: redis_frame_def)
  moreover have "redis_frame {statePrefix @ rqQuery r ''state'', keyPrefix @ sid} (db w) (db w')"
    by (rule redis_frame_trans [OF redis_frame_mono [OF fr1] redis_frame_mono [OF fr2 [unfolded signed_in(6)]]]) simp_all
  moreover have "session_text_ok (new_session subject tok raw now) \<and> 0 < stIdleTTL st \<longrightarrow>
      (\<forall>u \<le> now + stIdleTTL st. session_at u (db w') sid = Some (new_session subject tok raw now))"
    using Save_session [OF signed_in(9)] signed_in(8) by auto
  ultimately show ?thesis using signed_in
    by (intro disjI2 exI [of _ verifier] exI [of _ tok] exI [of _ subject] exI [of _ raw] exI [of _ k]
        exI [of _ now] exI [of _ sid] exI [of _ w1] conjI) assumption+
qed simp

section \<open>Signing out\<close>

text \<open>
  C23: After a logout the session is over. When the logout's one Redis command does not fail, the
  browser is told to drop the cookie, and whatever the store's commands do afterwards, as long as
  none saves that session again, every request with the cookie to a route behind the
  authentication is answered 401 or 500 and leaves the rest of the system as it is.
\<close>

theorem signed_out_stays_out:
  assumes "run_state (bff_group a LogoutRoute r sess) w = (resp, w1)" "rqCookie r ''__Host-sid'' = Some sid"
    and "fault w (step w) = None"
    and "store_schedule (ba_store a) (db w1) log (db w2)" "\<forall>t s x. (t, OpSave sid s, x) \<notin> set log"
    and "run_state (bff_serve a rt r2) w2 = (resp2, w3)" "rqCookie r2 ''__Host-sid'' = Some sid" "\<not> open_route rt"
  shows "rsCookies resp = [clearCookie] \<and> rsStatus resp2 \<in> {401, 500} \<and> snd (db w3) = snd (db w2)"
proof -
  have out: "rsCookies resp = [clearCookie]" "fst (db w1) (keyPrefix @ sid) = None"
    using assms(1-3)
    by (auto simp: AuthHandler_Logout_def Store_Delete_def rdb_Del_def run_db_exec Let_def json_response_def
        clearCookie_def split: prod.splits option.splits)
  from session_at_gone [OF gone_stays [OF assms(4) out(2) assms(5)]]
  have gone: "session_at (clock w2) (db w2) sid = None" .
  let ?r = "http_request.truncate r2"
  have ck: "rqCookie ?r ''__Host-sid'' = Some sid" using assms(7) by (simp add: http_request.truncate_def)
  have "run_state (Auth (ba_store a) (ba_rp a) ?r (\<lambda>sess. CSRF ?r (bff_group a rt r2 sess))) w2 = (resp2, w3)"
    using assms(6,8) by (cases rt) auto
  then have "rsStatus resp2 \<in> {401, 500} \<and> snd (db w3) = snd (db w2)"
  proof (cases rule: Auth_cases)
    case (served sid' sess0 sess' v)
    with ck gone show ?thesis by simp
  qed (auto simp: redis_frame_def)
  with out show ?thesis by simp
qed

theorem auth_outcome_witness:
  "\<exists>resp w' w1. run_state (Auth sample_store sample_rp (http_request.truncate (sample_api_request ''GET'')) (\<lambda>s. ret (no_content [])))
      (idle_world sample_bdb) = (resp, w') \<and> rsStatus resp = 204
    \<and> admitted sample_store sample_rp ''s1'' sample_session sample_session 0 sample_bdb (db (w1 :: identity_db bff_db go_world))"
proof -
  let ?r = "http_request.truncate (sample_api_request ''GET'')" and ?h = "\<lambda>s. ret (no_content [])"
  obtain resp w' where run: "run_state (Auth sample_store sample_rp ?r ?h) (idle_world sample_bdb) = (resp, w')" by fastforce
  then have st: "rsStatus resp = 204" by (auto simp: sample_auth no_content_def)
  have one: "session_at 0 sample_bdb ''s1'' = Some sample_session"
    by (simp add: session_at_def redis_get_def redis_live_def sample_bdb_def sample_unmarshal)
  from auth_outcome [OF run] st one obtain sess w1 where
    "admitted sample_store sample_rp ''s1'' sample_session sess 0 sample_bdb (db (w1 :: identity_db bff_db go_world))"
    by auto
  then have "admitted sample_store sample_rp ''s1'' sample_session sample_session 0 sample_bdb (db w1)"
    by (auto simp: admitted_def sample_rp_def)
  with run st show ?thesis by blast
qed

theorem sign_in_creates_session_witness:
  "\<exists>w w' resp. run_state (AuthHandler_Callback sample_store sample_rp (sample_api_request ''GET'')) w = (resp, w')
     \<and> db w = ([statePrefix @ ''st'' \<mapsto> (json_print [(''verifier'', ''ver'')], Some (10 * Minute))], sample_idb)
     \<and> rsStatus resp = 302 \<and> fst (db w') (statePrefix @ ''st'') = None"
proof -
  let ?d = "([statePrefix @ ''st'' \<mapsto> (json_print [(''verifier'', ''ver'')], Some (10 * Minute))], sample_idb)"
  let ?w = "idle_world ?d" and ?r = "sample_api_request ''GET''"
  have ver: "valid_utf8 ''ver''" by code_simp
  obtain m where m: "verifier_Unmarshal (json_print [(''verifier'', ''ver'')]) = Some m" "m ''verifier'' = Some ''ver''"
    using verifier_round_trip [OF ver] by blast
  have marshal: "session_Marshal (new_session ''u1'' \<lparr>tkAccessToken = ''tok'', tkRefreshToken = ''rt'',
      tkExpiry = 900 * Second, tkIDToken = Some ''idt''\<rparr> ''idt'' 3) \<noteq> None"
    by (simp add: session_Marshal_def new_session_def time_MarshalText_def year_of_def civil_def year_day_def
        month_lengths_def isLeap_def Let_def)
  obtain resp w' where run: "run_state (AuthHandler_Callback sample_store sample_rp ?r) ?w = (resp, w')" by fastforce
  have st: "rsStatus resp = 302"
    using run marshal
    by (auto simp: AuthHandler_Callback_def sample_api_request_def Store_LoadAndDeleteState_def getDelScript_def
        run_db_exec redis_get_def redis_live_def m Client_Exchange_def run_oracle_call sample_rp_def Let_def new_session_def
        Store_Save_def rdb_Set_def split: option.splits)
  have "fst (db w') (statePrefix @ ''st'') = None"
    using sign_in_creates_session [OF run] st by (auto simp: sample_api_request_def)
  then show ?thesis using run st by (intro exI [of _ ?w] exI [of _ w'] exI [of _ resp]) simp
qed

theorem signed_out_stays_out_witness:
  "\<exists>resp w1 resp2 w3. run_state (bff_group sample_app LogoutRoute (sample_api_request ''POST'') sample_session)
       (idle_world sample_bdb) = (resp, w1)
     \<and> run_state (bff_serve sample_app ProfileGetRoute (sample_api_request ''GET'')) w1 = (resp2, w3)
     \<and> rsCookies resp = [clearCookie] \<and> rsStatus resp2 \<in> {401, 500}"
proof -
  obtain resp w1 where r1: "run_state (bff_group sample_app LogoutRoute (sample_api_request ''POST'') sample_session)
      (idle_world sample_bdb) = (resp, w1)" by (meson surj_pair)
  obtain resp2 w3 where r2: "run_state (bff_serve sample_app ProfileGetRoute (sample_api_request ''GET'')) w1 = (resp2, w3)"
    by (meson surj_pair)
  from signed_out_stays_out [OF r1 _ _ store_schedule.start _ r2, of "''s1''"] r1 r2 show ?thesis by simp
qed

end
