(* ===== verification/BffMain.thy ===== *)
theory BffMain
  imports BffSystem RateLimit
begin

text \<open>
  The account front end as one process: \<open>myaccount-bff/main.go\<close> from the environment to the
  router, with the construction of the relying party and of the account client.
\<close>

section \<open>Starting\<close>

text \<open>
  A discovered provider: its endpoint, and what the libraries answer with a client's configuration
  and a verifier for its identifier.
\<close>

record rp_provider =
  rp_Endpoint :: string
  rp_Client :: "oauth2_config \<Rightarrow> string \<Rightarrow> rp_lib"

definition oidcrp_New ::
  "(string \<Rightarrow> ('db, rp_provider) eio) \<Rightarrow> string \<Rightarrow> string \<Rightarrow> string \<Rightarrow> string \<Rightarrow> ('db, rp_lib) eio" where
  "oidcrp_New gooidc_NewProvider issuer clientID clientSecret redirectURL = do {
     p \<leftarrow> gooidc_NewProvider issuer;
     case p of
       Inl err \<Rightarrow> ret (Inl (errorf ''oidc discovery: '' err))
     | Inr provider \<Rightarrow> ret (Inr (rp_Client provider
         \<lparr>ocClientID = clientID, ocClientSecret = clientSecret, ocRedirectURL = redirectURL,
          ocEndpoint = rp_Endpoint provider, ocScopes = [''openid'', ''email'', ''profile'', ''offline_access'']\<rparr>
         clientID)) }"

definition accounts_New ::
  "(string \<Rightarrow> goerr + 'b bff_db AccountManagementServiceClient) \<Rightarrow> string
   \<Rightarrow> goerr + 'b bff_db AccountManagementServiceClient" where
  "accounts_New grpc_NewClient addr =
     (case grpc_NewClient addr of
        Inl err \<Rightarrow> Inl (errorf (''grpc dial '' @ addr @ '': '') err)
      | Inr conn \<Rightarrow> Inr conn)"

record 'b bff_libs =
  fl_redis_ParseURL :: "string \<Rightarrow> goerr + unit"
  fl_oidc_NewProvider :: "string \<Rightarrow> ('b bff_db, rp_provider) eio"
  fl_grpc_NewClient :: "string \<Rightarrow> goerr + 'b bff_db AccountManagementServiceClient"

definition bff_start :: "'b bff_libs \<Rightarrow> config_source \<Rightarrow> ('b bff_db, 'b bff_app process) io" where
  "bff_start lb env =
     (case bff_LoadFrom env of
        Inl err \<Rightarrow> ret (Exited 1)
      | Inr cfg \<Rightarrow>
          (case fl_redis_ParseURL lb (fcRedisURL cfg) of
             Inl err \<Rightarrow> ret (Exited 1)
           | Inr _ \<Rightarrow> do {
               p \<leftarrow> rdb_Ping;
               case p of
                 Inl err \<Rightarrow> ret (Exited 1)
               | Inr _ \<Rightarrow> do {
                   rp \<leftarrow> oidcrp_New (fl_oidc_NewProvider lb) (fcOIDCIssuer cfg) (fcClientID cfg)
                     (fcClientSecret cfg) (fcRedirectURL cfg);
                   case rp of
                     Inl err \<Rightarrow> ret (Exited 1)
                   | Inr oidcRP \<Rightarrow>
                       (case accounts_New (fl_grpc_NewClient lb) (fcAccountsGRPC cfg) of
                          Inl err \<Rightarrow> ret (Exited 1)
                        | Inr accountsClient \<Rightarrow> ret (Running (bff_main cfg oidcRP accountsClient))) } }))"

section \<open>Responses\<close>

definition bff_securityHeaders ::
  "(api_request \<Rightarrow> headers \<Rightarrow> ('db, headers \<times> http_response) io) \<Rightarrow> api_request \<Rightarrow> headers
   \<Rightarrow> ('db, headers \<times> http_response) io" where
  "bff_securityHeaders next_handler r h =
     (let h = header_Set ''X-Frame-Options'' ''DENY'' h;
          h = header_Set ''X-Content-Type-Options'' ''nosniff'' h;
          h = header_Set ''Referrer-Policy'' ''strict-origin-when-cross-origin'' h;
          h = header_Set ''Content-Security-Policy'' (''default-src '' @ [CHR 0x27] @ ''none'' @ [CHR 0x27]) h
      in next_handler r h)"

text \<open>The router: no handler of the front end touches the headers of the middleware.\<close>

definition bff_http :: "'b bff_app \<Rightarrow> route \<Rightarrow> api_request \<Rightarrow> headers \<Rightarrow> ('b bff_db, headers \<times> http_response) io" where
  "bff_http a rt = bff_securityHeaders (\<lambda>r h. do { resp \<leftarrow> bff_serve a rt r; ret (h, resp) })"

lemma bff_http_cases:
  assumes "run_state (bff_http a rt r h) w = ((h', resp), w')"
  shows "run_state (bff_serve a rt r) w = (resp, w') \<and> map_of h' ''X-Frame-Options'' = Some ''DENY''
    \<and> map_of h' ''X-Content-Type-Options'' = Some ''nosniff''"
  using assms by (auto simp: bff_http_def bff_securityHeaders_def Let_def header_Set_def split: prod.splits)

end
