(* ===== verification/Spec2Isabelle.thy ===== *)
theory Spec2Isabelle
  imports BlobMain CodeFlow ServerEffects CleanupLoops BffProps BffMain
begin

text \<open>
  Verification library of the hss-science back end (\<open>src/server\<close>): three Go services, the blob
  service, the identity service and the account front end (\<open>myaccount-bff\<close>).

  \<^bold>\<open>The program.\<close> The blob service registers content by its SHA-256 in PostgreSQL and hands out
  presigned URLs of an S3-compatible store (Cloudflare R2); a blob is PENDING until its upload is
  completed and then COMMITTED for ever. The identity service is an OpenID provider: its storage
  adapter serves the \<open>zitadel/oidc\<close> library from PostgreSQL (authorization requests, tokens,
  device sessions, clients, signing keys), its login pages delegate to Google and GitHub, and a
  gRPC API lets users manage their account. The account front end keeps a browser session and
  calls that API. Tokens issued by the identity service are what the blob service and the account
  API authenticate by.

  \<^bold>\<open>The world.\<close> Every operation that leaves the process is a \<open>state\<close> action over \<open>go_world\<close>
  (\<open>GoPrelude\<close>): the database, the clock and the environment, which decides at every step
  whether a statement fails, which identifier \<open>ulid.Make\<close> answers and how much time passes. A
  Go pair of value and error is a sum, \<open>Inl\<close> for the error; an error is a value of \<open>goerr\<close> with
  its chain of wrapped errors, which \<open>errors.Is\<close> searches. Since nothing is assumed of the
  environment, a theorem holds for every pattern of failures. Times and durations are integers
  of nanoseconds; where a product or a conversion can exceed 64 bits, the wrap-around is written
  out (\<open>GoPrelude\<close>). Strings are byte strings, as in Go.

  \<^bold>\<open>The theories.\<close>
  \<^item> \<open>GoPrelude\<close>, \<open>GoEncoding\<close>, \<open>GoJson\<close>, \<open>GoHttp\<close>: what the services use of Go and its standard
    library, with the round trips of hex, base64, decimal numbers and JSON.
  \<^item> \<open>BlobDomain\<close>, \<open>BlobRepo\<close>, \<open>BlobStorage\<close>, \<open>BlobApp\<close>, \<open>BlobServer\<close>: \<open>blob-service/internal\<close>'s
    \<open>domain\<close>, \<open>repository/postgres\<close>, \<open>storage/s3\<close>, \<open>app\<close> and \<open>transport/grpc\<close> with
    \<open>cmd/server/main.go\<close>'s wiring. \<open>BlobSpec\<close> is the abstract life cycle and the refinement
    proof, \<open>BlobSystem\<close> histories of requests and interleavings of their SQL statements,
    \<open>BlobProps\<close> the properties.
  \<^item> \<open>OidcDomain\<close>, \<open>IdentityDb\<close>: the data, the ports and the tables of the identity service, the
    constraints of \<open>migrations/1_initial.up.sql\<close> as the invariant \<open>db_ok\<close>.
  \<^item> \<open>UserRepo\<close>, \<open>TokenRepo\<close>, \<open>AuthRequestRepo\<close>, \<open>DeviceSessionRepo\<close>: the PostgreSQL
    repositories, statement by statement, transactions included, each with a locale that states
    the contract of its port; the interpretation on the PostgreSQL model discharges it.
  \<^item> \<open>IdentitySvc\<close>, \<open>OidcServices\<close>: \<open>identity/service.go\<close> and the services of \<open>internal/oidc\<close>,
    proved against the contracts only.
  \<^item> \<open>OidcAdapter\<close>: \<open>internal/oidc/adapter\<close>'s storage, clients, authorization requests and user
    info. \<open>IdentitySystem\<close>: \<open>main.go\<close>'s wiring and cleanup loops, and \<open>idp_schedule\<close>, the
    database under concurrent requests with one repository operation as a step.
    \<open>IdentityInvariants\<close>: what every schedule keeps. \<open>IdentitySpec\<close>: the abstract machine of
    links, device sessions and grants that every schedule is a run of. \<open>IdentityProps\<close> and \<open>OidcProps\<close>: the
    properties.
  \<^item> \<open>AccountsServer\<close>, \<open>AccountsProps\<close>: the signing keys of \<open>adapter/keys.go\<close> and the gRPC API of
    \<open>internal/grpc\<close>.
  \<^item> \<open>LoginFlow\<close>, \<open>LoginProps\<close>: \<open>internal/pkg/crypto/aes.go\<close> and \<open>internal/authn\<close>.
  \<^item> \<open>ServiceConfig\<close>, \<open>RateLimit\<close>, \<open>WebProps\<close>: the \<open>config.go\<close> of the three services and
    \<open>internal/middleware\<close> of the identity service (limiter, security headers).
  \<^item> \<open>IdentityServer\<close>: the identity service as one process, \<open>main\<close> and \<open>runServer\<close> of its
    \<open>main.go\<close> with \<open>adapter/provider.go\<close>: construction from the configuration, the middleware
    and handlers of every route, the loops; \<open>idp_memory\<close> is the database with the tables of the
    three limiters, \<open>idp_run\<close> a sequence of requests and ticks. \<open>LimiterProps\<close> follows the
    limiters through their cleanup, \<open>ServerProps\<close> says what they let through; \<open>ServerInvariants\<close> holds
    what everything behind them keeps, with a locale for what the whole storage keeps, and
    \<open>ServerEffects\<close> which effect each event of the process may have, a relation every run refines. \<open>CodeFlow\<close> follows an authorization request from the provider's callback over its
    code to the tokens, \<open>CleanupLoops\<close> models the background loops as loops. \<open>BlobMain\<close> and
    \<open>BffMain\<close> are the same layer of the other two services.
  \<^item> \<open>GoTime\<close>, \<open>BffStore\<close>, \<open>BffAuth\<close>, \<open>BffHandlers\<close>: the account front end: the calendar and
    RFC 3339; \<open>internal/session\<close> over Redis (a map with expiry); \<open>internal/oidcrp\<close> and
    \<open>internal/middleware\<close>; \<open>internal/handler\<close>, \<open>internal/accounts\<close> and the routes of \<open>main.go\<close>.
    \<open>BffSessions\<close>: interleavings of store operations. \<open>BffRequests\<close>: what a request comes to, with
    a locale for the account service it calls. \<open>BffSystem\<close>: the front end wired to the account API
    of the identity service over a connection that can fail before and after a call is served; the
    interpretation of the locale. \<open>BffProps\<close>: the properties.

  \<^bold>\<open>What the lemmas show.\<close> For the blob service: every request refines one step of the life
  cycle and keeps the table's invariant, in any interleaving at most one completion of an upload
  succeeds, a committed blob never changes, and the answers, bounds and status codes of every
  RPC. For the identity service: every operation of its repositories is a step of an abstract machine
  of sign-ins, under any schedule; a refresh token is exchanged at most once and its replay is
  refused for ever, a revoked device session stays revoked and gets no token, an account keeps an
  identity and the constraints hold under any schedule, a failed exchange changes nothing,
  requests expire, clients and scopes are checked, cleanup removes only what is dead, a user
  reaches only the own data, and a federated callback completes exactly the request its encrypted
  state names; as one process it does for every event only what that event may do (each route its own
  effect behind the limiters, a call of the account API only what its verified subject may, a cleanup
  loop only removals of what is past), and only a callback with a sealed state signs a request in; nothing
  gets past its limiters, and clearing their tables is not noticed; the tokens of a code are for the user of the
  callback that completed its request, whatever other requests do in between; and the background
  loops return exactly when their context is done. For the configuration: every setting is what the environment says
  or its default and lies within its bounds, and no lifetime of the identity service wraps. For the account front end: a request
  acts for the subject of its live session's access token only, end to end through the account API;
  a session is loaded as it was saved and within its limits; a login state is taken once; a callback
  creates a session exactly for a confirmed login; the refresh lock is exclusive while it lasts; who
  signed out stays out.

  \<^bold>\<open>Bounds and fuel.\<close> The JSON parser \<open>json_value\<close> runs with fuel twice the input's length plus
  one and rejects nesting beyond 10000 as Go's does; \<open>json_first_fuel\<close> shows that as many steps as
  the input has characters give the same answer, so the decoders do not depend on the fuel, and
  \<open>json_parse_print\<close> that what the services print is read back. The groups of an IPv6
  address are read with a fuel of eight, the number of groups. No other definition has fuel: the
  multipart loop and the SQL scans recurse on lists or on the distance to a bound. A background loop
  need not end: \<open>select_loop\<close> is an option, \<open>None\<close> for a loop that never returns, and the theorem
  about it says exactly when it does.

  \<^bold>\<open>Parameters.\<close> Code that is not in the repository is an argument: the S3 SDK, SHA-256, bcrypt,
  AES-GCM, RSA keys with their DER and PEM forms, JWS verification, the OAuth2 and OpenID clients,
  the providers' HTTP answers, \<open>net/url\<close>, the token buckets of \<open>x/time/rate\<close>, and the OpenID
  library's request values and its provider, Redis URL parsing and the choice the router makes (a
  route). A theorem that needs a fact about one of them has it as a hypothesis
  and an instance with a concrete function.

  \<^bold>\<open>Modelling decisions.\<close> Nil and empty slices are one list, and a NULL array is an empty one.
  Timestamps are not cut to the microseconds of PostgreSQL; \<open>RowsAffected\<close> of \<open>lib/pq\<close> does not
  fail; rows with equal sort keys come in insertion order. A transaction that fails restores the
  database it began with. In a schedule a repository operation is atomic: it is one statement or
  one transaction, except for \<open>DeleteExpired\<close> and the device session's \<open>FindOrCreate\<close>, which are two
  statements each. The flow \<open>refresh_grant\<close> presents the scopes of the old token; a library that
  narrows them first does it by \<open>SetCurrentScopes\<close> of \<open>OidcAdapter\<close>. Error texts that name several
  missing settings follow the order of the checks. Revoking a session removes its refresh tokens,
  while an access token stays valid
  until it expires; introspection and the API answer accordingly, and no theorem says otherwise. A
  Redis command is atomic and one that fails has not been executed; a key is gone once its time to
  live is over. The front end's process runs in UTC, and its timestamps are read in the form of
  RFC 3339 only. Timestamps of the account API are never nil. Of the response headers only cookies,
  the redirect target and those of the security middleware are kept.

  \<^bold>\<open>Not modelled.\<close> Generated code (\<open>gen/\<close>, \<open>api_gen.go\<close>); logging, tracing, connection pools,
  recovery from panics, timeouts of the HTTP servers and shutdown; the CORS middleware of the front
  end, which only answers browsers; other response headers; the HTML template of the login page;
  what the OpenID library does between the storage's operations; migrations' embedding and seed
  rows; test helpers; streaming RPCs, of which the services have none.
\<close>

end
